(* ===== verification/Prelude.thy ===== *)
theory Prelude
  imports Main "HOL-Library.Word"
begin

text \<open>
  Shared vocabulary of the development: Rust's unsigned integers as words of their width, the
  saturating and checked operations of the standard library that the code calls, outcomes of code
  that may panic, and the generic facts about them that the component theories use.
\<close>

section \<open>Machine integers\<close>

type_synonym u8 = "8 word"
type_synonym u16 = "16 word"
type_synonym u32 = "32 word"
type_synonym u64 = "64 word"
type_synonym u128 = "128 word"

named_theorems word_nat "values of Rust integers as natural numbers"

text \<open>The largest value of an unsigned Rust integer of the given width (\<open>u64::MAX\<close> and so on).\<close>

abbreviation u64_max :: nat where
  "u64_max \<equiv> 2 ^ 64 - 1"

text \<open>\<open>u64::saturating_mul\<close>: the product, or the largest value where it does not fit.\<close>

definition u64_saturating_mul :: "u64 \<Rightarrow> u64 \<Rightarrow> u64" where
  "u64_saturating_mul a b = (if unat a * unat b \<le> u64_max then a * b else - 1)"

lemma unat_minus_one_u64 [simp, word_nat]: "unat (- 1 :: u64) = u64_max"
  by (simp add: unsigned_minus_1_eq_mask mask_eq_exp_minus_1)

lemma unat_u64_saturating_mul [simp, word_nat]:
  "unat (u64_saturating_mul a b) = min u64_max (unat a * unat b)"
  by (auto simp: u64_saturating_mul_def unat_word_ariths min_def)

text \<open>\<open>.into()\<close> from \<open>u32\<close> to \<open>u64\<close> and from \<open>u64\<close> to \<open>u128\<close> keep the value.\<close>

lemma unat_ucast_u32_u64 [simp, word_nat]: "unat (ucast (x :: u32) :: u64) = unat x"
  by (simp add: unsigned_ucast_eq take_bit_nat_eq_self unsigned_less [THEN less_trans])

lemma unat_ucast_u64_u128 [simp, word_nat]: "unat (ucast (x :: u64) :: u128) = unat x"
  by (simp add: unsigned_ucast_eq take_bit_nat_eq_self unsigned_less [THEN less_trans])

lemma unat_ucast_u32_u128 [simp, word_nat]: "unat (ucast (x :: u32) :: u128) = unat x"
  by (simp add: unsigned_ucast_eq take_bit_nat_eq_self unsigned_less [THEN less_trans])

lemma unat_le_u64_max [simp]: "unat (x :: u64) \<le> u64_max"
  using unsigned_less [of x, where 'a = nat] by simp

text \<open>
  Unsigned arithmetic of a fixed width agrees with arithmetic on naturals as long as the exact
  result is in range; this is how absence of overflow is stated throughout.
\<close>

lemma unat_add_exact: "unat a + unat b < 2 ^ LENGTH('a) \<Longrightarrow> unat (a + b :: 'a::len word) = unat a + unat b"
  by (simp add: unat_word_ariths)

lemma unat_mult_exact: "unat a * unat b < 2 ^ LENGTH('a) \<Longrightarrow> unat (a * b :: 'a::len word) = unat a * unat b"
  by (simp add: unat_word_ariths)

section \<open>Outcomes of code that may panic\<close>

text \<open>
  \<open>Panic\<close> carries the message of the \<open>panic!\<close>, \<open>expect\<close> or \<open>unwrap\<close> that ended the
  computation. A function that also returns Rust's \<open>Result\<close> has an \<open>outcome\<close> of a sum, with
  \<open>Inl\<close> for \<open>Err\<close>.
\<close>

datatype 'a outcome = Panic string | Ret 'a

primrec bind_outcome :: "'a outcome \<Rightarrow> ('a \<Rightarrow> 'b outcome) \<Rightarrow> 'b outcome" where
  "bind_outcome (Panic m) f = Panic m"
| "bind_outcome (Ret x) f = f x"

lemma bind_outcome_Ret [simp]: "bind_outcome r Ret = r"
  by (cases r) simp_all

lemma bind_outcome_assoc: "bind_outcome (bind_outcome r f) g = bind_outcome r (\<lambda>x. bind_outcome (f x) g)"
  by (cases r) simp_all

lemma bind_outcome_eq_Ret: "bind_outcome r f = Ret y \<longleftrightarrow> (\<exists>x. r = Ret x \<and> f x = Ret y)"
  by (cases r) simp_all

text \<open>\<open>Option::expect\<close> and \<open>Result::expect\<close>.\<close>

definition expect_opt :: "string \<Rightarrow> 'a option \<Rightarrow> 'a outcome" where
  "expect_opt msg r = (case r of None \<Rightarrow> Panic msg | Some x \<Rightarrow> Ret x)"

definition expect_result :: "string \<Rightarrow> 'e + 'a \<Rightarrow> 'a outcome" where
  "expect_result msg r = (case r of Inl e \<Rightarrow> Panic msg | Inr x \<Rightarrow> Ret x)"

lemma expect_simps [simp]:
  "expect_opt msg None = Panic msg" "expect_opt msg (Some x) = Ret x"
  "expect_result msg (Inl e) = Panic msg" "expect_result msg (Inr x) = Ret x"
  by (simp_all add: expect_opt_def expect_result_def)

text \<open>Mapping over \<open>Vec\<close>s whose elements may panic: the first panic in order wins.\<close>

primrec mapM_outcome :: "('a \<Rightarrow> 'b outcome) \<Rightarrow> 'a list \<Rightarrow> 'b list outcome" where
  "mapM_outcome f [] = Ret []"
| "mapM_outcome f (x # xs) =
     bind_outcome (f x) (\<lambda>y. bind_outcome (mapM_outcome f xs) (\<lambda>ys. Ret (y # ys)))"

lemma mapM_outcome_Ret: "(\<And>x. x \<in> set xs \<Longrightarrow> f x = Ret (g x)) \<Longrightarrow> mapM_outcome f xs = Ret (map g xs)"
  by (induction xs) simp_all

lemma mapM_outcome_length: "mapM_outcome f xs = Ret ys \<Longrightarrow> length ys = length xs"
  by (induction xs arbitrary: ys) (auto simp: bind_outcome_eq_Ret)

section \<open>Results\<close>

text \<open>The \<open>?\<close> operator on \<open>Result\<close> is the case split \<open>bind_result\<close>.\<close>

primrec bind_result :: "'e + 'a \<Rightarrow> ('a \<Rightarrow> 'e + 'b) \<Rightarrow> 'e + 'b" where
  "bind_result (Inl e) f = Inl e"
| "bind_result (Inr x) f = f x"

lemma bind_result_eq_Inr: "bind_result r f = Inr y \<longleftrightarrow> (\<exists>x. r = Inr x \<and> f x = Inr y)"
  by (cases r) simp_all

section \<open>Strings\<close>

text \<open>\<open>str::starts_with\<close>.\<close>

fun starts_with :: "string \<Rightarrow> string \<Rightarrow> bool" where
  "starts_with s [] = True"
| "starts_with [] (p # ps) = False"
| "starts_with (c # cs) (p # ps) = (c = p \<and> starts_with cs ps)"

lemma starts_with_iff: "starts_with s p \<longleftrightarrow> (\<exists>t. s = p @ t)"
  by (induction s p rule: starts_with.induct) auto

lemma starts_with_append [simp]: "starts_with (p @ t) p"
  by (simp add: starts_with_iff)

section \<open>Quotients of floating-point numbers\<close>

text \<open>
  A positive \<open>f32\<close> below two, as a mantissa of 24 bits and a shift: \<open>(m, k)\<close> is \<open>m / 2 ^ k\<close>. \<open>f32_quotient n d\<close> is the quotient
  of the two integers (exactly representable, \<open>0 < n \<le> d\<close>), rounded to the nearest such number, ties to even, as
  IEEE 754 has it.
\<close>

type_synonym f32 = "nat \<times> nat"

definition f32_quotient :: "nat \<Rightarrow> nat \<Rightarrow> f32" where
  "f32_quotient n d =
     (case find (\<lambda>k. 2 ^ 23 * d \<le> n * 2 ^ k) [23..<150] of
        None \<Rightarrow> (0, 0)
      | Some k \<Rightarrow>
          let m = n * 2 ^ k div d; r = n * 2 ^ k mod d
          in (if d < 2 * r \<or> (2 * r = d \<and> odd m) then Suc m else m, k))"

lemma f32_slot_portions:
  "f32_quotient 1 24 = (11184811, 28)" "f32_quotient 1 16 = (8388608, 27)"
  by (simp_all add: f32_quotient_def Let_def)

end
