(* ===== verification/Weights_Base.thy ===== *)
theory Weights_Base
  imports Prelude
begin

text \<open>
  The interface of Substrate's two-dimensional \<open>Weight\<close> (computation time and proof size) that
  the weight files and the runtimes are written against. \<open>Weight\<close> and \<open>RuntimeDbWeight\<close> are
  crates outside this repository, so they are parameters: a record of the operations the code
  calls. What the code relies on is stated by \<open>weight_laws\<close> and \<open>db_laws\<close>, the documented
  saturating behaviour. From these laws alone follow the closed form of a chain of
  \<open>saturating_add\<close> calls, bounds on it, and its monotonicity, which the weight theories use for
  each weight function.
\<close>

section \<open>The operations\<close>

record 'w weight_env =
  from_parts :: "u64 \<Rightarrow> u64 \<Rightarrow> 'w"
  ref_time :: "'w \<Rightarrow> u64"
  proof_size :: "'w \<Rightarrow> u64"
  saturating_add :: "'w \<Rightarrow> 'w \<Rightarrow> 'w"
  saturating_mul :: "'w \<Rightarrow> u64 \<Rightarrow> 'w"
  db_reads :: "u64 \<Rightarrow> 'w"
  db_writes :: "u64 \<Rightarrow> 'w"

text \<open>
  \<open>w.saturating_add(x1).saturating_add(x2)\<dots>\<close>: every weight function is one such chain, its list
  in the order of the calls.
\<close>

definition saturating_chain :: "('w, 'z) weight_env_scheme \<Rightarrow> 'w \<Rightarrow> 'w list \<Rightarrow> 'w" where
  "saturating_chain T w xs = foldl (saturating_add T) w xs"

section \<open>What the code relies on\<close>

text \<open>
  \<open>Weight::from_parts\<close> builds a weight from its two components; \<open>saturating_add\<close> and
  \<open>saturating_mul\<close> work on each component and stop at \<open>u64::MAX\<close> instead of overflowing.
\<close>

definition weight_laws :: "('w, 'z) weight_env_scheme \<Rightarrow> bool" where
  "weight_laws T \<longleftrightarrow>
     (\<forall>r p. ref_time T (from_parts T r p) = r \<and> proof_size T (from_parts T r p) = p) \<and>
     (\<forall>a b. unat (ref_time T (saturating_add T a b)) =
              min u64_max (unat (ref_time T a) + unat (ref_time T b)) \<and>
            unat (proof_size T (saturating_add T a b)) =
              min u64_max (unat (proof_size T a) + unat (proof_size T b))) \<and>
     (\<forall>a n. unat (ref_time T (saturating_mul T a n)) =
              min u64_max (unat (ref_time T a) * unat n) \<and>
            unat (proof_size T (saturating_mul T a n)) =
              min u64_max (unat (proof_size T a) * unat n))"

text \<open>
  \<open>RuntimeDbWeight::reads\<close> and \<open>writes\<close>: a fixed time per storage access, no proof size.
\<close>

definition db_laws :: "('w, 'z) weight_env_scheme \<Rightarrow> nat \<Rightarrow> nat \<Rightarrow> bool" where
  "db_laws T rd wr \<longleftrightarrow>
     (\<forall>n. unat (ref_time T (db_reads T n)) = min u64_max (rd * unat n) \<and>
          unat (proof_size T (db_reads T n)) = 0 \<and>
          unat (ref_time T (db_writes T n)) = min u64_max (wr * unat n) \<and>
          unat (proof_size T (db_writes T n)) = 0)"

named_theorems weight_values "components of weights as natural numbers, under the laws"

lemma weight_parts [weight_values]:
  assumes "weight_laws T"
  shows "ref_time T (from_parts T r p) = r" and "proof_size T (from_parts T r p) = p"
  using assms by (simp_all add: weight_laws_def)

lemma weight_add [weight_values]:
  assumes "weight_laws T"
  shows "unat (ref_time T (saturating_add T a b)) = min u64_max (unat (ref_time T a) + unat (ref_time T b))"
    and "unat (proof_size T (saturating_add T a b)) = min u64_max (unat (proof_size T a) + unat (proof_size T b))"
  using assms by (simp_all add: weight_laws_def)

lemma weight_mul [weight_values]:
  assumes "weight_laws T"
  shows "unat (ref_time T (saturating_mul T a n)) = min u64_max (unat (ref_time T a) * unat n)"
    and "unat (proof_size T (saturating_mul T a n)) = min u64_max (unat (proof_size T a) * unat n)"
  using assms by (simp_all add: weight_laws_def)

lemma weight_db [weight_values]:
  assumes "db_laws T rd wr"
  shows "unat (ref_time T (db_reads T n)) = min u64_max (rd * unat n)"
    and "unat (proof_size T (db_reads T n)) = 0"
    and "unat (ref_time T (db_writes T n)) = min u64_max (wr * unat n)"
    and "unat (proof_size T (db_writes T n)) = 0"
  using assms by (simp_all add: db_laws_def)

section \<open>Chains in closed form\<close>

lemma saturating_chain_simps:
  "saturating_chain T w [] = w"
  "saturating_chain T w (x # xs) = saturating_chain T (saturating_add T w x) xs"
  by (simp_all add: saturating_chain_def)

lemma min_add_absorb: "min m (min m a + b) = min m (a + b :: nat)"
  by (auto simp: min_def)

text \<open>
  Saturating step by step is saturating once, at the end: the result of a chain is the exact sum
  of its terms, cut off at \<open>u64::MAX\<close>.
\<close>

lemma saturating_chain_ref_time:
  assumes T: "weight_laws T"
  shows "unat (ref_time T (saturating_chain T w xs)) =
    min u64_max (unat (ref_time T w) + (\<Sum>x\<leftarrow>xs. unat (ref_time T x)))"
proof (induction xs arbitrary: w)
  case Nil
  then show ?case using unat_le_u64_max [of "ref_time T w"] by (simp add: saturating_chain_simps min_absorb2)
next
  case (Cons x xs)
  show ?case
    by (simp add: saturating_chain_simps Cons.IH weight_add [OF T] min_add_absorb add.assoc del: One_nat_def)
qed

lemma saturating_chain_proof_size:
  assumes T: "weight_laws T"
  shows "unat (proof_size T (saturating_chain T w xs)) =
    min u64_max (unat (proof_size T w) + (\<Sum>x\<leftarrow>xs. unat (proof_size T x)))"
proof (induction xs arbitrary: w)
  case Nil
  then show ?case using unat_le_u64_max [of "proof_size T w"] by (simp add: saturating_chain_simps min_absorb2)
next
  case (Cons x xs)
  show ?case
    by (simp add: saturating_chain_simps Cons.IH weight_add [OF T] min_add_absorb add.assoc del: One_nat_def)
qed

section \<open>Bounds\<close>

text \<open>\<open>within T w t p\<close>: the weight takes at most time \<open>t\<close> and proof size \<open>p\<close>.\<close>

definition within :: "('w, 'z) weight_env_scheme \<Rightarrow> 'w \<Rightarrow> nat \<Rightarrow> nat \<Rightarrow> bool" where
  "within T w t p \<longleftrightarrow> unat (ref_time T w) \<le> t \<and> unat (proof_size T w) \<le> p"

lemma within_mono: "within T w t p \<Longrightarrow> t \<le> t' \<Longrightarrow> p \<le> p' \<Longrightarrow> within T w t' p'"
  by (simp add: within_def)

lemma within_parts: "weight_laws T \<Longrightarrow> within T (from_parts T r p) (unat r) (unat p)"
  by (simp add: within_def weight_parts)

lemma within_mul:
  assumes "weight_laws T" "unat (u :: u32) \<le> k"
  shows "within T (saturating_mul T (from_parts T r p) (ucast u)) (unat r * k) (unat p * k)"
  using assms by (simp add: within_def weight_mul weight_parts min.coboundedI2)

lemma within_reads: "db_laws T rd wr \<Longrightarrow> within T (db_reads T n) (rd * unat n) 0"
  by (simp add: within_def weight_db)

lemma within_writes: "db_laws T rd wr \<Longrightarrow> within T (db_writes T n) (wr * unat n) 0"
  by (simp add: within_def weight_db)

lemma within_reads_mul:
  assumes "db_laws T rd wr" "unat (u :: u32) \<le> k"
  shows "within T (db_reads T (u64_saturating_mul c (ucast u))) (rd * (unat c * k)) 0"
  using assms by (simp add: within_def weight_db min.coboundedI2)

lemma within_writes_mul:
  assumes "db_laws T rd wr" "unat (u :: u32) \<le> k"
  shows "within T (db_writes T (u64_saturating_mul c (ucast u))) (wr * (unat c * k)) 0"
  using assms by (simp add: within_def weight_db min.coboundedI2)

lemma within_chain_Nil: "within T w t p \<Longrightarrow> within T (saturating_chain T w []) t p"
  by (simp add: saturating_chain_simps)

lemma within_add:
  assumes "weight_laws T" "within T w t p" "within T x t' p'"
  shows "within T (saturating_add T w x) (t + t') (p + p')"
  using assms by (simp add: within_def weight_add min.coboundedI2)

lemma within_chain_Cons:
  assumes "weight_laws T" "within T x t' p'" "within T (saturating_chain T w xs) t p"
  shows "within T (saturating_chain T w (x # xs)) (t + t') (p + p')"
  using assms
  by (auto simp: within_def saturating_chain_ref_time saturating_chain_proof_size)

text \<open>One rule per kind of term; the constant counts come last, as they match every count.\<close>

lemmas within_rules = within_chain_Cons within_chain_Nil within_parts within_mul
  within_reads_mul within_writes_mul within_reads within_writes

section \<open>Monotonicity\<close>

lemma min_mult_le: "m \<le> n \<Longrightarrow> min c (a * m) \<le> a * (n :: nat)"
  by (simp add: min.coboundedI2)

text \<open>\<open>no_heavier T v w\<close>: \<open>Weight::all_lte\<close>, at most as heavy in both components.\<close>

definition no_heavier :: "('w, 'z) weight_env_scheme \<Rightarrow> 'w \<Rightarrow> 'w \<Rightarrow> bool" where
  "no_heavier T v w \<longleftrightarrow> ref_time T v \<le> ref_time T w \<and> proof_size T v \<le> proof_size T w"

lemma no_heavier_refl: "no_heavier T w w"
  by (simp add: no_heavier_def)

lemma no_heavier_trans: "no_heavier T u v \<Longrightarrow> no_heavier T v w \<Longrightarrow> no_heavier T u w"
  by (auto simp: no_heavier_def)

lemma no_heavier_within: "no_heavier T v w \<Longrightarrow> within T w t p \<Longrightarrow> within T v t p"
  by (auto simp: no_heavier_def within_def word_le_nat_alt)

lemma no_heavier_mul:
  assumes "weight_laws T" "m \<le> n"
  shows "no_heavier T (saturating_mul T w m) (saturating_mul T w n)"
  using assms by (auto simp: no_heavier_def word_le_nat_alt weight_mul intro!: min_mult_le)

lemma no_heavier_reads:
  assumes "db_laws T rd wr" "m \<le> n"
  shows "no_heavier T (db_reads T m) (db_reads T n)"
  using assms by (auto simp: no_heavier_def word_le_nat_alt weight_db intro!: min_mult_le)

lemma no_heavier_writes:
  assumes "db_laws T rd wr" "m \<le> n"
  shows "no_heavier T (db_writes T m) (db_writes T n)"
  using assms by (auto simp: no_heavier_def word_le_nat_alt weight_db intro!: min_mult_le)

lemma no_heavier_chain:
  assumes "weight_laws T" "no_heavier T v w" "list_all2 (no_heavier T) xs ys"
  shows "no_heavier T (saturating_chain T v xs) (saturating_chain T w ys)"
  using assms(3,2)
proof (induction arbitrary: v w rule: list_all2_induct)
  case Nil
  then show ?case by (simp add: saturating_chain_simps)
next
  case (Cons x xs y ys)
  have "no_heavier T (saturating_add T v x) (saturating_add T w y)"
    using Cons.hyps Cons.prems assms(1)
    by (auto simp: no_heavier_def word_le_nat_alt weight_add intro!: min.mono add_mono)
  then show ?case by (simp add: saturating_chain_simps Cons.IH)
qed

lemma ucast_u32_u64_mono: "x \<le> y \<Longrightarrow> (ucast (x :: u32) :: u64) \<le> ucast y"
  by (simp add: word_le_nat_alt)

lemma u64_saturating_mul_mono: "m \<le> n \<Longrightarrow> u64_saturating_mul k m \<le> u64_saturating_mul k n"
  by (auto simp: word_le_nat_alt intro!: min_mult_le)

lemmas heavier_rules = no_heavier_chain list.rel_intros no_heavier_refl no_heavier_mul
  no_heavier_reads no_heavier_writes ucast_u32_u64_mono u64_saturating_mul_mono

section \<open>A reference implementation of the interface\<close>

text \<open>
  Pairs of \<open>u64\<close> with saturating operations and RocksDB's documented access costs (25 microseconds
  per read, 100 per write) satisfy the laws, so the hypotheses of the weight theorems can hold.
\<close>

definition u64_saturating_add :: "u64 \<Rightarrow> u64 \<Rightarrow> u64" where
  "u64_saturating_add a b = (if unat a + unat b \<le> u64_max then a + b else - 1)"

lemma unat_u64_saturating_add: "unat (u64_saturating_add a b) = min u64_max (unat a + unat b)"
  by (auto simp: u64_saturating_add_def unat_word_ariths min_def)

definition pair_weights :: "(u64 \<times> u64) weight_env" where
  "pair_weights = \<lparr>from_parts = Pair, ref_time = fst, proof_size = snd,
     saturating_add = (\<lambda>(a, b) (c, d). (u64_saturating_add a c, u64_saturating_add b d)),
     saturating_mul = (\<lambda>(a, b) n. (u64_saturating_mul a n, u64_saturating_mul b n)),
     db_reads = (\<lambda>n. (u64_saturating_mul 25000000 n, 0)),
     db_writes = (\<lambda>n. (u64_saturating_mul 100000000 n, 0))\<rparr>"

lemma weight_laws_pair_weights: "weight_laws pair_weights"
  by (auto simp: weight_laws_def pair_weights_def unat_u64_saturating_add)

lemma db_laws_pair_weights: "db_laws pair_weights 25000000 100000000"
  by (auto simp: db_laws_def pair_weights_def)

end
