(* ===== verification/Parachains_Common.thy ===== *)
theory Parachains_Common
  imports Weights_Base
begin

text \<open>
  \<open>polkadot-parachains/common\<close>: the constants, the currency units and the fee model shared by both
  runtimes. Values of other crates (\<open>Perbill\<close>, the reference time per second, the relay chain's
  proof limit, the benchmarked base weights) are fields of \<open>block_env\<close>; \<open>perbill_laws\<close>,
  \<open>weight_arith_laws\<close> and \<open>relay_consts\<close> state what is documented of them.
\<close>

section \<open>Types and external values\<close>

type_synonym BlockNumber = u32
type_synonym Balance = u128
type_synonym Moment = u64

record ('w, 'p) block_env = "'w weight_env" +
  from_percent :: "u32 \<Rightarrow> 'p"
  from_rational :: "u128 \<Rightarrow> u128 \<Rightarrow> 'p"
  perbill_parts :: "'p \<Rightarrow> nat"
  perbill_mul :: "'p \<Rightarrow> 'w \<Rightarrow> 'w"
  weight_sub :: "'w \<Rightarrow> 'w \<Rightarrow> 'w"
  weight_saturating_div :: "'w \<Rightarrow> u64 \<Rightarrow> 'w"
  WEIGHT_REF_TIME_PER_SECOND :: u64
  MAX_POV_SIZE :: u32
  ExtrinsicBaseWeight :: 'w
  BlockExecutionWeight :: 'w

text \<open>
  \<open>Perbill::from_percent\<close> and the product of a \<open>Perbill\<close> with a weight: the exact product, with a
  rounding error below one unit in each component. \<open>Perbill::from_rational\<close> rounds down to parts
  per billion.
\<close>

definition rounded_percent :: "u32 \<Rightarrow> u64 \<Rightarrow> u64 \<Rightarrow> bool" where
  "rounded_percent x r m \<longleftrightarrow>
     100 * unat m < unat x * unat r + 100 \<and> unat x * unat r < 100 * unat m + 100"

definition perbill_laws :: "('w, 'p, 'z) block_env_scheme \<Rightarrow> bool" where
  "perbill_laws E \<longleftrightarrow>
     (\<forall>x w. unat x \<le> 100 \<longrightarrow>
        rounded_percent x (ref_time E w) (ref_time E (perbill_mul E (from_percent E x) w)) \<and>
        rounded_percent x (proof_size E w) (proof_size E (perbill_mul E (from_percent E x) w))) \<and>
     (\<forall>p q. 0 < q \<longrightarrow> p \<le> q \<longrightarrow>
        perbill_parts E (from_rational E p q) = unat p * 10 ^ 9 div unat q)"

text \<open>\<open>Sub\<close> on weights where it does not underflow, and \<open>Weight::saturating_div\<close>.\<close>

definition weight_arith_laws :: "('w, 'p, 'z) block_env_scheme \<Rightarrow> bool" where
  "weight_arith_laws E \<longleftrightarrow>
     (\<forall>a b. ref_time E b \<le> ref_time E a \<longrightarrow> proof_size E b \<le> proof_size E a \<longrightarrow>
        ref_time E (weight_sub E a b) = ref_time E a - ref_time E b \<and>
        proof_size E (weight_sub E a b) = proof_size E a - proof_size E b) \<and>
     (\<forall>a n. 0 < n \<longrightarrow>
        ref_time E (weight_saturating_div E a n) = ref_time E a div n \<and>
        proof_size E (weight_saturating_div E a n) = proof_size E a div n)"

text \<open>The documented constants: picoseconds per second of reference time, and a proof of 5 MiB.\<close>

definition relay_consts :: "('w, 'p, 'z) block_env_scheme \<Rightarrow> bool" where
  "relay_consts E \<longleftrightarrow>
     WEIGHT_REF_TIME_PER_SECOND E = 1000000000000 \<and> MAX_POV_SIZE E = 5242880"

section \<open>Time\<close>

definition MILLISECS_PER_BLOCK :: u64 where
  "MILLISECS_PER_BLOCK = 12000"

definition SLOT_DURATION :: u64 where
  "SLOT_DURATION = MILLISECS_PER_BLOCK"

definition MINUTES :: BlockNumber where
  "MINUTES = 60000 div ucast MILLISECS_PER_BLOCK"

definition HOURS :: BlockNumber where
  "HOURS = MINUTES * 60"

definition DAYS :: BlockNumber where
  "DAYS = HOURS * 24"

lemmas time_defs = MILLISECS_PER_BLOCK_def SLOT_DURATION_def MINUTES_def HOURS_def DAYS_def

section \<open>Block limits\<close>

definition AVERAGE_ON_INITIALIZE_RATIO :: "('w, 'p, 'z) block_env_scheme \<Rightarrow> 'p" where
  "AVERAGE_ON_INITIALIZE_RATIO E = from_percent E 5"

definition NORMAL_DISPATCH_RATIO :: "('w, 'p, 'z) block_env_scheme \<Rightarrow> 'p" where
  "NORMAL_DISPATCH_RATIO E = from_percent E 75"

definition MAXIMUM_BLOCK_WEIGHT :: "('w, 'p, 'z) block_env_scheme \<Rightarrow> 'w" where
  "MAXIMUM_BLOCK_WEIGHT E =
     from_parts E (WEIGHT_REF_TIME_PER_SECOND E div 2) (ucast (MAX_POV_SIZE E))"

lemma MAXIMUM_BLOCK_WEIGHT_parts:
  assumes "weight_laws E" "relay_consts E"
  shows "ref_time E (MAXIMUM_BLOCK_WEIGHT E) = 500000000000"
    and "proof_size E (MAXIMUM_BLOCK_WEIGHT E) = 5242880"
  using assms by (simp_all add: MAXIMUM_BLOCK_WEIGHT_def relay_consts_def weight_parts)

text \<open>Where the percentage is a whole number of units, it is exact.\<close>

lemma rounded_percent_exact: "rounded_percent x r m \<Longrightarrow> unat x * unat r = 100 * a \<Longrightarrow> unat m = a"
  by (simp add: rounded_percent_def)

lemma perbill_mul_exact:
  assumes "perbill_laws E" "unat x \<le> 100"
  shows "unat x * unat (ref_time E w) = 100 * a \<Longrightarrow>
      unat (ref_time E (perbill_mul E (from_percent E x) w)) = a"
    and "unat x * unat (proof_size E w) = 100 * a \<Longrightarrow>
      unat (proof_size E (perbill_mul E (from_percent E x) w)) = a"
  using assms by (auto simp: perbill_laws_def intro: rounded_percent_exact)

section \<open>Currency\<close>

definition UNITS :: Balance where
  "UNITS = 1000000000000"

definition CENTS :: Balance where
  "CENTS = UNITS div 30000"

definition EXISTENTIAL_DEPOSIT :: Balance where
  "EXISTENTIAL_DEPOSIT = CENTS div 10"

definition GRAND :: Balance where
  "GRAND = CENTS * 100000"

definition MILLICENTS :: Balance where
  "MILLICENTS = CENTS div 1000"

lemmas currency_defs = UNITS_def CENTS_def EXISTENTIAL_DEPOSIT_def GRAND_def MILLICENTS_def

lemma CENTS_value: "CENTS = 33333333"
  by (simp add: currency_defs)

section \<open>Fees\<close>

definition TARGET_BLOCK_FULLNESS :: "('w, 'p, 'z) block_env_scheme \<Rightarrow> 'p" where
  "TARGET_BLOCK_FULLNESS E = from_percent E 25"

record 'p WeightToFeeCoefficient =
  coeff_integer :: Balance
  coeff_frac :: 'p
  negative :: bool
  degree :: u8

text \<open>
  \<open>WeightToFee::polynomial\<close>. The remainder and the division by \<open>q\<close> panic where \<open>q\<close> is zero.
\<close>

definition polynomial :: "('w, 'p, 'z) block_env_scheme \<Rightarrow> 'p WeightToFeeCoefficient list outcome" where
  "polynomial E =
     (let p = CENTS; q = 100 * ucast (ref_time E (ExtrinsicBaseWeight E)) in
      if q = 0 then Panic ''attempt to calculate the remainder with a divisor of zero''
      else Ret [\<lparr>coeff_integer = p div q, coeff_frac = from_rational E (p mod q) q,
                 negative = False, degree = 1\<rparr>])"

lemma unat_fee_denominator: "unat (100 * ucast (x :: u64) :: u128) = 100 * unat x"
proof -
  have "100 * unat x < 2 ^ LENGTH(128)"
    using unat_le_u64_max [of x] by simp
  then show ?thesis
    using unat_mult_exact [of "100 :: u128" "ucast x"] by simp
qed

text \<open>Integer part and parts per billion of a quotient are the quotient in parts per billion.\<close>

lemma billionths_div: "k * (p div q) + (p mod q) * k div q = k * p div (q :: nat)" if "0 < q"
proof -
  have "k * p = (p mod q) * k + q * (k * (p div q))"
    using mult_div_mod_eq [of q p] by (metis add.commute distrib_left mult.commute mult.left_commute)
  then have "k * p div q = k * (p div q) + (p mod q) * k div q"
    using that by (simp add: add.commute)
  then show ?thesis by simp
qed

section \<open>The normal dispatch class\<close>

text \<open>
  The weight available to normal extrinsics, \<open>NORMAL_DISPATCH_RATIO * MAXIMUM_BLOCK_WEIGHT\<close>, and
  when a weight fits into it. \<open>limits_known\<close> collects the documented facts of the external values
  that make the limit a number: 375 milliseconds of computation and 3.75 MiB of proof.
\<close>

definition normal_max_total :: "('w, 'p, 'z) block_env_scheme \<Rightarrow> 'w" where
  "normal_max_total E = perbill_mul E (NORMAL_DISPATCH_RATIO E) (MAXIMUM_BLOCK_WEIGHT E)"

definition fits_normal :: "('w, 'p, 'z) block_env_scheme \<Rightarrow> 'w \<Rightarrow> bool" where
  "fits_normal E w \<longleftrightarrow> no_heavier E w (normal_max_total E)"

definition limits_known :: "('w, 'p, 'z) block_env_scheme \<Rightarrow> bool" where
  "limits_known E \<longleftrightarrow> weight_laws E \<and> perbill_laws E \<and> weight_arith_laws E \<and> relay_consts E \<and>
     db_laws E 25000000 100000000"

lemma limits_knownD [dest]:
  assumes "limits_known E"
  shows "weight_laws E" "perbill_laws E" "weight_arith_laws E" "relay_consts E"
    "db_laws E 25000000 100000000"
  using assms by (simp_all add: limits_known_def)

lemma normal_max_total_parts:
  assumes "limits_known E"
  shows "unat (ref_time E (normal_max_total E)) = 375000000000"
    and "unat (proof_size E (normal_max_total E)) = 3932160"
proof -
  note E = limits_knownD [OF assms]
  show "unat (ref_time E (normal_max_total E)) = 375000000000"
    unfolding normal_max_total_def NORMAL_DISPATCH_RATIO_def
    by (rule perbill_mul_exact(1) [OF E(2)]) (simp_all add: MAXIMUM_BLOCK_WEIGHT_parts [OF E(1,4)])
  show "unat (proof_size E (normal_max_total E)) = 3932160"
    unfolding normal_max_total_def NORMAL_DISPATCH_RATIO_def
    by (rule perbill_mul_exact(2) [OF E(2)]) (simp_all add: MAXIMUM_BLOCK_WEIGHT_parts [OF E(1,4)])
qed

lemma fits_normalI:
  assumes "limits_known E" "within E w t p" "t \<le> 375000000000" "p \<le> 3932160"
  shows "fits_normal E w"
  using assms
  by (simp add: fits_normal_def no_heavier_def word_le_nat_alt within_def normal_max_total_parts)

section \<open>A reference implementation of the external values\<close>

text \<open>
  Pairs of saturating \<open>u64\<close> with \<open>Perbill\<close> as a number of parts per billion, rounding down: the
  hypotheses about external values hold together for it.
\<close>

definition pair_env :: "(u64 \<times> u64, nat) block_env" where
  "pair_env = \<lparr>from_parts = Pair, ref_time = fst, proof_size = snd,
     saturating_add = saturating_add pair_weights, saturating_mul = saturating_mul pair_weights,
     db_reads = db_reads pair_weights, db_writes = db_writes pair_weights,
     from_percent = (\<lambda>x. min 100 (unat x) * 10 ^ 7),
     from_rational = (\<lambda>p q. unat p * 10 ^ 9 div unat q),
     perbill_parts = (\<lambda>x. x),
     perbill_mul = (\<lambda>x (a, b). (of_nat (unat a * x div 10 ^ 9), of_nat (unat b * x div 10 ^ 9))),
     weight_sub = (\<lambda>(a, b) (c, d). (a - c, b - d)),
     weight_saturating_div = (\<lambda>(a, b) n. (a div n, b div n)),
     WEIGHT_REF_TIME_PER_SECOND = 1000000000000, MAX_POV_SIZE = 5242880,
     ExtrinsicBaseWeight = (113638000, 0), BlockExecutionWeight = (5000000, 0)\<rparr>"

lemma percent_round_down:
  assumes "unat x \<le> 100"
  shows "rounded_percent x r (of_nat (unat r * (unat x * 10 ^ 7) div 10 ^ 9))"
proof -
  have "unat r * (unat x * 10 ^ 7) div 10 ^ 9 = unat r * unat x div 100"
    by simp
  moreover have "unat r * unat x div 100 \<le> unat r"
    using div_le_mono [OF mult_le_mono2 [OF assms, of "unat r"], of 100] by simp
  then have "unat (of_nat (unat r * unat x div 100) :: u64) = unat r * unat x div 100"
    using unat_le_u64_max [of r] by (simp add: unat_of_nat)
  ultimately show ?thesis
    by (simp add: rounded_percent_def mult.commute) linarith
qed

lemma limits_known_pair_env: "limits_known pair_env"
proof -
  have "weight_laws pair_env" "db_laws pair_env 25000000 100000000"
    using weight_laws_pair_weights db_laws_pair_weights
    by (simp_all add: weight_laws_def db_laws_def pair_env_def pair_weights_def)
  moreover have "perbill_laws pair_env"
    using percent_round_down by (auto simp: perbill_laws_def pair_env_def min_absorb2)
  moreover have "weight_arith_laws pair_env" "relay_consts pair_env"
    by (auto simp: weight_arith_laws_def relay_consts_def pair_env_def)
  ultimately show ?thesis by (simp add: limits_known_def)
qed

section \<open>Properties\<close>

text \<open>
  C34. The weight-to-fee polynomial is computed exactly when the benchmarked base
  weight of an extrinsic takes some time, and panics otherwise. It then has a single linear term
  whose coefficient, integer part and parts per billion together, is \<open>CENTS\<close> over a hundred times
  the base weight, rounded down to a billionth: an empty extrinsic costs a hundredth of a cent, and
  the product in the denominator never wraps.
\<close>

theorem fee_coefficient_exact:
  assumes "perbill_laws E"
  shows "if ref_time E (ExtrinsicBaseWeight E) = 0 then \<exists>m. polynomial E = Panic m
    else \<exists>c. polynomial E = Ret [c] \<and> degree c = 1 \<and> \<not> negative c \<and>
      (10 ^ 9 * unat (coeff_integer c) + perbill_parts E (coeff_frac c)) *
          (100 * unat (ref_time E (ExtrinsicBaseWeight E))) \<le> 10 ^ 9 * unat CENTS \<and>
      10 ^ 9 * unat CENTS < (10 ^ 9 * unat (coeff_integer c) + perbill_parts E (coeff_frac c) + 1) *
          (100 * unat (ref_time E (ExtrinsicBaseWeight E)))"
    (is "if ?b = 0 then _ else ?fee")
proof (cases "?b = 0")
  case True
  then show ?thesis by (simp add: polynomial_def Let_def)
next
  case False
  then have q: "0 < 100 * unat ?b"
    by (simp add: unat_gt_0)
  define q where "q = (100 * ucast ?b :: u128)"
  have uq: "unat q = 100 * unat ?b"
    by (simp add: q_def unat_fee_denominator)
  with q have q0: "q \<noteq> 0"
    by auto
  let ?c = "\<lparr>coeff_integer = CENTS div q, coeff_frac = from_rational E (CENTS mod q) q,
    negative = False, degree = 1\<rparr>"
  have poly: "polynomial E = Ret [?c]"
    using q0 by (simp add: polynomial_def Let_def q_def)
  have parts: "perbill_parts E (from_rational E (CENTS mod q) q) = unat (CENTS mod q) * 10 ^ 9 div unat q"
    using assms q0 uq q by (simp add: perbill_laws_def word_less_nat_alt word_le_nat_alt unat_mod less_imp_le)
  have coeff: "10 ^ 9 * unat (coeff_integer ?c) + perbill_parts E (coeff_frac ?c) = 10 ^ 9 * unat CENTS div unat q"
    using billionths_div [of "unat q" "10 ^ 9" "unat CENTS"] q uq by (simp add: parts unat_div unat_mod)
  have "10 ^ 9 * unat CENTS div unat q * unat q \<le> 10 ^ 9 * unat CENTS"
    by simp
  moreover have "10 ^ 9 * unat CENTS < (10 ^ 9 * unat CENTS div unat q + 1) * unat q"
    using q uq dividend_less_div_times [of "unat q" "10 ^ 9 * unat CENTS"] by (simp add: algebra_simps)
  ultimately have ?fee
    by (intro exI [of _ ?c] conjI poly) (simp_all only: coeff uq, simp_all)
  with False show ?thesis by simp
qed

theorem fee_coefficient_exact_witness:
  "\<exists>c. polynomial pair_env = Ret [c] \<and> degree c = 1"
  using fee_coefficient_exact [OF limits_knownD(2) [OF limits_known_pair_env]]
  by (auto simp: pair_env_def)

end
