(* ===== verification/Weights_Integritee.thy ===== *)
theory Weights_Integritee
  imports Parachains_Common
begin

text \<open>
  \<open>integritee-runtime/src/weights\<close>: the weight functions of Integritee's own pallets (teerex,
  teeracle, sidechain, enclave bridge), one definition per function of the file's
  \<open>impl WeightInfo\<close>, its list in the order of the \<open>saturating_add\<close> calls.
\<close>

section \<open>\<open>pallet_teerex\<close>\<close>

definition pallet_teerex_register_sgx_enclave :: "('w, 'z) weight_env_scheme \<Rightarrow> 'w" where
  "pallet_teerex_register_sgx_enclave T =
     saturating_chain T (from_parts T 3057351000 0)
       [from_parts T 0 3916,
        db_reads T 4,
        db_writes T 1]"

definition pallet_teerex_register_quoting_enclave :: "('w, 'z) weight_env_scheme \<Rightarrow> 'w" where
  "pallet_teerex_register_quoting_enclave T =
     saturating_chain T (from_parts T 1363262000 0)
       [from_parts T 0 1493,
        db_reads T 1,
        db_writes T 1]"

definition pallet_teerex_register_tcb_info :: "('w, 'z) weight_env_scheme \<Rightarrow> 'w" where
  "pallet_teerex_register_tcb_info T =
     saturating_chain T (from_parts T 1421038000 0)
       [from_parts T 0 1493,
        db_reads T 1,
        db_writes T 1]"

definition pallet_teerex_unregister_sovereign_enclave :: "('w, 'z) weight_env_scheme \<Rightarrow> 'w" where
  "pallet_teerex_unregister_sovereign_enclave T =
     saturating_chain T (from_parts T 19953000 0)
       [from_parts T 0 3996,
        db_reads T 2,
        db_writes T 1]"

definition pallet_teerex_unregister_proxied_enclave :: "('w, 'z) weight_env_scheme \<Rightarrow> 'w" where
  "pallet_teerex_unregister_proxied_enclave T =
     saturating_chain T (from_parts T 25704000 0)
       [from_parts T 0 4098,
        db_reads T 2,
        db_writes T 1]"

definition pallet_teerex_set_security_flags :: "('w, 'z) weight_env_scheme \<Rightarrow> 'w" where
  "pallet_teerex_set_security_flags T =
     saturating_chain T (from_parts T 9973000 0)
       [from_parts T 0 0,
        db_writes T 2]"

lemmas pallet_teerex_weights =
  pallet_teerex_register_sgx_enclave_def
  pallet_teerex_register_quoting_enclave_def
  pallet_teerex_register_tcb_info_def
  pallet_teerex_unregister_sovereign_enclave_def
  pallet_teerex_unregister_proxied_enclave_def
  pallet_teerex_set_security_flags_def

section \<open>\<open>pallet_teeracle\<close>\<close>

definition pallet_teeracle_update_exchange_rate :: "('w, 'z) weight_env_scheme \<Rightarrow> 'w" where
  "pallet_teeracle_update_exchange_rate T =
     saturating_chain T (from_parts T 40409000 0)
       [from_parts T 0 3956,
        db_reads T 3,
        db_writes T 1]"

definition pallet_teeracle_update_oracle :: "('w, 'z) weight_env_scheme \<Rightarrow> 'w" where
  "pallet_teeracle_update_oracle T =
     saturating_chain T (from_parts T 30318000 0)
       [from_parts T 0 3947,
        db_reads T 2,
        db_writes T 1]"

definition pallet_teeracle_add_to_whitelist :: "('w, 'z) weight_env_scheme \<Rightarrow> 'w" where
  "pallet_teeracle_add_to_whitelist T =
     saturating_chain T (from_parts T 16885000 0)
       [from_parts T 0 3507,
        db_reads T 1,
        db_writes T 1]"

definition pallet_teeracle_remove_from_whitelist :: "('w, 'z) weight_env_scheme \<Rightarrow> 'w" where
  "pallet_teeracle_remove_from_whitelist T =
     saturating_chain T (from_parts T 20247000 0)
       [from_parts T 0 3609,
        db_reads T 1,
        db_writes T 1]"

lemmas pallet_teeracle_weights =
  pallet_teeracle_update_exchange_rate_def
  pallet_teeracle_update_oracle_def
  pallet_teeracle_add_to_whitelist_def
  pallet_teeracle_remove_from_whitelist_def

section \<open>\<open>pallet_sidechain\<close>\<close>

definition pallet_sidechain_confirm_imported_sidechain_block :: "('w, 'z) weight_env_scheme \<Rightarrow> 'w" where
  "pallet_sidechain_confirm_imported_sidechain_block T =
     saturating_chain T (from_parts T 43161000 0)
       [from_parts T 0 3877,
        db_reads T 4,
        db_writes T 3]"

lemmas pallet_sidechain_weights =
  pallet_sidechain_confirm_imported_sidechain_block_def

section \<open>\<open>pallet_enclave_bridge\<close>\<close>

definition pallet_enclave_bridge_invoke :: "('w, 'z) weight_env_scheme \<Rightarrow> 'w" where
  "pallet_enclave_bridge_invoke T =
     saturating_chain T (from_parts T 16507000 0)
       [from_parts T 0 0]"

definition pallet_enclave_bridge_confirm_processed_parentchain_block :: "('w, 'z) weight_env_scheme \<Rightarrow> 'w" where
  "pallet_enclave_bridge_confirm_processed_parentchain_block T =
     saturating_chain T (from_parts T 37521000 0)
       [from_parts T 0 3873,
        db_reads T 3,
        db_writes T 1]"

definition pallet_enclave_bridge_shield_funds :: "('w, 'z) weight_env_scheme \<Rightarrow> 'w" where
  "pallet_enclave_bridge_shield_funds T =
     saturating_chain T (from_parts T 90452000 0)
       [from_parts T 0 3593,
        db_reads T 1,
        db_writes T 1]"

definition pallet_enclave_bridge_unshield_funds :: "('w, 'z) weight_env_scheme \<Rightarrow> 'w" where
  "pallet_enclave_bridge_unshield_funds T =
     saturating_chain T (from_parts T 122273000 0)
       [from_parts T 0 6196,
        db_reads T 6,
        db_writes T 4]"

definition pallet_enclave_bridge_publish_hash :: "('w, 'z) weight_env_scheme \<Rightarrow> u32 \<Rightarrow> u32 \<Rightarrow> 'w" where
  "pallet_enclave_bridge_publish_hash T l t =
     saturating_chain T (from_parts T 39366456 0)
       [from_parts T 0 3873,
        saturating_mul T (from_parts T 1722781 0) (ucast t),
        db_reads T 3,
        db_reads T (u64_saturating_mul 1 (ucast t)),
        db_writes T 2,
        db_writes T (u64_saturating_mul 1 (ucast t)),
        saturating_mul T (from_parts T 0 2475) (ucast t)]"

definition pallet_enclave_bridge_update_shard_config :: "('w, 'z) weight_env_scheme \<Rightarrow> 'w" where
  "pallet_enclave_bridge_update_shard_config T =
     saturating_chain T (from_parts T 28568000 0)
       [from_parts T 0 3986,
        db_reads T 3,
        db_writes T 2]"

lemmas pallet_enclave_bridge_weights =
  pallet_enclave_bridge_invoke_def
  pallet_enclave_bridge_confirm_processed_parentchain_block_def
  pallet_enclave_bridge_shield_funds_def
  pallet_enclave_bridge_unshield_funds_def
  pallet_enclave_bridge_publish_hash_def
  pallet_enclave_bridge_update_shard_config_def

lemmas integritee_weights =
  pallet_teerex_weights pallet_teeracle_weights pallet_sidechain_weights pallet_enclave_bridge_weights

text \<open>
  The calls of the pallets for trusted execution environments, the
  verification of an attestation report among them, stay within the share of a block that
  normal extrinsics may fill; publishing a hash does so for any number of topics it was benchmarked with.
\<close>

lemma integritee_weights_fit_normal:
  assumes "limits_known E"
  shows "
      fits_normal E (pallet_teerex_register_sgx_enclave E) \<and>
      fits_normal E (pallet_teerex_register_quoting_enclave E) \<and>
      fits_normal E (pallet_teerex_register_tcb_info E) \<and>
      fits_normal E (pallet_teerex_unregister_sovereign_enclave E) \<and>
      fits_normal E (pallet_teerex_unregister_proxied_enclave E) \<and>
      fits_normal E (pallet_teerex_set_security_flags E) \<and>
      fits_normal E (pallet_teeracle_update_exchange_rate E) \<and>
      fits_normal E (pallet_teeracle_update_oracle E) \<and>
      fits_normal E (pallet_teeracle_add_to_whitelist E) \<and>
      fits_normal E (pallet_teeracle_remove_from_whitelist E) \<and>
      fits_normal E (pallet_sidechain_confirm_imported_sidechain_block E) \<and>
      fits_normal E (pallet_enclave_bridge_invoke E) \<and>
      fits_normal E (pallet_enclave_bridge_confirm_processed_parentchain_block E) \<and>
      fits_normal E (pallet_enclave_bridge_shield_funds E) \<and>
      fits_normal E (pallet_enclave_bridge_unshield_funds E) \<and>
      (\<forall>l t. unat t \<le> 5 \<longrightarrow> fits_normal E (pallet_enclave_bridge_publish_hash E l t)) \<and>
      fits_normal E (pallet_enclave_bridge_update_shard_config E)"
  by (intro conjI allI impI;
      (rule fits_normalI [OF assms], unfold integritee_weights,
       (rule within_rules limits_knownD [OF assms] | assumption)+, simp, simp))

lemma integritee_weights_fit_normal_witness:
  "fits_normal pair_env (pallet_teerex_register_sgx_enclave pair_env)"
  by (rule integritee_weights_fit_normal [OF limits_known_pair_env, THEN conjunct1])

text \<open>A larger input never weighs less, so charging for the maximum covers every smaller one.\<close>

lemma integritee_weights_mono:
  assumes "weight_laws T" "db_laws T rd wr"
  shows "
      (\<forall>l t l' t'. t \<le> t' \<longrightarrow> no_heavier T (pallet_enclave_bridge_publish_hash T l t) (pallet_enclave_bridge_publish_hash T l' t'))"
  unfolding integritee_weights
  by (intro conjI allI impI; (rule assms heavier_rules | assumption)+)

end
