(* ===== verification/Common_Xcm.thy ===== *)
theory Common_Xcm
  imports Prelude
begin

text \<open>
  \<open>polkadot-parachains/common/src/xcm_config.rs\<close>: the barrier combinators that decide whether an
  incoming XCM is executed, and the data they inspect. The XCM types are those of
  \<open>xcm::latest\<close>: the constructors the code matches on are spelled out, all others are kept as one
  opaque constructor. A barrier is any implementation of the trait \<open>ShouldExecute\<close>: it may update
  the message and the weight credit it borrows mutably, and it may write to the log.
\<close>

section \<open>Locations, assets and instructions\<close>

datatype NetworkId = Kusama | OtherNetwork nat

datatype Junction =
    Parachain u32
  | GeneralKey (key_length: u8) (key_data: "u8 list")
  | AccountId32 (account_network: "NetworkId option") (account_bytes: "u8 list")
  | GlobalConsensus NetworkId
  | OtherJunction nat

text \<open>\<open>XN\<close> stands for \<open>X3\<close> to \<open>X8\<close>, which the code never names.\<close>

datatype Junctions = Here | X1 Junction | X2 Junction Junction | XN "Junction list"

record MultiLocation =
  parents :: u8
  interior :: Junctions

datatype AssetId = Concrete MultiLocation | Abstract "u8 list"

record 'f MultiAsset =
  asset_id :: AssetId
  fungibility :: 'f

text \<open>\<open>'x\<close> stands for the fields of an instruction the code ignores (\<open>..\<close> in its patterns).\<close>

datatype 'x Instruction =
    InitiateReserveWithdraw (reserve: MultiLocation) 'x
  | DepositReserveAsset (dest: MultiLocation) 'x
  | TransferReserveAsset (dest: MultiLocation) 'x
  | ReserveAssetDeposited 'x
  | OtherInstruction 'x

abbreviation parent_location :: MultiLocation where
  "parent_location \<equiv> \<lparr>parents = 1, interior = Here\<rparr>"

abbreviation here_location :: MultiLocation where
  "here_location \<equiv> \<lparr>parents = 0, interior = Here\<rparr>"

section \<open>Barriers\<close>

datatype ProcessMessageError = Unsupported | OtherMessageError nat

record ('x, 'w) barrier_state =
  message :: "'x Instruction list"
  weight_credit :: 'w
  log :: "string list"

type_synonym ('x, 'w) barrier =
  "MultiLocation \<Rightarrow> 'w \<Rightarrow> ('x, 'w) barrier_state \<Rightarrow>
   (ProcessMessageError + unit) \<times> ('x, 'w) barrier_state"

definition DenyThenTry :: "('x, 'w) barrier \<Rightarrow> ('x, 'w) barrier \<Rightarrow> ('x, 'w) barrier" where
  "DenyThenTry deny allow origin max_weight st =
     (case deny origin max_weight st of
        (Inl e, st') \<Rightarrow> (Inl e, st')
      | (Inr _, st') \<Rightarrow> allow origin max_weight st')"

text \<open>The instructions that move a reserve to the relay chain.\<close>

fun reserve_transfer_to_parent :: "'x Instruction \<Rightarrow> bool" where
  "reserve_transfer_to_parent (InitiateReserveWithdraw r _) = (r = parent_location)"
| "reserve_transfer_to_parent (DepositReserveAsset d _) = (d = parent_location)"
| "reserve_transfer_to_parent (TransferReserveAsset d _) = (d = parent_location)"
| "reserve_transfer_to_parent _ = False"

lemma list_ex_reserve_transfer:
  "list_ex reserve_transfer_to_parent msg \<longleftrightarrow>
     (\<exists>x. InitiateReserveWithdraw parent_location x \<in> set msg \<or> DepositReserveAsset parent_location x \<in> set msg \<or>
       TransferReserveAsset parent_location x \<in> set msg)"
proof -
  have "reserve_transfer_to_parent i \<longleftrightarrow> (\<exists>x. i = InitiateReserveWithdraw parent_location x \<or>
      i = DepositReserveAsset parent_location x \<or> i = TransferReserveAsset parent_location x)"
    for i :: "'x Instruction"
    by (cases i) auto
  then show ?thesis by (auto simp: list_ex_iff)
qed

fun is_reserve_asset_deposited :: "'x Instruction \<Rightarrow> bool" where
  "is_reserve_asset_deposited (ReserveAssetDeposited _) = True"
| "is_reserve_asset_deposited _ = False"

definition unexpected_reserve_warning :: string where
  "unexpected_reserve_warning = ''Unexpected ReserveAssetDeposited from the Relay Chain''"

definition DenyReserveTransferToRelayChain :: "('x, 'w) barrier" where
  "DenyReserveTransferToRelayChain origin max_weight st =
     (if list_ex reserve_transfer_to_parent (message st) then (Inl Unsupported, st)
      else if origin = parent_location \<and> list_ex is_reserve_asset_deposited (message st)
      then (Inr (), st\<lparr>log := log st @ [unexpected_reserve_warning]\<rparr>)
      else (Inr (), st))"

section \<open>The contract of a deny filter\<close>

text \<open>
  What \<open>DenyThenTry\<close> needs of its first argument: it rejects the messages of a set, lets every
  other pass, and changes neither the message nor the weight credit. Its client lemmas hold for
  every second argument, so also for a barrier this repository does not contain.
\<close>

locale deny_filter =
  fixes deny :: "('x, 'w) barrier"
    and denied :: "'x Instruction list \<Rightarrow> bool"
    and denial :: ProcessMessageError
  assumes rejects: "denied (message st) \<Longrightarrow> deny origin mw st = (Inl denial, st)"
    and passes: "\<not> denied (message st) \<Longrightarrow>
      \<exists>l. deny origin mw st = (Inr (), st\<lparr>log := log st @ l\<rparr>)"
begin

lemma denied_not_executed: "denied (message st) \<Longrightarrow> DenyThenTry deny allow origin mw st = (Inl denial, st)"
  by (simp add: DenyThenTry_def rejects)

lemma executed_not_denied: "fst (DenyThenTry deny allow origin mw st) = Inr u \<Longrightarrow> \<not> denied (message st)"
  by (auto simp: denied_not_executed)

lemma otherwise_allow:
  "\<not> denied (message st) \<Longrightarrow>
   \<exists>l. DenyThenTry deny allow origin mw st = allow origin mw (st\<lparr>log := log st @ l\<rparr>)"
  using passes [of st origin mw] by (auto simp: DenyThenTry_def)

end

interpretation relay_reserve: deny_filter
  "DenyReserveTransferToRelayChain" "list_ex reserve_transfer_to_parent" "Unsupported"
proof unfold_locales
  fix origin :: MultiLocation and mw :: 'w and st :: "('x, 'w) barrier_state"
  assume "\<not> list_ex reserve_transfer_to_parent (message st)"
  then have "DenyReserveTransferToRelayChain origin mw st = (Inr (), st\<lparr>log := log st @ []\<rparr>) \<or>
      DenyReserveTransferToRelayChain origin mw st =
        (Inr (), st\<lparr>log := log st @ [unexpected_reserve_warning]\<rparr>)"
    by (auto simp: DenyReserveTransferToRelayChain_def)
  then show "\<exists>l. DenyReserveTransferToRelayChain origin mw st = (Inr (), st\<lparr>log := log st @ l\<rparr>)"
    by blast
qed (simp add: DenyReserveTransferToRelayChain_def)

text \<open>The log line is written exactly for a reserve deposit that comes from the relay chain.\<close>

lemma warning_iff:
  "log (snd (DenyReserveTransferToRelayChain origin mw st)) = log st @ [unexpected_reserve_warning] \<longleftrightarrow>
   \<not> list_ex reserve_transfer_to_parent (message st) \<and> origin = parent_location \<and>
   list_ex is_reserve_asset_deposited (message st)"
  by (simp add: DenyReserveTransferToRelayChain_def)

end
