(* ===== verification/Runtime_Origin.thy ===== *)
theory Runtime_Origin
  imports Common_Xcm
begin

text \<open>
  \<open>RuntimeOrigin\<close>, the enumeration \<open>construct_runtime!\<close> generates from the origins of the pallets, and the
  guards of \<open>frame_system\<close> and \<open>pallet_collective\<close> that decide who may make a call. Calls from outside and
  incoming XCMs both end in such an origin, so governance and XCM configuration share this type.
\<close>

section \<open>Origins\<close>

text \<open>
  \<open>Members i n m\<close> is the origin of a motion that \<open>n\<close> of the \<open>m\<close> members of collective \<open>i\<close> have
  approved, \<open>Member i a\<close> that of a single member. \<open>RelayOrigin\<close> and \<open>SiblingParaOrigin\<close> are those of
  \<open>cumulus_pallet_xcm\<close>, \<open>XcmOrigin\<close> that of \<open>pallet_xcm\<close>; other pallets' origins are opaque.
\<close>

datatype collective = Instance1 | Instance2

datatype 'a origin =
    Root
  | Signed 'a
  | Members collective u32 u32
  | Member collective 'a
  | RelayOrigin
  | SiblingParaOrigin u32
  | XcmOrigin MultiLocation
  | OtherOrigin nat

section \<open>Guards\<close>

text \<open>
  The guards are parameters: \<open>EnsureRoot\<close> and \<open>EnsureSigned\<close> recognise their origin, the collectives'
  guards compare the number of approvals with the number of members, and \<open>EitherOfDiverse\<close> accepts what
  one of two guards accepts.
\<close>

record 'a ensure_lib =
  EnsureRoot :: "'a origin \<Rightarrow> bool"
  EnsureSigned :: "'a origin \<Rightarrow> bool"
  EnsureProportionMoreThan :: "collective \<Rightarrow> u32 \<Rightarrow> u32 \<Rightarrow> 'a origin \<Rightarrow> bool"
  EnsureProportionAtLeast :: "collective \<Rightarrow> u32 \<Rightarrow> u32 \<Rightarrow> 'a origin \<Rightarrow> bool"
  EnsureMember :: "collective \<Rightarrow> 'a origin \<Rightarrow> bool"
  EitherOfDiverse :: "('a origin \<Rightarrow> bool) \<Rightarrow> ('a origin \<Rightarrow> bool) \<Rightarrow> 'a origin \<Rightarrow> bool"

definition ensure_laws :: "('a, 'z) ensure_lib_scheme \<Rightarrow> bool" where
  "ensure_laws L \<longleftrightarrow>
     (\<forall>q. EnsureRoot L q \<longleftrightarrow> q = Root) \<and>
     (\<forall>q. EnsureSigned L q \<longleftrightarrow> (\<exists>a. q = Signed a)) \<and>
     (\<forall>i n d q. EnsureProportionMoreThan L i n d q \<longleftrightarrow>
        (\<exists>y m. q = Members i y m \<and> unat n * unat m < unat y * unat d)) \<and>
     (\<forall>i n d q. EnsureProportionAtLeast L i n d q \<longleftrightarrow>
        (\<exists>y m. q = Members i y m \<and> unat n * unat m \<le> unat y * unat d)) \<and>
     (\<forall>i q. EnsureMember L i q \<longleftrightarrow> (\<exists>a. q = Member i a)) \<and>
     (\<forall>f g q. EitherOfDiverse L f g q \<longleftrightarrow> f q \<or> g q)"

definition example_guards :: "'a ensure_lib" where
  "example_guards = \<lparr>EnsureRoot = (\<lambda>q. q = Root),
     EnsureSigned = (\<lambda>q. case q of Signed a \<Rightarrow> True | _ \<Rightarrow> False),
     EnsureProportionMoreThan = (\<lambda>i n d q. case q of
        Members j y m \<Rightarrow> i = j \<and> unat n * unat m < unat y * unat d | _ \<Rightarrow> False),
     EnsureProportionAtLeast = (\<lambda>i n d q. case q of
        Members j y m \<Rightarrow> i = j \<and> unat n * unat m \<le> unat y * unat d | _ \<Rightarrow> False),
     EnsureMember = (\<lambda>i q. case q of Member j a \<Rightarrow> i = j | _ \<Rightarrow> False),
     EitherOfDiverse = (\<lambda>f g q. f q \<or> g q)\<rparr>"

lemma example_guards_laws: "ensure_laws example_guards"
  by (auto simp: ensure_laws_def example_guards_def split: origin.splits)

definition example_ensure :: "nat ensure_lib" where
  "example_ensure = example_guards"

lemma example_ensure_laws: "ensure_laws example_ensure"
  by (simp add: example_ensure_def example_guards_laws)

end
