(* ===== verification/Runtime_Interface.thy ===== *)
theory Runtime_Interface
  imports Parachains_Common Runtime_Origin
begin

text \<open>
  What both runtimes take from FRAME: the shape of a runtime version, the per-class block limits,
  currency imbalances, and the pieces of an inherent check. The
  functions are fields of records of parameters; the predicates state their documented behaviour.
  The locale \<open>instance_filter\<close> is the contract of the trait \<open>InstanceFilter\<close> that
  \<open>pallet_proxy\<close> relies on.
\<close>

section \<open>Versions\<close>

record 'api RuntimeVersion =
  spec_name :: string
  impl_name :: string
  authoring_version :: u32
  spec_version :: u32
  impl_version :: u32
  apis :: 'api
  transaction_version :: u32
  state_version :: u8

record ('api, 'd) NativeVersion =
  runtime_version :: "'api RuntimeVersion"
  can_author_with :: 'd

section \<open>Block limits\<close>

datatype DispatchClass = Normal | Operational | Mandatory

record 'w WeightsPerClass =
  base_extrinsic :: 'w
  max_total :: "'w option"
  reserved :: "'w option"

text \<open>
  \<open>BlockWeights::builder()\<close> and its methods. \<open>for_class\<close> applies a closure to the limits of the
  given classes; \<open>DispatchClass::all()\<close> lists every class.
\<close>

record ('w, 'p, 'b, 'r) block_weights_lib =
  builder :: 'b
  base_block :: "'w \<Rightarrow> 'b \<Rightarrow> 'b"
  for_class :: "DispatchClass list \<Rightarrow> ('w WeightsPerClass \<Rightarrow> 'w WeightsPerClass) \<Rightarrow> 'b \<Rightarrow> 'b"
  avg_block_initialization :: "'p \<Rightarrow> 'b \<Rightarrow> 'b"
  build_or_panic :: "'b \<Rightarrow> 'r outcome"
  all_classes :: "DispatchClass list"
  per_class :: "'b \<Rightarrow> DispatchClass \<Rightarrow> 'w WeightsPerClass"

definition builder_laws :: "('w, 'p, 'b, 'r, 'z) block_weights_lib_scheme \<Rightarrow> bool" where
  "builder_laws B \<longleftrightarrow>
     set (all_classes B) = UNIV \<and>
     (\<forall>w b c. per_class B (base_block B w b) c = per_class B b c) \<and>
     (\<forall>p b c. per_class B (avg_block_initialization B p b) c = per_class B b c) \<and>
     (\<forall>cs f b c. per_class B (for_class B cs f b) c =
        (if c \<in> set cs then f (per_class B b c) else per_class B b c))"

lemma per_class_builder:
  assumes "builder_laws B"
  shows "per_class B (base_block B w b) c = per_class B b c"
    and "per_class B (avg_block_initialization B p b) c = per_class B b c"
    and "per_class B (for_class B cs f b) c = (if c \<in> set cs then f (per_class B b c) else per_class B b c)"
    and "c \<in> set (all_classes B)"
  using assms by (simp_all add: builder_laws_def)

text \<open>A builder that keeps the limits of every class as a function.\<close>

definition list_builder ::
  "(u64 \<times> u64, nat, DispatchClass \<Rightarrow> (u64 \<times> u64) WeightsPerClass, unit) block_weights_lib" where
  "list_builder = \<lparr>builder = (\<lambda>_. \<lparr>base_extrinsic = (0, 0), max_total = None, reserved = None\<rparr>),
     base_block = (\<lambda>_ b. b),
     for_class = (\<lambda>cs f b c. if c \<in> set cs then f (b c) else b c),
     avg_block_initialization = (\<lambda>_ b. b),
     build_or_panic = (\<lambda>_. Ret ()),
     all_classes = [Normal, Operational, Mandatory],
     per_class = (\<lambda>b. b)\<rparr>"

lemma list_builder_laws: "builder_laws list_builder"
  using DispatchClass.exhaust by (auto simp: builder_laws_def list_builder_def)

section \<open>Imbalances\<close>

text \<open>
  \<open>Imbalance\<close>: an amount of currency that has been taken and must be put somewhere; dropping a
  negative imbalance burns it. \<open>'t\<close> is the state of the treasury.
\<close>

record ('i, 't) imbalance_lib =
  peek :: "'i \<Rightarrow> nat"
  ration :: "'i \<Rightarrow> u32 \<Rightarrow> u32 \<Rightarrow> 'i \<times> 'i"
  merge_into :: "'i \<Rightarrow> 'i \<Rightarrow> 'i"
  treasury_on_unbalanced :: "'i \<Rightarrow> 't \<Rightarrow> 't"
  treasury_pot :: "'t \<Rightarrow> nat"

text \<open>
  \<open>ration\<close> splits in the given ratio, rounding the first part down and losing nothing;
  \<open>merge_into\<close> adds; the treasury adds what it is given to its pot.
\<close>

definition imbalance_laws :: "('i, 't, 'z) imbalance_lib_scheme \<Rightarrow> bool" where
  "imbalance_laws L \<longleftrightarrow>
     (\<forall>i. peek L i < 2 ^ 128) \<and>
     (\<forall>i a b. 0 < unat a + unat b \<longrightarrow> unat a + unat b < 2 ^ 32 \<longrightarrow> peek L i * unat a < 2 ^ 128 \<longrightarrow>
        peek L (fst (ration L i a b)) = peek L i * unat a div (unat a + unat b) \<and>
        peek L (fst (ration L i a b)) + peek L (snd (ration L i a b)) = peek L i) \<and>
     (\<forall>i j. peek L i + peek L j < 2 ^ 128 \<longrightarrow> peek L (merge_into L i j) = peek L i + peek L j) \<and>
     (\<forall>i t. treasury_pot L (treasury_on_unbalanced L i t) = treasury_pot L t + peek L i)"

lemma peek_less: "imbalance_laws L \<Longrightarrow> peek L i < 2 ^ 128"
  unfolding imbalance_laws_def by (drule conjunct1) (erule spec)

lemma ration_parts:
  assumes "imbalance_laws L" "0 < unat a + unat b" "unat a + unat b < 2 ^ 32" "peek L i * unat a < 2 ^ 128"
  shows "peek L (fst (ration L i a b)) = peek L i * unat a div (unat a + unat b) \<and>
    peek L (fst (ration L i a b)) + peek L (snd (ration L i a b)) = peek L i"
  using assms(1) [unfolded imbalance_laws_def, THEN conjunct2, THEN conjunct1, rule_format, OF assms(2-4)] .

lemma merge_into_peek:
  assumes "imbalance_laws L" "peek L i + peek L j < 2 ^ 128"
  shows "peek L (merge_into L i j) = peek L i + peek L j"
  using assms(1) [unfolded imbalance_laws_def, THEN conjunct2, THEN conjunct2, THEN conjunct1, rule_format,
      OF assms(2)] .

lemma treasury_on_unbalanced_pot:
  assumes "imbalance_laws L"
  shows "treasury_pot L (treasury_on_unbalanced L i t) = treasury_pot L t + peek L i"
  using assms [unfolded imbalance_laws_def, THEN conjunct2, THEN conjunct2, THEN conjunct2, rule_format] .

definition example_imbalances :: "(u128, nat) imbalance_lib" where
  "example_imbalances = \<lparr>peek = unat,
     ration = (\<lambda>i a b. let r = of_nat (unat i * unat a div (unat a + unat b)) in (r, i - r)),
     merge_into = (\<lambda>i j. i + j),
     treasury_on_unbalanced = (\<lambda>i t. t + unat i), treasury_pot = (\<lambda>t. t)\<rparr>"

lemma ration_part_le: "unat i * unat a div (unat a + unat b) \<le> unat i"
proof -
  have "unat i * unat a div (unat a + unat b) \<le> unat i * (unat a + unat b) div (unat a + unat b)"
    by (rule div_le_mono) simp
  then show ?thesis by (cases "unat a + unat b = 0") auto
qed

lemma example_imbalances_laws: "imbalance_laws example_imbalances"
proof -
  have small: "unat (of_nat (unat i * unat a div (unat a + unat b)) :: u128) =
      unat i * unat a div (unat a + unat b)" for i :: u128 and a b :: u32
    using ration_part_le [of i a b] unsigned_less [of i, where 'a = nat]
    by (simp add: unat_of_nat)
  have rest: "unat (i - of_nat (unat i * unat a div (unat a + unat b)) :: u128) =
      unat i - unat i * unat a div (unat a + unat b)" for i :: u128 and a b :: u32
    using ration_part_le [of i a b] small [of i a b] by (simp add: unat_sub word_le_nat_alt)
  show ?thesis
    using unsigned_less [where 'a = nat and 'b = 128]
    by (auto simp: imbalance_laws_def example_imbalances_def Let_def unat_add_exact small rest
        le_add_diff_inverse [OF ration_part_le])
qed

section \<open>Inherents\<close>

record ('proof, 'slot, 'prov, 'data, 'block, 'res, 'e) inherent_lib =
  read_slot :: "'proof \<Rightarrow> 'e + 'slot"
  from_relay_chain_slot_and_duration :: "'slot \<Rightarrow> u64 \<Rightarrow> 'prov"
  create_inherent_data :: "'prov \<Rightarrow> 'e + 'data"
  check_extrinsics :: "'data \<Rightarrow> 'block \<Rightarrow> 'res"

section \<open>The contract of a proxy filter\<close>

text \<open>
  \<open>InstanceFilter\<close>: a proxy type decides which calls it may make, and \<open>is_superset\<close> must
  under-approximate the order of these sets: \<open>pallet_proxy\<close> lets a proxy add or remove only
  proxies of types its own type is a superset of.
\<close>

locale instance_filter =
  fixes filter_call :: "'t \<Rightarrow> 'c \<Rightarrow> bool"
    and is_superset :: "'t \<Rightarrow> 't \<Rightarrow> bool"
  assumes superset_refl: "is_superset t t"
    and superset_trans: "is_superset t u \<Longrightarrow> is_superset u v \<Longrightarrow> is_superset t v"
    and superset_sound: "is_superset t u \<Longrightarrow> filter_call u c \<Longrightarrow> filter_call t c"
begin

text \<open>
  A chain of proxies, each of a type the previous one could have handed out, never makes a call
  its first member could not have made.
\<close>

primrec delegation :: "'t \<Rightarrow> 't list \<Rightarrow> bool" where
  "delegation t [] = True"
| "delegation t (u # us) = (is_superset t u \<and> delegation u us)"

lemma delegation_superset: "delegation t us \<Longrightarrow> u \<in> set us \<Longrightarrow> is_superset t u"
  by (induction us arbitrary: t) (auto intro: superset_trans)

lemma delegation_successively: "delegation t us \<longleftrightarrow> successively is_superset (t # us)"
  by (induction us arbitrary: t) simp_all

lemma no_escalation: "delegation t us \<Longrightarrow> u \<in> set us \<Longrightarrow> filter_call u c \<Longrightarrow> filter_call t c"
  by (rule superset_sound [OF delegation_superset])

end

end
