(* ===== verification/Pallet_Configs.thy ===== *)
theory Pallet_Configs
  imports Runtime_Interface
begin

text \<open>
  The configuration traits of the pallets both runtimes are made of: one record per trait \<open>Config\<close>, with
  the associated types and constants the runtimes choose as its fields. A pallet that another pallet is
  given as a handler is named by its name in \<open>construct_runtime!\<close>; types that are the same in every
  runtime (\<open>RuntimeEvent\<close>, \<open>AccountId\<close>, \<open>Hash\<close>, ...) and handlers that are \<open>()\<close>, that is absent, are left out.
\<close>

section \<open>Weights, lengths and reasons\<close>

text \<open>
  Where a pallet takes its weights from: a file of \<open>weights/\<close> (by module name), the weights of another
  crate, or \<open>()\<close>, the defaults of the pallet.
\<close>

datatype weight_source = Benchmarked string | Foreign string | DefaultWeights

text \<open>\<open>BlockLength::max_with_normal_ratio\<close>: the limit, for normal extrinsics the given share of it.\<close>

type_synonym 'p block_length_lib = "u32 \<Rightarrow> 'p \<Rightarrow> DispatchClass \<Rightarrow> u32"

definition block_length_law :: "('w, 'p, 'z) block_env_scheme \<Rightarrow> 'p block_length_lib \<Rightarrow> bool" where
  "block_length_law E F \<longleftrightarrow>
     (\<forall>m x c. unat x \<le> 100 \<longrightarrow>
        (if c = Normal
         then 100 * unat (F m (from_percent E x) c) < unat x * unat m + 100 \<and>
           unat x * unat m < 100 * unat (F m (from_percent E x) c) + 100
         else F m (from_percent E x) c = m))"

text \<open>
  \<open>WithdrawReasons\<close>, a set of flags: \<open>except\<close> contains all reasons but the given ones. \<open>allows\<close> tells
  whether a set contains a reason.
\<close>

datatype withdraw_reason = TransactionPayment | Transfer | Reserve | Fee | Tip

record 'r withdraw_lib =
  wr_except :: "'r \<Rightarrow> 'r"
  wr_union :: "'r \<Rightarrow> 'r \<Rightarrow> 'r"
  wr_TRANSFER :: 'r
  wr_RESERVE :: 'r
  allows :: "'r \<Rightarrow> withdraw_reason \<Rightarrow> bool"

definition withdraw_laws :: "('r, 'z) withdraw_lib_scheme \<Rightarrow> bool" where
  "withdraw_laws W \<longleftrightarrow>
     (\<forall>a x. allows W (wr_except W a) x \<longleftrightarrow> \<not> allows W a x) \<and>
     (\<forall>a b x. allows W (wr_union W a b) x \<longleftrightarrow> allows W a x \<or> allows W b x) \<and>
     (\<forall>x. allows W (wr_TRANSFER W) x \<longleftrightarrow> x = Transfer) \<and>
     (\<forall>x. allows W (wr_RESERVE W) x \<longleftrightarrow> x = Reserve)"

definition example_reasons :: "(withdraw_reason \<Rightarrow> bool) withdraw_lib" where
  "example_reasons = \<lparr>wr_except = (\<lambda>a x. \<not> a x), wr_union = (\<lambda>a b x. a x \<or> b x),
     wr_TRANSFER = (\<lambda>x. x = Transfer), wr_RESERVE = (\<lambda>x. x = Reserve), allows = (\<lambda>a. a)\<rparr>"

lemma example_reasons_laws: "withdraw_laws example_reasons"
  by (simp add: withdraw_laws_def example_reasons_def)

section \<open>System pallets\<close>

record ('call, 'r, 'api) system_config =
  BaseCallFilter :: "'call \<Rightarrow> bool"
  sys_BlockWeights :: "'r outcome"
  sys_BlockLength :: "DispatchClass \<Rightarrow> u32"
  sys_BlockHashCount :: BlockNumber
  sys_Version :: "'api RuntimeVersion"
  SystemWeightInfo :: weight_source
  sys_SS58Prefix :: u8
  OnSetCode :: string
  MaxConsumers :: u32

record timestamp_config =
  ts_MinimumPeriod :: u64
  ts_WeightInfo :: weight_source

record multisig_config =
  ms_Currency :: string
  ms_DepositBase :: Balance
  ms_DepositFactor :: Balance
  ms_MaxSignatories :: u16
  ms_WeightInfo :: weight_source

text \<open>\<open>'t\<close> is the proxy type, whose filter and order the pallet uses.\<close>

record ('t, 'call) proxy_config =
  pr_Currency :: string
  pr_filter :: "'t \<Rightarrow> 'call \<Rightarrow> bool"
  pr_is_superset :: "'t \<Rightarrow> 't \<Rightarrow> bool"
  pr_ProxyDepositBase :: Balance
  pr_ProxyDepositFactor :: Balance
  pr_MaxProxies :: u16
  pr_WeightInfo :: weight_source
  pr_MaxPending :: u16
  pr_AnnouncementDepositBase :: Balance
  pr_AnnouncementDepositFactor :: Balance

record ('w, 'a) scheduler_config =
  sch_MaximumWeight :: 'w
  ScheduleOrigin :: "'a origin \<Rightarrow> bool"
  sch_MaxScheduledPerBlock :: u32
  sch_WeightInfo :: weight_source
  OriginPrivilegeCmp :: string
  sch_Preimages :: string

record utility_config =
  ut_WeightInfo :: weight_source

record 'a preimage_config =
  pi_WeightInfo :: weight_source
  pi_Currency :: string
  ManagerOrigin :: "'a origin \<Rightarrow> bool"
  pi_BaseDeposit :: Balance
  pi_ByteDeposit :: Balance

record 'w parachain_system_config =
  SelfParaId :: string
  DmpMessageHandler :: string
  ps_ReservedDmpWeight :: 'w
  OutboundXcmpMessageSource :: string
  XcmpMessageHandler :: string
  ps_ReservedXcmpWeight :: 'w
  CheckAssociatedRelayNumber :: string

record aura_config =
  au_MaxAuthorities :: u32

section \<open>Funds and fees\<close>

record balances_config =
  bal_MaxLocks :: u32
  bal_ExistentialDeposit :: Balance
  AccountStore :: string
  bal_WeightInfo :: weight_source
  bal_MaxReserves :: u32

text \<open>
  Fees for weight are a polynomial, given by its coefficients, or the weight itself (\<open>IdentityFee\<close>); fees
  for length are a constant per byte (\<open>ConstantMultiplier\<close>). What is done with collected fees is a
  function on imbalances, as in \<open>DealWithFees\<close>: the new state and what is dropped. The multiplier of
  operational extrinsics is absent where the runtime gives \<open>()\<close>.
\<close>

datatype 'p weight_to_fee = Polynomial "'p WeightToFeeCoefficient list outcome" | IdentityFee_of_weight

record ('i, 't, 'p) transaction_payment_config =
  tp_Currency :: string
  tp_OnUnbalanced :: "'i list \<Rightarrow> 't \<Rightarrow> 't \<times> 'i list"
  tp_WeightToFee :: "'p weight_to_fee"
  tp_LengthToFee :: Balance
  tp_FeeMultiplierUpdate :: "string option"
  tp_OperationalFeeMultiplier :: "u8 option"

record 'r vesting_config =
  ve_Currency :: string
  ve_MinVestedTransfer :: Balance
  ve_WeightInfo :: weight_source
  ve_UnvestedFundsAllowedWithdrawReasons :: 'r
  ve_MAX_VESTING_SCHEDULES :: u32

section \<open>Governance\<close>

text \<open>\<open>'m\<close> is the type \<open>Permill\<close>.\<close>

record 'm bounties_config =
  bo_BountyDepositBase :: Balance
  bo_BountyDepositPayoutDelay :: BlockNumber
  bo_BountyUpdatePeriod :: BlockNumber
  bo_CuratorDepositMultiplier :: 'm
  bo_CuratorDepositMin :: Balance
  bo_CuratorDepositMax :: Balance
  bo_BountyValueMinimum :: Balance
  ChildBountyManager :: string
  bo_DataDepositPerByte :: Balance
  bo_MaximumReasonLength :: u32
  bo_WeightInfo :: weight_source

record child_bounties_config =
  cb_MaxActiveChildBountyCount :: u32
  cb_ChildBountyValueMinimum :: Balance
  cb_WeightInfo :: weight_source

datatype default_vote = PrimeDefaultVote | MoreThanMajorityThenPrimeDefaultVote

record ('w, 'a) collective_config =
  co_MotionDuration :: BlockNumber
  co_MaxProposals :: u32
  co_MaxMembers :: u32
  DefaultVote :: default_vote
  co_WeightInfo :: weight_source
  SetMembersOrigin :: "'a origin \<Rightarrow> bool"
  co_MaxProposalWeight :: 'w

section \<open>Integritee pallets\<close>

record teerex_config =
  te_MomentsPerDay :: Moment
  te_MaxAttestationRenewalPeriod :: Moment
  te_WeightInfo :: weight_source

record enclave_bridge_config =
  eb_Currency :: string
  eb_WeightInfo :: weight_source

record sidechain_config =
  sc_WeightInfo :: weight_source

record 'a claims_config =
  VestingSchedule :: string
  cl_Prefix :: "u8 list"
  MoveClaimOrigin :: "'a origin \<Rightarrow> bool"
  cl_WeightInfo :: weight_source

record teeracle_config =
  to_WeightInfo :: weight_source
  to_MaxWhitelistedReleases :: u32
  to_MaxOracleBlobLen :: u32

record 'a orml_xcm_config =
  SovereignOrigin :: "'a origin \<Rightarrow> bool"

end
