(* ===== verification/Integritee_Runtime.thy ===== *)
theory Integritee_Runtime
  imports Pallet_Configs
begin

text \<open>
  \<open>polkadot-parachains/integritee-runtime/src/lib.rs\<close> (with the macro of \<open>helpers.rs\<close>): the full
  runtime. Its sections follow the file: version and currency, the fee split, the block limits,
  the proxy filter, the pallets' parameters and privileged origins, the enumeration of calls, and
  the check of inherents.
\<close>

section \<open>Version and currency\<close>

definition VERSION :: "'api \<Rightarrow> 'api RuntimeVersion" where
  "VERSION RUNTIME_API_VERSIONS =
     \<lparr>spec_name = ''integritee-parachain'', impl_name = ''integritee-full'',
      authoring_version = 2, spec_version = 38, impl_version = 1, apis = RUNTIME_API_VERSIONS,
      transaction_version = 6, state_version = 0\<rparr>"

definition native_version :: "'api \<Rightarrow> 'd \<Rightarrow> ('api, 'd) NativeVersion" where
  "native_version api dflt = \<lparr>runtime_version = VERSION api, can_author_with = dflt\<rparr>"

definition ONE_TEER :: Balance where
  "ONE_TEER = 1000000000000"

definition MILLITEER :: Balance where
  "MILLITEER = 1000000000"

definition MICROTEER :: Balance where
  "MICROTEER = 1000000"

definition deposit :: "u32 \<Rightarrow> u32 \<Rightarrow> Balance" where
  "deposit items bytes = ucast items * 20 * ONE_TEER + ucast bytes * 1000 * MICROTEER"

lemmas currency_unit_defs = ONE_TEER_def MILLITEER_def MICROTEER_def

text \<open>No \<open>u32\<close> arguments make the deposit overflow.\<close>

lemma unat_deposit:
  "unat (deposit items bytes) = unat items * 20 * 10 ^ 12 + unat bytes * 1000 * 10 ^ 6"
proof -
  have i: "unat items \<le> 2 ^ 32 - 1" and b: "unat bytes \<le> 2 ^ 32 - 1"
    using unsigned_less [of items, where 'a = nat] unsigned_less [of bytes, where 'a = nat] by simp_all
  have i20: "unat (ucast items * 20 :: u128) = unat items * 20"
    using i by (subst unat_mult_exact) simp_all
  have it: "unat (ucast items * 20 * ONE_TEER) = unat items * 20 * 10 ^ 12"
    using i unfolding ONE_TEER_def by (subst unat_mult_exact) (simp_all add: i20)
  have b1: "unat (ucast bytes * 1000 :: u128) = unat bytes * 1000"
    using b by (subst unat_mult_exact) simp_all
  have bt: "unat (ucast bytes * 1000 * MICROTEER) = unat bytes * 1000 * 10 ^ 6"
    using b unfolding MICROTEER_def by (subst unat_mult_exact) (simp_all add: b1)
  show ?thesis
    unfolding deposit_def using i b by (subst unat_add_exact) (simp_all only: it bt, simp)
qed

section \<open>The fee split\<close>

text \<open>
  \<open>DealWithFees::on_unbalanceds\<close> on the items of its iterator. The result is the treasury's new
  state together with the imbalances dropped on the way, which burns them: the second part of the
  split and whatever the iterator still holds.
\<close>

definition DealWithFees_on_unbalanceds ::
  "('i, 't, 'z) imbalance_lib_scheme \<Rightarrow> 'i list \<Rightarrow> 't \<Rightarrow> 't \<times> 'i list" where
  "DealWithFees_on_unbalanceds L fees_then_tips t =
     (case fees_then_tips of
        [] \<Rightarrow> (t, [])
      | fees # rest \<Rightarrow>
          let split = ration L fees 1 99 in
          (case rest of
             [] \<Rightarrow> (treasury_on_unbalanced L (fst split) t, [snd split])
           | tips # rest' \<Rightarrow>
               (treasury_on_unbalanced L (merge_into L tips (fst split)) t, snd split # rest')))"

section \<open>Block limits\<close>

definition BlockHashCount :: BlockNumber where
  "BlockHashCount = 250"

definition SS58Prefix :: u8 where
  "SS58Prefix = 13"

text \<open>The closures \<open>RuntimeBlockWeights\<close> passes to \<open>for_class\<close>, and the builder chain.\<close>

definition weights_for_all :: "('w, 'p, 'z) block_env_scheme \<Rightarrow> 'w WeightsPerClass \<Rightarrow> 'w WeightsPerClass" where
  "weights_for_all E weights = weights\<lparr>base_extrinsic := ExtrinsicBaseWeight E\<rparr>"

definition weights_for_normal :: "('w, 'p, 'z) block_env_scheme \<Rightarrow> 'w WeightsPerClass \<Rightarrow> 'w WeightsPerClass" where
  "weights_for_normal E weights =
     weights\<lparr>max_total := Some (perbill_mul E (NORMAL_DISPATCH_RATIO E) (MAXIMUM_BLOCK_WEIGHT E))\<rparr>"

definition weights_for_operational :: "('w, 'p, 'z) block_env_scheme \<Rightarrow> 'w WeightsPerClass \<Rightarrow> 'w WeightsPerClass" where
  "weights_for_operational E weights =
     weights\<lparr>max_total := Some (MAXIMUM_BLOCK_WEIGHT E),
       reserved := Some (weight_sub E (MAXIMUM_BLOCK_WEIGHT E)
         (perbill_mul E (NORMAL_DISPATCH_RATIO E) (MAXIMUM_BLOCK_WEIGHT E)))\<rparr>"

definition RuntimeBlockWeights_builder ::
  "('w, 'p, 'z) block_env_scheme \<Rightarrow> ('w, 'p, 'b, 'r, 'y) block_weights_lib_scheme \<Rightarrow> 'b" where
  "RuntimeBlockWeights_builder E B =
     avg_block_initialization B (AVERAGE_ON_INITIALIZE_RATIO E)
       (for_class B [Operational] (weights_for_operational E)
         (for_class B [Normal] (weights_for_normal E)
           (for_class B (all_classes B) (weights_for_all E)
             (base_block B (BlockExecutionWeight E) (builder B)))))"

definition RuntimeBlockWeights ::
  "('w, 'p, 'z) block_env_scheme \<Rightarrow> ('w, 'p, 'b, 'r, 'y) block_weights_lib_scheme \<Rightarrow> 'r outcome" where
  "RuntimeBlockWeights E B = build_or_panic B (RuntimeBlockWeights_builder E B)"

lemmas block_weights_defs = weights_for_all_def weights_for_normal_def weights_for_operational_def
  RuntimeBlockWeights_builder_def

definition ReservedXcmpWeight :: "('w, 'p, 'z) block_env_scheme \<Rightarrow> 'w" where
  "ReservedXcmpWeight E = weight_saturating_div E (MAXIMUM_BLOCK_WEIGHT E) 4"

definition ReservedDmpWeight :: "('w, 'p, 'z) block_env_scheme \<Rightarrow> 'w" where
  "ReservedDmpWeight E = weight_saturating_div E (MAXIMUM_BLOCK_WEIGHT E) 4"

text \<open>\<open>max_block\<close> is the value of \<open>RuntimeBlockWeights::get().max_block\<close>.\<close>

definition MaximumSchedulerWeight :: "('w, 'p, 'z) block_env_scheme \<Rightarrow> 'w \<Rightarrow> 'w" where
  "MaximumSchedulerWeight E max_block = perbill_mul E (from_percent E 80) max_block"

definition MaxProposalWeight :: "('w, 'p, 'z) block_env_scheme \<Rightarrow> 'w \<Rightarrow> 'w" where
  "MaxProposalWeight E max_block = perbill_mul E (from_percent E 50) max_block"

definition MaxInstructions :: u32 where
  "MaxInstructions = 100"

section \<open>The calls of the runtime\<close>

text \<open>
  \<open>construct_runtime!\<close> generates one variant per pallet that declares calls, with the pallet's call
  as its argument (\<open>'c\<close>, opaque here); only the proxy pallet's call is looked into.
\<close>

datatype 'c proxy_call = reject_announcement 'c | other_proxy_call 'c

datatype 'c RuntimeCall =
    System 'c | ParachainSystem 'c | Timestamp 'c | Preimage 'c | Multisig 'c
  | Proxy "'c proxy_call" | Scheduler 'c | Utility 'c
  | Balances 'c | Vesting 'c
  | Treasury 'c | Democracy 'c | Council 'c | TechnicalCommittee 'c | Bounties 'c | ChildBounties 'c
  | XcmpQueue 'c | PolkadotXcm 'c | CumulusXcm 'c | DmpQueue 'c | XTokens 'c | OrmlXcm 'c
  | XcmTransactor 'c
  | Teerex 'c | Claims 'c | Teeracle 'c | Sidechain 'c | EnclaveBridge 'c

text \<open>The pallets of \<open>construct_runtime!\<close> by name, with their indices.\<close>

definition runtime_pallets :: "(string \<times> u8) list" where
  "runtime_pallets =
     [(''System'', 0), (''ParachainSystem'', 1), (''Timestamp'', 3), (''ParachainInfo'', 4),
      (''Preimage'', 5), (''Multisig'', 6), (''Proxy'', 7), (''Scheduler'', 8), (''Utility'', 9),
      (''Balances'', 10), (''TransactionPayment'', 11), (''Vesting'', 12),
      (''Treasury'', 13), (''Democracy'', 14), (''Council'', 15), (''TechnicalCommittee'', 16),
      (''Bounties'', 18), (''ChildBounties'', 19),
      (''Aura'', 23), (''AuraExt'', 24),
      (''XcmpQueue'', 30), (''PolkadotXcm'', 31), (''CumulusXcm'', 32), (''DmpQueue'', 33),
      (''XTokens'', 34), (''OrmlXcm'', 35), (''XcmTransactor'', 36),
      (''Teerex'', 50), (''Claims'', 51), (''Teeracle'', 52), (''Sidechain'', 53),
      (''EnclaveBridge'', 54)]"

text \<open>The pallets that have the part \<open>Call\<close>: the variants of \<open>RuntimeCall\<close>.\<close>

definition RuntimeCall_pallets :: "(string \<times> u8) list" where
  "RuntimeCall_pallets =
     filter (\<lambda>(n, _). n \<notin> {''ParachainInfo'', ''TransactionPayment'', ''Aura'', ''AuraExt''}) runtime_pallets"

section \<open>Proxies\<close>

datatype ProxyType = Any | NonTransfer | Governance | CancelProxy

text \<open>\<open>#[derive(Ord, PartialOrd)]\<close>: the order of the variants.\<close>

primrec proxy_type_index :: "ProxyType \<Rightarrow> nat" where
  "proxy_type_index Any = 0"
| "proxy_type_index NonTransfer = 1"
| "proxy_type_index Governance = 2"
| "proxy_type_index CancelProxy = 3"

lemma proxy_type_index_inj: "proxy_type_index t = proxy_type_index u \<longleftrightarrow> t = u"
  by (cases t; cases u) simp_all

instantiation ProxyType :: linorder
begin

definition less_eq_ProxyType :: "ProxyType \<Rightarrow> ProxyType \<Rightarrow> bool" where
  "less_eq_ProxyType t u \<longleftrightarrow> proxy_type_index t \<le> proxy_type_index u"

definition less_ProxyType :: "ProxyType \<Rightarrow> ProxyType \<Rightarrow> bool" where
  "less_ProxyType t u \<longleftrightarrow> proxy_type_index t < proxy_type_index u"

instance
  by standard (auto simp: less_eq_ProxyType_def less_ProxyType_def proxy_type_index_inj)

end

definition ProxyType_default :: ProxyType where
  "ProxyType_default = Any"

definition ProxyType_filter :: "ProxyType \<Rightarrow> 'c RuntimeCall \<Rightarrow> bool" where
  "ProxyType_filter t c =
     (case t of
        Any \<Rightarrow> True
      | NonTransfer \<Rightarrow>
          (case c of
             System _ \<Rightarrow> True | Timestamp _ \<Rightarrow> True
           | Treasury _ \<Rightarrow> True | Bounties _ \<Rightarrow> True | ChildBounties _ \<Rightarrow> True
           | Teerex _ \<Rightarrow> True | Teeracle _ \<Rightarrow> True | Sidechain _ \<Rightarrow> True
           | Proxy _ \<Rightarrow> True | Multisig _ \<Rightarrow> True
           | _ \<Rightarrow> False)
      | Governance \<Rightarrow>
          (case c of Treasury _ \<Rightarrow> True | Bounties _ \<Rightarrow> True | ChildBounties _ \<Rightarrow> True | _ \<Rightarrow> False)
      | CancelProxy \<Rightarrow>
          (case c of Proxy (reject_announcement _) \<Rightarrow> True | _ \<Rightarrow> False))"

definition ProxyType_is_superset :: "ProxyType \<Rightarrow> ProxyType \<Rightarrow> bool" where
  "ProxyType_is_superset t u =
     (if t = u then True
      else if t = Any then True
      else if u = Any then False
      else if t = NonTransfer then True
      else False)"

interpretation proxy_types: instance_filter ProxyType_filter ProxyType_is_superset
proof unfold_locales
  fix t u v :: ProxyType and c :: "'c RuntimeCall"
  show "ProxyType_is_superset t t"
    by (simp add: ProxyType_is_superset_def)
  show "ProxyType_is_superset t u \<Longrightarrow> ProxyType_is_superset u v \<Longrightarrow> ProxyType_is_superset t v"
    by (auto simp: ProxyType_is_superset_def split: if_splits)
  show "ProxyType_is_superset t u \<Longrightarrow> ProxyType_filter u c \<Longrightarrow> ProxyType_filter t c"
    by (cases t; cases u) (auto simp: ProxyType_is_superset_def ProxyType_filter_def
        split: RuntimeCall.splits proxy_call.splits)
qed

section \<open>Parameters of the pallets\<close>

text \<open>
  \<open>prod_or_fast!\<close> (\<open>helpers.rs\<close>): the second value when the runtime is built with the feature
  \<open>fast-runtime\<close>, the argument \<open>fast\<close> of the definitions below.
\<close>

definition prod_or_fast :: "bool \<Rightarrow> 'v \<Rightarrow> 'v \<Rightarrow> 'v" where
  "prod_or_fast fast production test = (if fast then test else production)"

definition MinimumPeriod :: u64 where
  "MinimumPeriod = SLOT_DURATION div 2"

definition ExistentialDeposit :: Balance where
  "ExistentialDeposit = MILLITEER"

definition TransferFee :: Balance where
  "TransferFee = MILLITEER"

definition CreationFee :: Balance where
  "CreationFee = MILLITEER"

definition TransactionByteFee :: Balance where
  "TransactionByteFee = MICROTEER"

definition MaxLocks :: u32 where
  "MaxLocks = 50"

definition MaxReserves :: u32 where
  "MaxReserves = 50"

definition OperationalFeeMultiplier :: u8 where
  "OperationalFeeMultiplier = 5"

definition DepositBase :: Balance where
  "DepositBase = deposit 1 88"

definition DepositFactor :: Balance where
  "DepositFactor = deposit 0 32"

definition MaxSignatories :: u16 where
  "MaxSignatories = 10"

definition ProxyDepositBase :: Balance where
  "ProxyDepositBase = deposit 1 8"

definition ProxyDepositFactor :: Balance where
  "ProxyDepositFactor = deposit 0 33"

definition MaxProxies :: u16 where
  "MaxProxies = 32"

definition AnnouncementDepositBase :: Balance where
  "AnnouncementDepositBase = deposit 1 8"

definition AnnouncementDepositFactor :: Balance where
  "AnnouncementDepositFactor = deposit 0 66"

definition MaxPending :: u16 where
  "MaxPending = 32"

definition MinVestedTransfer :: Balance where
  "MinVestedTransfer = 1 * ONE_TEER"

definition MAX_VESTING_SCHEDULES :: u32 where
  "MAX_VESTING_SCHEDULES = 28"

definition MaxScheduledPerBlock :: u32 where
  "MaxScheduledPerBlock = 50"

definition PreimageBaseDeposit :: Balance where
  "PreimageBaseDeposit = 1 * ONE_TEER"

definition PreimageByteDeposit :: Balance where
  "PreimageByteDeposit = deposit 0 1"

definition MomentsPerDay :: Moment where
  "MomentsPerDay = 86400000"

definition MaxAttestationRenewalPeriod :: Moment where
  "MaxAttestationRenewalPeriod = 172800000"

definition EarlyBlockProposalLenience :: u64 where
  "EarlyBlockProposalLenience = 100"

definition MaxWhitelistedReleases :: u32 where
  "MaxWhitelistedReleases = 10"

definition MaxOracleBlobLen :: u32 where
  "MaxOracleBlobLen = 4096"

subsection \<open>Treasury and bounties\<close>

definition ProposalBond :: "(u32 \<Rightarrow> 'm) \<Rightarrow> 'm" where
  "ProposalBond pm = pm 5"

definition Burn :: "(u32 \<Rightarrow> 'm) \<Rightarrow> 'm" where
  "Burn pm = pm 1"

definition TreasuryPalletId :: "u8 list" where
  "TreasuryPalletId = map of_char ''py/trsry''"

definition ProposalBondMinimum :: Balance where
  "ProposalBondMinimum = 100 * MILLITEER"

definition ProposalBondMaximum :: Balance where
  "ProposalBondMaximum = 500 * ONE_TEER"

definition SpendPeriod :: "bool \<Rightarrow> BlockNumber" where
  "SpendPeriod fast = prod_or_fast fast (6 * DAYS) (6 * MINUTES)"

definition DataDepositPerByte :: Balance where
  "DataDepositPerByte = 100 * MILLITEER"

definition MaxApprovals :: u32 where
  "MaxApprovals = 10"

definition MaxBalance :: Balance where
  "MaxBalance = - 1"

definition BountyDepositBase :: Balance where
  "BountyDepositBase = 1 * ONE_TEER"

definition BountyDepositPayoutDelay :: "bool \<Rightarrow> BlockNumber" where
  "BountyDepositPayoutDelay fast = prod_or_fast fast (4 * DAYS) (4 * MINUTES)"

definition BountyUpdatePeriod :: "bool \<Rightarrow> BlockNumber" where
  "BountyUpdatePeriod fast = prod_or_fast fast (90 * DAYS) (15 * MINUTES)"

definition MaximumReasonLength :: u32 where
  "MaximumReasonLength = 16384"

definition CuratorDepositMin :: Balance where
  "CuratorDepositMin = 1 * ONE_TEER"

definition CuratorDepositMax :: Balance where
  "CuratorDepositMax = 100 * ONE_TEER"

definition BountyValueMinimum :: Balance where
  "BountyValueMinimum = 100 * ONE_TEER"

definition MaxActiveChildBountyCount :: u32 where
  "MaxActiveChildBountyCount = 100"

definition ChildBountyValueMinimum :: Balance where
  "ChildBountyValueMinimum = BountyValueMinimum div 10"

subsection \<open>Collectives and democracy\<close>

definition CouncilMotionDuration :: "bool \<Rightarrow> BlockNumber" where
  "CouncilMotionDuration fast = prod_or_fast fast (3 * DAYS) (2 * MINUTES)"

definition CouncilMaxProposals :: u32 where
  "CouncilMaxProposals = 100"

definition CouncilMaxMembers :: u32 where
  "CouncilMaxMembers = 100"

definition TechnicalMotionDuration :: "bool \<Rightarrow> BlockNumber" where
  "TechnicalMotionDuration fast = prod_or_fast fast (3 * DAYS) (2 * MINUTES)"

definition TechnicalMaxProposals :: u32 where
  "TechnicalMaxProposals = 100"

definition TechnicalMaxMembers :: u32 where
  "TechnicalMaxMembers = 100"

definition LaunchPeriod :: "bool \<Rightarrow> BlockNumber" where
  "LaunchPeriod fast = prod_or_fast fast (5 * DAYS) (5 * MINUTES)"

definition VotingPeriod :: "bool \<Rightarrow> BlockNumber" where
  "VotingPeriod fast = prod_or_fast fast (5 * DAYS) (5 * MINUTES)"

definition FastTrackVotingPeriod :: "bool \<Rightarrow> BlockNumber" where
  "FastTrackVotingPeriod fast = prod_or_fast fast (3 * HOURS) (2 * MINUTES)"

definition MinimumDeposit :: Balance where
  "MinimumDeposit = 100 * ONE_TEER"

definition EnactmentPeriod :: "bool \<Rightarrow> BlockNumber" where
  "EnactmentPeriod fast = prod_or_fast fast (2 * DAYS) 1"

definition CooloffPeriod :: "bool \<Rightarrow> BlockNumber" where
  "CooloffPeriod fast = prod_or_fast fast (7 * DAYS) (1 * MINUTES)"

definition InstantAllowed :: bool where
  "InstantAllowed = True"

definition MaxVotes :: u32 where
  "MaxVotes = 100"

definition MaxProposals :: u32 where
  "MaxProposals = 100"

lemmas period_defs = SpendPeriod_def BountyDepositPayoutDelay_def BountyUpdatePeriod_def
  CouncilMotionDuration_def TechnicalMotionDuration_def LaunchPeriod_def VotingPeriod_def
  FastTrackVotingPeriod_def EnactmentPeriod_def CooloffPeriod_def prod_or_fast_def time_defs

section \<open>Privileged origins\<close>

type_synonym CouncilInstance = collective

definition EnsureRootOrMoreThanHalfCouncil :: "('a, 'z) ensure_lib_scheme \<Rightarrow> 'a origin \<Rightarrow> bool" where
  "EnsureRootOrMoreThanHalfCouncil L =
     EitherOfDiverse L (EnsureRoot L) (EnsureProportionMoreThan L Instance1 1 2)"

definition EnsureRootOrMoreThanHalfTechnicalCommittee :: "('a, 'z) ensure_lib_scheme \<Rightarrow> 'a origin \<Rightarrow> bool" where
  "EnsureRootOrMoreThanHalfTechnicalCommittee L =
     EitherOfDiverse L (EnsureRoot L) (EnsureProportionAtLeast L Instance2 1 2)"

definition EnsureRootOrAllTechnicalCommittee :: "('a, 'z) ensure_lib_scheme \<Rightarrow> 'a origin \<Rightarrow> bool" where
  "EnsureRootOrAllTechnicalCommittee L =
     EitherOfDiverse L (EnsureRoot L) (EnsureProportionAtLeast L Instance2 1 1)"

lemma privileged_origin_iff:
  assumes "ensure_laws L"
  shows "EnsureRootOrMoreThanHalfCouncil L q \<longleftrightarrow>
      q = Root \<or> (\<exists>y m. q = Members Instance1 y m \<and> unat m < 2 * unat y)"
    and "EnsureRootOrMoreThanHalfTechnicalCommittee L q \<longleftrightarrow>
      q = Root \<or> (\<exists>y m. q = Members Instance2 y m \<and> unat m \<le> 2 * unat y)"
    and "EnsureRootOrAllTechnicalCommittee L q \<longleftrightarrow>
      q = Root \<or> (\<exists>y m. q = Members Instance2 y m \<and> unat m \<le> unat y)"
  using assms
  by (simp_all add: ensure_laws_def EnsureRootOrMoreThanHalfCouncil_def
      EnsureRootOrMoreThanHalfTechnicalCommittee_def EnsureRootOrAllTechnicalCommittee_def mult.commute)

text \<open>
  \<open>pallet_treasury::Config\<close>. \<open>Permill::from_percent\<close> is a parameter \<open>pm\<close>. The treasury burns nothing (\<open>Burn\<close> and
  \<open>BurnDestination\<close> are \<open>()\<close>) and takes no slashes of its own (\<open>OnSlash\<close> is \<open>()\<close>).
\<close>

record ('a, 'm) treasury_config =
  tr_PalletId :: "u8 list"
  tr_Currency :: string
  ApproveOrigin :: "'a origin \<Rightarrow> bool"
  RejectOrigin :: "'a origin \<Rightarrow> bool"
  tr_ProposalBond :: 'm
  tr_ProposalBondMinimum :: Balance
  tr_ProposalBondMaximum :: Balance
  tr_SpendPeriod :: BlockNumber
  SpendFunds :: string
  SpendOrigin :: "'a origin \<Rightarrow> Balance option"
  tr_MaxApprovals :: u32
  tr_WeightInfo :: weight_source

text \<open>\<open>EnsureWithSuccess<EnsureRoot, _, MaxBalance>\<close> answers with the amount that may be spent.\<close>

definition pallet_treasury_config ::
  "('a, 'z) ensure_lib_scheme \<Rightarrow> (u32 \<Rightarrow> 'm) \<Rightarrow> bool \<Rightarrow> ('a, 'm) treasury_config" where
  "pallet_treasury_config L pm fast =
     \<lparr>tr_PalletId = TreasuryPalletId,
      tr_Currency = ''Balances'',
      ApproveOrigin = EnsureRootOrMoreThanHalfCouncil L,
      RejectOrigin = EnsureRootOrMoreThanHalfCouncil L,
      tr_ProposalBond = ProposalBond pm,
      tr_ProposalBondMinimum = ProposalBondMinimum,
      tr_ProposalBondMaximum = ProposalBondMaximum,
      tr_SpendPeriod = SpendPeriod fast,
      SpendFunds = ''Bounties'',
      SpendOrigin = (\<lambda>q. if EnsureRoot L q then Some MaxBalance else None),
      tr_MaxApprovals = MaxApprovals,
      tr_WeightInfo = Benchmarked ''pallet_treasury''\<rparr>"

text \<open>\<open>pallet_democracy::Config\<close>.\<close>

record 'a democracy_config =
  dm_Currency :: string
  dm_EnactmentPeriod :: BlockNumber
  dm_LaunchPeriod :: BlockNumber
  dm_VotingPeriod :: BlockNumber
  VoteLockingPeriod :: BlockNumber
  dm_MinimumDeposit :: Balance
  ExternalOrigin :: "'a origin \<Rightarrow> bool"
  ExternalMajorityOrigin :: "'a origin \<Rightarrow> bool"
  ExternalDefaultOrigin :: "'a origin \<Rightarrow> bool"
  FastTrackOrigin :: "'a origin \<Rightarrow> bool"
  InstantOrigin :: "'a origin \<Rightarrow> bool"
  dm_InstantAllowed :: bool
  dm_FastTrackVotingPeriod :: BlockNumber
  CancellationOrigin :: "'a origin \<Rightarrow> bool"
  BlacklistOrigin :: "'a origin \<Rightarrow> bool"
  CancelProposalOrigin :: "'a origin \<Rightarrow> bool"
  VetoOrigin :: "'a origin \<Rightarrow> bool"
  dm_CooloffPeriod :: BlockNumber
  dm_Slash :: string
  dm_Scheduler :: string
  dm_MaxVotes :: u32
  dm_WeightInfo :: weight_source
  dm_MaxProposals :: u32
  dm_Preimages :: string
  MaxDeposits :: u32
  MaxBlacklisted :: u32
  SubmitOrigin :: "'a origin \<Rightarrow> bool"

definition pallet_democracy_config :: "('a, 'z) ensure_lib_scheme \<Rightarrow> bool \<Rightarrow> 'a democracy_config" where
  "pallet_democracy_config L fast =
     \<lparr>dm_Currency = ''Balances'',
      dm_EnactmentPeriod = EnactmentPeriod fast,
      dm_LaunchPeriod = LaunchPeriod fast,
      dm_VotingPeriod = VotingPeriod fast,
      VoteLockingPeriod = EnactmentPeriod fast,
      dm_MinimumDeposit = MinimumDeposit,
      ExternalOrigin = EnsureRootOrMoreThanHalfCouncil L,
      ExternalMajorityOrigin = EnsureRootOrMoreThanHalfCouncil L,
      ExternalDefaultOrigin = EnsureRootOrMoreThanHalfCouncil L,
      FastTrackOrigin = EnsureRootOrMoreThanHalfTechnicalCommittee L,
      InstantOrigin = EnsureRootOrMoreThanHalfTechnicalCommittee L,
      dm_InstantAllowed = InstantAllowed,
      dm_FastTrackVotingPeriod = FastTrackVotingPeriod fast,
      CancellationOrigin = EnsureRoot L,
      BlacklistOrigin = EnsureRootOrMoreThanHalfCouncil L,
      CancelProposalOrigin = EnsureRootOrAllTechnicalCommittee L,
      VetoOrigin = EnsureMember L Instance2,
      dm_CooloffPeriod = CooloffPeriod fast,
      dm_Slash = ''Treasury'',
      dm_Scheduler = ''Scheduler'',
      dm_MaxVotes = MaxVotes,
      dm_WeightInfo = Benchmarked ''pallet_democracy'',
      dm_MaxProposals = MaxProposals,
      dm_Preimages = ''Preimage'',
      MaxDeposits = 100,
      MaxBlacklisted = 100,
      SubmitOrigin = EnsureSigned L\<rparr>"

section \<open>Inherents\<close>

definition CheckInherents_check_inherents ::
  "('proof, 'slot, 'prov, 'data, 'block, 'res, 'e, 'z) inherent_lib_scheme \<Rightarrow> 'block \<Rightarrow> 'proof \<Rightarrow>
   'res outcome" where
  "CheckInherents_check_inherents L block relay_state_proof =
     bind_outcome
       (expect_result ''Could not read the relay chain slot from the proof''
          (read_slot L relay_state_proof))
       (\<lambda>relay_chain_slot. bind_outcome
          (expect_result ''Could not create the timestamp inherent data''
             (create_inherent_data L (from_relay_chain_slot_and_duration L relay_chain_slot 6)))
          (\<lambda>inherent_data. Ret (check_extrinsics L inherent_data block)))"

section \<open>Properties\<close>

subsection \<open>Proxies\<close>

lemma superset_calls:
  assumes "\<not> ProxyType_is_superset t u"
  shows "\<exists>c :: 'c RuntimeCall. ProxyType_filter u c \<and> \<not> ProxyType_filter t c"
proof -
  fix x :: 'c
  have "ProxyType_filter u (Balances x) \<and> \<not> ProxyType_filter t (Balances x) \<or>
      ProxyType_filter u (System x) \<and> \<not> ProxyType_filter t (System x) \<or>
      ProxyType_filter u (Treasury x) \<and> \<not> ProxyType_filter t (Treasury x) \<or>
      ProxyType_filter u (Proxy (reject_announcement x)) \<and>
        \<not> ProxyType_filter t (Proxy (reject_announcement x))"
    using assms by (cases t; cases u) (simp_all add: ProxyType_is_superset_def ProxyType_filter_def)
  then show ?thesis by blast
qed

text \<open>
  C6. The hand-written order on proxy types is exactly the inclusion of the sets
  of calls their filters let through: \<open>is_superset\<close> says yes neither too often, which would let a
  proxy hand out rights it lacks, nor too rarely.
\<close>

theorem proxy_superset_exact:
  "ProxyType_is_superset t u \<longleftrightarrow>
   (\<forall>c :: 'c RuntimeCall. ProxyType_filter u c \<longrightarrow> ProxyType_filter t c)"
  using superset_calls [of t u] proxy_types.superset_sound [of t u] by blast

theorem proxy_superset_exact_witness:
  "ProxyType_filter Governance (Bounties ()) \<and> ProxyType_filter NonTransfer (Bounties ())"
proof -
  have "ProxyType_is_superset NonTransfer Governance" "ProxyType_filter Governance (Bounties ())"
    by (simp_all add: ProxyType_is_superset_def ProxyType_filter_def)
  then show ?thesis
    using proxy_superset_exact [of NonTransfer Governance, where 'c = unit] by blast
qed

text \<open>
  However long a chain of proxies is, each of a type its predecessor may hand
  out, its last member can make no call the first one could not make.
\<close>

lemma proxy_no_escalation:
  assumes "successively ProxyType_is_superset (t # us)" "u \<in> set us" "ProxyType_filter u c"
  shows "ProxyType_filter t c"
  using assms by (auto simp: proxy_types.delegation_successively [symmetric] dest: proxy_types.no_escalation)

lemma proxy_no_escalation_witness:
  "ProxyType_filter Any (Proxy (reject_announcement ()))"
  by (rule proxy_no_escalation [of Any "[NonTransfer, NonTransfer, CancelProxy]" CancelProxy])
     (simp_all add: ProxyType_is_superset_def ProxyType_filter_def)

text \<open>
  C7. A proxy of any type other than \<open>Any\<close> can call none of the pallets that move funds directly (balances, vesting,
  claims), wrap calls into a batch or put them off (utility, scheduler, preimages), or shield funds (the enclave bridge),
  none of the seven pallets that send, execute or queue XCM messages, none that hold votes (democracy and the two
  collectives), and not the parachain system.
\<close>

theorem restricted_proxies_never_transfer:
  assumes "t \<noteq> Any" "ProxyType_filter t c"
  shows "c \<notin> range Balances \<union> range Vesting \<union> range Claims \<union> range Utility \<union> range Scheduler \<union> range Preimage \<union>
      range EnclaveBridge \<and>
    c \<notin> range XcmpQueue \<union> range PolkadotXcm \<union> range CumulusXcm \<union> range DmpQueue \<union> range XTokens \<union> range OrmlXcm \<union>
      range XcmTransactor \<and>
    c \<notin> range Democracy \<union> range Council \<union> range TechnicalCommittee \<union> range ParachainSystem"
  using assms by (cases t) (auto simp: ProxyType_filter_def)

theorem restricted_proxies_never_transfer_witness:
  "ProxyType_filter NonTransfer (Teerex (0 :: nat)) \<and> Teerex (0 :: nat) \<notin> range Balances"
proof -
  have "ProxyType_filter NonTransfer (Teerex (0 :: nat))"
    by (simp add: ProxyType_filter_def)
  then show ?thesis
    using restricted_proxies_never_transfer [of NonTransfer "Teerex 0"] by blast
qed

subsection \<open>Fees\<close>

lemma fee_split_parts:
  assumes "imbalance_laws L"
  shows "peek L (fst (ration L f 1 99)) = peek L f div 100"
    and "peek L (snd (ration L f 1 99)) = peek L f - peek L f div 100"
    and "peek L f + peek L i < 2 ^ 128 \<Longrightarrow>
      peek L (merge_into L i (fst (ration L f 1 99))) = peek L i + peek L f div 100"
proof -
  have b: "0 < unat (1 :: u32) + unat (99 :: u32)" "unat (1 :: u32) + unat (99 :: u32) < 2 ^ 32"
      "peek L f * unat (1 :: u32) < 2 ^ 128"
    using peek_less [OF assms, of f] by simp_all
  show p: "peek L (fst (ration L f 1 99)) = peek L f div 100"
    using ration_parts [OF assms b] by simp
  show "peek L (snd (ration L f 1 99)) = peek L f - peek L f div 100"
    using ration_parts [OF assms b] p by simp
  assume "peek L f + peek L i < 2 ^ 128"
  then have "peek L i + peek L (fst (ration L f 1 99)) < 2 ^ 128"
    using div_le_dividend [of "peek L f" 100] unfolding p by linarith
  then show "peek L (merge_into L i (fst (ration L f 1 99))) = peek L i + peek L f div 100"
    by (simp only: merge_into_peek [OF assms] p)
qed

text \<open>
  C8. Of a transaction's fee the treasury receives one part in a hundred, rounded
  down, and of the tip everything; whatever the iterator holds, no currency is lost: the treasury's
  gain and the burnt imbalances together are the fee, the tip and the rest.
\<close>

theorem fee_split_conserves:
  assumes L: "imbalance_laws L" and small: "(\<Sum>i\<leftarrow>fts. peek L i) < 2 ^ 128"
  shows "treasury_pot L (fst (DealWithFees_on_unbalanceds L fts t)) +
      (\<Sum>i\<leftarrow>snd (DealWithFees_on_unbalanceds L fts t). peek L i) =
      treasury_pot L t + (\<Sum>i\<leftarrow>fts. peek L i) \<and>
    treasury_pot L (fst (DealWithFees_on_unbalanceds L fts t)) = treasury_pot L t +
      (case fts of [] \<Rightarrow> 0 | [fees] \<Rightarrow> peek L fees div 100
       | fees # tips # _ \<Rightarrow> peek L fees div 100 + peek L tips)"
proof (cases fts)
  case (Cons f rest)
  note facts = DealWithFees_on_unbalanceds_def Let_def treasury_on_unbalanced_pot [OF L] fee_split_parts [OF L]
  show ?thesis
  proof (cases rest)
    case (Cons i more)
    with small \<open>fts = f # rest\<close> have "peek L f + peek L i < 2 ^ 128" by simp
    with \<open>fts = f # rest\<close> Cons show ?thesis by (simp add: facts)
  qed (simp add: \<open>fts = f # rest\<close> facts)
qed (simp add: DealWithFees_on_unbalanceds_def)

theorem fee_split_conserves_witness:
  "fst (DealWithFees_on_unbalanceds example_imbalances [1234, 7] 1000) = 1000 + 12 + 7"
  using fee_split_conserves [OF example_imbalances_laws, of "[1234, 7]" 1000]
  by (simp add: example_imbalances_def)

subsection \<open>Deposits\<close>

text \<open>
  The storage deposit never overflows \<open>u128\<close>, for any \<open>u32\<close> arguments: it is 20 TEER
  per item and a thousandth of a TEER per byte, monotone in both; and every deposit for at least one
  item or byte (multisig, proxy, announcement, preimage) is at least the existential deposit.
\<close>

lemma deposit_exact:
  "unat (deposit items bytes) = unat items * 20 * 10 ^ 12 + unat bytes * 10 ^ 9 \<and>
   (items \<le> items' \<longrightarrow> bytes \<le> bytes' \<longrightarrow> deposit items bytes \<le> deposit items' bytes') \<and>
   (0 < items \<or> 0 < bytes \<longrightarrow> ExistentialDeposit \<le> deposit items bytes)"
proof (intro conjI impI)
  show "unat (deposit items bytes) = unat items * 20 * 10 ^ 12 + unat bytes * 10 ^ 9"
    by (simp add: unat_deposit)
  show "deposit items bytes \<le> deposit items' bytes'" if "items \<le> items'" "bytes \<le> bytes'"
    using that by (simp add: word_le_nat_alt unat_deposit add_mono)
  have "0 < unat items \<or> 0 < unat bytes" if "0 < items \<or> 0 < bytes"
    using that by (simp add: word_less_nat_alt)
  then show "ExistentialDeposit \<le> deposit items bytes" if "0 < items \<or> 0 < bytes"
    using that by (auto simp: word_le_nat_alt unat_deposit ExistentialDeposit_def MILLITEER_def)
qed

lemma deposit_exact_witness:
  "unat DepositBase = 20088000000000 \<and> AnnouncementDepositBase \<le> DepositBase \<and>
   ExistentialDeposit \<le> PreimageByteDeposit"
  using deposit_exact [of 1 88 1 88] deposit_exact [of 1 8 1 88] deposit_exact [of 0 1 0 1]
  by (simp add: DepositBase_def AnnouncementDepositBase_def PreimageByteDeposit_def)

subsection \<open>Block limits\<close>

text \<open>
  C10. The runtime's limits split the block exactly: normal extrinsics get three
  quarters of the maximum, operational ones may use all of it, and what is reserved for them is
  the maximum less the normal share, with no rounding loss in time or proof size; every class has
  the benchmarked base weight, and no other limit of the mandatory class is touched.
\<close>

theorem block_limits_partition:
  assumes E: "limits_known E" and B: "builder_laws B"
  shows "\<exists>n r. per_class B (RuntimeBlockWeights_builder E B) Normal =
        (per_class B (builder B) Normal)\<lparr>base_extrinsic := ExtrinsicBaseWeight E, max_total := Some n\<rparr> \<and>
      per_class B (RuntimeBlockWeights_builder E B) Operational =
        (per_class B (builder B) Operational)\<lparr>base_extrinsic := ExtrinsicBaseWeight E,
           max_total := Some (MAXIMUM_BLOCK_WEIGHT E), reserved := Some r\<rparr> \<and>
      per_class B (RuntimeBlockWeights_builder E B) Mandatory =
        (per_class B (builder B) Mandatory)\<lparr>base_extrinsic := ExtrinsicBaseWeight E\<rparr> \<and>
      unat (ref_time E n) = 375 * 10 ^ 9 \<and> unat (proof_size E n) = 3 * 5242880 div 4 \<and>
      unat (ref_time E n) + unat (ref_time E r) = unat (ref_time E (MAXIMUM_BLOCK_WEIGHT E)) \<and>
      unat (proof_size E n) + unat (proof_size E r) = unat (proof_size E (MAXIMUM_BLOCK_WEIGHT E))"
proof (intro exI conjI)
  let ?n = "normal_max_total E" and ?r = "weight_sub E (MAXIMUM_BLOCK_WEIGHT E) (normal_max_total E)"
  note classes = per_class_builder [OF B] block_weights_defs normal_max_total_def
  note max = MAXIMUM_BLOCK_WEIGHT_parts [OF limits_knownD(1,4) [OF E]]
  note parts = normal_max_total_parts [OF E]
  show "per_class B (RuntimeBlockWeights_builder E B) Normal =
      (per_class B (builder B) Normal)\<lparr>base_extrinsic := ExtrinsicBaseWeight E, max_total := Some ?n\<rparr>"
    "per_class B (RuntimeBlockWeights_builder E B) Operational =
      (per_class B (builder B) Operational)\<lparr>base_extrinsic := ExtrinsicBaseWeight E,
         max_total := Some (MAXIMUM_BLOCK_WEIGHT E), reserved := Some ?r\<rparr>"
    "per_class B (RuntimeBlockWeights_builder E B) Mandatory =
      (per_class B (builder B) Mandatory)\<lparr>base_extrinsic := ExtrinsicBaseWeight E\<rparr>"
    by (simp_all add: classes)
  show "unat (ref_time E ?n) = 375 * 10 ^ 9" "unat (proof_size E ?n) = 3 * 5242880 div 4"
    by (simp_all add: parts)
  have le: "ref_time E ?n \<le> ref_time E (MAXIMUM_BLOCK_WEIGHT E)"
    "proof_size E ?n \<le> proof_size E (MAXIMUM_BLOCK_WEIGHT E)"
    by (simp_all add: word_le_nat_alt parts max)
  then have "ref_time E ?r = ref_time E (MAXIMUM_BLOCK_WEIGHT E) - ref_time E ?n"
    "proof_size E ?r = proof_size E (MAXIMUM_BLOCK_WEIGHT E) - proof_size E ?n"
    using limits_knownD(3) [OF E] by (simp_all add: weight_arith_laws_def)
  with le show "unat (ref_time E ?n) + unat (ref_time E ?r) = unat (ref_time E (MAXIMUM_BLOCK_WEIGHT E))"
    "unat (proof_size E ?n) + unat (proof_size E ?r) = unat (proof_size E (MAXIMUM_BLOCK_WEIGHT E))"
    by (simp_all add: unat_sub word_le_nat_alt)
qed

theorem block_limits_partition_witness:
  "max_total (per_class list_builder (RuntimeBlockWeights_builder pair_env list_builder) Normal) =
   Some (375000000000, 3932160)"
proof -
  obtain n where n: "max_total (per_class list_builder (RuntimeBlockWeights_builder pair_env list_builder) Normal) = Some n"
    "unat (ref_time pair_env n) = 375 * 10 ^ 9" "unat (proof_size pair_env n) = 3 * 5242880 div 4"
    using block_limits_partition [OF limits_known_pair_env list_builder_laws] by auto
  then have "unat (fst n) = unat (375000000000 :: u64)" "unat (snd n) = unat (3932160 :: u64)"
    by (simp_all add: pair_env_def)
  then have "n = (375000000000, 3932160)"
    by (simp add: prod_eq_iff word_unat_eq_iff)
  with n show ?thesis by simp
qed

subsection \<open>Governance\<close>

lemmas governance_config_defs = pallet_treasury_config_def pallet_democracy_config_def

text \<open>
  C9. Who may do what: a treasury proposal is approved by more than half of the
  council, a referendum fast-tracked by at least half of the technical committee, a proposal
  cancelled before it passes only by the whole technical committee, a passed one only by root, and
  the treasury spent from directly only by root; no collective holds a power of the other, and no
  signed account holds any of them.
\<close>

theorem governance_thresholds:
  assumes "ensure_laws L"
  shows "(ApproveOrigin (pallet_treasury_config L pm fast) q \<longleftrightarrow>
      q = Root \<or> (\<exists>y m. q = Members Instance1 y m \<and> unat m < 2 * unat y)) \<and>
    (FastTrackOrigin (pallet_democracy_config L fast) q \<longleftrightarrow>
      q = Root \<or> (\<exists>y m. q = Members Instance2 y m \<and> unat m \<le> 2 * unat y)) \<and>
    (CancelProposalOrigin (pallet_democracy_config L fast) q \<longleftrightarrow>
      q = Root \<or> (\<exists>y m. q = Members Instance2 y m \<and> unat m \<le> unat y)) \<and>
    (CancellationOrigin (pallet_democracy_config L fast) q \<longleftrightarrow> q = Root) \<and>
    (SpendOrigin (pallet_treasury_config L pm fast) q \<noteq> None \<longleftrightarrow> q = Root) \<and>
    (VetoOrigin (pallet_democracy_config L fast) q \<longleftrightarrow> (\<exists>a. q = Member Instance2 a)) \<and>
    (\<forall>f \<in> {ExternalOrigin, ExternalMajorityOrigin, ExternalDefaultOrigin, BlacklistOrigin}.
      f (pallet_democracy_config L fast) q \<longleftrightarrow> ApproveOrigin (pallet_treasury_config L pm fast) q)"
  using assms by (simp add: governance_config_defs privileged_origin_iff ensure_laws_def)

theorem governance_thresholds_witness:
  "ApproveOrigin (pallet_treasury_config example_ensure unat False) (Members Instance1 4 7) \<and>
   \<not> ApproveOrigin (pallet_treasury_config example_ensure unat False) (Members Instance1 4 8) \<and>
   FastTrackOrigin (pallet_democracy_config example_ensure False) (Members Instance2 4 8) \<and>
   \<not> CancelProposalOrigin (pallet_democracy_config example_ensure False) (Members Instance2 4 8)"
  using governance_thresholds [OF example_ensure_laws, of unat False "Members Instance1 4 7"]
    governance_thresholds [OF example_ensure_laws, of unat False "Members Instance1 4 8"]
    governance_thresholds [OF example_ensure_laws, of unat False "Members Instance2 4 8"]
  by simp

text \<open>
  The origin named \<open>EnsureRootOrMoreThanHalfTechnicalCommittee\<close> accepts
  an exact half of the technical committee, which the council's origin of the analogous name does
  not: a tied committee can table a referendum at once, a tied council can approve nothing.
\<close>

lemma half_committee_fast_tracks:
  assumes "ensure_laws L" "unat m = 2 * unat y"
  shows "EnsureRootOrMoreThanHalfTechnicalCommittee L (Members Instance2 y m) \<and>
    InstantOrigin (pallet_democracy_config L fast) (Members Instance2 y m) \<and>
    dm_InstantAllowed (pallet_democracy_config L fast) \<and>
    \<not> EnsureRootOrMoreThanHalfCouncil L (Members Instance1 y m)"
  using assms by (simp add: governance_config_defs privileged_origin_iff InstantAllowed_def)

lemma half_committee_fast_tracks_witness:
  "InstantOrigin (pallet_democracy_config example_ensure False) (Members Instance2 3 6)"
  using half_committee_fast_tracks [OF example_ensure_laws, of 6 3 False] by simp

text \<open>
  In the production build every governance period is the wall-clock time it is
  written as, at one block every twelve seconds and without wrapping around \<open>u32\<close>; in both builds
  the treasury's spend period is not zero (a zero period makes the treasury panic), voters stay
  locked until their decision is enacted, a fast-tracked vote is no longer than an ordinary one,
  and the feature \<open>fast-runtime\<close> only ever shortens a period.
\<close>

lemma periods_exact:
  "unat (SpendPeriod False) * unat MILLISECS_PER_BLOCK = 6 * 86400000 \<and>
   unat (BountyDepositPayoutDelay False) * unat MILLISECS_PER_BLOCK = 4 * 86400000 \<and>
   unat (BountyUpdatePeriod False) * unat MILLISECS_PER_BLOCK = 90 * 86400000 \<and>
   unat (CouncilMotionDuration False) * unat MILLISECS_PER_BLOCK = 3 * 86400000 \<and>
   unat (TechnicalMotionDuration False) * unat MILLISECS_PER_BLOCK = 3 * 86400000 \<and>
   unat (LaunchPeriod False) * unat MILLISECS_PER_BLOCK = 5 * 86400000 \<and>
   unat (VotingPeriod False) * unat MILLISECS_PER_BLOCK = 5 * 86400000 \<and>
   unat (FastTrackVotingPeriod False) * unat MILLISECS_PER_BLOCK = 3 * 3600000 \<and>
   unat (EnactmentPeriod False) * unat MILLISECS_PER_BLOCK = 2 * 86400000 \<and>
   unat (CooloffPeriod False) * unat MILLISECS_PER_BLOCK = 7 * 86400000 \<and>
   tr_SpendPeriod (pallet_treasury_config L pm fast) \<noteq> 0 \<and>
   dm_EnactmentPeriod (pallet_democracy_config L fast) \<le> VoteLockingPeriod (pallet_democracy_config L fast) \<and>
   dm_FastTrackVotingPeriod (pallet_democracy_config L fast) \<le> dm_VotingPeriod (pallet_democracy_config L fast) \<and>
   (\<forall>p \<in> {SpendPeriod, BountyDepositPayoutDelay, BountyUpdatePeriod, CouncilMotionDuration,
      TechnicalMotionDuration, LaunchPeriod, VotingPeriod, FastTrackVotingPeriod, EnactmentPeriod,
      CooloffPeriod}. 0 < p True \<and> p True \<le> p False)"
  by (simp add: governance_config_defs period_defs)

lemma periods_exact_witness:
  "unat (FastTrackVotingPeriod True) \<le> unat (FastTrackVotingPeriod False) \<and>
   unat (SpendPeriod False) * unat MILLISECS_PER_BLOCK = 6 * 86400000"
  using periods_exact [of example_ensure unat False] by (simp add: word_le_nat_alt)

end
