(* ===== verification/Integritee_Config.thy ===== *)
theory Integritee_Config
  imports Integritee_Runtime
begin

text \<open>
  The remaining \<open>impl ... Config for Runtime\<close> blocks of \<open>integritee-runtime/src/lib.rs\<close> and the parameters
  they need, in the order of the file: one definition per block, an instance of the record for the
  pallet's trait.
\<close>

section \<open>Parameters\<close>

definition RuntimeBlockLength :: "('w, 'p, 'z) block_env_scheme \<Rightarrow> 'p block_length_lib \<Rightarrow> DispatchClass \<Rightarrow> u32" where
  "RuntimeBlockLength E max_with_normal_ratio = max_with_normal_ratio (5 * 1024 * 1024) (NORMAL_DISPATCH_RATIO E)"

definition UnvestedFundsAllowedWithdrawReasons :: "('r, 'z) withdraw_lib_scheme \<Rightarrow> 'r" where
  "UnvestedFundsAllowedWithdrawReasons W = wr_except W (wr_union W (wr_TRANSFER W) (wr_RESERVE W))"

definition MaxAuthorities :: u32 where
  "MaxAuthorities = 100000"

definition Prefix :: "u8 list" where
  "Prefix = map of_char ''Pay TEERs to the integriTEE account:''"

definition CuratorDepositMultiplier :: "(u32 \<Rightarrow> 'm) \<Rightarrow> 'm" where
  "CuratorDepositMultiplier pm = pm 50"

text \<open>Parameters that no pallet of this runtime uses (of an assets pallet it does not have).\<close>

definition AssetDeposit :: Balance where
  "AssetDeposit = ONE_TEER"

definition ApprovalDeposit :: Balance where
  "ApprovalDeposit = 100 * MILLITEER"

definition StringLimit :: u32 where
  "StringLimit = 50"

definition MetadataDepositBase :: Balance where
  "MetadataDepositBase = ONE_TEER"

definition MetadataDepositPerByte :: Balance where
  "MetadataDepositPerByte = 10 * MILLITEER"

section \<open>System pallets\<close>

text \<open>\<open>Everything\<close> as base filter lets every call through.\<close>

definition frame_system_config ::
  "('w, 'p, 'z) block_env_scheme \<Rightarrow> ('w, 'p, 'b, 'r, 'y) block_weights_lib_scheme \<Rightarrow> 'p block_length_lib \<Rightarrow>
   ('c RuntimeCall \<Rightarrow> bool) \<Rightarrow> 'api \<Rightarrow> ('c RuntimeCall, 'r, 'api) system_config" where
  "frame_system_config E B F everything api =
     \<lparr>BaseCallFilter = everything,
      sys_BlockWeights = RuntimeBlockWeights E B,
      sys_BlockLength = RuntimeBlockLength E F,
      sys_BlockHashCount = BlockHashCount,
      sys_Version = VERSION api,
      SystemWeightInfo = Benchmarked ''frame_system'',
      sys_SS58Prefix = SS58Prefix,
      OnSetCode = ''ParachainSystem'',
      MaxConsumers = 16\<rparr>"

definition pallet_timestamp_config :: timestamp_config where
  "pallet_timestamp_config =
     \<lparr>ts_MinimumPeriod = MinimumPeriod,
      ts_WeightInfo = Benchmarked ''pallet_timestamp''\<rparr>"

definition pallet_balances_config :: balances_config where
  "pallet_balances_config =
     \<lparr>bal_MaxLocks = MaxLocks,
      bal_ExistentialDeposit = ExistentialDeposit,
      AccountStore = ''System'',
      bal_WeightInfo = Benchmarked ''pallet_balances'',
      bal_MaxReserves = MaxReserves\<rparr>"

definition pallet_transaction_payment_config ::
  "('w, 'p, 'z) block_env_scheme \<Rightarrow> ('i, 't, 'y) imbalance_lib_scheme \<Rightarrow> ('i, 't, 'p) transaction_payment_config" where
  "pallet_transaction_payment_config E L =
     \<lparr>tp_Currency = ''Balances'',
      tp_OnUnbalanced = DealWithFees_on_unbalanceds L,
      tp_WeightToFee = Polynomial (polynomial E),
      tp_LengthToFee = TransactionByteFee,
      tp_FeeMultiplierUpdate = Some ''SlowAdjustingFeeUpdate'',
      tp_OperationalFeeMultiplier = Some OperationalFeeMultiplier\<rparr>"

definition pallet_multisig_config :: multisig_config where
  "pallet_multisig_config =
     \<lparr>ms_Currency = ''Balances'',
      ms_DepositBase = DepositBase,
      ms_DepositFactor = DepositFactor,
      ms_MaxSignatories = MaxSignatories,
      ms_WeightInfo = Benchmarked ''pallet_multisig''\<rparr>"

definition pallet_proxy_config :: "(ProxyType, 'c RuntimeCall) proxy_config" where
  "pallet_proxy_config =
     \<lparr>pr_Currency = ''Balances'',
      pr_filter = ProxyType_filter,
      pr_is_superset = ProxyType_is_superset,
      pr_ProxyDepositBase = ProxyDepositBase,
      pr_ProxyDepositFactor = ProxyDepositFactor,
      pr_MaxProxies = MaxProxies,
      pr_WeightInfo = Benchmarked ''pallet_proxy'',
      pr_MaxPending = MaxPending,
      pr_AnnouncementDepositBase = AnnouncementDepositBase,
      pr_AnnouncementDepositFactor = AnnouncementDepositFactor\<rparr>"

definition pallet_vesting_config :: "('r, 'z) withdraw_lib_scheme \<Rightarrow> 'r vesting_config" where
  "pallet_vesting_config W =
     \<lparr>ve_Currency = ''Balances'',
      ve_MinVestedTransfer = MinVestedTransfer,
      ve_WeightInfo = Benchmarked ''pallet_vesting'',
      ve_UnvestedFundsAllowedWithdrawReasons = UnvestedFundsAllowedWithdrawReasons W,
      ve_MAX_VESTING_SCHEDULES = MAX_VESTING_SCHEDULES\<rparr>"

text \<open>\<open>max_block\<close> is the value of \<open>RuntimeBlockWeights::get().max_block\<close>.\<close>

definition pallet_scheduler_config ::
  "('w, 'p, 'z) block_env_scheme \<Rightarrow> ('a, 'y) ensure_lib_scheme \<Rightarrow> 'w \<Rightarrow> ('w, 'a) scheduler_config" where
  "pallet_scheduler_config E G max_block =
     \<lparr>sch_MaximumWeight = MaximumSchedulerWeight E max_block,
      ScheduleOrigin = EnsureRoot G,
      sch_MaxScheduledPerBlock = MaxScheduledPerBlock,
      sch_WeightInfo = Benchmarked ''pallet_scheduler'',
      OriginPrivilegeCmp = ''EqualPrivilegeOnly'',
      sch_Preimages = ''Preimage''\<rparr>"

definition pallet_utility_config :: utility_config where
  "pallet_utility_config = \<lparr>ut_WeightInfo = Benchmarked ''pallet_utility''\<rparr>"

definition pallet_preimage_config :: "('a, 'y) ensure_lib_scheme \<Rightarrow> 'a preimage_config" where
  "pallet_preimage_config G =
     \<lparr>pi_WeightInfo = Benchmarked ''pallet_preimage'',
      pi_Currency = ''Balances'',
      ManagerOrigin = EnsureRoot G,
      pi_BaseDeposit = PreimageBaseDeposit,
      pi_ByteDeposit = PreimageByteDeposit\<rparr>"

definition cumulus_pallet_parachain_system_config ::
  "('w, 'p, 'z) block_env_scheme \<Rightarrow> 'w parachain_system_config" where
  "cumulus_pallet_parachain_system_config E =
     \<lparr>SelfParaId = ''ParachainInfo'',
      DmpMessageHandler = ''DmpQueue'',
      ps_ReservedDmpWeight = ReservedDmpWeight E,
      OutboundXcmpMessageSource = ''XcmpQueue'',
      XcmpMessageHandler = ''XcmpQueue'',
      ps_ReservedXcmpWeight = ReservedXcmpWeight E,
      CheckAssociatedRelayNumber = ''RelayNumberStrictlyIncreases''\<rparr>"

definition pallet_aura_config :: aura_config where
  "pallet_aura_config = \<lparr>au_MaxAuthorities = MaxAuthorities\<rparr>"

section \<open>Integritee pallets\<close>

definition pallet_teerex_config :: teerex_config where
  "pallet_teerex_config =
     \<lparr>te_MomentsPerDay = MomentsPerDay,
      te_MaxAttestationRenewalPeriod = MaxAttestationRenewalPeriod,
      te_WeightInfo = Benchmarked ''pallet_teerex''\<rparr>"

definition pallet_enclave_bridge_config :: enclave_bridge_config where
  "pallet_enclave_bridge_config =
     \<lparr>eb_Currency = ''Balances'', eb_WeightInfo = Benchmarked ''pallet_enclave_bridge''\<rparr>"

definition pallet_sidechain_config :: sidechain_config where
  "pallet_sidechain_config = \<lparr>sc_WeightInfo = Benchmarked ''pallet_sidechain''\<rparr>"

definition pallet_claims_config :: "('a, 'y) ensure_lib_scheme \<Rightarrow> 'a claims_config" where
  "pallet_claims_config G =
     \<lparr>VestingSchedule = ''Vesting'',
      cl_Prefix = Prefix,
      MoveClaimOrigin = EnsureRoot G,
      cl_WeightInfo = Benchmarked ''pallet_claims''\<rparr>"

definition pallet_teeracle_config :: teeracle_config where
  "pallet_teeracle_config =
     \<lparr>to_WeightInfo = Benchmarked ''pallet_teeracle'',
      to_MaxWhitelistedReleases = MaxWhitelistedReleases,
      to_MaxOracleBlobLen = MaxOracleBlobLen\<rparr>"

section \<open>Governance\<close>

definition pallet_bounties_config :: "(u32 \<Rightarrow> 'm) \<Rightarrow> bool \<Rightarrow> 'm bounties_config" where
  "pallet_bounties_config pm fast =
     \<lparr>bo_BountyDepositBase = BountyDepositBase,
      bo_BountyDepositPayoutDelay = BountyDepositPayoutDelay fast,
      bo_BountyUpdatePeriod = BountyUpdatePeriod fast,
      bo_CuratorDepositMultiplier = CuratorDepositMultiplier pm,
      bo_CuratorDepositMin = CuratorDepositMin,
      bo_CuratorDepositMax = CuratorDepositMax,
      bo_BountyValueMinimum = BountyValueMinimum,
      ChildBountyManager = ''ChildBounties'',
      bo_DataDepositPerByte = DataDepositPerByte,
      bo_MaximumReasonLength = MaximumReasonLength,
      bo_WeightInfo = Benchmarked ''pallet_bounties''\<rparr>"

definition pallet_child_bounties_config :: child_bounties_config where
  "pallet_child_bounties_config =
     \<lparr>cb_MaxActiveChildBountyCount = MaxActiveChildBountyCount,
      cb_ChildBountyValueMinimum = ChildBountyValueMinimum,
      cb_WeightInfo = Benchmarked ''pallet_child_bounties''\<rparr>"

definition council_config ::
  "('w, 'p, 'z) block_env_scheme \<Rightarrow> ('a, 'y) ensure_lib_scheme \<Rightarrow> 'w \<Rightarrow> bool \<Rightarrow> ('w, 'a) collective_config" where
  "council_config E G max_block fast =
     \<lparr>co_MotionDuration = CouncilMotionDuration fast,
      co_MaxProposals = CouncilMaxProposals,
      co_MaxMembers = CouncilMaxMembers,
      DefaultVote = PrimeDefaultVote,
      co_WeightInfo = Benchmarked ''pallet_collective'',
      SetMembersOrigin = EnsureRootOrMoreThanHalfCouncil G,
      co_MaxProposalWeight = MaxProposalWeight E max_block\<rparr>"

definition technical_committee_config ::
  "('w, 'p, 'z) block_env_scheme \<Rightarrow> ('a, 'y) ensure_lib_scheme \<Rightarrow> 'w \<Rightarrow> bool \<Rightarrow> ('w, 'a) collective_config" where
  "technical_committee_config E G max_block fast =
     \<lparr>co_MotionDuration = TechnicalMotionDuration fast,
      co_MaxProposals = TechnicalMaxProposals,
      co_MaxMembers = TechnicalMaxMembers,
      DefaultVote = MoreThanMajorityThenPrimeDefaultVote,
      co_WeightInfo = Benchmarked ''pallet_collective'',
      SetMembersOrigin = EnsureRootOrMoreThanHalfCouncil G,
      co_MaxProposalWeight = MaxProposalWeight E max_block\<rparr>"

definition orml_xcm_config :: "('a, 'y) ensure_lib_scheme \<Rightarrow> 'a orml_xcm_config" where
  "orml_xcm_config G = \<lparr>SovereignOrigin = EnsureRoot G\<rparr>"

lemmas integritee_config_defs = frame_system_config_def pallet_timestamp_config_def pallet_balances_config_def
  pallet_transaction_payment_config_def pallet_multisig_config_def pallet_proxy_config_def pallet_vesting_config_def
  pallet_scheduler_config_def pallet_utility_config_def pallet_preimage_config_def
  cumulus_pallet_parachain_system_config_def pallet_aura_config_def pallet_teerex_config_def
  pallet_enclave_bridge_config_def pallet_sidechain_config_def pallet_claims_config_def pallet_teeracle_config_def
  pallet_treasury_config_def pallet_bounties_config_def pallet_child_bounties_config_def council_config_def
  technical_committee_config_def pallet_democracy_config_def orml_xcm_config_def

end
