(* ===== verification/Xcm_Interface.thy ===== *)
theory Xcm_Interface
  imports Runtime_Origin Parachains_Common
begin

text \<open>
  The parts of \<open>xcm-builder\<close>, \<open>xcm-executor\<close>, \<open>pallet-xcm\<close> and ORML that the two
  \<open>xcm_config.rs\<close> files plug together. They are other crates: each is a field of a record of
  parameters, and what is documented of them is stated by the predicates below. The interface
  \<open>currency_convert\<close> is the contract between the two directions of a currency conversion, which
  both runtimes implement.
\<close>

section \<open>Barriers and filters of other crates\<close>

record ('x, 'w, 'c) barrier_lib =
  TakeWeightCredit :: "('x, 'w) barrier"
  AllowTopLevelPaidExecutionFrom :: "(MultiLocation \<Rightarrow> bool) \<Rightarrow> ('x, 'w) barrier"
  AllowKnownQueryResponses :: "('x, 'w) barrier"
  AllowSubscriptionsFrom :: "(MultiLocation \<Rightarrow> bool) \<Rightarrow> ('x, 'w) barrier"
  barrier_tuple :: "('x, 'w) barrier list \<Rightarrow> ('x, 'w) barrier"
  Everything :: "MultiLocation \<Rightarrow> bool"
  Everything_message :: "'c \<Rightarrow> bool"
  Nothing_message :: "'c \<Rightarrow> bool"

text \<open>\<open>Everything\<close> contains every value, \<open>Nothing\<close> none.\<close>

definition filter_laws :: "('x, 'w, 'c, 'z) barrier_lib_scheme \<Rightarrow> bool" where
  "filter_laws L \<longleftrightarrow>
     (\<forall>l. Everything L l) \<and> (\<forall>m. Everything_message L m) \<and> (\<forall>m. \<not> Nothing_message L m)"

section \<open>Origin converters of other crates\<close>

text \<open>
  \<open>'k\<close> is XCM's \<open>OriginKind\<close> and \<open>'a\<close> the chain's account type. A converter
  answers with a runtime origin or gives the location back.
\<close>

type_synonym ('k, 'a) origin_converter =
  "MultiLocation \<Rightarrow> 'k \<Rightarrow> MultiLocation + 'a origin"

type_synonym 'a account_converter = "MultiLocation \<Rightarrow> 'a option"

record ('k, 'a) origin_lib =
  ParentIsPreset :: "'a account_converter"
  SiblingParachainConvertsVia :: "'a account_converter"
  AccountId32Aliases :: "NetworkId \<Rightarrow> 'a account_converter"
  account_tuple :: "'a account_converter list \<Rightarrow> 'a account_converter"
  SovereignSignedViaLocation :: "'a account_converter \<Rightarrow> ('k, 'a) origin_converter"
  RelayChainAsNative :: "'a origin \<Rightarrow> ('k, 'a) origin_converter"
  SiblingParachainAsNative :: "('k, 'a) origin_converter"
  ParentAsSuperuser :: "('k, 'a) origin_converter"
  SignedAccountId32AsNative :: "NetworkId \<Rightarrow> ('k, 'a) origin_converter"
  XcmPassthrough :: "('k, 'a) origin_converter"
  origin_tuple :: "('k, 'a) origin_converter list \<Rightarrow> ('k, 'a) origin_converter"

text \<open>
  A tuple of converters succeeds with the answer of one of its members; the sovereign and native
  account converters produce signed origins, the relay converter the origin it was given, the
  sibling converter the origin of that parachain, the passthrough the location itself, and only
  \<open>ParentAsSuperuser\<close>, for the parent location, the root origin.
\<close>

definition member_laws :: "('k, 'a, 'z) origin_lib_scheme \<Rightarrow> bool" where
  "member_laws L \<longleftrightarrow>
     (\<forall>conv l k q. SovereignSignedViaLocation L conv l k = Inr q \<longrightarrow>
        (\<exists>a. conv l = Some a \<and> q = Signed a)) \<and>
     (\<forall>r l k q. RelayChainAsNative L r l k = Inr q \<longrightarrow> l = parent_location \<and> q = r) \<and>
     (\<forall>l k q. SiblingParachainAsNative L l k = Inr q \<longrightarrow>
        (\<exists>i. l = \<lparr>parents = 1, interior = X1 (Parachain i)\<rparr> \<and> q = SiblingParaOrigin i)) \<and>
     (\<forall>l k q. ParentAsSuperuser L l k = Inr q \<longrightarrow> l = parent_location \<and> q = Root) \<and>
     (\<forall>n l k q. SignedAccountId32AsNative L n l k = Inr q \<longrightarrow> (\<exists>a. q = Signed a)) \<and>
     (\<forall>l k q. XcmPassthrough L l k = Inr q \<longrightarrow> q = XcmOrigin l)"

definition origin_laws :: "('k, 'a, 'z) origin_lib_scheme \<Rightarrow> bool" where
  "origin_laws L \<longleftrightarrow>
     (\<forall>cs l k q. origin_tuple L cs l k = Inr q \<longrightarrow> (\<exists>c\<in>set cs. c l k = Inr q)) \<and> member_laws L"

lemma origin_member_laws: "origin_laws L \<Longrightarrow> member_laws L"
  by (simp add: origin_laws_def)

lemma origin_tuple_member:
  "origin_laws L \<Longrightarrow> origin_tuple L cs l k = Inr q \<Longrightarrow> \<exists>c\<in>set cs. c l k = Inr q"
  by (simp add: origin_laws_def)

lemma origin_results:
  assumes "origin_laws L"
  shows "SovereignSignedViaLocation L conv l k = Inr q \<Longrightarrow> \<exists>a. q = Signed a"
    and "RelayChainAsNative L r l k = Inr q \<Longrightarrow> q = r"
    and "SiblingParachainAsNative L l k = Inr q \<Longrightarrow> \<exists>i. q = SiblingParaOrigin i"
    and "SignedAccountId32AsNative L n l k = Inr q \<Longrightarrow> \<exists>a. q = Signed a"
    and "XcmPassthrough L l k = Inr q \<Longrightarrow> q = XcmOrigin l"
  using origin_member_laws [OF assms] unfolding member_laws_def by metis+

lemma origin_not_root:
  assumes "origin_laws L"
  shows "SovereignSignedViaLocation L conv l k \<noteq> Inr Root"
    and "RelayChainAsNative L RelayOrigin l k \<noteq> Inr Root"
    and "SiblingParachainAsNative L l k \<noteq> Inr Root"
    and "SignedAccountId32AsNative L n l k \<noteq> Inr Root"
    and "XcmPassthrough L l k \<noteq> Inr Root"
  by (auto dest: origin_results [OF assms])

lemma superuser_is_parent: "origin_laws L \<Longrightarrow> ParentAsSuperuser L l k = Inr q \<Longrightarrow> l = parent_location"
  by (drule origin_member_laws) (simp add: member_laws_def)

text \<open>
  Converters that satisfy the laws: a tuple tries its members in order; \<open>True\<close> is the kind
  \<open>Superuser\<close>.
\<close>

primrec first_ok :: "('k, 'a) origin_converter list \<Rightarrow> ('k, 'a) origin_converter" where
  "first_ok [] l k = Inl l"
| "first_ok (c # cs) l k = (case c l k of Inl _ \<Rightarrow> first_ok cs l k | Inr q \<Rightarrow> Inr q)"

lemma first_ok_member: "first_ok cs l k = Inr q \<Longrightarrow> \<exists>c\<in>set cs. c l k = Inr q"
  by (induction cs) (auto split: sum.splits)

definition example_origins :: "(bool, nat) origin_lib" where
  "example_origins = \<lparr>
     ParentIsPreset = (\<lambda>l. if l = parent_location then Some 0 else None),
     SiblingParachainConvertsVia = (\<lambda>l. None), AccountId32Aliases = (\<lambda>n l. None),
     account_tuple = (\<lambda>cs l. None),
     SovereignSignedViaLocation = (\<lambda>conv l k. case conv l of None \<Rightarrow> Inl l | Some a \<Rightarrow> Inr (Signed a)),
     RelayChainAsNative = (\<lambda>r l k. if l = parent_location \<and> \<not> k then Inr r else Inl l),
     SiblingParachainAsNative = (\<lambda>l k. Inl l),
     ParentAsSuperuser = (\<lambda>l k. if l = parent_location \<and> k then Inr Root else Inl l),
     SignedAccountId32AsNative = (\<lambda>n l k. Inl l),
     XcmPassthrough = (\<lambda>l k. Inl l),
     origin_tuple = first_ok\<rparr>"

lemma example_origins_laws: "origin_laws example_origins"
  by (auto simp: origin_laws_def member_laws_def example_origins_def
      dest: first_ok_member split: option.splits if_splits)

section \<open>Reserves of other crates\<close>

text \<open>
  ORML's \<open>RelativeReserveProvider\<close>: a location without parents is a local asset, whose reserve is
  this chain; the reserve of an asset below a sibling parachain is that parachain.
\<close>

type_synonym 'f reserve_provider = "'f MultiAsset \<Rightarrow> MultiLocation option"

definition relative_reserve_laws :: "'f reserve_provider \<Rightarrow> bool" where
  "relative_reserve_laws rel \<longleftrightarrow>
     (\<forall>n d f. rel \<lparr>asset_id = Concrete \<lparr>parents = 0, interior = X1 (GeneralKey n d)\<rparr>, fungibility = f\<rparr> =
        Some here_location) \<and>
     (\<forall>i j f. rel \<lparr>asset_id = Concrete \<lparr>parents = 1, interior = X2 (Parachain i) j\<rparr>, fungibility = f\<rparr> =
        Some \<lparr>parents = 1, interior = X1 (Parachain i)\<rparr>)"

section \<open>The contract of a currency conversion\<close>

text \<open>
  \<open>Convert<CurrencyId, Option<MultiLocation>>\<close> and \<open>Convert<MultiLocation, Option<CurrencyId>>\<close>:
  a currency is recognised at the location it is sent under.
\<close>

locale currency_convert =
  fixes to_location :: "'c \<Rightarrow> MultiLocation option"
    and from_location :: "MultiLocation \<Rightarrow> 'c option"
  assumes recognised: "to_location c = Some l \<Longrightarrow> from_location l = Some c"
begin

lemma to_location_inj: "to_location c = Some l \<Longrightarrow> to_location d = Some l \<Longrightarrow> c = d"
  using recognised [of c l] recognised [of d l] by simp

lemma round_trip: "to_location c \<noteq> None \<Longrightarrow> Option.bind (to_location c) from_location = Some c"
  by (cases "to_location c") (auto dest: recognised)

end

end
