(* ===== verification/Xcm_Handlers.thy ===== *)
theory Xcm_Handlers
  imports Xcm_Interface
begin

text \<open>
  The parts of \<open>xcm-builder\<close>, \<open>xcm-executor\<close>, the cumulus queues and ORML that handle a message once it is
  admitted or sent: the allowing barriers, the routers, the adapter to the native currency, the trader
  that sells execution time, and the conversion of local origins. They are fields of records of
  parameters; the predicates state what is documented of them, and concrete instances satisfy them.
\<close>

section \<open>A chain of barriers\<close>

text \<open>
  The documented behaviour of a tuple of barriers: they are asked in order, each on the state the
  previous one left; the first that agrees decides, and a message nobody agrees to is unsupported.
\<close>

primrec try_barriers :: "('x, 'w) barrier list \<Rightarrow> ('x, 'w) barrier" where
  "try_barriers [] origin mw st = (Inl Unsupported, st)"
| "try_barriers (b # bs) origin mw st =
     (case b origin mw st of (Inr _, st') \<Rightarrow> (Inr (), st') | (Inl _, st') \<Rightarrow> try_barriers bs origin mw st')"

text \<open>
  The four allowing barriers. \<open>TakeWeightCredit\<close> spends credit where there is enough of it.
  \<open>AllowTopLevelPaidExecutionFrom\<close> looks for a payment at the head of the message (\<open>paid\<close>) and may write
  the weight bound into it; \<open>AllowKnownQueryResponses\<close> admits a response that was asked for (\<open>expected\<close>)
  and \<open>AllowSubscriptionsFrom\<close> a request for version notifications (\<open>subscription\<close>). A barrier that
  refuses leaves the state as it was.
\<close>

definition refuses :: "('x, 'w) barrier \<Rightarrow> MultiLocation \<Rightarrow> 'w \<Rightarrow> ('x, 'w) barrier_state \<Rightarrow> bool" where
  "refuses b origin mw st \<longleftrightarrow> (\<exists>e. b origin mw st = (Inl e, st))"

record ('x, 'w) admission =
  paid :: "'w \<Rightarrow> 'x Instruction list \<Rightarrow> bool"
  expected :: "MultiLocation \<Rightarrow> 'x Instruction list \<Rightarrow> bool"
  subscription :: "'x Instruction list \<Rightarrow> bool"

definition barrier_laws ::
  "('w, 'p, 'y) block_env_scheme \<Rightarrow> ('x, 'w) admission \<Rightarrow> ('x, 'w, 'c, 'z) barrier_lib_scheme \<Rightarrow> bool" where
  "barrier_laws E A L \<longleftrightarrow>
     (\<forall>bs. barrier_tuple L bs = try_barriers bs) \<and>
     (\<forall>origin mw st.
        (if no_heavier E mw (weight_credit st)
         then TakeWeightCredit L origin mw st = (Inr (), st\<lparr>weight_credit := weight_sub E (weight_credit st) mw\<rparr>)
         else refuses (TakeWeightCredit L) origin mw st)) \<and>
     (\<forall>f origin mw st.
        (if f origin \<and> paid A mw (message st)
         then \<exists>msg. AllowTopLevelPaidExecutionFrom L f origin mw st = (Inr (), st\<lparr>message := msg\<rparr>)
         else refuses (AllowTopLevelPaidExecutionFrom L f) origin mw st)) \<and>
     (\<forall>origin mw st.
        (if expected A origin (message st) then AllowKnownQueryResponses L origin mw st = (Inr (), st)
         else refuses (AllowKnownQueryResponses L) origin mw st)) \<and>
     (\<forall>f origin mw st.
        (if f origin \<and> subscription A (message st) then AllowSubscriptionsFrom L f origin mw st = (Inr (), st)
         else refuses (AllowSubscriptionsFrom L f) origin mw st))"

lemma try_refuses: "refuses b origin mw st \<Longrightarrow> try_barriers (b # bs) origin mw st = try_barriers bs origin mw st"
  by (auto simp: refuses_def)

lemma try_agrees: "b origin mw st = (Inr (), st') \<Longrightarrow> try_barriers (b # bs) origin mw st = (Inr (), st')"
  by simp

lemma barrier_lawsD:
  assumes "barrier_laws E A L"
  shows "barrier_tuple L bs = try_barriers bs"
    and "no_heavier E mw (weight_credit st) \<Longrightarrow>
      TakeWeightCredit L origin mw st = (Inr (), st\<lparr>weight_credit := weight_sub E (weight_credit st) mw\<rparr>)"
    and "\<not> no_heavier E mw (weight_credit st) \<Longrightarrow> refuses (TakeWeightCredit L) origin mw st"
    and "f origin \<Longrightarrow> paid A mw (message st) \<Longrightarrow>
      \<exists>msg. AllowTopLevelPaidExecutionFrom L f origin mw st = (Inr (), st\<lparr>message := msg\<rparr>)"
    and "\<not> paid A mw (message st) \<Longrightarrow> refuses (AllowTopLevelPaidExecutionFrom L f) origin mw st"
    and "expected A origin (message st) \<Longrightarrow> AllowKnownQueryResponses L origin mw st = (Inr (), st)"
    and "\<not> expected A origin (message st) \<Longrightarrow> refuses (AllowKnownQueryResponses L) origin mw st"
    and "f origin \<Longrightarrow> subscription A (message st) \<Longrightarrow> AllowSubscriptionsFrom L f origin mw st = (Inr (), st)"
    and "\<not> subscription A (message st) \<Longrightarrow> refuses (AllowSubscriptionsFrom L f) origin mw st"
  using assms unfolding barrier_laws_def by presburger+

text \<open>
  Whom a chain of the four barriers admits, and what it costs: the credit, if there is enough of it,
  and otherwise nothing.
\<close>

lemma chain_of_four:
  assumes L: "barrier_laws E A L" and f: "f origin" "g origin"
    and B: "B = [TakeWeightCredit L, AllowTopLevelPaidExecutionFrom L f, AllowKnownQueryResponses L,
      AllowSubscriptionsFrom L g]"
  shows "if no_heavier E mw (weight_credit st)
    then barrier_tuple L B origin mw st = (Inr (), st\<lparr>weight_credit := weight_sub E (weight_credit st) mw\<rparr>)
    else if paid A mw (message st) \<or> expected A origin (message st) \<or> subscription A (message st)
    then \<exists>msg. barrier_tuple L B origin mw st = (Inr (), st\<lparr>message := msg\<rparr>)
    else barrier_tuple L B origin mw st = (Inl Unsupported, st)"
proof -
  note D = barrier_lawsD [OF L]
  have same: "\<exists>msg. (Inr () :: ProcessMessageError + unit, st) = (Inr (), st\<lparr>message := msg\<rparr>)"
    by (rule exI [of _ "message st"]) simp
  show ?thesis
  proof (cases "no_heavier E mw (weight_credit st)")
    case False
    then have "barrier_tuple L B origin mw st = try_barriers (tl B) origin mw st"
      by (simp add: B D(1) try_refuses [OF D(3)] del: try_barriers.simps)
    moreover have "if paid A mw (message st) \<or> expected A origin (message st) \<or> subscription A (message st)
      then \<exists>msg. try_barriers (tl B) origin mw st = (Inr (), st\<lparr>message := msg\<rparr>)
      else try_barriers (tl B) origin mw st = (Inl Unsupported, st)"
    proof (cases "paid A mw (message st)")
      case True
      with D(4) [of f origin mw st, OF f(1)] show ?thesis by (auto simp: B)
    next
      case False
      then show ?thesis
        using same f
        by (cases "expected A origin (message st)"; cases "subscription A (message st)")
           (simp_all add: B try_refuses [OF D(5)] try_refuses [OF D(7)] try_refuses [OF D(9)]
             try_agrees [OF D(6)] try_agrees [OF D(8)] del: try_barriers.simps(2))
    qed
    ultimately show ?thesis using False by simp
  qed (simp add: B D(1) try_agrees [OF D(2)] del: try_barriers.simps)
qed

text \<open>Barriers that satisfy the laws: the head of a message says what kind of message it is.\<close>

definition example_admission :: "(nat, u64 \<times> u64) admission" where
  "example_admission = \<lparr>paid = (\<lambda>mw msg. msg \<noteq> [] \<and> hd msg = OtherInstruction 4),
     expected = (\<lambda>l msg. l = parent_location \<and> msg = [OtherInstruction 2]),
     subscription = (\<lambda>msg. msg = [OtherInstruction 3])\<rparr>"

definition admit_if :: "bool \<Rightarrow> ('x, 'w) barrier_state \<Rightarrow> (ProcessMessageError + unit) \<times> ('x, 'w) barrier_state" where
  "admit_if c st = (if c then Inr () else Inl Unsupported, st)"

definition example_chain :: "(nat, u64 \<times> u64, unit) barrier_lib" where
  "example_chain = \<lparr>
     TakeWeightCredit = (\<lambda>_ mw st. if no_heavier pair_env mw (weight_credit st)
        then (Inr (), st\<lparr>weight_credit := weight_sub pair_env (weight_credit st) mw\<rparr>)
        else (Inl (OtherMessageError 1), st)),
     AllowTopLevelPaidExecutionFrom = (\<lambda>f l mw st. admit_if (f l \<and> paid example_admission mw (message st)) st),
     AllowKnownQueryResponses = (\<lambda>l _ st. admit_if (expected example_admission l (message st)) st),
     AllowSubscriptionsFrom = (\<lambda>f l _ st. admit_if (f l \<and> subscription example_admission (message st)) st),
     barrier_tuple = try_barriers,
     Everything = (\<lambda>_. True), Everything_message = (\<lambda>_. True), Nothing_message = (\<lambda>_. False)\<rparr>"

lemma example_chain_laws: "barrier_laws pair_env example_admission example_chain" "filter_laws example_chain"
proof -
  have "\<exists>msg. st = st\<lparr>message := msg\<rparr>" for st :: "(nat, u64 \<times> u64) barrier_state"
    by (rule exI [of _ "message st"]) simp
  then show "barrier_laws pair_env example_admission example_chain"
    by (simp add: barrier_laws_def example_chain_def refuses_def admit_if_def)
qed (simp add: filter_laws_def example_chain_def)

section \<open>Routers\<close>

text \<open>
  A router validates a destination and answers with a ticket, or says that the destination is not its
  own (\<open>NotApplicable\<close>), or fails. Of a tuple the first router the destination belongs to decides.
  \<open>ParentAsUmp\<close> serves the parent, the XCMP queue the sibling parachains.
\<close>

datatype SendError = NotApplicable | OtherSendError nat

type_synonym ('m, 't) router = "MultiLocation \<Rightarrow> 'm \<Rightarrow> SendError + 't"

record ('m, 't) router_lib =
  ParentAsUmp :: "('m, 't) router"
  XcmpQueue_router :: "('m, 't) router"
  router_tuple :: "('m, 't) router list \<Rightarrow> ('m, 't) router"

primrec first_applicable :: "('m, 't) router list \<Rightarrow> ('m, 't) router" where
  "first_applicable [] d m = Inl NotApplicable"
| "first_applicable (r # rs) d m = (if r d m = Inl NotApplicable then first_applicable rs d m else r d m)"

definition is_sibling :: "MultiLocation \<Rightarrow> bool" where
  "is_sibling l = (parents l = 1 \<and> (case interior l of X1 (Parachain _) \<Rightarrow> True | _ \<Rightarrow> False))"

definition router_laws :: "('m, 't, 'z) router_lib_scheme \<Rightarrow> bool" where
  "router_laws U \<longleftrightarrow>
     (\<forall>rs. router_tuple U rs = first_applicable rs) \<and>
     (\<forall>d m. ParentAsUmp U d m = Inl NotApplicable \<longleftrightarrow> d \<noteq> parent_location) \<and>
     (\<forall>d m. XcmpQueue_router U d m = Inl NotApplicable \<longleftrightarrow> \<not> is_sibling d)"

lemma parent_not_sibling [simp]: "\<not> is_sibling parent_location"
  by (simp add: is_sibling_def)

lemma is_sibling_iff: "is_sibling l \<longleftrightarrow> (\<exists>i. l = \<lparr>parents = 1, interior = X1 (Parachain i)\<rparr>)"
  by (cases l) (auto simp: is_sibling_def split: Junctions.splits Junction.splits)

definition example_routers :: "(nat, string) router_lib" where
  "example_routers = \<lparr>
     ParentAsUmp = (\<lambda>d m. if d = parent_location then Inr ''ump'' else Inl NotApplicable),
     XcmpQueue_router = (\<lambda>d m. if \<not> is_sibling d then Inl NotApplicable
        else if m = 0 then Inl (OtherSendError 1) else Inr ''xcmp''),
     router_tuple = first_applicable\<rparr>"

lemma example_routers_laws: "router_laws example_routers"
  by (simp add: router_laws_def example_routers_def)

section \<open>Accounts and local origins\<close>

text \<open>
  Documented of the account converters: a tuple answers with the first member that knows the location;
  \<open>ParentIsPreset\<close> knows the parent, \<open>SiblingParachainConvertsVia\<close> the sibling parachains, and
  \<open>AccountId32Aliases\<close> the local accounts of the given network or of none, by their bytes.
\<close>

primrec first_some :: "'a account_converter list \<Rightarrow> 'a account_converter" where
  "first_some [] l = None"
| "first_some (c # cs) l = (case c l of None \<Rightarrow> first_some cs l | Some a \<Rightarrow> Some a)"

definition account_laws :: "('k, u8 list, 'z) origin_lib_scheme \<Rightarrow> bool" where
  "account_laws L \<longleftrightarrow>
     (\<forall>cs. account_tuple L cs = first_some cs) \<and>
     (\<forall>l. ParentIsPreset L l = None \<longleftrightarrow> l \<noteq> parent_location) \<and>
     (\<forall>l. SiblingParachainConvertsVia L l = None \<longleftrightarrow> \<not> is_sibling l) \<and>
     (\<forall>n l. AccountId32Aliases L n l =
        (case interior l of
           X1 (AccountId32 net a) \<Rightarrow> if parents l = 0 \<and> (net = None \<or> net = Some n) then Some a else None
         | _ \<Rightarrow> None))"

text \<open>
  \<open>SignedToAccountId32\<close> turns a signed origin into the location of its account; \<open>EnsureXcmOrigin\<close> accepts
  what its converter knows, and lets root, which stands for the whole chain, always pass.
\<close>

record local_origin_lib =
  SignedToAccountId32 :: "NetworkId \<Rightarrow> u8 list origin \<Rightarrow> MultiLocation option"
  EnsureXcmOrigin :: "(u8 list origin \<Rightarrow> MultiLocation option) \<Rightarrow> u8 list origin \<Rightarrow> MultiLocation option"

definition local_origin_laws :: "'z local_origin_lib_scheme \<Rightarrow> bool" where
  "local_origin_laws D \<longleftrightarrow>
     (\<forall>n q. SignedToAccountId32 D n q =
        (case q of Signed a \<Rightarrow> Some \<lparr>parents = 0, interior = X1 (AccountId32 (Some n) a)\<rparr> | _ \<Rightarrow> None)) \<and>
     (\<forall>conv q. EnsureXcmOrigin D conv q =
        (case conv q of Some l \<Rightarrow> Some l | None \<Rightarrow> if q = Root then Some here_location else None))"

definition example_accounts :: "(bool, u8 list) origin_lib" where
  "example_accounts = \<lparr>
     ParentIsPreset = (\<lambda>l. if l = parent_location then Some (map of_char ''Parent'') else None),
     SiblingParachainConvertsVia = (\<lambda>l. case interior l of
        X1 (Parachain i) \<Rightarrow> if parents l = 1 then Some (map of_char ''sibl'' @ [ucast i]) else None | _ \<Rightarrow> None),
     AccountId32Aliases = (\<lambda>n l. case interior l of
        X1 (AccountId32 net a) \<Rightarrow> if parents l = 0 \<and> (net = None \<or> net = Some n) then Some a else None
      | _ \<Rightarrow> None),
     account_tuple = first_some,
     SovereignSignedViaLocation = (\<lambda>conv l k. case conv l of None \<Rightarrow> Inl l | Some a \<Rightarrow> Inr (Signed a)),
     RelayChainAsNative = (\<lambda>r l k. if l = parent_location \<and> \<not> k then Inr r else Inl l),
     SiblingParachainAsNative = (\<lambda>l k. Inl l),
     ParentAsSuperuser = (\<lambda>l k. if l = parent_location \<and> k then Inr Root else Inl l),
     SignedAccountId32AsNative = (\<lambda>n l k. Inl l),
     XcmPassthrough = (\<lambda>l k. Inl l),
     origin_tuple = first_ok\<rparr>"

lemma example_accounts_laws: "account_laws example_accounts"
  unfolding account_laws_def example_accounts_def
  by (auto simp: is_sibling_def split: Junctions.splits Junction.splits)

definition example_local_origins :: local_origin_lib where
  "example_local_origins = \<lparr>
     SignedToAccountId32 = (\<lambda>n q. case q of
        Signed a \<Rightarrow> Some \<lparr>parents = 0, interior = X1 (AccountId32 (Some n) a)\<rparr> | _ \<Rightarrow> None),
     EnsureXcmOrigin = (\<lambda>conv q. case conv q of
        Some l \<Rightarrow> Some l | None \<Rightarrow> if q = Root then Some here_location else None)\<rparr>"

lemma example_local_origins_laws: "local_origin_laws example_local_origins"
  by (simp add: local_origin_laws_def example_local_origins_def)

section \<open>The native currency\<close>

text \<open>
  An asset transactor puts an asset into, or takes it out of, the account a location stands for; \<open>'s\<close> is
  the state of the balances. A trader sells execution time for assets of the holding register.
\<close>

datatype XcmError = AssetNotFound | FailedToTransactAsset | TooExpensive | OtherXcmError nat

record ('f, 's) asset_transactor =
  deposit_asset :: "'f MultiAsset \<Rightarrow> MultiLocation \<Rightarrow> 's \<Rightarrow> XcmError + 's"
  withdraw_asset :: "'f MultiAsset \<Rightarrow> MultiLocation \<Rightarrow> 's \<Rightarrow> XcmError + 's"

type_synonym holding = "AssetId \<Rightarrow> nat"

type_synonym 'w trader = "'w \<Rightarrow> holding \<Rightarrow> XcmError + holding"

record ('f, 'c, 'a, 's, 'w) asset_lib =
  IsNativeConcrete :: "(MultiLocation \<Rightarrow> 'c option) \<Rightarrow> 'f MultiAsset \<Rightarrow> u128 option"
  CurrencyAdapter :: "('f MultiAsset \<Rightarrow> u128 option) \<Rightarrow> 'a account_converter \<Rightarrow> ('f, 's) asset_transactor"
  IdentityFee :: "'w \<Rightarrow> Balance"
  UsingComponents :: "('w \<Rightarrow> Balance) \<Rightarrow> MultiLocation \<Rightarrow> 'w trader"

text \<open>
  \<open>IsNativeConcrete\<close> matches a fungible amount of a concrete asset its conversion knows. The adapter
  refuses an asset that does not match or a location without an account; a deposit credits that
  account with the amount (or drops it, where the account would stay below the existential deposit). A
  withdrawal succeeds only where the account has the amount, and debits it; what then remains below the
  existential deposit \<open>ed\<close> may be reaped as dust. No other account changes.
\<close>

definition matcher_law :: "('f \<Rightarrow> u128 option) \<Rightarrow> ('f, 'c, 'a, 's, 'w, 'z) asset_lib_scheme \<Rightarrow> bool" where
  "matcher_law amount X \<longleftrightarrow>
     (\<forall>conv asset. IsNativeConcrete X conv asset =
        (case asset_id asset of
           Concrete l \<Rightarrow> if conv l = None then None else amount (fungibility asset)
         | _ \<Rightarrow> None))"

definition adapter_laws ::
  "nat \<Rightarrow> ('s \<Rightarrow> 'a \<Rightarrow> nat) \<Rightarrow> ('f, 'c, 'a, 's, 'w, 'z) asset_lib_scheme \<Rightarrow> bool" where
  "adapter_laws ed free X \<longleftrightarrow>
     (\<forall>m conv asset who s. m asset = None \<or> conv who = None \<longrightarrow>
        (\<exists>e. deposit_asset (CurrencyAdapter X m conv) asset who s = Inl e) \<and>
        (\<exists>e. withdraw_asset (CurrencyAdapter X m conv) asset who s = Inl e)) \<and>
     (\<forall>m conv asset who s n a. m asset = Some n \<longrightarrow> conv who = Some a \<longrightarrow>
        (\<exists>s'. deposit_asset (CurrencyAdapter X m conv) asset who s = Inr s' \<and>
           (free s' a = free s a + unat n \<or> free s' a = free s a) \<and> (\<forall>b. b \<noteq> a \<longrightarrow> free s' b = free s b))) \<and>
     (\<forall>m conv asset who s s' n a. m asset = Some n \<longrightarrow> conv who = Some a \<longrightarrow>
        withdraw_asset (CurrencyAdapter X m conv) asset who s = Inr s' \<longrightarrow>
           unat n \<le> free s a \<and>
           (free s' a = free s a - unat n \<or> free s' a = 0 \<and> free s a - unat n < ed) \<and>
           (\<forall>b. b \<noteq> a \<longrightarrow> free s' b = free s b))"

text \<open>
  \<open>IdentityFee\<close> asks for one unit per picosecond. \<open>UsingComponents\<close> takes the fee for the weight out of the
  asset at the given location, or refuses where the holding has less of it.
\<close>

definition trader_laws :: "('w, 'y) weight_env_scheme \<Rightarrow> ('f, 'c, 'a, 's, 'w, 'z) asset_lib_scheme \<Rightarrow> bool" where
  "trader_laws E X \<longleftrightarrow>
     (\<forall>w. IdentityFee X w = ucast (ref_time E w)) \<and>
     (\<forall>fee l w h. UsingComponents X fee l w h =
        (if unat (fee w) \<le> h (Concrete l)
         then Inr (h(Concrete l := h (Concrete l) - unat (fee w))) else Inl TooExpensive))"

lemma adapter_fails:
  assumes "adapter_laws ed free X" "m asset = None \<or> conv who = None"
  shows "\<exists>e. deposit_asset (CurrencyAdapter X m conv) asset who s = Inl e"
    and "\<exists>e. withdraw_asset (CurrencyAdapter X m conv) asset who s = Inl e"
  using assms(1) [unfolded adapter_laws_def, THEN conjunct1] assms(2) by blast+

lemma adapter_deposits:
  assumes "adapter_laws ed free X" "m asset = Some n" "conv who = Some a"
  shows "\<exists>s'. deposit_asset (CurrencyAdapter X m conv) asset who s = Inr s' \<and>
    (free s' a = free s a + unat n \<or> free s' a = free s a) \<and> (\<forall>b. b \<noteq> a \<longrightarrow> free s' b = free s b)"
  using assms(1) [unfolded adapter_laws_def, THEN conjunct2, THEN conjunct1] assms(2,3) by blast

lemma adapter_withdraws:
  assumes "adapter_laws ed free X" "m asset = Some n" "conv who = Some a"
    and "withdraw_asset (CurrencyAdapter X m conv) asset who s = Inr s'"
  shows "unat n \<le> free s a \<and> (free s' a = free s a - unat n \<or> free s' a = 0 \<and> free s a - unat n < ed) \<and>
    (\<forall>b. b \<noteq> a \<longrightarrow> free s' b = free s b)"
  using assms(1) [unfolded adapter_laws_def, THEN conjunct2, THEN conjunct2] assms(2-4) by blast

text \<open>Balances as a function from accounts to amounts, in which every deposit arrives and what remains below the deposit is reaped.\<close>

definition example_assets :: "(u128, 'c, u8 list, u8 list \<Rightarrow> nat, u64 \<times> u64) asset_lib" where
  "example_assets = \<lparr>
     IsNativeConcrete = (\<lambda>conv asset. case asset_id asset of
        Concrete l \<Rightarrow> if conv l = None then None else Some (fungibility asset) | _ \<Rightarrow> None),
     CurrencyAdapter = (\<lambda>m conv. \<lparr>
        deposit_asset = (\<lambda>asset who s. case (m asset, conv who) of
           (Some n, Some a) \<Rightarrow> Inr (s(a := s a + unat n)) | _ \<Rightarrow> Inl AssetNotFound),
        withdraw_asset = (\<lambda>asset who s. case (m asset, conv who) of
           (Some n, Some a) \<Rightarrow> if unat n \<le> s a then Inr (s(a := if s a - unat n < 1000000000 then 0 else s a - unat n))
             else Inl FailedToTransactAsset
         | _ \<Rightarrow> Inl AssetNotFound)\<rparr>),
     IdentityFee = (\<lambda>w. ucast (fst w)),
     UsingComponents = (\<lambda>fee l w h.
        if unat (fee w) \<le> h (Concrete l) then Inr (h(Concrete l := h (Concrete l) - unat (fee w)))
        else Inl TooExpensive)\<rparr>"

lemma example_assets_laws:
  "matcher_law Some example_assets" "adapter_laws 1000000000 (\<lambda>s. s) example_assets" "trader_laws pair_env example_assets"
  by (auto simp: matcher_law_def adapter_laws_def trader_laws_def example_assets_def pair_env_def
      split: option.splits if_splits)

end
