(* ===== verification/Integritee_Xcm.thy ===== *)
theory Integritee_Xcm
  imports Xcm_Handlers
begin

text \<open>
  \<open>polkadot-parachains/integritee-runtime/src/xcm_config.rs\<close>. The parachain id is the value
  \<open>ParachainInfo::parachain_id()\<close> reads from storage, a parameter \<open>para\<close> of the definitions that
  call it.
\<close>

section \<open>Locations\<close>

definition teer_general_key :: Junction where
  "teer_general_key =
     GeneralKey 4 (map of_char ''TEER0000000000000000000000000000'')"

definition TEER_GENERAL_KEY :: Junction where
  "TEER_GENERAL_KEY = teer_general_key"

definition RelayChainLocation :: MultiLocation where
  "RelayChainLocation = parent_location"

definition RelayNetwork :: NetworkId where
  "RelayNetwork = Kusama"

definition RelayChainOrigin :: "'a origin" where
  "RelayChainOrigin = RelayOrigin"

definition UniversalLocation :: "u32 \<Rightarrow> Junctions" where
  "UniversalLocation para = X2 (GlobalConsensus RelayNetwork) (Parachain para)"

definition SelfReserve :: MultiLocation where
  "SelfReserve = \<lparr>parents = 0, interior = X1 TEER_GENERAL_KEY\<rparr>"

definition SelfLocation :: MultiLocation where
  "SelfLocation = here_location"

definition SelfLocationAbsolute :: "u32 \<Rightarrow> MultiLocation" where
  "SelfLocationAbsolute para = \<lparr>parents = 1, interior = X1 (Parachain para)\<rparr>"

lemma teer_key_eq_iff [simp]:
  "Parachain i \<noteq> TEER_GENERAL_KEY" "TEER_GENERAL_KEY \<noteq> Parachain i"
  by (simp_all add: TEER_GENERAL_KEY_def teer_general_key_def)

section \<open>Currencies\<close>

datatype CurrencyId = TEER

definition CurrencyIdConvert_to_location :: "u32 \<Rightarrow> CurrencyId \<Rightarrow> MultiLocation option" where
  "CurrencyIdConvert_to_location para c =
     (case c of TEER \<Rightarrow> Some \<lparr>parents = 1, interior = X2 (Parachain para) TEER_GENERAL_KEY\<rparr>)"

definition CurrencyIdConvert_from_location :: "u32 \<Rightarrow> MultiLocation \<Rightarrow> CurrencyId option" where
  "CurrencyIdConvert_from_location self_para_id location =
     (if parents location = 1 then
        (case interior location of
           X2 (Parachain para_id) junction \<Rightarrow>
             if junction = TEER_GENERAL_KEY \<and> para_id = self_para_id then Some TEER else None
         | _ \<Rightarrow> None)
      else if parents location = 0 then
        (case interior location of
           X1 junction \<Rightarrow> if junction = TEER_GENERAL_KEY then Some TEER else None
         | _ \<Rightarrow> None)
      else None)"

definition CurrencyIdConvert_from_asset :: "u32 \<Rightarrow> 'f MultiAsset \<Rightarrow> CurrencyId option" where
  "CurrencyIdConvert_from_asset para asset =
     (case asset_id asset of
        Concrete location \<Rightarrow> CurrencyIdConvert_from_location para location
      | _ \<Rightarrow> None)"

lemmas currency_convert_defs = CurrencyIdConvert_to_location_def CurrencyIdConvert_from_location_def
  CurrencyIdConvert_from_asset_def

interpretation integritee_currency: currency_convert
  "CurrencyIdConvert_to_location para" "CurrencyIdConvert_from_location para"
  by unfold_locales (auto simp: currency_convert_defs split: CurrencyId.splits)

text \<open>Exactly two locations name the currency: the one relative to this chain and the absolute one.\<close>

lemma from_location_iff:
  "CurrencyIdConvert_from_location para l = Some c \<longleftrightarrow>
   l = SelfReserve \<or> l = \<lparr>parents = 1, interior = X2 (Parachain para) TEER_GENERAL_KEY\<rparr>"
  by (cases l; cases c)
     (auto simp: CurrencyIdConvert_from_location_def SelfReserve_def
       split: Junctions.splits Junction.splits if_splits)

section \<open>Routing\<close>

definition XcmRouter :: "('m, 't, 'z) router_lib_scheme \<Rightarrow> ('m, 't) router" where
  "XcmRouter U = router_tuple U [ParentAsUmp U, XcmpQueue_router U]"

section \<open>Accounts and origins\<close>

definition LocationToAccountId :: "('k, 'a, 'z) origin_lib_scheme \<Rightarrow> 'a account_converter" where
  "LocationToAccountId L = account_tuple L
     [ParentIsPreset L, SiblingParachainConvertsVia L, AccountId32Aliases L RelayNetwork]"

definition LocalAssetTransactor ::
  "('f, CurrencyId, 'a, 's, 'w, 'y) asset_lib_scheme \<Rightarrow> ('k, 'a, 'z) origin_lib_scheme \<Rightarrow> u32 \<Rightarrow>
   ('f, 's) asset_transactor" where
  "LocalAssetTransactor X L para =
     CurrencyAdapter X (IsNativeConcrete X (CurrencyIdConvert_from_location para)) (LocationToAccountId L)"

definition XcmOriginToTransactDispatchOrigin ::
  "('k, 'a, 'z) origin_lib_scheme \<Rightarrow> ('k, 'a) origin_converter" where
  "XcmOriginToTransactDispatchOrigin L = origin_tuple L
     [SovereignSignedViaLocation L (LocationToAccountId L),
      RelayChainAsNative L RelayChainOrigin,
      SiblingParachainAsNative L,
      ParentAsSuperuser L,
      SignedAccountId32AsNative L RelayNetwork,
      XcmPassthrough L]"

definition LocalOriginToLocation :: "'z local_origin_lib_scheme \<Rightarrow> u8 list origin \<Rightarrow> MultiLocation option" where
  "LocalOriginToLocation D = SignedToAccountId32 D RelayNetwork"

definition AccountIdToMultiLocation :: "u8 list \<Rightarrow> MultiLocation" where
  "AccountIdToMultiLocation account = \<lparr>parents = 0, interior = X1 (AccountId32 None account)\<rparr>"

text \<open>A local account, written with the relay chain's network or with none, is itself.\<close>

lemma local_account:
  assumes "account_laws Q" "net = None \<or> net = Some RelayNetwork"
  shows "LocationToAccountId Q \<lparr>parents = 0, interior = X1 (AccountId32 net a)\<rparr> = Some a"
proof -
  let ?l = "\<lparr>parents = 0, interior = X1 (AccountId32 net a)\<rparr>"
  have "account_tuple Q = first_some" "ParentIsPreset Q ?l = None" "SiblingParachainConvertsVia Q ?l = None"
    "AccountId32Aliases Q RelayNetwork ?l = Some a"
    using assms by (auto simp: account_laws_def is_sibling_def)
  then show ?thesis by (simp add: LocationToAccountId_def)
qed

section \<open>Reserves\<close>

definition AbsoluteAndRelativeReserve ::
  "MultiLocation \<Rightarrow> 'f reserve_provider \<Rightarrow> 'f reserve_provider" where
  "AbsoluteAndRelativeReserve absolute relative asset =
     map_option (\<lambda>relative_reserve.
       if relative_reserve = absolute then here_location else relative_reserve) (relative asset)"

lemma reserve_cases:
  "AbsoluteAndRelativeReserve a rel x = None \<longleftrightarrow> rel x = None"
  "AbsoluteAndRelativeReserve a rel x = Some r \<longleftrightarrow>
     (rel x = Some r \<and> r \<noteq> a) \<or> (rel x = Some a \<and> r = here_location)"
  by (auto simp: AbsoluteAndRelativeReserve_def)

section \<open>Execution of incoming messages\<close>

definition DEFAULT_PROOF_SIZE :: u64 where
  "DEFAULT_PROOF_SIZE = 128 * 1024"

definition UnitWeightCost :: "('w, 'z) weight_env_scheme \<Rightarrow> 'w" where
  "UnitWeightCost E = from_parts E 200000000 DEFAULT_PROOF_SIZE"

text \<open>The comment prices one second of weight at one TEER, that is \<open>10 ^ 12\<close> units.\<close>

definition WeightPrice :: "u128 \<Rightarrow> MultiLocation \<times> u128" where
  "WeightPrice one_teer = (parent_location, one_teer)"

definition BaseXcmWeight :: "('w, 'z) weight_env_scheme \<Rightarrow> 'w" where
  "BaseXcmWeight E = from_parts E 200000000 DEFAULT_PROOF_SIZE"

definition Barrier :: "('x, 'w, 'c, 'z) barrier_lib_scheme \<Rightarrow> ('x, 'w) barrier" where
  "Barrier L = DenyThenTry DenyReserveTransferToRelayChain
     (barrier_tuple L
        [TakeWeightCredit L,
         AllowTopLevelPaidExecutionFrom L (Everything L),
         AllowKnownQueryResponses L,
         AllowSubscriptionsFrom L (Everything L)])"

definition SafeCallFilter_contains :: "'call \<Rightarrow> bool" where
  "SafeCallFilter_contains call = True"

definition MaxAssetsIntoHolding :: u32 where
  "MaxAssetsIntoHolding = 64"

section \<open>Parameters of the XCM pallets\<close>

definition ShellRuntimeParaId :: u32 where
  "ShellRuntimeParaId = 2267"

definition IntegriteeKsmParaId :: u32 where
  "IntegriteeKsmParaId = 2015"

definition ParachainMinFee :: "MultiLocation \<Rightarrow> u128 option" where
  "ParachainMinFee location = None"

definition MaxAssetsForTransfer :: u64 where
  "MaxAssetsForTransfer = 2"

text \<open>\<open>orml_xtokens::Config\<close>: the pieces above as the pallet receives them.\<close>

record ('w, 'f) xtokens_config =
  xt_CurrencyIdConvert :: "CurrencyId \<Rightarrow> MultiLocation option"
  xt_AccountIdToMultiLocation :: "u8 list \<Rightarrow> MultiLocation"
  xt_SelfLocation :: MultiLocation
  xt_BaseXcmWeight :: 'w
  xt_UniversalLocation :: Junctions
  xt_MaxAssetsForTransfer :: u64
  xt_MinXcmFee :: "MultiLocation \<Rightarrow> u128 option"
  xt_MultiLocationsFilter :: "MultiLocation \<Rightarrow> bool"
  xt_ReserveProvider :: "'f reserve_provider"

definition xtokens_config ::
  "('w, 'y) weight_env_scheme \<Rightarrow> ('x, 'v, 'c, 'z) barrier_lib_scheme \<Rightarrow> u32 \<Rightarrow> 'f reserve_provider \<Rightarrow>
   ('w, 'f) xtokens_config" where
  "xtokens_config E L para relative =
     \<lparr>xt_CurrencyIdConvert = CurrencyIdConvert_to_location para,
      xt_AccountIdToMultiLocation = AccountIdToMultiLocation,
      xt_SelfLocation = SelfLocation,
      xt_BaseXcmWeight = BaseXcmWeight E,
      xt_UniversalLocation = UniversalLocation para,
      xt_MaxAssetsForTransfer = MaxAssetsForTransfer,
      xt_MinXcmFee = ParachainMinFee,
      xt_MultiLocationsFilter = Everything L,
      xt_ReserveProvider = AbsoluteAndRelativeReserve (SelfLocationAbsolute para) relative\<rparr>"

section \<open>Properties\<close>

text \<open>
  C29. Converting the native currency to a location and back gives the currency
  again, whatever the parachain id; and a location is accepted as the native currency exactly when
  it is the local key or the absolute path through this parachain, so no other location (another
  parachain's id, another key, another depth) is ever accepted.
\<close>

theorem currency_round_trip:
  "Option.bind (CurrencyIdConvert_to_location para c) (CurrencyIdConvert_from_location para) = Some c \<and>
   (CurrencyIdConvert_from_location para l = Some d \<longleftrightarrow>
      l = \<lparr>parents = 0, interior = X1 (GeneralKey 4 (map of_char ''TEER0000000000000000000000000000''))\<rparr> \<or>
      l = \<lparr>parents = 1,
           interior = X2 (Parachain para) (GeneralKey 4 (map of_char ''TEER0000000000000000000000000000''))\<rparr>)"
proof
  show "Option.bind (CurrencyIdConvert_to_location para c) (CurrencyIdConvert_from_location para) = Some c"
    by (rule integritee_currency.round_trip) (simp add: CurrencyIdConvert_to_location_def split: CurrencyId.split)
  show "CurrencyIdConvert_from_location para l = Some d \<longleftrightarrow>
      l = \<lparr>parents = 0, interior = X1 (GeneralKey 4 (map of_char ''TEER0000000000000000000000000000''))\<rparr> \<or>
      l = \<lparr>parents = 1,
           interior = X2 (Parachain para) (GeneralKey 4 (map of_char ''TEER0000000000000000000000000000''))\<rparr>"
    by (simp only: from_location_iff SelfReserve_def TEER_GENERAL_KEY_def teer_general_key_def)
qed

text \<open>
  Under the documented behaviour of ORML's relative reserve provider, the
  reserve of the native asset is this chain however the asset is written: every asset the currency
  conversion accepts has reserve \<open>here\<close>, so a transfer of the native token is never mistaken for a
  transfer of a foreign one.
\<close>

lemma native_reserve_is_here:
  assumes "relative_reserve_laws rel"
    and "CurrencyIdConvert_from_asset para asset = Some c"
  shows "AbsoluteAndRelativeReserve (SelfLocationAbsolute para) rel asset = Some here_location"
proof -
  obtain l f where a: "asset = \<lparr>asset_id = Concrete l, fungibility = f\<rparr>"
    and l: "CurrencyIdConvert_from_location para l = Some c"
    using assms(2) by (cases asset) (auto simp: CurrencyIdConvert_from_asset_def split: AssetId.splits)
  have "rel asset = Some here_location \<or> rel asset = Some (SelfLocationAbsolute para)"
    using l assms(1) unfolding a from_location_iff
    by (auto simp: relative_reserve_laws_def SelfReserve_def SelfLocationAbsolute_def
        TEER_GENERAL_KEY_def teer_general_key_def)
  then show ?thesis
    by (auto simp: AbsoluteAndRelativeReserve_def)
qed

definition example_relative_reserve :: "unit reserve_provider" where
  "example_relative_reserve asset =
     (case asset_id asset of
        Concrete l \<Rightarrow>
          (if parents l = 0 then Some here_location
           else (case interior l of X2 (Parachain i) _ \<Rightarrow> Some \<lparr>parents = 1, interior = X1 (Parachain i)\<rparr>
                  | _ \<Rightarrow> None))
      | _ \<Rightarrow> None)"

lemma example_relative_reserve_laws: "relative_reserve_laws example_relative_reserve"
  by (simp add: relative_reserve_laws_def example_relative_reserve_def)

text \<open>
  The reserve a transfer is routed to is never this chain's own
  absolute location (which would send the chain a message to itself), reserves of other chains are
  left as they are, and an asset without a relative reserve keeps none.
\<close>

lemma reserve_never_self_absolute:
  "xt_ReserveProvider (xtokens_config E L para rel) asset \<noteq> Some (SelfLocationAbsolute para) \<and>
   (xt_ReserveProvider (xtokens_config E L para rel) asset = None \<longleftrightarrow> rel asset = None) \<and>
   (xt_ReserveProvider (xtokens_config E L para rel) asset = rel asset \<or>
    xt_ReserveProvider (xtokens_config E L para rel) asset = Some (xt_SelfLocation (xtokens_config E L para rel)))"
proof -
  have "here_location \<noteq> SelfLocationAbsolute para"
    by (simp add: SelfLocationAbsolute_def)
  then show ?thesis
    by (cases "rel asset") (simp_all add: xtokens_config_def AbsoluteAndRelativeReserve_def SelfLocation_def)
qed

text \<open>
  C1. A message with an instruction that moves a reserve to the relay chain (withdrawing, depositing
  or transferring one there) is refused by the runtime's barrier, whatever the allowing barriers of
  other crates do, and before they can take any weight credit. Every other message is left to these
  barriers, unchanged and with its full credit; nothing but lines of the log has been added.
\<close>

theorem barrier_blocks_relay_reserves:
  "if (\<exists>x. InitiateReserveWithdraw parent_location x \<in> set (message st) \<or>
         DepositReserveAsset parent_location x \<in> set (message st) \<or>
         TransferReserveAsset parent_location x \<in> set (message st))
   then Barrier L origin mw st = (Inl Unsupported, st)
   else (\<exists>lines. Barrier L origin mw st =
     barrier_tuple L
       [TakeWeightCredit L, AllowTopLevelPaidExecutionFrom L (Everything L),
        AllowKnownQueryResponses L, AllowSubscriptionsFrom L (Everything L)]
       origin mw (st\<lparr>log := log st @ lines\<rparr>))"
proof (cases "list_ex reserve_transfer_to_parent (message st)")
  case True
  then show ?thesis
    unfolding Barrier_def using list_ex_reserve_transfer [of "message st"]
    by (simp add: relay_reserve.denied_not_executed)
next
  case False
  then show ?thesis
    unfolding Barrier_def using list_ex_reserve_transfer [of "message st"] relay_reserve.otherwise_allow [OF False]
    by simp
qed

definition example_barriers :: "(unit, nat, unit) barrier_lib" where
  "example_barriers = \<lparr>TakeWeightCredit = (\<lambda>_ w st. if w \<le> weight_credit st
       then (Inr (), st\<lparr>weight_credit := weight_credit st - w\<rparr>) else (Inl Unsupported, st)),
     AllowTopLevelPaidExecutionFrom = (\<lambda>f l _ st. (if f l then Inr () else Inl Unsupported, st)),
     AllowKnownQueryResponses = (\<lambda>_ _ st. (Inl Unsupported, st)),
     AllowSubscriptionsFrom = (\<lambda>_ _ _ st. (Inl Unsupported, st)),
     barrier_tuple = (\<lambda>bs. hd bs),
     Everything = (\<lambda>_. True), Everything_message = (\<lambda>_. True), Nothing_message = (\<lambda>_. False)\<rparr>"

theorem barrier_blocks_relay_reserves_witness:
  "Barrier example_barriers here_location 5
     \<lparr>message = [OtherInstruction (), TransferReserveAsset parent_location ()], weight_credit = 9, log = []\<rparr> =
   (Inl Unsupported,
    \<lparr>message = [OtherInstruction (), TransferReserveAsset parent_location ()], weight_credit = 9, log = []\<rparr>) \<and>
   fst (Barrier example_barriers here_location 5
     \<lparr>message = [TransferReserveAsset here_location ()], weight_credit = 9, log = []\<rparr>) = Inr ()"
  using barrier_blocks_relay_reserves [of
     "\<lparr>message = [OtherInstruction (), TransferReserveAsset parent_location ()], weight_credit = 9, log = []\<rparr>"
     example_barriers here_location 5]
  by (simp add: Barrier_def DenyThenTry_def DenyReserveTransferToRelayChain_def example_barriers_def)

lemma relay_becomes_root:
  assumes "origin_laws L"
    and "XcmOriginToTransactDispatchOrigin L l k = Inr Root"
  shows "l = RelayChainLocation"
proof -
  have "\<exists>c \<in> set [SovereignSignedViaLocation L (LocationToAccountId L),
      RelayChainAsNative L RelayOrigin, SiblingParachainAsNative L, ParentAsSuperuser L,
      SignedAccountId32AsNative L RelayNetwork, XcmPassthrough L]. c l k = Inr Root"
    using assms(2) unfolding XcmOriginToTransactDispatchOrigin_def RelayChainOrigin_def
    by (rule origin_tuple_member [OF assms(1)])
  then have "ParentAsSuperuser L l k = Inr Root"
    by (simp add: origin_not_root [OF assms(1)])
  then show ?thesis
    unfolding RelayChainLocation_def by (rule superuser_is_parent [OF assms(1)])
qed

text \<open>
  C2. Under the documented behaviour of the origin converters, an incoming
  XCM gets the root origin of this chain only if it comes from the relay chain; a sibling parachain
  or a remote account never does.
\<close>

theorem xcm_root_only_from_relay:
  assumes "origin_laws L"
    and "XcmOriginToTransactDispatchOrigin L l k = Inr Root"
  shows "l = RelayChainLocation"
  using assms by (rule relay_becomes_root)

theorem xcm_root_only_from_relay_witness:
  "XcmOriginToTransactDispatchOrigin example_origins parent_location True = Inr Root \<and>
   parent_location = RelayChainLocation"
proof -
  have root: "XcmOriginToTransactDispatchOrigin example_origins parent_location True = Inr Root"
    by (simp add: XcmOriginToTransactDispatchOrigin_def LocationToAccountId_def example_origins_def)
  then show ?thesis
    using xcm_root_only_from_relay [OF example_origins_laws root] by simp
qed

text \<open>
  C4. Which messages the chain executes: those that move no reserve to the relay chain and either are
  covered by weight credit, or pay for themselves, or answer a query of this chain, or ask for version
  notifications; from whichever origin. Everything else is refused as unsupported and leaves message and
  credit as they were. Credit is spent only on a message it covers, and then exactly the message's
  weight.
\<close>

theorem barrier_admits_exactly:
  assumes "barrier_laws E A L" "filter_laws L"
  shows "(fst (Barrier L origin mw st) = Inr () \<longleftrightarrow>
      \<not> (\<exists>x. InitiateReserveWithdraw parent_location x \<in> set (message st) \<or>
          DepositReserveAsset parent_location x \<in> set (message st) \<or>
          TransferReserveAsset parent_location x \<in> set (message st)) \<and>
      (no_heavier E mw (weight_credit st) \<or> paid A mw (message st) \<or> expected A origin (message st) \<or>
       subscription A (message st))) \<and>
    (fst (Barrier L origin mw st) \<noteq> Inr () \<longrightarrow>
      fst (Barrier L origin mw st) = Inl Unsupported \<and> message (snd (Barrier L origin mw st)) = message st) \<and>
    weight_credit (snd (Barrier L origin mw st)) =
      (if fst (Barrier L origin mw st) = Inr () \<and> no_heavier E mw (weight_credit st)
       then weight_sub E (weight_credit st) mw else weight_credit st)"
proof (cases "list_ex reserve_transfer_to_parent (message st)")
  case True
  then have "Barrier L origin mw st = (Inl Unsupported, st)"
    unfolding Barrier_def by (rule relay_reserve.denied_not_executed)
  with True show ?thesis by (simp add: list_ex_reserve_transfer [symmetric])
next
  case False
  let ?B = "[TakeWeightCredit L, AllowTopLevelPaidExecutionFrom L (Everything L), AllowKnownQueryResponses L,
    AllowSubscriptionsFrom L (Everything L)]"
  obtain l where eq: "Barrier L origin mw st = barrier_tuple L ?B origin mw (st\<lparr>log := log st @ l\<rparr>)"
    using relay_reserve.otherwise_allow [OF False] unfolding Barrier_def by blast
  have "Everything L origin" using assms(2) by (simp add: filter_laws_def)
  note chain = chain_of_four [where f = "Everything L" and g = "Everything L", OF assms(1) this this refl,
      of mw "st\<lparr>log := log st @ l\<rparr>"]
  show ?thesis
  proof (cases "no_heavier E mw (weight_credit st)")
    case True
    with chain False show ?thesis unfolding eq by (simp add: list_ex_reserve_transfer [symmetric])
  next
    case credit: False
    show ?thesis
    proof (cases "paid A mw (message st) \<or> expected A origin (message st) \<or> subscription A (message st)")
      case True
      then obtain msg where "Barrier L origin mw st = (Inr (), st\<lparr>log := log st @ l, message := msg\<rparr>)"
        using chain credit unfolding eq by auto
      with True credit False show ?thesis by (simp add: list_ex_reserve_transfer [symmetric])
    next
      case False
      with chain credit show ?thesis unfolding eq by simp
    qed
  qed
qed

theorem barrier_admits_exactly_witness:
  "fst (Barrier example_chain here_location (5, 5) \<lparr>message = [OtherInstruction 4], weight_credit = (9, 2), log = []\<rparr>) = Inr () \<and>
   fst (Barrier example_chain here_location (5, 5) \<lparr>message = [OtherInstruction 7], weight_credit = (9, 2), log = []\<rparr>) =
     Inl Unsupported"
  using barrier_admits_exactly [OF example_chain_laws, of here_location "(5, 5)"
      "\<lparr>message = [OtherInstruction 4], weight_credit = (9, 2), log = []\<rparr>"]
    barrier_admits_exactly [OF example_chain_laws, of here_location "(5, 5)"
      "\<lparr>message = [OtherInstruction 7], weight_credit = (9, 2), log = []\<rparr>"]
  by (auto simp: example_admission_def no_heavier_def pair_env_def)

text \<open>
  A message leaves this chain only for the relay chain, by upward messages, or for a sibling
  parachain, by the XCMP queue, and the queue's own verdict is the answer; for every other destination
  there is no route.
\<close>

lemma router_reaches_neighbours:
  assumes "router_laws U"
  shows "XcmRouter U d m =
    (if d = RelayChainLocation then ParentAsUmp U d m
     else if \<exists>i. d = \<lparr>parents = 1, interior = X1 (Parachain i)\<rparr> then XcmpQueue_router U d m
     else Inl NotApplicable)"
proof -
  have "XcmRouter U = first_applicable [ParentAsUmp U, XcmpQueue_router U]"
    and na: "ParentAsUmp U d m = Inl NotApplicable \<longleftrightarrow> d \<noteq> parent_location"
      "XcmpQueue_router U d m = Inl NotApplicable \<longleftrightarrow> \<not> is_sibling d"
    using assms by (simp_all add: router_laws_def XcmRouter_def)
  then show ?thesis
    unfolding is_sibling_iff [symmetric] RelayChainLocation_def by (auto simp: na)
qed

lemma router_reaches_neighbours_witness:
  "XcmRouter example_routers \<lparr>parents = 2, interior = Here\<rparr> 1 = Inl NotApplicable \<and>
   XcmRouter example_routers \<lparr>parents = 1, interior = X1 (Parachain 2000)\<rparr> 1 = Inr ''xcmp''"
  using router_reaches_neighbours [OF example_routers_laws, of "\<lparr>parents = 2, interior = Here\<rparr>" 1]
    router_reaches_neighbours [OF example_routers_laws, of "\<lparr>parents = 1, interior = X1 (Parachain 2000)\<rparr>" 1]
  by (simp add: RelayChainLocation_def example_routers_def is_sibling_def)

end
