(* ===== verification/Weights_Xcm.thy ===== *)
theory Weights_Xcm
  imports Parachains_Common
begin

text \<open>
  \<open>integritee-runtime/src/weights/pallet_xcm.rs\<close>: the weight functions of the XCM pallet, one
  definition per function, its list in the order of the \<open>saturating_add\<close> calls.
\<close>

section \<open>\<open>pallet_xcm\<close>\<close>

definition pallet_xcm_send :: "('w, 'z) weight_env_scheme \<Rightarrow> 'w" where
  "pallet_xcm_send T =
     saturating_chain T (from_parts T 48215000 0)
       [from_parts T 0 3576,
        db_reads T 5,
        db_writes T 2]"

definition pallet_xcm_teleport_assets :: "('w, 'z) weight_env_scheme \<Rightarrow> 'w" where
  "pallet_xcm_teleport_assets T =
     saturating_chain T (from_parts T 18446744073709551000 0)
       [from_parts T 0 0]"

definition pallet_xcm_reserve_transfer_assets :: "('w, 'z) weight_env_scheme \<Rightarrow> 'w" where
  "pallet_xcm_reserve_transfer_assets T =
     saturating_chain T (from_parts T 31086000 0)
       [from_parts T 0 1489,
        db_reads T 1]"

definition pallet_xcm_execute :: "('w, 'z) weight_env_scheme \<Rightarrow> 'w" where
  "pallet_xcm_execute T =
     saturating_chain T (from_parts T 18446744073709551000 0)
       [from_parts T 0 0]"

definition pallet_xcm_force_xcm_version :: "('w, 'z) weight_env_scheme \<Rightarrow> 'w" where
  "pallet_xcm_force_xcm_version T =
     saturating_chain T (from_parts T 16433000 0)
       [from_parts T 0 0,
        db_writes T 1]"

definition pallet_xcm_force_default_xcm_version :: "('w, 'z) weight_env_scheme \<Rightarrow> 'w" where
  "pallet_xcm_force_default_xcm_version T =
     saturating_chain T (from_parts T 4987000 0)
       [from_parts T 0 0,
        db_writes T 1]"

definition pallet_xcm_force_subscribe_version_notify :: "('w, 'z) weight_env_scheme \<Rightarrow> 'w" where
  "pallet_xcm_force_subscribe_version_notify T =
     saturating_chain T (from_parts T 55719000 0)
       [from_parts T 0 3576,
        db_reads T 7,
        db_writes T 5]"

definition pallet_xcm_force_unsubscribe_version_notify :: "('w, 'z) weight_env_scheme \<Rightarrow> 'w" where
  "pallet_xcm_force_unsubscribe_version_notify T =
     saturating_chain T (from_parts T 55082000 0)
       [from_parts T 0 3759,
        db_reads T 6,
        db_writes T 4]"

definition pallet_xcm_force_suspension :: "('w, 'z) weight_env_scheme \<Rightarrow> 'w" where
  "pallet_xcm_force_suspension T =
     saturating_chain T (from_parts T 4866000 0)
       [from_parts T 0 0,
        db_writes T 1]"

definition pallet_xcm_migrate_supported_version :: "('w, 'z) weight_env_scheme \<Rightarrow> 'w" where
  "pallet_xcm_migrate_supported_version T =
     saturating_chain T (from_parts T 27336000 0)
       [from_parts T 0 11095,
        db_reads T 4,
        db_writes T 2]"

definition pallet_xcm_migrate_version_notifiers :: "('w, 'z) weight_env_scheme \<Rightarrow> 'w" where
  "pallet_xcm_migrate_version_notifiers T =
     saturating_chain T (from_parts T 27732000 0)
       [from_parts T 0 11099,
        db_reads T 4,
        db_writes T 2]"

definition pallet_xcm_already_notified_target :: "('w, 'z) weight_env_scheme \<Rightarrow> 'w" where
  "pallet_xcm_already_notified_target T =
     saturating_chain T (from_parts T 28607000 0)
       [from_parts T 0 13581,
        db_reads T 5]"

definition pallet_xcm_notify_current_targets :: "('w, 'z) weight_env_scheme \<Rightarrow> 'w" where
  "pallet_xcm_notify_current_targets T =
     saturating_chain T (from_parts T 47261000 0)
       [from_parts T 0 6118,
        db_reads T 7,
        db_writes T 3]"

definition pallet_xcm_notify_target_migration_fail :: "('w, 'z) weight_env_scheme \<Rightarrow> 'w" where
  "pallet_xcm_notify_target_migration_fail T =
     saturating_chain T (from_parts T 15256000 0)
       [from_parts T 0 8587,
        db_reads T 3]"

definition pallet_xcm_migrate_version_notify_targets :: "('w, 'z) weight_env_scheme \<Rightarrow> 'w" where
  "pallet_xcm_migrate_version_notify_targets T =
     saturating_chain T (from_parts T 25634000 0)
       [from_parts T 0 11106,
        db_reads T 4,
        db_writes T 2]"

definition pallet_xcm_migrate_and_notify_old_targets :: "('w, 'z) weight_env_scheme \<Rightarrow> 'w" where
  "pallet_xcm_migrate_and_notify_old_targets T =
     saturating_chain T (from_parts T 57320000 0)
       [from_parts T 0 11148,
        db_reads T 9,
        db_writes T 4]"

lemmas pallet_xcm_weights =
  pallet_xcm_send_def
  pallet_xcm_teleport_assets_def
  pallet_xcm_reserve_transfer_assets_def
  pallet_xcm_execute_def
  pallet_xcm_force_xcm_version_def
  pallet_xcm_force_default_xcm_version_def
  pallet_xcm_force_subscribe_version_notify_def
  pallet_xcm_force_unsubscribe_version_notify_def
  pallet_xcm_force_suspension_def
  pallet_xcm_migrate_supported_version_def
  pallet_xcm_migrate_version_notifiers_def
  pallet_xcm_already_notified_target_def
  pallet_xcm_notify_current_targets_def
  pallet_xcm_notify_target_migration_fail_def
  pallet_xcm_migrate_version_notify_targets_def
  pallet_xcm_migrate_and_notify_old_targets_def

lemmas xcm_weights =
  pallet_xcm_weights

lemma xcm_weights_fit_normal:
  assumes "limits_known E"
  shows "
      fits_normal E (pallet_xcm_send E) \<and>
      fits_normal E (pallet_xcm_reserve_transfer_assets E) \<and>
      fits_normal E (pallet_xcm_force_xcm_version E) \<and>
      fits_normal E (pallet_xcm_force_default_xcm_version E) \<and>
      fits_normal E (pallet_xcm_force_subscribe_version_notify E) \<and>
      fits_normal E (pallet_xcm_force_unsubscribe_version_notify E) \<and>
      fits_normal E (pallet_xcm_force_suspension E) \<and>
      fits_normal E (pallet_xcm_migrate_supported_version E) \<and>
      fits_normal E (pallet_xcm_migrate_version_notifiers E) \<and>
      fits_normal E (pallet_xcm_already_notified_target E) \<and>
      fits_normal E (pallet_xcm_notify_current_targets E) \<and>
      fits_normal E (pallet_xcm_notify_target_migration_fail E) \<and>
      fits_normal E (pallet_xcm_migrate_version_notify_targets E) \<and>
      fits_normal E (pallet_xcm_migrate_and_notify_old_targets E)"
  by (intro conjI allI impI;
      (rule fits_normalI [OF assms], unfold xcm_weights,
       (rule within_rules limits_knownD [OF assms] | assumption)+, simp, simp))

end
