(* ===== verification/Weights_System.thy ===== *)
theory Weights_System
  imports Parachains_Common
begin

text \<open>
  \<open>integritee-runtime/src/weights\<close>: the weight functions of the system pallets
  (\<open>frame_system\<close>, timestamp, utility, preimage, scheduler, multisig, proxy), one definition per
  function of the file's \<open>impl WeightInfo\<close>, its list in the order of the \<open>saturating_add\<close> calls.
  A component is the \<open>u32\<close> the pallet passes for the size of its input. The theorems take the upper
  end of a component from the range the file documents.
\<close>

section \<open>\<open>frame_system\<close>\<close>

definition frame_system_remark :: "('w, 'z) weight_env_scheme \<Rightarrow> u32 \<Rightarrow> 'w" where
  "frame_system_remark T b =
     saturating_chain T (from_parts T 1914000 0)
       [from_parts T 0 0,
        saturating_mul T (from_parts T 229 0) (ucast b)]"

definition frame_system_remark_with_event :: "('w, 'z) weight_env_scheme \<Rightarrow> u32 \<Rightarrow> 'w" where
  "frame_system_remark_with_event T b =
     saturating_chain T (from_parts T 6175000 0)
       [from_parts T 0 0,
        saturating_mul T (from_parts T 1183 0) (ucast b)]"

definition frame_system_set_heap_pages :: "('w, 'z) weight_env_scheme \<Rightarrow> 'w" where
  "frame_system_set_heap_pages T =
     saturating_chain T (from_parts T 3135000 0)
       [from_parts T 0 1485,
        db_reads T 1,
        db_writes T 2]"

definition frame_system_set_storage :: "('w, 'z) weight_env_scheme \<Rightarrow> u32 \<Rightarrow> 'w" where
  "frame_system_set_storage T i =
     saturating_chain T (from_parts T 1866000 0)
       [from_parts T 0 0,
        saturating_mul T (from_parts T 642113 0) (ucast i),
        db_writes T (u64_saturating_mul 1 (ucast i))]"

definition frame_system_kill_storage :: "('w, 'z) weight_env_scheme \<Rightarrow> u32 \<Rightarrow> 'w" where
  "frame_system_kill_storage T i =
     saturating_chain T (from_parts T 1865000 0)
       [from_parts T 0 0,
        saturating_mul T (from_parts T 456842 0) (ucast i),
        db_writes T (u64_saturating_mul 1 (ucast i))]"

definition frame_system_kill_prefix :: "('w, 'z) weight_env_scheme \<Rightarrow> u32 \<Rightarrow> 'w" where
  "frame_system_kill_prefix T p =
     saturating_chain T (from_parts T 3538000 0)
       [from_parts T 0 88,
        saturating_mul T (from_parts T 956812 0) (ucast p),
        db_reads T (u64_saturating_mul 1 (ucast p)),
        db_writes T (u64_saturating_mul 1 (ucast p)),
        saturating_mul T (from_parts T 0 70) (ucast p)]"

lemmas frame_system_weights =
  frame_system_remark_def
  frame_system_remark_with_event_def
  frame_system_set_heap_pages_def
  frame_system_set_storage_def
  frame_system_kill_storage_def
  frame_system_kill_prefix_def

section \<open>\<open>pallet_timestamp\<close>\<close>

definition pallet_timestamp_set :: "('w, 'z) weight_env_scheme \<Rightarrow> 'w" where
  "pallet_timestamp_set T =
     saturating_chain T (from_parts T 12005000 0)
       [from_parts T 0 1493,
        db_reads T 1,
        db_writes T 1]"

definition pallet_timestamp_on_finalize :: "('w, 'z) weight_env_scheme \<Rightarrow> 'w" where
  "pallet_timestamp_on_finalize T =
     saturating_chain T (from_parts T 7333000 0)
       [from_parts T 0 0]"

lemmas pallet_timestamp_weights =
  pallet_timestamp_set_def
  pallet_timestamp_on_finalize_def

section \<open>\<open>pallet_utility\<close>\<close>

definition pallet_utility_batch :: "('w, 'z) weight_env_scheme \<Rightarrow> u32 \<Rightarrow> 'w" where
  "pallet_utility_batch T c =
     saturating_chain T (from_parts T 85352237 0)
       [from_parts T 0 0,
        saturating_mul T (from_parts T 5224246 0) (ucast c)]"

definition pallet_utility_as_derivative :: "('w, 'z) weight_env_scheme \<Rightarrow> 'w" where
  "pallet_utility_as_derivative T =
     saturating_chain T (from_parts T 5378000 0)
       [from_parts T 0 0]"

definition pallet_utility_batch_all :: "('w, 'z) weight_env_scheme \<Rightarrow> u32 \<Rightarrow> 'w" where
  "pallet_utility_batch_all T c =
     saturating_chain T (from_parts T 12491487 0)
       [from_parts T 0 0,
        saturating_mul T (from_parts T 5703988 0) (ucast c)]"

definition pallet_utility_dispatch_as :: "('w, 'z) weight_env_scheme \<Rightarrow> 'w" where
  "pallet_utility_dispatch_as T =
     saturating_chain T (from_parts T 9383000 0)
       [from_parts T 0 0]"

definition pallet_utility_force_batch :: "('w, 'z) weight_env_scheme \<Rightarrow> u32 \<Rightarrow> 'w" where
  "pallet_utility_force_batch T c =
     saturating_chain T (from_parts T 6822000 0)
       [from_parts T 0 0,
        saturating_mul T (from_parts T 5525340 0) (ucast c)]"

lemmas pallet_utility_weights =
  pallet_utility_batch_def
  pallet_utility_as_derivative_def
  pallet_utility_batch_all_def
  pallet_utility_dispatch_as_def
  pallet_utility_force_batch_def

section \<open>\<open>pallet_preimage\<close>\<close>

definition pallet_preimage_note_preimage :: "('w, 'z) weight_env_scheme \<Rightarrow> u32 \<Rightarrow> 'w" where
  "pallet_preimage_note_preimage T s =
     saturating_chain T (from_parts T 53175000 0)
       [from_parts T 0 3556,
        saturating_mul T (from_parts T 1631 0) (ucast s),
        db_reads T 1,
        db_writes T 2]"

definition pallet_preimage_note_requested_preimage :: "('w, 'z) weight_env_scheme \<Rightarrow> u32 \<Rightarrow> 'w" where
  "pallet_preimage_note_requested_preimage T s =
     saturating_chain T (from_parts T 14186000 0)
       [from_parts T 0 3556,
        saturating_mul T (from_parts T 1639 0) (ucast s),
        db_reads T 1,
        db_writes T 2]"

definition pallet_preimage_note_no_deposit_preimage :: "('w, 'z) weight_env_scheme \<Rightarrow> u32 \<Rightarrow> 'w" where
  "pallet_preimage_note_no_deposit_preimage T s =
     saturating_chain T (from_parts T 13425000 0)
       [from_parts T 0 3556,
        saturating_mul T (from_parts T 1632 0) (ucast s),
        db_reads T 1,
        db_writes T 2]"

definition pallet_preimage_unnote_preimage :: "('w, 'z) weight_env_scheme \<Rightarrow> 'w" where
  "pallet_preimage_unnote_preimage T =
     saturating_chain T (from_parts T 39172000 0)
       [from_parts T 0 3556,
        db_reads T 1,
        db_writes T 2]"

definition pallet_preimage_unnote_no_deposit_preimage :: "('w, 'z) weight_env_scheme \<Rightarrow> 'w" where
  "pallet_preimage_unnote_no_deposit_preimage T =
     saturating_chain T (from_parts T 20182000 0)
       [from_parts T 0 3556,
        db_reads T 1,
        db_writes T 2]"

definition pallet_preimage_request_preimage :: "('w, 'z) weight_env_scheme \<Rightarrow> 'w" where
  "pallet_preimage_request_preimage T =
     saturating_chain T (from_parts T 18862000 0)
       [from_parts T 0 3556,
        db_reads T 1,
        db_writes T 1]"

definition pallet_preimage_request_no_deposit_preimage :: "('w, 'z) weight_env_scheme \<Rightarrow> 'w" where
  "pallet_preimage_request_no_deposit_preimage T =
     saturating_chain T (from_parts T 10489000 0)
       [from_parts T 0 3556,
        db_reads T 1,
        db_writes T 1]"

definition pallet_preimage_request_unnoted_preimage :: "('w, 'z) weight_env_scheme \<Rightarrow> 'w" where
  "pallet_preimage_request_unnoted_preimage T =
     saturating_chain T (from_parts T 11683000 0)
       [from_parts T 0 3556,
        db_reads T 1,
        db_writes T 1]"

definition pallet_preimage_request_requested_preimage :: "('w, 'z) weight_env_scheme \<Rightarrow> 'w" where
  "pallet_preimage_request_requested_preimage T =
     saturating_chain T (from_parts T 7587000 0)
       [from_parts T 0 3556,
        db_reads T 1,
        db_writes T 1]"

definition pallet_preimage_unrequest_preimage :: "('w, 'z) weight_env_scheme \<Rightarrow> 'w" where
  "pallet_preimage_unrequest_preimage T =
     saturating_chain T (from_parts T 19124000 0)
       [from_parts T 0 3556,
        db_reads T 1,
        db_writes T 2]"

definition pallet_preimage_unrequest_unnoted_preimage :: "('w, 'z) weight_env_scheme \<Rightarrow> 'w" where
  "pallet_preimage_unrequest_unnoted_preimage T =
     saturating_chain T (from_parts T 7391000 0)
       [from_parts T 0 3556,
        db_reads T 1,
        db_writes T 1]"

definition pallet_preimage_unrequest_multi_referenced_preimage :: "('w, 'z) weight_env_scheme \<Rightarrow> 'w" where
  "pallet_preimage_unrequest_multi_referenced_preimage T =
     saturating_chain T (from_parts T 7545000 0)
       [from_parts T 0 3556,
        db_reads T 1,
        db_writes T 1]"

lemmas pallet_preimage_weights =
  pallet_preimage_note_preimage_def
  pallet_preimage_note_requested_preimage_def
  pallet_preimage_note_no_deposit_preimage_def
  pallet_preimage_unnote_preimage_def
  pallet_preimage_unnote_no_deposit_preimage_def
  pallet_preimage_request_preimage_def
  pallet_preimage_request_no_deposit_preimage_def
  pallet_preimage_request_unnoted_preimage_def
  pallet_preimage_request_requested_preimage_def
  pallet_preimage_unrequest_preimage_def
  pallet_preimage_unrequest_unnoted_preimage_def
  pallet_preimage_unrequest_multi_referenced_preimage_def

section \<open>\<open>pallet_scheduler\<close>\<close>

definition pallet_scheduler_service_agendas_base :: "('w, 'z) weight_env_scheme \<Rightarrow> 'w" where
  "pallet_scheduler_service_agendas_base T =
     saturating_chain T (from_parts T 6909000 0)
       [from_parts T 0 1489,
        db_reads T 1,
        db_writes T 1]"

definition pallet_scheduler_service_agenda_base :: "('w, 'z) weight_env_scheme \<Rightarrow> u32 \<Rightarrow> 'w" where
  "pallet_scheduler_service_agenda_base T s =
     saturating_chain T (from_parts T 21069120 0)
       [from_parts T 0 42428,
        saturating_mul T (from_parts T 1311090 0) (ucast s),
        db_reads T 1,
        db_writes T 1]"

definition pallet_scheduler_service_task_base :: "('w, 'z) weight_env_scheme \<Rightarrow> 'w" where
  "pallet_scheduler_service_task_base T =
     saturating_chain T (from_parts T 7029000 0)
       [from_parts T 0 0]"

definition pallet_scheduler_service_task_fetched :: "('w, 'z) weight_env_scheme \<Rightarrow> u32 \<Rightarrow> 'w" where
  "pallet_scheduler_service_task_fetched T s =
     saturating_chain T (from_parts T 25243000 0)
       [from_parts T 0 3678,
        saturating_mul T (from_parts T 908 0) (ucast s),
        db_reads T 2,
        db_writes T 2,
        saturating_mul T (from_parts T 0 1) (ucast s)]"

definition pallet_scheduler_service_task_named :: "('w, 'z) weight_env_scheme \<Rightarrow> 'w" where
  "pallet_scheduler_service_task_named T =
     saturating_chain T (from_parts T 7421000 0)
       [from_parts T 0 0,
        db_writes T 1]"

definition pallet_scheduler_service_task_periodic :: "('w, 'z) weight_env_scheme \<Rightarrow> 'w" where
  "pallet_scheduler_service_task_periodic T =
     saturating_chain T (from_parts T 5893000 0)
       [from_parts T 0 0]"

definition pallet_scheduler_execute_dispatch_signed :: "('w, 'z) weight_env_scheme \<Rightarrow> 'w" where
  "pallet_scheduler_execute_dispatch_signed T =
     saturating_chain T (from_parts T 2833000 0)
       [from_parts T 0 0]"

definition pallet_scheduler_execute_dispatch_unsigned :: "('w, 'z) weight_env_scheme \<Rightarrow> 'w" where
  "pallet_scheduler_execute_dispatch_unsigned T =
     saturating_chain T (from_parts T 2985000 0)
       [from_parts T 0 0]"

definition pallet_scheduler_schedule :: "('w, 'z) weight_env_scheme \<Rightarrow> u32 \<Rightarrow> 'w" where
  "pallet_scheduler_schedule T s =
     saturating_chain T (from_parts T 16268835 0)
       [from_parts T 0 42428,
        saturating_mul T (from_parts T 714822 0) (ucast s),
        db_reads T 1,
        db_writes T 1]"

definition pallet_scheduler_cancel :: "('w, 'z) weight_env_scheme \<Rightarrow> u32 \<Rightarrow> 'w" where
  "pallet_scheduler_cancel T s =
     saturating_chain T (from_parts T 15262448 0)
       [from_parts T 0 42428,
        saturating_mul T (from_parts T 1318388 0) (ucast s),
        db_reads T 1,
        db_writes T 2]"

definition pallet_scheduler_schedule_named :: "('w, 'z) weight_env_scheme \<Rightarrow> u32 \<Rightarrow> 'w" where
  "pallet_scheduler_schedule_named T s =
     saturating_chain T (from_parts T 18364770 0)
       [from_parts T 0 42428,
        saturating_mul T (from_parts T 794277 0) (ucast s),
        db_reads T 2,
        db_writes T 2]"

definition pallet_scheduler_cancel_named :: "('w, 'z) weight_env_scheme \<Rightarrow> u32 \<Rightarrow> 'w" where
  "pallet_scheduler_cancel_named T s =
     saturating_chain T (from_parts T 17704325 0)
       [from_parts T 0 42428,
        saturating_mul T (from_parts T 1350999 0) (ucast s),
        db_reads T 2,
        db_writes T 2]"

lemmas pallet_scheduler_weights =
  pallet_scheduler_service_agendas_base_def
  pallet_scheduler_service_agenda_base_def
  pallet_scheduler_service_task_base_def
  pallet_scheduler_service_task_fetched_def
  pallet_scheduler_service_task_named_def
  pallet_scheduler_service_task_periodic_def
  pallet_scheduler_execute_dispatch_signed_def
  pallet_scheduler_execute_dispatch_unsigned_def
  pallet_scheduler_schedule_def
  pallet_scheduler_cancel_def
  pallet_scheduler_schedule_named_def
  pallet_scheduler_cancel_named_def

section \<open>\<open>pallet_multisig\<close>\<close>

definition pallet_multisig_as_multi_threshold_1 :: "('w, 'z) weight_env_scheme \<Rightarrow> u32 \<Rightarrow> 'w" where
  "pallet_multisig_as_multi_threshold_1 T z =
     saturating_chain T (from_parts T 9434591 0)
       [from_parts T 0 0,
        saturating_mul T (from_parts T 1 0) (ucast z)]"

definition pallet_multisig_as_multi_create :: "('w, 'z) weight_env_scheme \<Rightarrow> u32 \<Rightarrow> u32 \<Rightarrow> 'w" where
  "pallet_multisig_as_multi_create T s z =
     saturating_chain T (from_parts T 30902909 0)
       [from_parts T 0 3930,
        saturating_mul T (from_parts T 249624 0) (ucast s),
        saturating_mul T (from_parts T 1162 0) (ucast z),
        db_reads T 1,
        db_writes T 1]"

definition pallet_multisig_as_multi_approve :: "('w, 'z) weight_env_scheme \<Rightarrow> u32 \<Rightarrow> u32 \<Rightarrow> 'w" where
  "pallet_multisig_as_multi_approve T s z =
     saturating_chain T (from_parts T 17078329 0)
       [from_parts T 0 3930,
        saturating_mul T (from_parts T 182578 0) (ucast s),
        saturating_mul T (from_parts T 1062 0) (ucast z),
        db_reads T 1,
        db_writes T 1]"

definition pallet_multisig_as_multi_complete :: "('w, 'z) weight_env_scheme \<Rightarrow> u32 \<Rightarrow> u32 \<Rightarrow> 'w" where
  "pallet_multisig_as_multi_complete T s z =
     saturating_chain T (from_parts T 33222478 0)
       [from_parts T 0 3930,
        saturating_mul T (from_parts T 346157 0) (ucast s),
        saturating_mul T (from_parts T 1181 0) (ucast z),
        db_reads T 2,
        db_writes T 2]"

definition pallet_multisig_approve_as_multi_create :: "('w, 'z) weight_env_scheme \<Rightarrow> u32 \<Rightarrow> 'w" where
  "pallet_multisig_approve_as_multi_create T s =
     saturating_chain T (from_parts T 30323391 0)
       [from_parts T 0 3930,
        saturating_mul T (from_parts T 291970 0) (ucast s),
        db_reads T 1,
        db_writes T 1]"

definition pallet_multisig_approve_as_multi_approve :: "('w, 'z) weight_env_scheme \<Rightarrow> u32 \<Rightarrow> 'w" where
  "pallet_multisig_approve_as_multi_approve T s =
     saturating_chain T (from_parts T 16436811 0)
       [from_parts T 0 3930,
        saturating_mul T (from_parts T 170864 0) (ucast s),
        db_reads T 1,
        db_writes T 1]"

definition pallet_multisig_cancel_as_multi :: "('w, 'z) weight_env_scheme \<Rightarrow> u32 \<Rightarrow> 'w" where
  "pallet_multisig_cancel_as_multi T s =
     saturating_chain T (from_parts T 31005857 0)
       [from_parts T 0 3930,
        saturating_mul T (from_parts T 272297 0) (ucast s),
        db_reads T 1,
        db_writes T 1]"

lemmas pallet_multisig_weights =
  pallet_multisig_as_multi_threshold_1_def
  pallet_multisig_as_multi_create_def
  pallet_multisig_as_multi_approve_def
  pallet_multisig_as_multi_complete_def
  pallet_multisig_approve_as_multi_create_def
  pallet_multisig_approve_as_multi_approve_def
  pallet_multisig_cancel_as_multi_def

section \<open>\<open>pallet_proxy\<close>\<close>

definition pallet_proxy_proxy :: "('w, 'z) weight_env_scheme \<Rightarrow> u32 \<Rightarrow> 'w" where
  "pallet_proxy_proxy T p =
     saturating_chain T (from_parts T 23018486 0)
       [from_parts T 0 4706,
        db_reads T 1]"

definition pallet_proxy_proxy_announced :: "('w, 'z) weight_env_scheme \<Rightarrow> u32 \<Rightarrow> u32 \<Rightarrow> 'w" where
  "pallet_proxy_proxy_announced T a p =
     saturating_chain T (from_parts T 35819455 0)
       [from_parts T 0 5698,
        saturating_mul T (from_parts T 190996 0) (ucast a),
        saturating_mul T (from_parts T 48725 0) (ucast p),
        db_reads T 3,
        db_writes T 2]"

definition pallet_proxy_remove_announcement :: "('w, 'z) weight_env_scheme \<Rightarrow> u32 \<Rightarrow> u32 \<Rightarrow> 'w" where
  "pallet_proxy_remove_announcement T a p =
     saturating_chain T (from_parts T 24352886 0)
       [from_parts T 0 5698,
        saturating_mul T (from_parts T 164553 0) (ucast a),
        saturating_mul T (from_parts T 3472 0) (ucast p),
        db_reads T 2,
        db_writes T 2]"

definition pallet_proxy_reject_announcement :: "('w, 'z) weight_env_scheme \<Rightarrow> u32 \<Rightarrow> u32 \<Rightarrow> 'w" where
  "pallet_proxy_reject_announcement T a p =
     saturating_chain T (from_parts T 22928870 0)
       [from_parts T 0 5698,
        saturating_mul T (from_parts T 242891 0) (ucast a),
        saturating_mul T (from_parts T 45575 0) (ucast p),
        db_reads T 2,
        db_writes T 2]"

definition pallet_proxy_announce :: "('w, 'z) weight_env_scheme \<Rightarrow> u32 \<Rightarrow> u32 \<Rightarrow> 'w" where
  "pallet_proxy_announce T a p =
     saturating_chain T (from_parts T 29549711 0)
       [from_parts T 0 5698,
        saturating_mul T (from_parts T 529586 0) (ucast a),
        saturating_mul T (from_parts T 149137 0) (ucast p),
        db_reads T 3,
        db_writes T 2]"

definition pallet_proxy_add_proxy :: "('w, 'z) weight_env_scheme \<Rightarrow> u32 \<Rightarrow> 'w" where
  "pallet_proxy_add_proxy T p =
     saturating_chain T (from_parts T 27818270 0)
       [from_parts T 0 4706,
        saturating_mul T (from_parts T 34236 0) (ucast p),
        db_reads T 1,
        db_writes T 1]"

definition pallet_proxy_remove_proxy :: "('w, 'z) weight_env_scheme \<Rightarrow> u32 \<Rightarrow> 'w" where
  "pallet_proxy_remove_proxy T p =
     saturating_chain T (from_parts T 27601107 0)
       [from_parts T 0 4706,
        saturating_mul T (from_parts T 41162 0) (ucast p),
        db_reads T 1,
        db_writes T 1]"

definition pallet_proxy_remove_proxies :: "('w, 'z) weight_env_scheme \<Rightarrow> u32 \<Rightarrow> 'w" where
  "pallet_proxy_remove_proxies T p =
     saturating_chain T (from_parts T 24222274 0)
       [from_parts T 0 4706,
        saturating_mul T (from_parts T 10655 0) (ucast p),
        db_reads T 1,
        db_writes T 1]"

definition pallet_proxy_create_pure :: "('w, 'z) weight_env_scheme \<Rightarrow> u32 \<Rightarrow> 'w" where
  "pallet_proxy_create_pure T p =
     saturating_chain T (from_parts T 28643514 0)
       [from_parts T 0 4706,
        saturating_mul T (from_parts T 41997 0) (ucast p),
        db_reads T 1,
        db_writes T 1]"

definition pallet_proxy_kill_pure :: "('w, 'z) weight_env_scheme \<Rightarrow> u32 \<Rightarrow> 'w" where
  "pallet_proxy_kill_pure T p =
     saturating_chain T (from_parts T 24880619 0)
       [from_parts T 0 4706,
        saturating_mul T (from_parts T 45192 0) (ucast p),
        db_reads T 1,
        db_writes T 1]"

lemmas pallet_proxy_weights =
  pallet_proxy_proxy_def
  pallet_proxy_proxy_announced_def
  pallet_proxy_remove_announcement_def
  pallet_proxy_reject_announcement_def
  pallet_proxy_announce_def
  pallet_proxy_add_proxy_def
  pallet_proxy_remove_proxy_def
  pallet_proxy_remove_proxies_def
  pallet_proxy_create_pure_def
  pallet_proxy_kill_pure_def

lemmas system_weights =
  frame_system_weights pallet_timestamp_weights pallet_utility_weights pallet_preimage_weights pallet_scheduler_weights pallet_multisig_weights pallet_proxy_weights

text \<open>
  Every call of the system pallets can be included: for every input
  within the range the pallet was benchmarked for (a remark of up to 3932160 bytes, a batch of up
  to a thousand calls, ...) its weight, database operations included, stays within the share of a
  block that normal extrinsics may fill, in computation time and in proof size. (Fetching a
  scheduled call is not one of them: the scheduler does it with its own share.)
\<close>

lemma system_weights_fit_normal:
  assumes "limits_known E"
  shows "
      (\<forall>b. unat b \<le> 3932160 \<longrightarrow> fits_normal E (frame_system_remark E b)) \<and>
      (\<forall>b. unat b \<le> 3932160 \<longrightarrow> fits_normal E (frame_system_remark_with_event E b)) \<and>
      fits_normal E (frame_system_set_heap_pages E) \<and>
      (\<forall>i. unat i \<le> 1000 \<longrightarrow> fits_normal E (frame_system_set_storage E i)) \<and>
      (\<forall>i. unat i \<le> 1000 \<longrightarrow> fits_normal E (frame_system_kill_storage E i)) \<and>
      (\<forall>p. unat p \<le> 1000 \<longrightarrow> fits_normal E (frame_system_kill_prefix E p)) \<and>
      fits_normal E (pallet_timestamp_set E) \<and>
      fits_normal E (pallet_timestamp_on_finalize E) \<and>
      (\<forall>c. unat c \<le> 1000 \<longrightarrow> fits_normal E (pallet_utility_batch E c)) \<and>
      fits_normal E (pallet_utility_as_derivative E) \<and>
      (\<forall>c. unat c \<le> 1000 \<longrightarrow> fits_normal E (pallet_utility_batch_all E c)) \<and>
      fits_normal E (pallet_utility_dispatch_as E) \<and>
      (\<forall>c. unat c \<le> 1000 \<longrightarrow> fits_normal E (pallet_utility_force_batch E c)) \<and>
      (\<forall>s. unat s \<le> 4194304 \<longrightarrow> fits_normal E (pallet_preimage_note_preimage E s)) \<and>
      (\<forall>s. unat s \<le> 4194304 \<longrightarrow> fits_normal E (pallet_preimage_note_requested_preimage E s)) \<and>
      (\<forall>s. unat s \<le> 4194304 \<longrightarrow> fits_normal E (pallet_preimage_note_no_deposit_preimage E s)) \<and>
      fits_normal E (pallet_preimage_unnote_preimage E) \<and>
      fits_normal E (pallet_preimage_unnote_no_deposit_preimage E) \<and>
      fits_normal E (pallet_preimage_request_preimage E) \<and>
      fits_normal E (pallet_preimage_request_no_deposit_preimage E) \<and>
      fits_normal E (pallet_preimage_request_unnoted_preimage E) \<and>
      fits_normal E (pallet_preimage_request_requested_preimage E) \<and>
      fits_normal E (pallet_preimage_unrequest_preimage E) \<and>
      fits_normal E (pallet_preimage_unrequest_unnoted_preimage E) \<and>
      fits_normal E (pallet_preimage_unrequest_multi_referenced_preimage E) \<and>
      fits_normal E (pallet_scheduler_service_agendas_base E) \<and>
      (\<forall>s. unat s \<le> 50 \<longrightarrow> fits_normal E (pallet_scheduler_service_agenda_base E s)) \<and>
      fits_normal E (pallet_scheduler_service_task_base E) \<and>
      fits_normal E (pallet_scheduler_service_task_named E) \<and>
      fits_normal E (pallet_scheduler_service_task_periodic E) \<and>
      fits_normal E (pallet_scheduler_execute_dispatch_signed E) \<and>
      fits_normal E (pallet_scheduler_execute_dispatch_unsigned E) \<and>
      (\<forall>s. unat s \<le> 49 \<longrightarrow> fits_normal E (pallet_scheduler_schedule E s)) \<and>
      (\<forall>s. unat s \<le> 50 \<longrightarrow> fits_normal E (pallet_scheduler_cancel E s)) \<and>
      (\<forall>s. unat s \<le> 49 \<longrightarrow> fits_normal E (pallet_scheduler_schedule_named E s)) \<and>
      (\<forall>s. unat s \<le> 50 \<longrightarrow> fits_normal E (pallet_scheduler_cancel_named E s)) \<and>
      (\<forall>z. unat z \<le> 10000 \<longrightarrow> fits_normal E (pallet_multisig_as_multi_threshold_1 E z)) \<and>
      (\<forall>s z. unat s \<le> 10 \<longrightarrow> unat z \<le> 10000 \<longrightarrow> fits_normal E (pallet_multisig_as_multi_create E s z)) \<and>
      (\<forall>s z. unat s \<le> 10 \<longrightarrow> unat z \<le> 10000 \<longrightarrow> fits_normal E (pallet_multisig_as_multi_approve E s z)) \<and>
      (\<forall>s z. unat s \<le> 10 \<longrightarrow> unat z \<le> 10000 \<longrightarrow> fits_normal E (pallet_multisig_as_multi_complete E s z)) \<and>
      (\<forall>s. unat s \<le> 10 \<longrightarrow> fits_normal E (pallet_multisig_approve_as_multi_create E s)) \<and>
      (\<forall>s. unat s \<le> 10 \<longrightarrow> fits_normal E (pallet_multisig_approve_as_multi_approve E s)) \<and>
      (\<forall>s. unat s \<le> 10 \<longrightarrow> fits_normal E (pallet_multisig_cancel_as_multi E s)) \<and>
      (\<forall>p. fits_normal E (pallet_proxy_proxy E p)) \<and>
      (\<forall>a p. unat a \<le> 31 \<longrightarrow> unat p \<le> 31 \<longrightarrow> fits_normal E (pallet_proxy_proxy_announced E a p)) \<and>
      (\<forall>a p. unat a \<le> 31 \<longrightarrow> unat p \<le> 31 \<longrightarrow> fits_normal E (pallet_proxy_remove_announcement E a p)) \<and>
      (\<forall>a p. unat a \<le> 31 \<longrightarrow> unat p \<le> 31 \<longrightarrow> fits_normal E (pallet_proxy_reject_announcement E a p)) \<and>
      (\<forall>a p. unat a \<le> 31 \<longrightarrow> unat p \<le> 31 \<longrightarrow> fits_normal E (pallet_proxy_announce E a p)) \<and>
      (\<forall>p. unat p \<le> 31 \<longrightarrow> fits_normal E (pallet_proxy_add_proxy E p)) \<and>
      (\<forall>p. unat p \<le> 31 \<longrightarrow> fits_normal E (pallet_proxy_remove_proxy E p)) \<and>
      (\<forall>p. unat p \<le> 31 \<longrightarrow> fits_normal E (pallet_proxy_remove_proxies E p)) \<and>
      (\<forall>p. unat p \<le> 31 \<longrightarrow> fits_normal E (pallet_proxy_create_pure E p)) \<and>
      (\<forall>p. unat p \<le> 30 \<longrightarrow> fits_normal E (pallet_proxy_kill_pure E p))"
  by (intro conjI allI impI;
      (rule fits_normalI [OF assms], unfold system_weights,
       (rule within_rules limits_knownD [OF assms] | assumption)+, simp, simp))

lemma system_weights_fit_normal_witness:
  "fits_normal pair_env (frame_system_remark pair_env 3932160)"
  using system_weights_fit_normal [OF limits_known_pair_env, THEN conjunct1, rule_format, of 3932160]
  by simp

text \<open>A larger input never weighs less, so charging for the maximum covers every smaller one.\<close>

lemma system_weights_mono:
  assumes "weight_laws T" "db_laws T rd wr"
  shows "
      (\<forall>b b'. b \<le> b' \<longrightarrow> no_heavier T (frame_system_remark T b) (frame_system_remark T b')) \<and>
      (\<forall>b b'. b \<le> b' \<longrightarrow> no_heavier T (frame_system_remark_with_event T b) (frame_system_remark_with_event T b')) \<and>
      (\<forall>i i'. i \<le> i' \<longrightarrow> no_heavier T (frame_system_set_storage T i) (frame_system_set_storage T i')) \<and>
      (\<forall>i i'. i \<le> i' \<longrightarrow> no_heavier T (frame_system_kill_storage T i) (frame_system_kill_storage T i')) \<and>
      (\<forall>p p'. p \<le> p' \<longrightarrow> no_heavier T (frame_system_kill_prefix T p) (frame_system_kill_prefix T p')) \<and>
      (\<forall>c c'. c \<le> c' \<longrightarrow> no_heavier T (pallet_utility_batch T c) (pallet_utility_batch T c')) \<and>
      (\<forall>c c'. c \<le> c' \<longrightarrow> no_heavier T (pallet_utility_batch_all T c) (pallet_utility_batch_all T c')) \<and>
      (\<forall>c c'. c \<le> c' \<longrightarrow> no_heavier T (pallet_utility_force_batch T c) (pallet_utility_force_batch T c')) \<and>
      (\<forall>s s'. s \<le> s' \<longrightarrow> no_heavier T (pallet_preimage_note_preimage T s) (pallet_preimage_note_preimage T s')) \<and>
      (\<forall>s s'. s \<le> s' \<longrightarrow> no_heavier T (pallet_preimage_note_requested_preimage T s) (pallet_preimage_note_requested_preimage T s')) \<and>
      (\<forall>s s'. s \<le> s' \<longrightarrow> no_heavier T (pallet_preimage_note_no_deposit_preimage T s) (pallet_preimage_note_no_deposit_preimage T s')) \<and>
      (\<forall>s s'. s \<le> s' \<longrightarrow> no_heavier T (pallet_scheduler_service_agenda_base T s) (pallet_scheduler_service_agenda_base T s')) \<and>
      (\<forall>s s'. s \<le> s' \<longrightarrow> no_heavier T (pallet_scheduler_service_task_fetched T s) (pallet_scheduler_service_task_fetched T s')) \<and>
      (\<forall>s s'. s \<le> s' \<longrightarrow> no_heavier T (pallet_scheduler_schedule T s) (pallet_scheduler_schedule T s')) \<and>
      (\<forall>s s'. s \<le> s' \<longrightarrow> no_heavier T (pallet_scheduler_cancel T s) (pallet_scheduler_cancel T s')) \<and>
      (\<forall>s s'. s \<le> s' \<longrightarrow> no_heavier T (pallet_scheduler_schedule_named T s) (pallet_scheduler_schedule_named T s')) \<and>
      (\<forall>s s'. s \<le> s' \<longrightarrow> no_heavier T (pallet_scheduler_cancel_named T s) (pallet_scheduler_cancel_named T s')) \<and>
      (\<forall>z z'. z \<le> z' \<longrightarrow> no_heavier T (pallet_multisig_as_multi_threshold_1 T z) (pallet_multisig_as_multi_threshold_1 T z')) \<and>
      (\<forall>s z s' z'. s \<le> s' \<longrightarrow> z \<le> z' \<longrightarrow> no_heavier T (pallet_multisig_as_multi_create T s z) (pallet_multisig_as_multi_create T s' z')) \<and>
      (\<forall>s z s' z'. s \<le> s' \<longrightarrow> z \<le> z' \<longrightarrow> no_heavier T (pallet_multisig_as_multi_approve T s z) (pallet_multisig_as_multi_approve T s' z')) \<and>
      (\<forall>s z s' z'. s \<le> s' \<longrightarrow> z \<le> z' \<longrightarrow> no_heavier T (pallet_multisig_as_multi_complete T s z) (pallet_multisig_as_multi_complete T s' z')) \<and>
      (\<forall>s s'. s \<le> s' \<longrightarrow> no_heavier T (pallet_multisig_approve_as_multi_create T s) (pallet_multisig_approve_as_multi_create T s')) \<and>
      (\<forall>s s'. s \<le> s' \<longrightarrow> no_heavier T (pallet_multisig_approve_as_multi_approve T s) (pallet_multisig_approve_as_multi_approve T s')) \<and>
      (\<forall>s s'. s \<le> s' \<longrightarrow> no_heavier T (pallet_multisig_cancel_as_multi T s) (pallet_multisig_cancel_as_multi T s')) \<and>
      (\<forall>p p'. no_heavier T (pallet_proxy_proxy T p) (pallet_proxy_proxy T p')) \<and>
      (\<forall>a p a' p'. a \<le> a' \<longrightarrow> p \<le> p' \<longrightarrow> no_heavier T (pallet_proxy_proxy_announced T a p) (pallet_proxy_proxy_announced T a' p')) \<and>
      (\<forall>a p a' p'. a \<le> a' \<longrightarrow> p \<le> p' \<longrightarrow> no_heavier T (pallet_proxy_remove_announcement T a p) (pallet_proxy_remove_announcement T a' p')) \<and>
      (\<forall>a p a' p'. a \<le> a' \<longrightarrow> p \<le> p' \<longrightarrow> no_heavier T (pallet_proxy_reject_announcement T a p) (pallet_proxy_reject_announcement T a' p')) \<and>
      (\<forall>a p a' p'. a \<le> a' \<longrightarrow> p \<le> p' \<longrightarrow> no_heavier T (pallet_proxy_announce T a p) (pallet_proxy_announce T a' p')) \<and>
      (\<forall>p p'. p \<le> p' \<longrightarrow> no_heavier T (pallet_proxy_add_proxy T p) (pallet_proxy_add_proxy T p')) \<and>
      (\<forall>p p'. p \<le> p' \<longrightarrow> no_heavier T (pallet_proxy_remove_proxy T p) (pallet_proxy_remove_proxy T p')) \<and>
      (\<forall>p p'. p \<le> p' \<longrightarrow> no_heavier T (pallet_proxy_remove_proxies T p) (pallet_proxy_remove_proxies T p')) \<and>
      (\<forall>p p'. p \<le> p' \<longrightarrow> no_heavier T (pallet_proxy_create_pure T p) (pallet_proxy_create_pure T p')) \<and>
      (\<forall>p p'. p \<le> p' \<longrightarrow> no_heavier T (pallet_proxy_kill_pure T p) (pallet_proxy_kill_pure T p'))"
  unfolding system_weights
  by (intro conjI allI impI; (rule assms heavier_rules | assumption)+)

end
