(* ===== verification/Integritee_Executor.thy ===== *)
theory Integritee_Executor
  imports Integritee_Xcm Integritee_Runtime Weights_Xcm Weights_System
begin

text \<open>
  Where the XCM configuration, the runtime's limits and the benchmarked weights of the full runtime
  meet: \<open>XcmExecutorConfig\<close> of \<open>xcm_config.rs\<close> with the parameters of \<open>lib.rs\<close>, and the capacity of a
  block for incoming messages and scheduled calls.
\<close>

section \<open>The executor\<close>

text \<open>
  ORML's \<open>MultiNativeAsset\<close> over a reserve provider decides whether an asset may be received as
  backed by a reserve at the origin; \<open>FixedWeightBounds\<close> prices a message by its number of
  instructions. Both are parameters, like the matcher, the currency adapter and the trader.
\<close>

record ('f, 'c, 'a, 's, 'w, 'x) executor_lib = "('f, 'c, 'a, 's, 'w) asset_lib" +
  MultiNativeAsset :: "'f reserve_provider \<Rightarrow> 'f MultiAsset \<Rightarrow> MultiLocation \<Rightarrow> bool"
  FixedWeightBounds :: "'w \<Rightarrow> u32 \<Rightarrow> 'x Instruction list \<Rightarrow> 'w option"

text \<open>
  \<open>xcm_executor::Config\<close>. \<open>()\<close> as teleport filter and \<open>Nothing\<close> as filter of aliases accept nothing. Handlers
  that are a pallet (\<open>ResponseHandler\<close>, \<open>SubscriptionService\<close>, \<open>AssetTrap\<close>, \<open>AssetClaims\<close>) are given by its
  name, a call by its encoding; the locker, the exchanger, the fee manager and the exporter are the name of a handler
  or \<open>None\<close> for \<open>()\<close>. The type of calls and their dispatcher are given by the pallets that have calls, with the index
  by which an encoded call names them, and \<open>PalletInstancesInfo\<close>, the answer to queries for pallets, by all pallets.
\<close>

record ('f, 's, 'w, 'x, 'k, 'a, 'm, 't) executor_config =
  ex_RuntimeCall :: "(string \<times> u8) list"
  ex_XcmSender :: "('m, 't) router"
  ex_AssetTransactor :: "('f, 's) asset_transactor"
  ex_OriginConverter :: "('k, 'a) origin_converter"
  ex_IsReserve :: "'f MultiAsset \<Rightarrow> MultiLocation \<Rightarrow> bool"
  ex_IsTeleporter :: "'f MultiAsset \<Rightarrow> MultiLocation \<Rightarrow> bool"
  ex_UniversalLocation :: Junctions
  ex_Barrier :: "('x, 'w) barrier"
  ex_Weigher :: "'x Instruction list \<Rightarrow> 'w option"
  ex_Trader :: "'w trader"
  ex_ResponseHandler :: string
  ex_SubscriptionService :: string
  ex_AssetTrap :: string
  ex_AssetClaims :: string
  ex_CallDispatcher :: "(string \<times> u8) list"
  ex_PalletInstancesInfo :: "(string \<times> u8) list"
  ex_MaxAssetsIntoHolding :: u32
  ex_AssetLocker :: "string option"
  ex_AssetExchanger :: "string option"
  ex_FeeManager :: "string option"
  ex_MessageExporter :: "string option"
  ex_UniversalAliases :: "MultiLocation \<Rightarrow> Junction \<Rightarrow> bool"
  ex_SafeCallFilter :: "u8 list \<Rightarrow> bool"

definition XcmExecutorConfig ::
  "('f, CurrencyId, 'a, 's, 'w, 'x, 'i) executor_lib_scheme \<Rightarrow> ('w, 'y) weight_env_scheme \<Rightarrow>
   ('k, 'a, 'v) origin_lib_scheme \<Rightarrow> ('x, 'w, 'c, 'z) barrier_lib_scheme \<Rightarrow> ('m, 't, 'u) router_lib_scheme \<Rightarrow>
   u32 \<Rightarrow> 'f reserve_provider \<Rightarrow> ('f, 's, 'w, 'x, 'k, 'a, 'm, 't) executor_config" where
  "XcmExecutorConfig X E Q L U para rel =
     \<lparr>ex_RuntimeCall = RuntimeCall_pallets,
      ex_XcmSender = XcmRouter U,
      ex_AssetTransactor = LocalAssetTransactor X Q para,
      ex_OriginConverter = XcmOriginToTransactDispatchOrigin Q,
      ex_IsReserve = MultiNativeAsset X (AbsoluteAndRelativeReserve (SelfLocationAbsolute para) rel),
      ex_IsTeleporter = (\<lambda>_ _. False),
      ex_UniversalLocation = UniversalLocation para,
      ex_Barrier = Barrier L,
      ex_Weigher = FixedWeightBounds X (UnitWeightCost E) MaxInstructions,
      ex_Trader = UsingComponents X (IdentityFee X) SelfReserve,
      ex_ResponseHandler = ''PolkadotXcm'',
      ex_SubscriptionService = ''PolkadotXcm'',
      ex_AssetTrap = ''PolkadotXcm'',
      ex_AssetClaims = ''PolkadotXcm'',
      ex_CallDispatcher = RuntimeCall_pallets,
      ex_PalletInstancesInfo = runtime_pallets,
      ex_MaxAssetsIntoHolding = MaxAssetsIntoHolding,
      ex_AssetLocker = None,
      ex_AssetExchanger = None,
      ex_FeeManager = None,
      ex_MessageExporter = None,
      ex_UniversalAliases = (\<lambda>_ _. False),
      ex_SafeCallFilter = SafeCallFilter_contains\<rparr>"

section \<open>The XCM pallets\<close>

text \<open>
  \<open>pallet_xcm::Config\<close>: who may send and execute messages, which of them, and how they are routed and
  weighed. The argument \<open>()\<close> of \<open>EnsureXcmOrigin\<close> is the converter that knows no origin.
\<close>

record ('f, 's, 'w, 'x, 'k, 'm, 't, 'c) pallet_xcm_Config =
  SendXcmOrigin :: "u8 list origin \<Rightarrow> MultiLocation option"
  px_XcmRouter :: "('m, 't) router"
  ExecuteXcmOrigin :: "u8 list origin \<Rightarrow> MultiLocation option"
  XcmExecuteFilter :: "'c \<Rightarrow> bool"
  px_XcmExecutor :: "('f, 's, 'w, 'x, 'k, u8 list, 'm, 't) executor_config"
  XcmTeleportFilter :: "'c \<Rightarrow> bool"
  XcmReserveTransferFilter :: "'c \<Rightarrow> bool"
  px_Weigher :: "'x Instruction list \<Rightarrow> 'w option"
  px_UniversalLocation :: Junctions
  VERSION_DISCOVERY_QUEUE_SIZE :: u32
  px_Currency :: string
  SovereignAccountOf :: "u8 list account_converter"
  MaxLockers :: u32
  px_WeightInfo :: weight_source
  AdminOrigin :: "u8 list origin \<Rightarrow> bool"

definition pallet_xcm_config ::
  "('f, CurrencyId, u8 list, 's, 'w, 'x, 'i) executor_lib_scheme \<Rightarrow> ('w, 'y) weight_env_scheme \<Rightarrow>
   ('k, u8 list, 'v) origin_lib_scheme \<Rightarrow> ('x, 'w, 'c, 'z) barrier_lib_scheme \<Rightarrow> ('m, 't, 'u) router_lib_scheme \<Rightarrow>
   'd local_origin_lib_scheme \<Rightarrow> (u8 list, 'g) ensure_lib_scheme \<Rightarrow> u32 \<Rightarrow> 'f reserve_provider \<Rightarrow>
   ('f, 's, 'w, 'x, 'k, 'm, 't, 'c) pallet_xcm_Config" where
  "pallet_xcm_config X E Q L U D G para rel =
     \<lparr>SendXcmOrigin = EnsureXcmOrigin D (\<lambda>_. None),
      px_XcmRouter = XcmRouter U,
      ExecuteXcmOrigin = EnsureXcmOrigin D (LocalOriginToLocation D),
      XcmExecuteFilter = Nothing_message L,
      px_XcmExecutor = XcmExecutorConfig X E Q L U para rel,
      XcmTeleportFilter = Nothing_message L,
      XcmReserveTransferFilter = Everything_message L,
      px_Weigher = FixedWeightBounds X (UnitWeightCost E) MaxInstructions,
      px_UniversalLocation = UniversalLocation para,
      VERSION_DISCOVERY_QUEUE_SIZE = 100,
      px_Currency = ''Balances'',
      SovereignAccountOf = LocationToAccountId Q,
      MaxLockers = 8,
      px_WeightInfo = Benchmarked ''pallet_xcm'',
      AdminOrigin = EnsureRoot G\<rparr>"

text \<open>
  \<open>ReachableDest\<close>, compiled in for benchmarks only: the destination to which benchmarks of the XCM pallet send. It is one of
  the two to which there is a route.
\<close>

definition ReachableDest :: "MultiLocation option" where
  "ReachableDest = Some parent_location"

lemma ReachableDest_has_route:
  assumes "router_laws U" "ReachableDest = Some d"
  shows "XcmRouter U d m = ParentAsUmp U d m \<and> XcmRouter U d m \<noteq> Inl NotApplicable"
  using assms by (auto simp: ReachableDest_def router_reaches_neighbours RelayChainLocation_def router_laws_def)

text \<open>\<open>cumulus_pallet_xcm::Config\<close>: the executor for messages handed over by the relay chain.\<close>

record ('f, 's, 'w, 'x, 'k, 'a, 'm, 't) cumulus_xcm_config =
  cx_XcmExecutor :: "('f, 's, 'w, 'x, 'k, 'a, 'm, 't) executor_config"

definition cumulus_pallet_xcm_config ::
  "('f, CurrencyId, 'a, 's, 'w, 'x, 'i) executor_lib_scheme \<Rightarrow> ('w, 'y) weight_env_scheme \<Rightarrow>
   ('k, 'a, 'v) origin_lib_scheme \<Rightarrow> ('x, 'w, 'c, 'z) barrier_lib_scheme \<Rightarrow> ('m, 't, 'u) router_lib_scheme \<Rightarrow>
   u32 \<Rightarrow> 'f reserve_provider \<Rightarrow> ('f, 's, 'w, 'x, 'k, 'a, 'm, 't) cumulus_xcm_config" where
  "cumulus_pallet_xcm_config X E Q L U para rel = \<lparr>cx_XcmExecutor = XcmExecutorConfig X E Q L U para rel\<rparr>"

text \<open>
  \<open>pallet_xcm_transactor::Config\<close>: the relay chain calls that swap the slots of the two parachains are
  built for one of them and sent on behalf of the given origin.
\<close>

record ('m, 't, 'a) xcm_transactor_config =
  RelayCallBuilder_para :: u32
  xtr_XcmSender :: "('m, 't) router"
  SwapOrigin :: "'a origin \<Rightarrow> bool"
  xtr_ShellRuntimeParaId :: u32
  xtr_IntegriteeKsmParaId :: u32
  xtr_WeightInfo :: weight_source

definition pallet_xcm_transactor_config ::
  "('m, 't, 'u) router_lib_scheme \<Rightarrow> ('a, 'g) ensure_lib_scheme \<Rightarrow> ('m, 't, 'a) xcm_transactor_config" where
  "pallet_xcm_transactor_config U G =
     \<lparr>RelayCallBuilder_para = IntegriteeKsmParaId,
      xtr_XcmSender = XcmRouter U,
      SwapOrigin = EnsureRootOrMoreThanHalfCouncil G,
      xtr_ShellRuntimeParaId = ShellRuntimeParaId,
      xtr_IntegriteeKsmParaId = IntegriteeKsmParaId,
      xtr_WeightInfo = DefaultWeights\<rparr>"

text \<open>
  The queues for messages from siblings and from the relay chain. The controller of the sibling queue
  may suspend it; an incoming message acts as controller if its origin converts to one.
\<close>

record ('k, 'a) xcmp_queue_config =
  ChannelInfo :: string
  xq_ExecuteOverweightOrigin :: "'a origin \<Rightarrow> bool"
  ControllerOrigin :: "'a origin \<Rightarrow> bool"
  ControllerOriginConverter :: "('k, 'a) origin_converter"
  xq_WeightInfo :: weight_source

definition cumulus_pallet_xcmp_queue_config ::
  "('k, 'a, 'v) origin_lib_scheme \<Rightarrow> ('a, 'g) ensure_lib_scheme \<Rightarrow> ('k, 'a) xcmp_queue_config" where
  "cumulus_pallet_xcmp_queue_config Q G =
     \<lparr>ChannelInfo = ''ParachainSystem'',
      xq_ExecuteOverweightOrigin = EnsureRoot G,
      ControllerOrigin = EnsureRoot G,
      ControllerOriginConverter = XcmOriginToTransactDispatchOrigin Q,
      xq_WeightInfo = Foreign ''cumulus_pallet_xcmp_queue''\<rparr>"

record 'a dmp_queue_config =
  dq_ExecuteOverweightOrigin :: "'a origin \<Rightarrow> bool"

definition cumulus_pallet_dmp_queue_config :: "('a, 'g) ensure_lib_scheme \<Rightarrow> 'a dmp_queue_config" where
  "cumulus_pallet_dmp_queue_config G = \<lparr>dq_ExecuteOverweightOrigin = EnsureRoot G\<rparr>"

section \<open>Documented behaviour of the executor's parts\<close>

text \<open>An asset is accepted from the origin that is its reserve, and from no other.\<close>

definition native_asset_law :: "('f, 'c, 'a, 's, 'w, 'x, 'i) executor_lib_scheme \<Rightarrow> bool" where
  "native_asset_law X \<longleftrightarrow>
     (\<forall>rel asset origin. MultiNativeAsset X rel asset origin \<longleftrightarrow> rel asset = Some origin)"

text \<open>
  A message of \<open>plain\<close> instructions, those that carry neither a call nor a nested message, weighs its
  number of instructions times the unit, as long as that does not overflow; more instructions than
  the limit are refused.
\<close>

definition weigher_law ::
  "('w, 'y) weight_env_scheme \<Rightarrow> ('x Instruction \<Rightarrow> bool) \<Rightarrow> ('f, 'c, 'a, 's, 'w, 'x, 'i) executor_lib_scheme \<Rightarrow>
   bool" where
  "weigher_law E plain X \<longleftrightarrow>
     (\<forall>unit_cost limit msg. list_all plain msg \<longrightarrow>
        length msg * unat (ref_time E unit_cost) < 2 ^ 64 \<longrightarrow> length msg * unat (proof_size E unit_cost) < 2 ^ 64 \<longrightarrow>
        FixedWeightBounds X unit_cost limit msg =
          (if length msg \<le> unat limit then Some (saturating_mul E unit_cost (of_nat (length msg))) else None))"

text \<open>An executor that satisfies all laws, over balances as functions.\<close>

definition example_executor :: "(u128, 'c, u8 list, u8 list \<Rightarrow> nat, u64 \<times> u64, nat) executor_lib" where
  "example_executor = asset_lib.extend example_assets
     (executor_lib.fields
        (\<lambda>rel asset origin. rel asset = Some origin)
        (\<lambda>unit_cost limit msg.
           if length msg \<le> unat limit then Some (saturating_mul pair_env unit_cost (of_nat (length msg))) else None))"

lemmas example_executor_defs = example_executor_def asset_lib.defs executor_lib.defs

lemma example_executor_laws:
  "native_asset_law example_executor" "weigher_law pair_env (\<lambda>_. True) example_executor"
  "matcher_law Some example_executor" "adapter_laws (unat ExistentialDeposit) (\<lambda>s. s) example_executor" "trader_laws pair_env example_executor"
  using example_assets_laws
  by (simp_all add: native_asset_law_def weigher_law_def matcher_law_def adapter_laws_def trader_laws_def
      example_executor_defs ExistentialDeposit_def MILLITEER_def)

definition example_reserve :: "u128 reserve_provider" where
  "example_reserve asset = example_relative_reserve \<lparr>asset_id = asset_id asset, fungibility = ()\<rparr>"

lemma example_reserve_laws: "relative_reserve_laws example_reserve"
  using example_relative_reserve_laws by (simp add: relative_reserve_laws_def example_reserve_def)

section \<open>Properties\<close>

lemma reserved_weight_parts:
  assumes "limits_known E"
  shows "unat (ref_time E (ReservedXcmpWeight E)) = 125000000000"
    and "unat (proof_size E (ReservedXcmpWeight E)) = 1310720"
  using MAXIMUM_BLOCK_WEIGHT_parts [OF limits_knownD(1,4) [OF assms]] limits_knownD(3) [OF assms]
  by (simp_all add: ReservedXcmpWeight_def weight_arith_laws_def)

text \<open>
  C3. No other chain can mint the native currency here: an asset this chain
  recognises as its own currency, under its relative or its absolute location, is accepted as
  reserve-backed from no origin but this chain itself, and never as teleported.
\<close>

theorem native_reserve_only_local:
  assumes "native_asset_law X" "relative_reserve_laws rel"
    and "CurrencyIdConvert_from_asset para asset = Some c"
  shows "(ex_IsReserve (XcmExecutorConfig X E Q L U para rel) asset origin \<longleftrightarrow> origin = here_location) \<and>
    \<not> ex_IsTeleporter (XcmExecutorConfig X E Q L U para rel) asset origin"
  using native_reserve_is_here [OF assms(2,3)] assms(1)
  by (auto simp: XcmExecutorConfig_def native_asset_law_def)

theorem native_reserve_only_local_witness:
  "\<not> ex_IsReserve (XcmExecutorConfig example_executor pair_env example_accounts example_chain example_routers
       2015 example_reserve)
     \<lparr>asset_id = Concrete \<lparr>parents = 1, interior = X2 (Parachain 2015) TEER_GENERAL_KEY\<rparr>, fungibility = 5\<rparr>
     \<lparr>parents = 1, interior = X1 (Parachain 2000)\<rparr>"
proof -
  let ?asset = "\<lparr>asset_id = Concrete \<lparr>parents = 1, interior = X2 (Parachain 2015) TEER_GENERAL_KEY\<rparr>, fungibility = 5\<rparr>"
  have "CurrencyIdConvert_from_asset 2015 ?asset = Some TEER"
    by (simp add: currency_convert_defs)
  moreover have "\<lparr>parents = 1, interior = X1 (Parachain 2000)\<rparr> \<noteq> here_location" by simp
  ultimately show ?thesis
    using native_reserve_only_local [OF example_executor_laws(1) example_reserve_laws] by blast
qed

lemma message_weight:
  assumes "limits_known E" "weigher_law E plain X" "list_all plain msg" "length msg \<le> unat MaxInstructions"
  shows "\<exists>w. ex_Weigher (XcmExecutorConfig X E Q L U para rel) msg = Some w \<and>
    unat (ref_time E w) = 200000000 * length msg \<and> unat (proof_size E w) = 131072 * length msg"
proof -
  note E = limits_knownD [OF assms(1)]
  define w where "w = saturating_mul E (UnitWeightCost E) (of_nat (length msg))"
  have n: "length msg \<le> 100"
    using assms(4) by (simp add: MaxInstructions_def)
  then have u: "unat (of_nat (length msg) :: u64) = length msg"
    by (simp add: unat_of_nat)
  have parts: "unat (ref_time E w) = 200000000 * length msg" "unat (proof_size E w) = 131072 * length msg"
    using n by (simp_all add: w_def UnitWeightCost_def DEFAULT_PROOF_SIZE_def weight_mul [OF E(1)]
        weight_parts [OF E(1)] u min_def)
  have "length msg * unat (ref_time E (UnitWeightCost E)) < 2 ^ 64"
    "length msg * unat (proof_size E (UnitWeightCost E)) < 2 ^ 64"
    using n by (simp_all add: UnitWeightCost_def DEFAULT_PROOF_SIZE_def weight_parts [OF E(1)])
  then have "ex_Weigher (XcmExecutorConfig X E Q L U para rel) msg = Some w"
    using assms(2-4) by (simp add: XcmExecutorConfig_def weigher_law_def w_def)
  with parts show ?thesis by blast
qed

text \<open>
  C38. What the block reserves for messages from sibling chains suffices for a
  message of at most ten plain instructions, although the executor accepts a hundred: the assumed proof
  size per instruction, 128 KiB, is what runs out, not the computation time.
\<close>

theorem xcm_reserved_capacity:
  assumes "limits_known E" "weigher_law E plain X" "list_all plain msg" "length msg \<le> unat MaxInstructions"
  shows "\<exists>w. ex_Weigher (XcmExecutorConfig X E Q L U para rel) msg = Some w \<and>
    (no_heavier E w (ReservedXcmpWeight E) \<longleftrightarrow> length msg \<le> 10) \<and>
    ref_time E w \<le> ref_time E (ReservedXcmpWeight E)"
proof -
  have "length msg \<le> 100"
    using assms(4) by (simp add: MaxInstructions_def)
  with message_weight [OF assms, of Q L U para rel] reserved_weight_parts [OF assms(1)] show ?thesis
    by (auto simp: no_heavier_def word_le_nat_alt)
qed

theorem xcm_reserved_capacity_witness:
  "\<exists>w. ex_Weigher (XcmExecutorConfig example_executor pair_env example_accounts example_chain example_routers
       2015 example_reserve) (replicate 11 (OtherInstruction 0)) = Some w \<and>
     \<not> no_heavier pair_env w (ReservedXcmpWeight pair_env)"
  using xcm_reserved_capacity [OF limits_known_pair_env example_executor_laws(2), of "replicate 11 (OtherInstruction 0)"]
  by (force simp: MaxInstructions_def list_all_iff)

text \<open>
  Executing an arbitrary message and teleporting assets have no real
  benchmark: their weight is a placeholder that no block can hold. These are exactly the calls
  whose filters refuse every message, so the placeholder never decides whether a useful call is
  possible; a reserve transfer is allowed for every message and does fit a block.
\<close>

lemma unbenchmarked_calls_blocked:
  assumes "limits_known E" "filter_laws L"
  shows "\<not> fits_normal E (pallet_xcm_execute E) \<and> \<not> XcmExecuteFilter (pallet_xcm_config X E Q L U D G para rel) m \<and>
    \<not> fits_normal E (pallet_xcm_teleport_assets E) \<and> \<not> XcmTeleportFilter (pallet_xcm_config X E Q L U D G para rel) m \<and>
    fits_normal E (pallet_xcm_reserve_transfer_assets E) \<and> XcmReserveTransferFilter (pallet_xcm_config X E Q L U D G para rel) m"
proof -
  note E = limits_knownD [OF assms(1)]
  have "unat (ref_time E (pallet_xcm_execute E)) = 18446744073709551000"
    "unat (ref_time E (pallet_xcm_teleport_assets E)) = 18446744073709551000"
    unfolding pallet_xcm_execute_def pallet_xcm_teleport_assets_def
    by (simp_all add: saturating_chain_ref_time [OF E(1)] weight_parts [OF E(1)])
  then have "\<not> fits_normal E (pallet_xcm_execute E)" "\<not> fits_normal E (pallet_xcm_teleport_assets E)"
    by (simp_all add: fits_normal_def no_heavier_def word_le_nat_alt normal_max_total_parts [OF assms(1)])
  then show ?thesis
    using xcm_weights_fit_normal [OF assms(1)] assms(2)
    by (simp add: pallet_xcm_config_def filter_laws_def)
qed

lemma unbenchmarked_calls_blocked_witness:
  "\<not> XcmExecuteFilter (pallet_xcm_config example_executor pair_env example_accounts example_chain example_routers
       example_local_origins example_guards 2015 example_reserve) () \<and>
   \<not> fits_normal pair_env (pallet_xcm_execute pair_env)"
  using unbenchmarked_calls_blocked [OF limits_known_pair_env example_chain_laws(2), of example_executor
      example_accounts example_routers example_local_origins example_guards 2015 example_reserve "()"]
  by blast

text \<open>
  C25. What users of this chain may do with XCM: nobody but root may send a message of their own making, a
  signed user may have messages executed only as the account they signed with, no other origin (a
  collective, a sibling, the relay chain) may at all, although the comment beside it says any local one, and only root administers the pallet. Whatever
  they ask to execute is refused by the filter, so that reserve transfers are all that is left.
\<close>

theorem local_xcm_rights:
  assumes "local_origin_laws D" "ensure_laws G" "filter_laws L"
  shows "(SendXcmOrigin (pallet_xcm_config X E Q L U D G para rel) q \<noteq> None \<longleftrightarrow> q = Root) \<and>
    ExecuteXcmOrigin (pallet_xcm_config X E Q L U D G para rel) q =
      (case q of Signed a \<Rightarrow> Some \<lparr>parents = 0, interior = X1 (AccountId32 (Some Kusama) a)\<rparr>
       | Root \<Rightarrow> Some here_location | _ \<Rightarrow> None) \<and>
    (AdminOrigin (pallet_xcm_config X E Q L U D G para rel) q \<longleftrightarrow> q = Root) \<and>
    \<not> XcmExecuteFilter (pallet_xcm_config X E Q L U D G para rel) m \<and>
    \<not> XcmTeleportFilter (pallet_xcm_config X E Q L U D G para rel) m \<and>
    XcmReserveTransferFilter (pallet_xcm_config X E Q L U D G para rel) m"
  using assms
  by (cases q) (simp_all add: pallet_xcm_config_def local_origin_laws_def ensure_laws_def filter_laws_def
      LocalOriginToLocation_def RelayNetwork_def)

theorem local_xcm_rights_witness:
  "SendXcmOrigin (pallet_xcm_config example_executor pair_env example_accounts example_chain example_routers
     example_local_origins example_guards 2015 example_reserve) (Signed [1, 2]) = None"
  using local_xcm_rights [OF example_local_origins_laws example_guards_laws example_chain_laws(2), of example_executor
      pair_env example_accounts example_routers 2015 example_reserve "Signed [1, 2]" "()"]
  by blast

text \<open>
  The account a user's location stands for is the user's own: the location under which a signed
  origin executes a message converts back to the account that signed, and so does the location under
  which an account receives tokens. No two accounts share a location.
\<close>

lemma signed_origin_round_trip:
  assumes "account_laws Q" "local_origin_laws D"
  shows "Option.bind (ExecuteXcmOrigin (pallet_xcm_config X E Q L U D G para rel) (Signed a))
      (SovereignAccountOf (pallet_xcm_config X E Q L U D G para rel)) = Some a \<and>
    SovereignAccountOf (pallet_xcm_config X E Q L U D G para rel) (AccountIdToMultiLocation a) = Some a \<and>
    (AccountIdToMultiLocation a = AccountIdToMultiLocation b \<longleftrightarrow> a = b)"
  using assms(2) by (simp add: pallet_xcm_config_def local_origin_laws_def LocalOriginToLocation_def
      AccountIdToMultiLocation_def local_account [OF assms(1)])

lemma signed_origin_round_trip_witness:
  "SovereignAccountOf (pallet_xcm_config example_executor pair_env example_accounts example_chain example_routers
     example_local_origins example_guards 2015 example_reserve) (AccountIdToMultiLocation [7, 8]) = Some [7, 8]"
  using signed_origin_round_trip [OF example_accounts_laws example_local_origins_laws, of example_executor
      pair_env example_chain example_routers example_guards 2015 example_reserve "[7, 8]" "[7, 8]"]
  by blast

text \<open>
  C5. The executor moves nothing but the native currency: it can deposit an asset exactly where the asset is a fungible
  amount under one of the two locations of the native currency (the local one and the absolute one with this parachain's
  id) and the beneficiary has an account here. A withdrawal succeeds only for such an asset and an account that has the
  amount; the account loses the amount, and at most what would remain below the existential deposit with it.
\<close>

theorem only_native_transacted:
  assumes "matcher_law amount X" "adapter_laws (unat ExistentialDeposit) free X"
    and "T = ex_AssetTransactor (XcmExecutorConfig X E Q L U para rel)"
  shows "((\<exists>s'. deposit_asset T asset who s = Inr s') \<longleftrightarrow>
      asset_id asset \<in> {Concrete \<lparr>parents = 0, interior = X1 TEER_GENERAL_KEY\<rparr>,
        Concrete \<lparr>parents = 1, interior = X2 (Parachain para) TEER_GENERAL_KEY\<rparr>} \<and>
      (\<exists>n. amount (fungibility asset) = Some n) \<and> (\<exists>a. LocationToAccountId Q who = Some a)) \<and>
    (\<forall>s'. withdraw_asset T asset who s = Inr s' \<longrightarrow>
      asset_id asset \<in> {Concrete \<lparr>parents = 0, interior = X1 TEER_GENERAL_KEY\<rparr>,
        Concrete \<lparr>parents = 1, interior = X2 (Parachain para) TEER_GENERAL_KEY\<rparr>} \<and>
      (\<exists>n a. amount (fungibility asset) = Some n \<and> LocationToAccountId Q who = Some a \<and>
        free s' a + unat n \<le> free s a \<and> free s a < free s' a + unat n + unat ExistentialDeposit))"
proof -
  let ?m = "IsNativeConcrete X (CurrencyIdConvert_from_location para)"
  have T: "T = CurrencyAdapter X ?m (LocationToAccountId Q)"
    by (simp add: assms(3) XcmExecutorConfig_def LocalAssetTransactor_def)
  have none: "CurrencyIdConvert_from_location para l = None \<longleftrightarrow>
      l \<notin> {SelfReserve, \<lparr>parents = 1, interior = X2 (Parachain para) TEER_GENERAL_KEY\<rparr>}" for l
    using from_location_iff [of para l] by (cases "CurrencyIdConvert_from_location para l") auto
  have m: "?m asset = Some n \<longleftrightarrow> asset_id asset \<in> {Concrete \<lparr>parents = 0, interior = X1 TEER_GENERAL_KEY\<rparr>,
        Concrete \<lparr>parents = 1, interior = X2 (Parachain para) TEER_GENERAL_KEY\<rparr>} \<and> amount (fungibility asset) = Some n" for n
    using assms(1) none by (cases "asset_id asset") (auto simp: matcher_law_def SelfReserve_def)
  note fails = adapter_fails [OF assms(2), of ?m asset "LocationToAccountId Q" who s, folded T]
  note deposits = adapter_deposits [OF assms(2), of ?m asset _ "LocationToAccountId Q" who _ s, folded T]
  note withdraws = adapter_withdraws [OF assms(2), of ?m asset _ "LocationToAccountId Q" who _ s, folded T]
  have dep: "(\<exists>s'. deposit_asset T asset who s = Inr s') \<longleftrightarrow> (\<exists>n. ?m asset = Some n) \<and> (\<exists>a. LocationToAccountId Q who = Some a)"
    using fails(1) deposits by fastforce
  have wd: "\<exists>n a. ?m asset = Some n \<and> LocationToAccountId Q who = Some a \<and>
      free s' a + unat n \<le> free s a \<and> free s a < free s' a + unat n + unat ExistentialDeposit"
    if w: "withdraw_asset T asset who s = Inr s'" for s'
  proof -
    obtain n a where na: "?m asset = Some n" "LocationToAccountId Q who = Some a"
      using fails(2) w by fastforce
    then show ?thesis
      using withdraws [OF na w] by (auto simp: ExistentialDeposit_def MILLITEER_def)
  qed
  show ?thesis
    using dep wd unfolding m by blast
qed

theorem only_native_transacted_witness:
  "\<exists>s'. deposit_asset (ex_AssetTransactor (XcmExecutorConfig example_executor pair_env example_accounts example_chain
       example_routers 2015 example_reserve))
     \<lparr>asset_id = Concrete SelfReserve, fungibility = 5\<rparr> (AccountIdToMultiLocation [7]) (\<lambda>_. 0) = Inr s'"
proof -
  have "LocationToAccountId example_accounts (AccountIdToMultiLocation [7]) = Some [7]"
    unfolding AccountIdToMultiLocation_def by (rule local_account [OF example_accounts_laws]) simp
  then show ?thesis
    by (intro only_native_transacted [OF example_executor_laws(3,4) refl, THEN conjunct1, THEN iffD2])
       (simp add: SelfReserve_def)
qed

text \<open>
  C27. The price of execution: a message of plain instructions costs 0.0002 TEER per instruction, paid in
  the native currency under its local location, and only that asset is touched; with less of it in the
  holding the message is too expensive. A second of computation costs one TEER, as the comment on
  \<open>WeightPrice\<close> says. The same currency under its absolute location, although the chain accepts it for
  transfers, buys nothing.
\<close>

theorem execution_price:
  assumes "limits_known E" "trader_laws E X" "weigher_law E plain X" "list_all plain msg"
    and "length msg \<le> unat MaxInstructions"
    and "T = ex_Trader (XcmExecutorConfig X E Q L U para rel)"
  shows "(\<exists>w. ex_Weigher (XcmExecutorConfig X E Q L U para rel) msg = Some w \<and>
      T w h = (if 200000000 * length msg \<le> h (Concrete SelfReserve)
        then Inr (h(Concrete SelfReserve := h (Concrete SelfReserve) - 200000000 * length msg))
        else Inl TooExpensive) \<and>
      (msg \<noteq> [] \<longrightarrow> h (Concrete SelfReserve) = 0 \<longrightarrow> T w h = Inl TooExpensive)) \<and>
    (ref_time E v = WEIGHT_REF_TIME_PER_SECOND E \<longrightarrow>
      h (Concrete SelfReserve) = unat (snd (WeightPrice ONE_TEER)) \<longrightarrow> T v h = Inr (h(Concrete SelfReserve := 0))) \<and>
    (\<exists>l. l \<noteq> SelfReserve \<and> CurrencyIdConvert_from_location para l = Some TEER)"
proof (intro conjI impI)
  have T: "T w h = (if unat (ref_time E w) \<le> h (Concrete SelfReserve)
      then Inr (h(Concrete SelfReserve := h (Concrete SelfReserve) - unat (ref_time E w))) else Inl TooExpensive)"
    for w h
    using assms(2) by (simp add: assms(6) XcmExecutorConfig_def trader_laws_def)
  obtain w where "ex_Weigher (XcmExecutorConfig X E Q L U para rel) msg = Some w"
    "unat (ref_time E w) = 200000000 * length msg"
    using message_weight [OF assms(1,3,4,5)] by blast
  then show "\<exists>w. ex_Weigher (XcmExecutorConfig X E Q L U para rel) msg = Some w \<and>
      T w h = (if 200000000 * length msg \<le> h (Concrete SelfReserve)
        then Inr (h(Concrete SelfReserve := h (Concrete SelfReserve) - 200000000 * length msg))
        else Inl TooExpensive) \<and>
      (msg \<noteq> [] \<longrightarrow> h (Concrete SelfReserve) = 0 \<longrightarrow> T w h = Inl TooExpensive)"
    by (intro exI [of _ w]) (simp add: T)
  show "T v h = Inr (h(Concrete SelfReserve := 0))"
    if "ref_time E v = WEIGHT_REF_TIME_PER_SECOND E" "h (Concrete SelfReserve) = unat (snd (WeightPrice ONE_TEER))"
    using that limits_knownD(4) [OF assms(1)] by (simp add: T relay_consts_def WeightPrice_def ONE_TEER_def)
  show "\<exists>l. l \<noteq> SelfReserve \<and> CurrencyIdConvert_from_location para l = Some TEER"
    by (rule exI [of _ "\<lparr>parents = 1, interior = X2 (Parachain para) TEER_GENERAL_KEY\<rparr>"])
       (simp add: from_location_iff SelfReserve_def)
qed

theorem execution_price_witness:
  "ex_Trader (XcmExecutorConfig example_executor pair_env example_accounts example_chain example_routers 2015
     example_reserve) (1000000000000, 0) (\<lambda>_. 1000000000000) = Inr ((\<lambda>_. 1000000000000)(Concrete SelfReserve := 0))"
  by (intro execution_price [OF limits_known_pair_env example_executor_laws(5,2) _ _ refl, of "[]",
        THEN conjunct2, THEN conjunct1, rule_format])
     (simp_all add: pair_env_def WeightPrice_def ONE_TEER_def)

text \<open>
  The message queues take orders from this chain's root and from the relay chain only: an incoming
  message may suspend or resume the queue of sibling messages only if it comes from the relay chain, and
  messages too heavy for a block are executed only at root's request.
\<close>

lemma queues_controlled_by_relay:
  assumes "origin_laws Q" "ensure_laws G"
    and "ControllerOriginConverter (cumulus_pallet_xcmp_queue_config Q G) l k = Inr q"
    and "ControllerOrigin (cumulus_pallet_xcmp_queue_config Q G) q"
  shows "l = RelayChainLocation \<and>
    (xq_ExecuteOverweightOrigin (cumulus_pallet_xcmp_queue_config Q G) q' \<longleftrightarrow> q' = Root) \<and>
    (dq_ExecuteOverweightOrigin (cumulus_pallet_dmp_queue_config G) q' \<longleftrightarrow> q' = Root)"
proof -
  have "XcmOriginToTransactDispatchOrigin Q l k = Inr Root"
    using assms(2-4) by (simp add: cumulus_pallet_xcmp_queue_config_def ensure_laws_def)
  then have "l = RelayChainLocation"
    by (rule relay_becomes_root [OF assms(1)])
  with assms(2) show ?thesis
    by (simp add: cumulus_pallet_xcmp_queue_config_def cumulus_pallet_dmp_queue_config_def ensure_laws_def)
qed

lemma queues_controlled_by_relay_witness:
  "ControllerOriginConverter (cumulus_pallet_xcmp_queue_config example_origins example_guards) parent_location True =
     Inr Root \<and> parent_location = RelayChainLocation"
proof -
  have "ControllerOriginConverter (cumulus_pallet_xcmp_queue_config example_origins example_guards) parent_location True =
      Inr Root"
    by (simp add: cumulus_pallet_xcmp_queue_config_def XcmOriginToTransactDispatchOrigin_def LocationToAccountId_def
        example_origins_def)
  moreover have "ControllerOrigin (cumulus_pallet_xcmp_queue_config example_origins example_guards) Root"
    by (simp add: cumulus_pallet_xcmp_queue_config_def example_guards_def)
  ultimately show ?thesis
    using queues_controlled_by_relay [OF example_origins_laws example_guards_laws] by blast
qed

end
