(* ===== verification/Weights_Funds.thy ===== *)
theory Weights_Funds
  imports Parachains_Common
begin

text \<open>
  \<open>integritee-runtime/src/weights\<close>: the weight functions of the pallets that hold or move funds
  (balances, vesting, treasury, bounties, child bounties, claims), one definition per function of
  the file's \<open>impl WeightInfo\<close>, its list in the order of the \<open>saturating_add\<close> calls.
\<close>

section \<open>\<open>pallet_balances\<close>\<close>

definition pallet_balances_transfer_allow_death :: "('w, 'z) weight_env_scheme \<Rightarrow> 'w" where
  "pallet_balances_transfer_allow_death T =
     saturating_chain T (from_parts T 93004000 0)
       [from_parts T 0 3593,
        db_reads T 1,
        db_writes T 1]"

definition pallet_balances_transfer_keep_alive :: "('w, 'z) weight_env_scheme \<Rightarrow> 'w" where
  "pallet_balances_transfer_keep_alive T =
     saturating_chain T (from_parts T 70412000 0)
       [from_parts T 0 3593,
        db_reads T 1,
        db_writes T 1]"

definition pallet_balances_force_set_balance_creating :: "('w, 'z) weight_env_scheme \<Rightarrow> 'w" where
  "pallet_balances_force_set_balance_creating T =
     saturating_chain T (from_parts T 22880000 0)
       [from_parts T 0 3593,
        db_reads T 1,
        db_writes T 1]"

definition pallet_balances_force_set_balance_killing :: "('w, 'z) weight_env_scheme \<Rightarrow> 'w" where
  "pallet_balances_force_set_balance_killing T =
     saturating_chain T (from_parts T 34220000 0)
       [from_parts T 0 3593,
        db_reads T 1,
        db_writes T 1]"

definition pallet_balances_force_transfer :: "('w, 'z) weight_env_scheme \<Rightarrow> 'w" where
  "pallet_balances_force_transfer T =
     saturating_chain T (from_parts T 90183000 0)
       [from_parts T 0 6196,
        db_reads T 2,
        db_writes T 2]"

definition pallet_balances_transfer_all :: "('w, 'z) weight_env_scheme \<Rightarrow> 'w" where
  "pallet_balances_transfer_all T =
     saturating_chain T (from_parts T 80531000 0)
       [from_parts T 0 3593,
        db_reads T 1,
        db_writes T 1]"

definition pallet_balances_force_unreserve :: "('w, 'z) weight_env_scheme \<Rightarrow> 'w" where
  "pallet_balances_force_unreserve T =
     saturating_chain T (from_parts T 26729000 0)
       [from_parts T 0 3593,
        db_reads T 1,
        db_writes T 1]"

definition pallet_balances_upgrade_accounts :: "('w, 'z) weight_env_scheme \<Rightarrow> u32 \<Rightarrow> 'w" where
  "pallet_balances_upgrade_accounts T u =
     saturating_chain T (from_parts T 25305000 0)
       [from_parts T 0 990,
        saturating_mul T (from_parts T 16709490 0) (ucast u),
        db_reads T (u64_saturating_mul 1 (ucast u)),
        db_writes T (u64_saturating_mul 1 (ucast u)),
        saturating_mul T (from_parts T 0 2603) (ucast u)]"

lemmas pallet_balances_weights =
  pallet_balances_transfer_allow_death_def
  pallet_balances_transfer_keep_alive_def
  pallet_balances_force_set_balance_creating_def
  pallet_balances_force_set_balance_killing_def
  pallet_balances_force_transfer_def
  pallet_balances_transfer_all_def
  pallet_balances_force_unreserve_def
  pallet_balances_upgrade_accounts_def

section \<open>\<open>pallet_vesting\<close>\<close>

definition pallet_vesting_vest_locked :: "('w, 'z) weight_env_scheme \<Rightarrow> u32 \<Rightarrow> u32 \<Rightarrow> 'w" where
  "pallet_vesting_vest_locked T l s =
     saturating_chain T (from_parts T 36002632 0)
       [from_parts T 0 4764,
        saturating_mul T (from_parts T 73554 0) (ucast s),
        db_reads T 3,
        db_writes T 2]"

definition pallet_vesting_vest_unlocked :: "('w, 'z) weight_env_scheme \<Rightarrow> u32 \<Rightarrow> u32 \<Rightarrow> 'w" where
  "pallet_vesting_vest_unlocked T l s =
     saturating_chain T (from_parts T 26430531 0)
       [from_parts T 0 4764,
        saturating_mul T (from_parts T 228441 0) (ucast l),
        saturating_mul T (from_parts T 395622 0) (ucast s),
        db_reads T 3,
        db_writes T 2]"

definition pallet_vesting_vest_other_locked :: "('w, 'z) weight_env_scheme \<Rightarrow> u32 \<Rightarrow> u32 \<Rightarrow> 'w" where
  "pallet_vesting_vest_other_locked T l s =
     saturating_chain T (from_parts T 37267856 0)
       [from_parts T 0 4764,
        saturating_mul T (from_parts T 69316 0) (ucast s),
        db_reads T 4,
        db_writes T 3]"

definition pallet_vesting_vest_other_unlocked :: "('w, 'z) weight_env_scheme \<Rightarrow> u32 \<Rightarrow> u32 \<Rightarrow> 'w" where
  "pallet_vesting_vest_other_unlocked T l s =
     saturating_chain T (from_parts T 45850154 0)
       [from_parts T 0 4764,
        db_reads T 4,
        db_writes T 3]"

definition pallet_vesting_vested_transfer :: "('w, 'z) weight_env_scheme \<Rightarrow> u32 \<Rightarrow> u32 \<Rightarrow> 'w" where
  "pallet_vesting_vested_transfer T l s =
     saturating_chain T (from_parts T 59910288 0)
       [from_parts T 0 4764,
        saturating_mul T (from_parts T 489110 0) (ucast l),
        saturating_mul T (from_parts T 411972 0) (ucast s),
        db_reads T 4,
        db_writes T 3]"

definition pallet_vesting_force_vested_transfer :: "('w, 'z) weight_env_scheme \<Rightarrow> u32 \<Rightarrow> u32 \<Rightarrow> 'w" where
  "pallet_vesting_force_vested_transfer T l s =
     saturating_chain T (from_parts T 77522220 0)
       [from_parts T 0 6196,
        saturating_mul T (from_parts T 206202 0) (ucast l),
        saturating_mul T (from_parts T 69866 0) (ucast s),
        db_reads T 5,
        db_writes T 4]"

definition pallet_vesting_not_unlocking_merge_schedules :: "('w, 'z) weight_env_scheme \<Rightarrow> u32 \<Rightarrow> u32 \<Rightarrow> 'w" where
  "pallet_vesting_not_unlocking_merge_schedules T l s =
     saturating_chain T (from_parts T 34825982 0)
       [from_parts T 0 4764,
        saturating_mul T (from_parts T 51388 0) (ucast l),
        saturating_mul T (from_parts T 100664 0) (ucast s),
        db_reads T 4,
        db_writes T 3]"

definition pallet_vesting_unlocking_merge_schedules :: "('w, 'z) weight_env_scheme \<Rightarrow> u32 \<Rightarrow> u32 \<Rightarrow> 'w" where
  "pallet_vesting_unlocking_merge_schedules T l s =
     saturating_chain T (from_parts T 36867268 0)
       [from_parts T 0 4764,
        saturating_mul T (from_parts T 95340 0) (ucast l),
        saturating_mul T (from_parts T 193490 0) (ucast s),
        db_reads T 4,
        db_writes T 3]"

lemmas pallet_vesting_weights =
  pallet_vesting_vest_locked_def
  pallet_vesting_vest_unlocked_def
  pallet_vesting_vest_other_locked_def
  pallet_vesting_vest_other_unlocked_def
  pallet_vesting_vested_transfer_def
  pallet_vesting_force_vested_transfer_def
  pallet_vesting_not_unlocking_merge_schedules_def
  pallet_vesting_unlocking_merge_schedules_def

section \<open>\<open>pallet_treasury\<close>\<close>

definition pallet_treasury_spend :: "('w, 'z) weight_env_scheme \<Rightarrow> 'w" where
  "pallet_treasury_spend T =
     saturating_chain T (from_parts T 25710000 0)
       [from_parts T 0 1526,
        db_reads T 2,
        db_writes T 3]"

definition pallet_treasury_propose_spend :: "('w, 'z) weight_env_scheme \<Rightarrow> 'w" where
  "pallet_treasury_propose_spend T =
     saturating_chain T (from_parts T 49713000 0)
       [from_parts T 0 1489,
        db_reads T 1,
        db_writes T 2]"

definition pallet_treasury_reject_proposal :: "('w, 'z) weight_env_scheme \<Rightarrow> 'w" where
  "pallet_treasury_reject_proposal T =
     saturating_chain T (from_parts T 50673000 0)
       [from_parts T 0 3593,
        db_reads T 2,
        db_writes T 2]"

definition pallet_treasury_approve_proposal :: "('w, 'z) weight_env_scheme \<Rightarrow> u32 \<Rightarrow> 'w" where
  "pallet_treasury_approve_proposal T p =
     saturating_chain T (from_parts T 13303916 0)
       [from_parts T 0 3573,
        db_reads T 2,
        db_writes T 1]"

definition pallet_treasury_remove_approval :: "('w, 'z) weight_env_scheme \<Rightarrow> 'w" where
  "pallet_treasury_remove_approval T =
     saturating_chain T (from_parts T 6613000 0)
       [from_parts T 0 1526,
        db_reads T 1,
        db_writes T 1]"

definition pallet_treasury_on_initialize_proposals :: "('w, 'z) weight_env_scheme \<Rightarrow> u32 \<Rightarrow> 'w" where
  "pallet_treasury_on_initialize_proposals T p =
     saturating_chain T (from_parts T 44244231 0)
       [from_parts T 0 3593,
        saturating_mul T (from_parts T 44905604 0) (ucast p),
        db_reads T 5,
        db_reads T (u64_saturating_mul 3 (ucast p)),
        db_writes T 5,
        db_writes T (u64_saturating_mul 3 (ucast p)),
        saturating_mul T (from_parts T 0 5206) (ucast p)]"

lemmas pallet_treasury_weights =
  pallet_treasury_spend_def
  pallet_treasury_propose_spend_def
  pallet_treasury_reject_proposal_def
  pallet_treasury_approve_proposal_def
  pallet_treasury_remove_approval_def
  pallet_treasury_on_initialize_proposals_def

section \<open>\<open>pallet_bounties\<close>\<close>

definition pallet_bounties_propose_bounty :: "('w, 'z) weight_env_scheme \<Rightarrow> u32 \<Rightarrow> 'w" where
  "pallet_bounties_propose_bounty T d =
     saturating_chain T (from_parts T 29403164 0)
       [from_parts T 0 3593,
        saturating_mul T (from_parts T 687 0) (ucast d),
        db_reads T 2,
        db_writes T 4]"

definition pallet_bounties_approve_bounty :: "('w, 'z) weight_env_scheme \<Rightarrow> 'w" where
  "pallet_bounties_approve_bounty T =
     saturating_chain T (from_parts T 11325000 0)
       [from_parts T 0 3642,
        db_reads T 2,
        db_writes T 2]"

definition pallet_bounties_propose_curator :: "('w, 'z) weight_env_scheme \<Rightarrow> 'w" where
  "pallet_bounties_propose_curator T =
     saturating_chain T (from_parts T 10113000 0)
       [from_parts T 0 3642,
        db_reads T 1,
        db_writes T 1]"

definition pallet_bounties_unassign_curator :: "('w, 'z) weight_env_scheme \<Rightarrow> 'w" where
  "pallet_bounties_unassign_curator T =
     saturating_chain T (from_parts T 40641000 0)
       [from_parts T 0 3642,
        db_reads T 2,
        db_writes T 2]"

definition pallet_bounties_accept_curator :: "('w, 'z) weight_env_scheme \<Rightarrow> 'w" where
  "pallet_bounties_accept_curator T =
     saturating_chain T (from_parts T 27104000 0)
       [from_parts T 0 3642,
        db_reads T 2,
        db_writes T 2]"

definition pallet_bounties_award_bounty :: "('w, 'z) weight_env_scheme \<Rightarrow> 'w" where
  "pallet_bounties_award_bounty T =
     saturating_chain T (from_parts T 19626000 0)
       [from_parts T 0 3642,
        db_reads T 2,
        db_writes T 1]"

definition pallet_bounties_claim_bounty :: "('w, 'z) weight_env_scheme \<Rightarrow> 'w" where
  "pallet_bounties_claim_bounty T =
     saturating_chain T (from_parts T 110661000 0)
       [from_parts T 0 8799,
        db_reads T 5,
        db_writes T 6]"

definition pallet_bounties_close_bounty_proposed :: "('w, 'z) weight_env_scheme \<Rightarrow> 'w" where
  "pallet_bounties_close_bounty_proposed T =
     saturating_chain T (from_parts T 45940000 0)
       [from_parts T 0 3642,
        db_reads T 3,
        db_writes T 3]"

definition pallet_bounties_close_bounty_active :: "('w, 'z) weight_env_scheme \<Rightarrow> 'w" where
  "pallet_bounties_close_bounty_active T =
     saturating_chain T (from_parts T 75522000 0)
       [from_parts T 0 6196,
        db_reads T 4,
        db_writes T 4]"

definition pallet_bounties_extend_bounty_expiry :: "('w, 'z) weight_env_scheme \<Rightarrow> 'w" where
  "pallet_bounties_extend_bounty_expiry T =
     saturating_chain T (from_parts T 15613000 0)
       [from_parts T 0 3642,
        db_reads T 1,
        db_writes T 1]"

definition pallet_bounties_spend_funds :: "('w, 'z) weight_env_scheme \<Rightarrow> u32 \<Rightarrow> 'w" where
  "pallet_bounties_spend_funds T b =
     saturating_chain T (from_parts T 4351000 0)
       [from_parts T 0 1887,
        saturating_mul T (from_parts T 38149515 0) (ucast b),
        db_reads T 1,
        db_reads T (u64_saturating_mul 3 (ucast b)),
        db_writes T 1,
        db_writes T (u64_saturating_mul 3 (ucast b)),
        saturating_mul T (from_parts T 0 5206) (ucast b)]"

lemmas pallet_bounties_weights =
  pallet_bounties_propose_bounty_def
  pallet_bounties_approve_bounty_def
  pallet_bounties_propose_curator_def
  pallet_bounties_unassign_curator_def
  pallet_bounties_accept_curator_def
  pallet_bounties_award_bounty_def
  pallet_bounties_claim_bounty_def
  pallet_bounties_close_bounty_proposed_def
  pallet_bounties_close_bounty_active_def
  pallet_bounties_extend_bounty_expiry_def
  pallet_bounties_spend_funds_def

section \<open>\<open>pallet_child_bounties\<close>\<close>

definition pallet_child_bounties_add_child_bounty :: "('w, 'z) weight_env_scheme \<Rightarrow> u32 \<Rightarrow> 'w" where
  "pallet_child_bounties_add_child_bounty T d =
     saturating_chain T (from_parts T 89810999 0)
       [from_parts T 0 6196,
        db_reads T 5,
        db_writes T 6]"

definition pallet_child_bounties_propose_curator :: "('w, 'z) weight_env_scheme \<Rightarrow> 'w" where
  "pallet_child_bounties_propose_curator T =
     saturating_chain T (from_parts T 17754000 0)
       [from_parts T 0 3642,
        db_reads T 3,
        db_writes T 2]"

definition pallet_child_bounties_accept_curator :: "('w, 'z) weight_env_scheme \<Rightarrow> 'w" where
  "pallet_child_bounties_accept_curator T =
     saturating_chain T (from_parts T 32890000 0)
       [from_parts T 0 3642,
        db_reads T 3,
        db_writes T 2]"

definition pallet_child_bounties_unassign_curator :: "('w, 'z) weight_env_scheme \<Rightarrow> 'w" where
  "pallet_child_bounties_unassign_curator T =
     saturating_chain T (from_parts T 35721000 0)
       [from_parts T 0 3642,
        db_reads T 3,
        db_writes T 2]"

definition pallet_child_bounties_award_child_bounty :: "('w, 'z) weight_env_scheme \<Rightarrow> 'w" where
  "pallet_child_bounties_award_child_bounty T =
     saturating_chain T (from_parts T 21820000 0)
       [from_parts T 0 3642,
        db_reads T 2,
        db_writes T 1]"

definition pallet_child_bounties_claim_child_bounty :: "('w, 'z) weight_env_scheme \<Rightarrow> 'w" where
  "pallet_child_bounties_claim_child_bounty T =
     saturating_chain T (from_parts T 122606000 0)
       [from_parts T 0 8799,
        db_reads T 5,
        db_writes T 6]"

definition pallet_child_bounties_close_child_bounty_added :: "('w, 'z) weight_env_scheme \<Rightarrow> 'w" where
  "pallet_child_bounties_close_child_bounty_added T =
     saturating_chain T (from_parts T 75441000 0)
       [from_parts T 0 6196,
        db_reads T 6,
        db_writes T 6]"

definition pallet_child_bounties_close_child_bounty_active :: "('w, 'z) weight_env_scheme \<Rightarrow> 'w" where
  "pallet_child_bounties_close_child_bounty_active T =
     saturating_chain T (from_parts T 97896000 0)
       [from_parts T 0 8799,
        db_reads T 7,
        db_writes T 7]"

lemmas pallet_child_bounties_weights =
  pallet_child_bounties_add_child_bounty_def
  pallet_child_bounties_propose_curator_def
  pallet_child_bounties_accept_curator_def
  pallet_child_bounties_unassign_curator_def
  pallet_child_bounties_award_child_bounty_def
  pallet_child_bounties_claim_child_bounty_def
  pallet_child_bounties_close_child_bounty_added_def
  pallet_child_bounties_close_child_bounty_active_def

section \<open>\<open>pallet_claims\<close>\<close>

definition pallet_claims_claim :: "('w, 'z) weight_env_scheme \<Rightarrow> 'w" where
  "pallet_claims_claim T =
     saturating_chain T (from_parts T 206046000 0)
       [from_parts T 0 4764,
        db_reads T 8,
        db_writes T 6]"

definition pallet_claims_mint_claim :: "('w, 'z) weight_env_scheme \<Rightarrow> 'w" where
  "pallet_claims_mint_claim T =
     saturating_chain T (from_parts T 15507000 0)
       [from_parts T 0 1630,
        db_reads T 1,
        db_writes T 4]"

definition pallet_claims_claim_attest :: "('w, 'z) weight_env_scheme \<Rightarrow> 'w" where
  "pallet_claims_claim_attest T =
     saturating_chain T (from_parts T 204262000 0)
       [from_parts T 0 4764,
        db_reads T 8,
        db_writes T 6]"

definition pallet_claims_attest :: "('w, 'z) weight_env_scheme \<Rightarrow> 'w" where
  "pallet_claims_attest T =
     saturating_chain T (from_parts T 134234000 0)
       [from_parts T 0 4764,
        db_reads T 9,
        db_writes T 7]"

definition pallet_claims_move_claim :: "('w, 'z) weight_env_scheme \<Rightarrow> 'w" where
  "pallet_claims_move_claim T =
     saturating_chain T (from_parts T 29763000 0)
       [from_parts T 0 3834,
        db_reads T 4,
        db_writes T 7]"

lemmas pallet_claims_weights =
  pallet_claims_claim_def
  pallet_claims_mint_claim_def
  pallet_claims_claim_attest_def
  pallet_claims_attest_def
  pallet_claims_move_claim_def

lemmas funds_weights =
  pallet_balances_weights pallet_vesting_weights pallet_treasury_weights pallet_bounties_weights pallet_child_bounties_weights pallet_claims_weights

text \<open>
  Every call of the pallets that hold or move funds can be included: for
  every input within the benchmarked range (a thousand accounts upgraded, 49 locks and 28 vesting
  schedules, a hundred approved bounties, ...) its weight stays within the share of a
  block that normal extrinsics may fill.
\<close>

lemma funds_weights_fit_normal:
  assumes "limits_known E"
  shows "
      fits_normal E (pallet_balances_transfer_allow_death E) \<and>
      fits_normal E (pallet_balances_transfer_keep_alive E) \<and>
      fits_normal E (pallet_balances_force_set_balance_creating E) \<and>
      fits_normal E (pallet_balances_force_set_balance_killing E) \<and>
      fits_normal E (pallet_balances_force_transfer E) \<and>
      fits_normal E (pallet_balances_transfer_all E) \<and>
      fits_normal E (pallet_balances_force_unreserve E) \<and>
      (\<forall>u. unat u \<le> 1000 \<longrightarrow> fits_normal E (pallet_balances_upgrade_accounts E u)) \<and>
      (\<forall>l s. unat s \<le> 28 \<longrightarrow> fits_normal E (pallet_vesting_vest_locked E l s)) \<and>
      (\<forall>l s. unat l \<le> 49 \<longrightarrow> unat s \<le> 28 \<longrightarrow> fits_normal E (pallet_vesting_vest_unlocked E l s)) \<and>
      (\<forall>l s. unat s \<le> 28 \<longrightarrow> fits_normal E (pallet_vesting_vest_other_locked E l s)) \<and>
      (\<forall>l s. fits_normal E (pallet_vesting_vest_other_unlocked E l s)) \<and>
      (\<forall>l s. unat l \<le> 49 \<longrightarrow> unat s \<le> 27 \<longrightarrow> fits_normal E (pallet_vesting_vested_transfer E l s)) \<and>
      (\<forall>l s. unat l \<le> 49 \<longrightarrow> unat s \<le> 27 \<longrightarrow> fits_normal E (pallet_vesting_force_vested_transfer E l s)) \<and>
      (\<forall>l s. unat l \<le> 49 \<longrightarrow> unat s \<le> 28 \<longrightarrow> fits_normal E (pallet_vesting_not_unlocking_merge_schedules E l s)) \<and>
      (\<forall>l s. unat l \<le> 49 \<longrightarrow> unat s \<le> 28 \<longrightarrow> fits_normal E (pallet_vesting_unlocking_merge_schedules E l s)) \<and>
      fits_normal E (pallet_treasury_spend E) \<and>
      fits_normal E (pallet_treasury_propose_spend E) \<and>
      fits_normal E (pallet_treasury_reject_proposal E) \<and>
      (\<forall>p. fits_normal E (pallet_treasury_approve_proposal E p)) \<and>
      fits_normal E (pallet_treasury_remove_approval E) \<and>
      (\<forall>p. unat p \<le> 10 \<longrightarrow> fits_normal E (pallet_treasury_on_initialize_proposals E p)) \<and>
      (\<forall>d. unat d \<le> 16384 \<longrightarrow> fits_normal E (pallet_bounties_propose_bounty E d)) \<and>
      fits_normal E (pallet_bounties_approve_bounty E) \<and>
      fits_normal E (pallet_bounties_propose_curator E) \<and>
      fits_normal E (pallet_bounties_unassign_curator E) \<and>
      fits_normal E (pallet_bounties_accept_curator E) \<and>
      fits_normal E (pallet_bounties_award_bounty E) \<and>
      fits_normal E (pallet_bounties_claim_bounty E) \<and>
      fits_normal E (pallet_bounties_close_bounty_proposed E) \<and>
      fits_normal E (pallet_bounties_close_bounty_active E) \<and>
      fits_normal E (pallet_bounties_extend_bounty_expiry E) \<and>
      (\<forall>b. unat b \<le> 100 \<longrightarrow> fits_normal E (pallet_bounties_spend_funds E b)) \<and>
      (\<forall>d. fits_normal E (pallet_child_bounties_add_child_bounty E d)) \<and>
      fits_normal E (pallet_child_bounties_propose_curator E) \<and>
      fits_normal E (pallet_child_bounties_accept_curator E) \<and>
      fits_normal E (pallet_child_bounties_unassign_curator E) \<and>
      fits_normal E (pallet_child_bounties_award_child_bounty E) \<and>
      fits_normal E (pallet_child_bounties_claim_child_bounty E) \<and>
      fits_normal E (pallet_child_bounties_close_child_bounty_added E) \<and>
      fits_normal E (pallet_child_bounties_close_child_bounty_active E) \<and>
      fits_normal E (pallet_claims_claim E) \<and>
      fits_normal E (pallet_claims_mint_claim E) \<and>
      fits_normal E (pallet_claims_claim_attest E) \<and>
      fits_normal E (pallet_claims_attest E) \<and>
      fits_normal E (pallet_claims_move_claim E)"
  by (intro conjI allI impI;
      (rule fits_normalI [OF assms], unfold funds_weights,
       (rule within_rules limits_knownD [OF assms] | assumption)+, simp, simp))

lemma funds_weights_fit_normal_witness:
  "fits_normal pair_env (pallet_balances_transfer_allow_death pair_env)"
  by (rule funds_weights_fit_normal [OF limits_known_pair_env, THEN conjunct1])

text \<open>A larger input never weighs less, so charging for the maximum covers every smaller one.\<close>

lemma funds_weights_mono:
  assumes "weight_laws T" "db_laws T rd wr"
  shows "
      (\<forall>u u'. u \<le> u' \<longrightarrow> no_heavier T (pallet_balances_upgrade_accounts T u) (pallet_balances_upgrade_accounts T u')) \<and>
      (\<forall>l s l' s'. s \<le> s' \<longrightarrow> no_heavier T (pallet_vesting_vest_locked T l s) (pallet_vesting_vest_locked T l' s')) \<and>
      (\<forall>l s l' s'. l \<le> l' \<longrightarrow> s \<le> s' \<longrightarrow> no_heavier T (pallet_vesting_vest_unlocked T l s) (pallet_vesting_vest_unlocked T l' s')) \<and>
      (\<forall>l s l' s'. s \<le> s' \<longrightarrow> no_heavier T (pallet_vesting_vest_other_locked T l s) (pallet_vesting_vest_other_locked T l' s')) \<and>
      (\<forall>l s l' s'. no_heavier T (pallet_vesting_vest_other_unlocked T l s) (pallet_vesting_vest_other_unlocked T l' s')) \<and>
      (\<forall>l s l' s'. l \<le> l' \<longrightarrow> s \<le> s' \<longrightarrow> no_heavier T (pallet_vesting_vested_transfer T l s) (pallet_vesting_vested_transfer T l' s')) \<and>
      (\<forall>l s l' s'. l \<le> l' \<longrightarrow> s \<le> s' \<longrightarrow> no_heavier T (pallet_vesting_force_vested_transfer T l s) (pallet_vesting_force_vested_transfer T l' s')) \<and>
      (\<forall>l s l' s'. l \<le> l' \<longrightarrow> s \<le> s' \<longrightarrow> no_heavier T (pallet_vesting_not_unlocking_merge_schedules T l s) (pallet_vesting_not_unlocking_merge_schedules T l' s')) \<and>
      (\<forall>l s l' s'. l \<le> l' \<longrightarrow> s \<le> s' \<longrightarrow> no_heavier T (pallet_vesting_unlocking_merge_schedules T l s) (pallet_vesting_unlocking_merge_schedules T l' s')) \<and>
      (\<forall>p p'. no_heavier T (pallet_treasury_approve_proposal T p) (pallet_treasury_approve_proposal T p')) \<and>
      (\<forall>p p'. p \<le> p' \<longrightarrow> no_heavier T (pallet_treasury_on_initialize_proposals T p) (pallet_treasury_on_initialize_proposals T p')) \<and>
      (\<forall>d d'. d \<le> d' \<longrightarrow> no_heavier T (pallet_bounties_propose_bounty T d) (pallet_bounties_propose_bounty T d')) \<and>
      (\<forall>b b'. b \<le> b' \<longrightarrow> no_heavier T (pallet_bounties_spend_funds T b) (pallet_bounties_spend_funds T b')) \<and>
      (\<forall>d d'. no_heavier T (pallet_child_bounties_add_child_bounty T d) (pallet_child_bounties_add_child_bounty T d'))"
  unfolding funds_weights
  by (intro conjI allI impI; (rule assms heavier_rules | assumption)+)

end
