(* ===== verification/Weights_Governance.thy ===== *)
theory Weights_Governance
  imports Parachains_Common
begin

text \<open>
  \<open>integritee-runtime/src/weights\<close>: the weight functions of the collectives and of democracy, one
  definition per function of the file's \<open>impl WeightInfo\<close>, its list in the order of the
  \<open>saturating_add\<close> calls. Council and technical committee share \<open>pallet_collective\<close>.
\<close>

section \<open>\<open>pallet_collective\<close>\<close>

definition pallet_collective_set_members :: "('w, 'z) weight_env_scheme \<Rightarrow> u32 \<Rightarrow> u32 \<Rightarrow> u32 \<Rightarrow> 'w" where
  "pallet_collective_set_members T m n p =
     saturating_chain T (from_parts T 19780000 0)
       [from_parts T 0 15728,
        saturating_mul T (from_parts T 4733097 0) (ucast m),
        saturating_mul T (from_parts T 7913656 0) (ucast p),
        db_reads T 2,
        db_reads T (u64_saturating_mul 1 (ucast p)),
        db_writes T 2,
        db_writes T (u64_saturating_mul 1 (ucast p)),
        saturating_mul T (from_parts T 0 1967) (ucast m),
        saturating_mul T (from_parts T 0 4332) (ucast p)]"

definition pallet_collective_execute :: "('w, 'z) weight_env_scheme \<Rightarrow> u32 \<Rightarrow> u32 \<Rightarrow> 'w" where
  "pallet_collective_execute T b m =
     saturating_chain T (from_parts T 13918872 0)
       [from_parts T 0 1555,
        saturating_mul T (from_parts T 5406 0) (ucast b),
        saturating_mul T (from_parts T 2299 0) (ucast m),
        db_reads T 1,
        saturating_mul T (from_parts T 0 32) (ucast m)]"

definition pallet_collective_propose_execute :: "('w, 'z) weight_env_scheme \<Rightarrow> u32 \<Rightarrow> u32 \<Rightarrow> 'w" where
  "pallet_collective_propose_execute T b m =
     saturating_chain T (from_parts T 21774765 0)
       [from_parts T 0 3535,
        saturating_mul T (from_parts T 25811 0) (ucast m),
        db_reads T 2,
        saturating_mul T (from_parts T 0 32) (ucast m)]"

definition pallet_collective_propose_proposed :: "('w, 'z) weight_env_scheme \<Rightarrow> u32 \<Rightarrow> u32 \<Rightarrow> u32 \<Rightarrow> 'w" where
  "pallet_collective_propose_proposed T b m p =
     saturating_chain T (from_parts T 26192081 0)
       [from_parts T 0 3751,
        saturating_mul T (from_parts T 2273 0) (ucast b),
        saturating_mul T (from_parts T 10434 0) (ucast m),
        saturating_mul T (from_parts T 198442 0) (ucast p),
        db_reads T 4,
        db_writes T 4,
        saturating_mul T (from_parts T 0 33) (ucast m),
        saturating_mul T (from_parts T 0 36) (ucast p)]"

definition pallet_collective_vote :: "('w, 'z) weight_env_scheme \<Rightarrow> u32 \<Rightarrow> 'w" where
  "pallet_collective_vote T m =
     saturating_chain T (from_parts T 25796554 0)
       [from_parts T 0 4272,
        saturating_mul T (from_parts T 39017 0) (ucast m),
        db_reads T 2,
        db_writes T 1,
        saturating_mul T (from_parts T 0 64) (ucast m)]"

definition pallet_collective_close_early_disapproved :: "('w, 'z) weight_env_scheme \<Rightarrow> u32 \<Rightarrow> u32 \<Rightarrow> 'w" where
  "pallet_collective_close_early_disapproved T m p =
     saturating_chain T (from_parts T 28160714 0)
       [from_parts T 0 3842,
        saturating_mul T (from_parts T 26069 0) (ucast m),
        saturating_mul T (from_parts T 191528 0) (ucast p),
        db_reads T 3,
        db_writes T 3,
        saturating_mul T (from_parts T 0 65) (ucast m),
        saturating_mul T (from_parts T 0 36) (ucast p)]"

definition pallet_collective_close_early_approved :: "('w, 'z) weight_env_scheme \<Rightarrow> u32 \<Rightarrow> u32 \<Rightarrow> u32 \<Rightarrow> 'w" where
  "pallet_collective_close_early_approved T b m p =
     saturating_chain T (from_parts T 43958190 0)
       [from_parts T 0 4016,
        saturating_mul T (from_parts T 241670 0) (ucast p),
        db_reads T 4,
        db_writes T 3,
        saturating_mul T (from_parts T 0 1) (ucast b),
        saturating_mul T (from_parts T 0 66) (ucast m),
        saturating_mul T (from_parts T 0 40) (ucast p)]"

definition pallet_collective_close_disapproved :: "('w, 'z) weight_env_scheme \<Rightarrow> u32 \<Rightarrow> u32 \<Rightarrow> 'w" where
  "pallet_collective_close_disapproved T m p =
     saturating_chain T (from_parts T 30046473 0)
       [from_parts T 0 3862,
        saturating_mul T (from_parts T 22074 0) (ucast m),
        saturating_mul T (from_parts T 180626 0) (ucast p),
        db_reads T 4,
        db_writes T 3,
        saturating_mul T (from_parts T 0 65) (ucast m),
        saturating_mul T (from_parts T 0 36) (ucast p)]"

definition pallet_collective_close_approved :: "('w, 'z) weight_env_scheme \<Rightarrow> u32 \<Rightarrow> u32 \<Rightarrow> u32 \<Rightarrow> 'w" where
  "pallet_collective_close_approved T b m p =
     saturating_chain T (from_parts T 40816742 0)
       [from_parts T 0 4036,
        saturating_mul T (from_parts T 1842 0) (ucast b),
        saturating_mul T (from_parts T 20012 0) (ucast m),
        saturating_mul T (from_parts T 208678 0) (ucast p),
        db_reads T 5,
        db_writes T 3,
        saturating_mul T (from_parts T 0 1) (ucast b),
        saturating_mul T (from_parts T 0 66) (ucast m),
        saturating_mul T (from_parts T 0 40) (ucast p)]"

definition pallet_collective_disapprove_proposal :: "('w, 'z) weight_env_scheme \<Rightarrow> u32 \<Rightarrow> 'w" where
  "pallet_collective_disapprove_proposal T p =
     saturating_chain T (from_parts T 16378506 0)
       [from_parts T 0 1711,
        saturating_mul T (from_parts T 169311 0) (ucast p),
        db_reads T 1,
        db_writes T 3,
        saturating_mul T (from_parts T 0 32) (ucast p)]"

lemmas pallet_collective_weights =
  pallet_collective_set_members_def
  pallet_collective_execute_def
  pallet_collective_propose_execute_def
  pallet_collective_propose_proposed_def
  pallet_collective_vote_def
  pallet_collective_close_early_disapproved_def
  pallet_collective_close_early_approved_def
  pallet_collective_close_disapproved_def
  pallet_collective_close_approved_def
  pallet_collective_disapprove_proposal_def

section \<open>\<open>pallet_democracy\<close>\<close>

definition pallet_democracy_propose :: "('w, 'z) weight_env_scheme \<Rightarrow> 'w" where
  "pallet_democracy_propose T =
     saturating_chain T (from_parts T 58488000 0)
       [from_parts T 0 18187,
        db_reads T 3,
        db_writes T 3]"

definition pallet_democracy_second :: "('w, 'z) weight_env_scheme \<Rightarrow> 'w" where
  "pallet_democracy_second T =
     saturating_chain T (from_parts T 43574000 0)
       [from_parts T 0 6695,
        db_reads T 1,
        db_writes T 1]"

definition pallet_democracy_vote_new :: "('w, 'z) weight_env_scheme \<Rightarrow> 'w" where
  "pallet_democracy_vote_new T =
     saturating_chain T (from_parts T 54476000 0)
       [from_parts T 0 7260,
        db_reads T 4,
        db_writes T 3]"

definition pallet_democracy_vote_existing :: "('w, 'z) weight_env_scheme \<Rightarrow> 'w" where
  "pallet_democracy_vote_existing T =
     saturating_chain T (from_parts T 58900000 0)
       [from_parts T 0 7260,
        db_reads T 4,
        db_writes T 3]"

definition pallet_democracy_emergency_cancel :: "('w, 'z) weight_env_scheme \<Rightarrow> 'w" where
  "pallet_democracy_emergency_cancel T =
     saturating_chain T (from_parts T 24117000 0)
       [from_parts T 0 3666,
        db_reads T 3,
        db_writes T 3]"

definition pallet_democracy_blacklist :: "('w, 'z) weight_env_scheme \<Rightarrow> 'w" where
  "pallet_democracy_blacklist T =
     saturating_chain T (from_parts T 109037000 0)
       [from_parts T 0 18187,
        db_reads T 9,
        db_writes T 8]"

definition pallet_democracy_external_propose :: "('w, 'z) weight_env_scheme \<Rightarrow> 'w" where
  "pallet_democracy_external_propose T =
     saturating_chain T (from_parts T 11946000 0)
       [from_parts T 0 6703,
        db_reads T 2,
        db_writes T 1]"

definition pallet_democracy_external_propose_majority :: "('w, 'z) weight_env_scheme \<Rightarrow> 'w" where
  "pallet_democracy_external_propose_majority T =
     saturating_chain T (from_parts T 3048000 0)
       [from_parts T 0 0,
        db_writes T 1]"

definition pallet_democracy_external_propose_default :: "('w, 'z) weight_env_scheme \<Rightarrow> 'w" where
  "pallet_democracy_external_propose_default T =
     saturating_chain T (from_parts T 3023000 0)
       [from_parts T 0 0,
        db_writes T 1]"

definition pallet_democracy_fast_track :: "('w, 'z) weight_env_scheme \<Rightarrow> 'w" where
  "pallet_democracy_fast_track T =
     saturating_chain T (from_parts T 26197000 0)
       [from_parts T 0 3518,
        db_reads T 3,
        db_writes T 5]"

definition pallet_democracy_veto_external :: "('w, 'z) weight_env_scheme \<Rightarrow> 'w" where
  "pallet_democracy_veto_external T =
     saturating_chain T (from_parts T 29337000 0)
       [from_parts T 0 6703,
        db_reads T 3,
        db_writes T 3]"

definition pallet_democracy_cancel_proposal :: "('w, 'z) weight_env_scheme \<Rightarrow> 'w" where
  "pallet_democracy_cancel_proposal T =
     saturating_chain T (from_parts T 91023000 0)
       [from_parts T 0 18187,
        db_reads T 5,
        db_writes T 5]"

definition pallet_democracy_cancel_referendum :: "('w, 'z) weight_env_scheme \<Rightarrow> 'w" where
  "pallet_democracy_cancel_referendum T =
     saturating_chain T (from_parts T 18587000 0)
       [from_parts T 0 3518,
        db_reads T 1,
        db_writes T 2]"

definition pallet_democracy_on_initialize_base :: "('w, 'z) weight_env_scheme \<Rightarrow> u32 \<Rightarrow> 'w" where
  "pallet_democracy_on_initialize_base T r =
     saturating_chain T (from_parts T 8007126 0)
       [from_parts T 0 1489,
        saturating_mul T (from_parts T 2758733 0) (ucast r),
        db_reads T 2,
        db_reads T (u64_saturating_mul 1 (ucast r)),
        db_writes T 1,
        saturating_mul T (from_parts T 0 2676) (ucast r)]"

definition pallet_democracy_on_initialize_base_with_launch_period :: "('w, 'z) weight_env_scheme \<Rightarrow> u32 \<Rightarrow> 'w" where
  "pallet_democracy_on_initialize_base_with_launch_period T r =
     saturating_chain T (from_parts T 11058666 0)
       [from_parts T 0 18187,
        saturating_mul T (from_parts T 2756856 0) (ucast r),
        db_reads T 5,
        db_reads T (u64_saturating_mul 1 (ucast r)),
        db_writes T 1,
        saturating_mul T (from_parts T 0 2676) (ucast r)]"

definition pallet_democracy_delegate :: "('w, 'z) weight_env_scheme \<Rightarrow> u32 \<Rightarrow> 'w" where
  "pallet_democracy_delegate T r =
     saturating_chain T (from_parts T 45954119 0)
       [from_parts T 0 19800,
        saturating_mul T (from_parts T 4010359 0) (ucast r),
        db_reads T 5,
        db_reads T (u64_saturating_mul 1 (ucast r)),
        db_writes T 4,
        db_writes T (u64_saturating_mul 1 (ucast r)),
        saturating_mul T (from_parts T 0 2676) (ucast r)]"

definition pallet_democracy_undelegate :: "('w, 'z) weight_env_scheme \<Rightarrow> u32 \<Rightarrow> 'w" where
  "pallet_democracy_undelegate T r =
     saturating_chain T (from_parts T 22080284 0)
       [from_parts T 0 13530,
        saturating_mul T (from_parts T 3950719 0) (ucast r),
        db_reads T 2,
        db_reads T (u64_saturating_mul 1 (ucast r)),
        db_writes T 2,
        db_writes T (u64_saturating_mul 1 (ucast r)),
        saturating_mul T (from_parts T 0 2676) (ucast r)]"

definition pallet_democracy_clear_public_proposals :: "('w, 'z) weight_env_scheme \<Rightarrow> 'w" where
  "pallet_democracy_clear_public_proposals T =
     saturating_chain T (from_parts T 3088000 0)
       [from_parts T 0 0,
        db_writes T 1]"

definition pallet_democracy_unlock_remove :: "('w, 'z) weight_env_scheme \<Rightarrow> u32 \<Rightarrow> 'w" where
  "pallet_democracy_unlock_remove T r =
     saturating_chain T (from_parts T 36353471 0)
       [from_parts T 0 7260,
        saturating_mul T (from_parts T 91700 0) (ucast r),
        db_reads T 4,
        db_writes T 3]"

definition pallet_democracy_unlock_set :: "('w, 'z) weight_env_scheme \<Rightarrow> u32 \<Rightarrow> 'w" where
  "pallet_democracy_unlock_set T r =
     saturating_chain T (from_parts T 34942455 0)
       [from_parts T 0 7260,
        saturating_mul T (from_parts T 109395 0) (ucast r),
        db_reads T 4,
        db_writes T 3]"

definition pallet_democracy_remove_vote :: "('w, 'z) weight_env_scheme \<Rightarrow> u32 \<Rightarrow> 'w" where
  "pallet_democracy_remove_vote T r =
     saturating_chain T (from_parts T 18135042 0)
       [from_parts T 0 7260,
        saturating_mul T (from_parts T 101048 0) (ucast r),
        db_reads T 2,
        db_writes T 2]"

definition pallet_democracy_remove_other_vote :: "('w, 'z) weight_env_scheme \<Rightarrow> u32 \<Rightarrow> 'w" where
  "pallet_democracy_remove_other_vote T r =
     saturating_chain T (from_parts T 18025595 0)
       [from_parts T 0 7260,
        saturating_mul T (from_parts T 101940 0) (ucast r),
        db_reads T 2,
        db_writes T 2]"

definition pallet_democracy_set_external_metadata :: "('w, 'z) weight_env_scheme \<Rightarrow> 'w" where
  "pallet_democracy_set_external_metadata T =
     saturating_chain T (from_parts T 17245000 0)
       [from_parts T 0 3556,
        db_reads T 2,
        db_writes T 1]"

definition pallet_democracy_clear_external_metadata :: "('w, 'z) weight_env_scheme \<Rightarrow> 'w" where
  "pallet_democracy_clear_external_metadata T =
     saturating_chain T (from_parts T 15170000 0)
       [from_parts T 0 3518,
        db_reads T 2,
        db_writes T 1]"

definition pallet_democracy_set_proposal_metadata :: "('w, 'z) weight_env_scheme \<Rightarrow> 'w" where
  "pallet_democracy_set_proposal_metadata T =
     saturating_chain T (from_parts T 38393000 0)
       [from_parts T 0 18187,
        db_reads T 2,
        db_writes T 1]"

definition pallet_democracy_clear_proposal_metadata :: "('w, 'z) weight_env_scheme \<Rightarrow> 'w" where
  "pallet_democracy_clear_proposal_metadata T =
     saturating_chain T (from_parts T 35538000 0)
       [from_parts T 0 18187,
        db_reads T 2,
        db_writes T 1]"

definition pallet_democracy_set_referendum_metadata :: "('w, 'z) weight_env_scheme \<Rightarrow> 'w" where
  "pallet_democracy_set_referendum_metadata T =
     saturating_chain T (from_parts T 13081000 0)
       [from_parts T 0 3556,
        db_reads T 1,
        db_writes T 1]"

definition pallet_democracy_clear_referendum_metadata :: "('w, 'z) weight_env_scheme \<Rightarrow> 'w" where
  "pallet_democracy_clear_referendum_metadata T =
     saturating_chain T (from_parts T 17020000 0)
       [from_parts T 0 3666,
        db_reads T 2,
        db_writes T 1]"

lemmas pallet_democracy_weights =
  pallet_democracy_propose_def
  pallet_democracy_second_def
  pallet_democracy_vote_new_def
  pallet_democracy_vote_existing_def
  pallet_democracy_emergency_cancel_def
  pallet_democracy_blacklist_def
  pallet_democracy_external_propose_def
  pallet_democracy_external_propose_majority_def
  pallet_democracy_external_propose_default_def
  pallet_democracy_fast_track_def
  pallet_democracy_veto_external_def
  pallet_democracy_cancel_proposal_def
  pallet_democracy_cancel_referendum_def
  pallet_democracy_on_initialize_base_def
  pallet_democracy_on_initialize_base_with_launch_period_def
  pallet_democracy_delegate_def
  pallet_democracy_undelegate_def
  pallet_democracy_clear_public_proposals_def
  pallet_democracy_unlock_remove_def
  pallet_democracy_unlock_set_def
  pallet_democracy_remove_vote_def
  pallet_democracy_remove_other_vote_def
  pallet_democracy_set_external_metadata_def
  pallet_democracy_clear_external_metadata_def
  pallet_democracy_set_proposal_metadata_def
  pallet_democracy_clear_proposal_metadata_def
  pallet_democracy_set_referendum_metadata_def
  pallet_democracy_clear_referendum_metadata_def

lemmas governance_weights =
  pallet_collective_weights pallet_democracy_weights

text \<open>
  Governance cannot weigh itself out of a block: with the hundred
  members and hundred proposals the collectives allow, and up to a hundred votes of an account in
  democracy, every call of both pallets stays within the share of a block that normal
  extrinsics may fill.
\<close>

lemma governance_weights_fit_normal:
  assumes "limits_known E"
  shows "
      (\<forall>m n p. unat m \<le> 100 \<longrightarrow> unat p \<le> 100 \<longrightarrow> fits_normal E (pallet_collective_set_members E m n p)) \<and>
      (\<forall>b m. unat b \<le> 1024 \<longrightarrow> unat m \<le> 100 \<longrightarrow> fits_normal E (pallet_collective_execute E b m)) \<and>
      (\<forall>b m. unat m \<le> 100 \<longrightarrow> fits_normal E (pallet_collective_propose_execute E b m)) \<and>
      (\<forall>b m p. unat b \<le> 1024 \<longrightarrow> unat m \<le> 100 \<longrightarrow> unat p \<le> 100 \<longrightarrow> fits_normal E (pallet_collective_propose_proposed E b m p)) \<and>
      (\<forall>m. unat m \<le> 100 \<longrightarrow> fits_normal E (pallet_collective_vote E m)) \<and>
      (\<forall>m p. unat m \<le> 100 \<longrightarrow> unat p \<le> 100 \<longrightarrow> fits_normal E (pallet_collective_close_early_disapproved E m p)) \<and>
      (\<forall>b m p. unat b \<le> 1024 \<longrightarrow> unat m \<le> 100 \<longrightarrow> unat p \<le> 100 \<longrightarrow> fits_normal E (pallet_collective_close_early_approved E b m p)) \<and>
      (\<forall>m p. unat m \<le> 100 \<longrightarrow> unat p \<le> 100 \<longrightarrow> fits_normal E (pallet_collective_close_disapproved E m p)) \<and>
      (\<forall>b m p. unat b \<le> 1024 \<longrightarrow> unat m \<le> 100 \<longrightarrow> unat p \<le> 100 \<longrightarrow> fits_normal E (pallet_collective_close_approved E b m p)) \<and>
      (\<forall>p. unat p \<le> 100 \<longrightarrow> fits_normal E (pallet_collective_disapprove_proposal E p)) \<and>
      fits_normal E (pallet_democracy_propose E) \<and>
      fits_normal E (pallet_democracy_second E) \<and>
      fits_normal E (pallet_democracy_vote_new E) \<and>
      fits_normal E (pallet_democracy_vote_existing E) \<and>
      fits_normal E (pallet_democracy_emergency_cancel E) \<and>
      fits_normal E (pallet_democracy_blacklist E) \<and>
      fits_normal E (pallet_democracy_external_propose E) \<and>
      fits_normal E (pallet_democracy_external_propose_majority E) \<and>
      fits_normal E (pallet_democracy_external_propose_default E) \<and>
      fits_normal E (pallet_democracy_fast_track E) \<and>
      fits_normal E (pallet_democracy_veto_external E) \<and>
      fits_normal E (pallet_democracy_cancel_proposal E) \<and>
      fits_normal E (pallet_democracy_cancel_referendum E) \<and>
      (\<forall>r. unat r \<le> 99 \<longrightarrow> fits_normal E (pallet_democracy_on_initialize_base E r)) \<and>
      (\<forall>r. unat r \<le> 99 \<longrightarrow> fits_normal E (pallet_democracy_on_initialize_base_with_launch_period E r)) \<and>
      (\<forall>r. unat r \<le> 99 \<longrightarrow> fits_normal E (pallet_democracy_delegate E r)) \<and>
      (\<forall>r. unat r \<le> 99 \<longrightarrow> fits_normal E (pallet_democracy_undelegate E r)) \<and>
      fits_normal E (pallet_democracy_clear_public_proposals E) \<and>
      (\<forall>r. unat r \<le> 99 \<longrightarrow> fits_normal E (pallet_democracy_unlock_remove E r)) \<and>
      (\<forall>r. unat r \<le> 99 \<longrightarrow> fits_normal E (pallet_democracy_unlock_set E r)) \<and>
      (\<forall>r. unat r \<le> 100 \<longrightarrow> fits_normal E (pallet_democracy_remove_vote E r)) \<and>
      (\<forall>r. unat r \<le> 100 \<longrightarrow> fits_normal E (pallet_democracy_remove_other_vote E r)) \<and>
      fits_normal E (pallet_democracy_set_external_metadata E) \<and>
      fits_normal E (pallet_democracy_clear_external_metadata E) \<and>
      fits_normal E (pallet_democracy_set_proposal_metadata E) \<and>
      fits_normal E (pallet_democracy_clear_proposal_metadata E) \<and>
      fits_normal E (pallet_democracy_set_referendum_metadata E) \<and>
      fits_normal E (pallet_democracy_clear_referendum_metadata E)"
  by (intro conjI allI impI;
      (rule fits_normalI [OF assms], unfold governance_weights,
       (rule within_rules limits_knownD [OF assms] | assumption)+, simp, simp))

lemma governance_weights_fit_normal_witness:
  "fits_normal pair_env (pallet_collective_set_members pair_env 100 100 100)"
  using governance_weights_fit_normal [OF limits_known_pair_env, THEN conjunct1, rule_format, of 100 100 100]
  by simp

text \<open>A larger input never weighs less, so charging for the maximum covers every smaller one.\<close>

lemma governance_weights_mono:
  assumes "weight_laws T" "db_laws T rd wr"
  shows "
      (\<forall>m n p m' n' p'. m \<le> m' \<longrightarrow> p \<le> p' \<longrightarrow> no_heavier T (pallet_collective_set_members T m n p) (pallet_collective_set_members T m' n' p')) \<and>
      (\<forall>b m b' m'. b \<le> b' \<longrightarrow> m \<le> m' \<longrightarrow> no_heavier T (pallet_collective_execute T b m) (pallet_collective_execute T b' m')) \<and>
      (\<forall>b m b' m'. m \<le> m' \<longrightarrow> no_heavier T (pallet_collective_propose_execute T b m) (pallet_collective_propose_execute T b' m')) \<and>
      (\<forall>b m p b' m' p'. b \<le> b' \<longrightarrow> m \<le> m' \<longrightarrow> p \<le> p' \<longrightarrow> no_heavier T (pallet_collective_propose_proposed T b m p) (pallet_collective_propose_proposed T b' m' p')) \<and>
      (\<forall>m m'. m \<le> m' \<longrightarrow> no_heavier T (pallet_collective_vote T m) (pallet_collective_vote T m')) \<and>
      (\<forall>m p m' p'. m \<le> m' \<longrightarrow> p \<le> p' \<longrightarrow> no_heavier T (pallet_collective_close_early_disapproved T m p) (pallet_collective_close_early_disapproved T m' p')) \<and>
      (\<forall>b m p b' m' p'. b \<le> b' \<longrightarrow> m \<le> m' \<longrightarrow> p \<le> p' \<longrightarrow> no_heavier T (pallet_collective_close_early_approved T b m p) (pallet_collective_close_early_approved T b' m' p')) \<and>
      (\<forall>m p m' p'. m \<le> m' \<longrightarrow> p \<le> p' \<longrightarrow> no_heavier T (pallet_collective_close_disapproved T m p) (pallet_collective_close_disapproved T m' p')) \<and>
      (\<forall>b m p b' m' p'. b \<le> b' \<longrightarrow> m \<le> m' \<longrightarrow> p \<le> p' \<longrightarrow> no_heavier T (pallet_collective_close_approved T b m p) (pallet_collective_close_approved T b' m' p')) \<and>
      (\<forall>p p'. p \<le> p' \<longrightarrow> no_heavier T (pallet_collective_disapprove_proposal T p) (pallet_collective_disapprove_proposal T p')) \<and>
      (\<forall>r r'. r \<le> r' \<longrightarrow> no_heavier T (pallet_democracy_on_initialize_base T r) (pallet_democracy_on_initialize_base T r')) \<and>
      (\<forall>r r'. r \<le> r' \<longrightarrow> no_heavier T (pallet_democracy_on_initialize_base_with_launch_period T r) (pallet_democracy_on_initialize_base_with_launch_period T r')) \<and>
      (\<forall>r r'. r \<le> r' \<longrightarrow> no_heavier T (pallet_democracy_delegate T r) (pallet_democracy_delegate T r')) \<and>
      (\<forall>r r'. r \<le> r' \<longrightarrow> no_heavier T (pallet_democracy_undelegate T r) (pallet_democracy_undelegate T r')) \<and>
      (\<forall>r r'. r \<le> r' \<longrightarrow> no_heavier T (pallet_democracy_unlock_remove T r) (pallet_democracy_unlock_remove T r')) \<and>
      (\<forall>r r'. r \<le> r' \<longrightarrow> no_heavier T (pallet_democracy_unlock_set T r) (pallet_democracy_unlock_set T r')) \<and>
      (\<forall>r r'. r \<le> r' \<longrightarrow> no_heavier T (pallet_democracy_remove_vote T r) (pallet_democracy_remove_vote T r')) \<and>
      (\<forall>r r'. r \<le> r' \<longrightarrow> no_heavier T (pallet_democracy_remove_other_vote T r) (pallet_democracy_remove_other_vote T r'))"
  unfolding governance_weights
  by (intro conjI allI impI; (rule assms heavier_rules | assumption)+)

end
