(* ===== verification/Integritee_Limits.thy ===== *)
theory Integritee_Limits
  imports Integritee_Config Integritee_Executor Weights_System Weights_Funds Weights_Governance
begin

text \<open>
  Where the configurations of the full runtime, its block limits and its benchmarked weights meet: the
  limits the pallets are configured with keep their calls within a block, motions of the collectives can
  be executed, scheduled calls can be fetched, and the pallets are wired to pallets that exist.
\<close>

section \<open>Values of the configured limits\<close>

lemma configured_limits:
  "unat (ms_MaxSignatories pallet_multisig_config) = 10"
  "unat (pr_MaxProxies (pallet_proxy_config :: (ProxyType, 'c RuntimeCall) proxy_config)) = 32"
  "unat (pr_MaxPending (pallet_proxy_config :: (ProxyType, 'c RuntimeCall) proxy_config)) = 32"
  "unat (bal_MaxLocks pallet_balances_config) = 50"
  "unat (ve_MAX_VESTING_SCHEDULES (pallet_vesting_config W)) = 28"
  "unat (sch_MaxScheduledPerBlock (pallet_scheduler_config E G mb)) = 50"
  "unat (tr_MaxApprovals (pallet_treasury_config G pm fast)) = 10"
  "unat (bo_MaximumReasonLength (pallet_bounties_config pm fast)) = 16384"
  "unat (co_MaxMembers (council_config E G mb fast)) = 100"
  "unat (co_MaxProposals (council_config E G mb fast)) = 100"
  "unat (co_MaxMembers (technical_committee_config E G mb fast)) = 100"
  "unat (co_MaxProposals (technical_committee_config E G mb fast)) = 100"
  "unat (dm_MaxVotes (pallet_democracy_config G fast)) = 100"
  by (simp_all add: integritee_config_defs MaxSignatories_def MaxProxies_def MaxPending_def MaxLocks_def
      MAX_VESTING_SCHEDULES_def MaxScheduledPerBlock_def MaxApprovals_def MaximumReasonLength_def
      CouncilMaxMembers_def CouncilMaxProposals_def TechnicalMaxMembers_def TechnicalMaxProposals_def MaxVotes_def)

section \<open>Calls at the configured limits\<close>

lemma calls_at_limits_fit:
  assumes "limits_known E"
  shows "unat s \<le> 10 \<Longrightarrow> unat z \<le> 10000 \<Longrightarrow>
      list_all (fits_normal E) [pallet_multisig_as_multi_threshold_1 E z, pallet_multisig_as_multi_create E s z,
        pallet_multisig_as_multi_approve E s z, pallet_multisig_as_multi_complete E s z,
        pallet_multisig_approve_as_multi_create E s, pallet_multisig_approve_as_multi_approve E s,
        pallet_multisig_cancel_as_multi E s]"
    and "unat p \<le> 32 \<Longrightarrow> unat a \<le> 32 \<Longrightarrow>
      list_all (fits_normal E) [pallet_proxy_proxy E p, pallet_proxy_proxy_announced E a p,
        pallet_proxy_remove_announcement E a p, pallet_proxy_reject_announcement E a p, pallet_proxy_announce E a p,
        pallet_proxy_add_proxy E p, pallet_proxy_remove_proxy E p, pallet_proxy_remove_proxies E p,
        pallet_proxy_create_pure E p, pallet_proxy_kill_pure E p]"
    and "unat s \<le> 50 \<Longrightarrow>
      list_all (fits_normal E) [pallet_scheduler_service_agenda_base E s, pallet_scheduler_schedule E s,
        pallet_scheduler_cancel E s, pallet_scheduler_schedule_named E s, pallet_scheduler_cancel_named E s]"
    and "unat l \<le> 50 \<Longrightarrow> unat s \<le> 28 \<Longrightarrow>
      list_all (fits_normal E) [pallet_vesting_vest_locked E l s, pallet_vesting_vest_unlocked E l s,
        pallet_vesting_vest_other_locked E l s, pallet_vesting_vest_other_unlocked E l s,
        pallet_vesting_vested_transfer E l s, pallet_vesting_force_vested_transfer E l s,
        pallet_vesting_not_unlocking_merge_schedules E l s, pallet_vesting_unlocking_merge_schedules E l s]"
    and "unat p \<le> 10 \<Longrightarrow>
      list_all (fits_normal E) [pallet_treasury_approve_proposal E p, pallet_treasury_on_initialize_proposals E p,
        pallet_bounties_spend_funds E p]"
    and "unat d \<le> 16384 \<Longrightarrow>
      list_all (fits_normal E) [pallet_bounties_propose_bounty E d, pallet_child_bounties_add_child_bounty E d]"
    and "unat m \<le> 100 \<Longrightarrow> unat p \<le> 100 \<Longrightarrow> unat b \<le> 1024 \<Longrightarrow>
      list_all (fits_normal E) [pallet_collective_set_members E m n p, pallet_collective_execute E b m,
        pallet_collective_propose_execute E b m, pallet_collective_propose_proposed E b m p, pallet_collective_vote E m,
        pallet_collective_close_early_disapproved E m p, pallet_collective_close_early_approved E b m p,
        pallet_collective_close_disapproved E m p, pallet_collective_close_approved E b m p,
        pallet_collective_disapprove_proposal E p]"
    and "unat r \<le> 100 \<Longrightarrow>
      list_all (fits_normal E) [pallet_democracy_delegate E r, pallet_democracy_undelegate E r,
        pallet_democracy_unlock_remove E r, pallet_democracy_unlock_set E r, pallet_democracy_remove_vote E r,
        pallet_democracy_remove_other_vote E r]"
proof -
qed (unfold list.pred_inject, (intro conjI list.pred_inject(1);
      (rule fits_normalI [OF assms], unfold system_weights funds_weights governance_weights,
       (rule within_rules limits_knownD [OF assms] | assumption)+, simp, simp))+)

text \<open>
  C35. Every call of the multisig, proxy, scheduler, vesting, treasury, bounties, child bounties, collective and democracy
  pallets whose weight depends on how full the pallet's storage is, and the work of a block that depends on it
  (opening an agenda, paying approved proposals and bounties), fits the share of a block for normal
  extrinsics up to the configured limit, also where the benchmarks stop one short of it (proxies, announcements, locks, votes):
  multisigs with all signatories, accounts with all proxies and pending announcements, a full agenda, all
  locks and vesting schedules, all approvals, the longest reason, either collective when full and with all motions open,
  and an account with all votes. Calls passed on to a multisig are taken up to 10000 bytes and motions up to 1024,
  the lengths the benchmarks go to; the weight of a call that is passed on comes on top. The number of open
  referenda is not limited, and what a block does for them is not covered.
\<close>

theorem configured_calls_fit:
  assumes "limits_known E" "C = council_config E G mb fast \<or> C = technical_committee_config E G mb fast"
  shows "(\<forall>s z. unat s \<le> unat (ms_MaxSignatories pallet_multisig_config) \<longrightarrow> unat z \<le> 10000 \<longrightarrow>
      list_all (fits_normal E) [pallet_multisig_as_multi_threshold_1 E z, pallet_multisig_as_multi_create E s z,
        pallet_multisig_as_multi_approve E s z, pallet_multisig_as_multi_complete E s z,
        pallet_multisig_approve_as_multi_create E s, pallet_multisig_approve_as_multi_approve E s,
        pallet_multisig_cancel_as_multi E s]) \<and>
    (\<forall>a p. unat p \<le> unat (pr_MaxProxies (pallet_proxy_config :: (ProxyType, unit RuntimeCall) proxy_config)) \<longrightarrow>
      unat a \<le> unat (pr_MaxPending (pallet_proxy_config :: (ProxyType, unit RuntimeCall) proxy_config)) \<longrightarrow>
      list_all (fits_normal E) [pallet_proxy_proxy E p, pallet_proxy_proxy_announced E a p,
        pallet_proxy_remove_announcement E a p, pallet_proxy_reject_announcement E a p, pallet_proxy_announce E a p,
        pallet_proxy_add_proxy E p, pallet_proxy_remove_proxy E p, pallet_proxy_remove_proxies E p,
        pallet_proxy_create_pure E p, pallet_proxy_kill_pure E p]) \<and>
    (\<forall>s. unat s \<le> unat (sch_MaxScheduledPerBlock (pallet_scheduler_config E G mb)) \<longrightarrow>
      list_all (fits_normal E) [pallet_scheduler_service_agenda_base E s, pallet_scheduler_schedule E s,
        pallet_scheduler_cancel E s, pallet_scheduler_schedule_named E s, pallet_scheduler_cancel_named E s]) \<and>
    (\<forall>l s. unat l \<le> unat (bal_MaxLocks pallet_balances_config) \<longrightarrow>
      unat s \<le> unat (ve_MAX_VESTING_SCHEDULES (pallet_vesting_config W)) \<longrightarrow>
      list_all (fits_normal E) [pallet_vesting_vest_locked E l s, pallet_vesting_vest_unlocked E l s,
        pallet_vesting_vest_other_locked E l s, pallet_vesting_vest_other_unlocked E l s,
        pallet_vesting_vested_transfer E l s, pallet_vesting_force_vested_transfer E l s,
        pallet_vesting_not_unlocking_merge_schedules E l s, pallet_vesting_unlocking_merge_schedules E l s]) \<and>
    (\<forall>p. unat p \<le> unat (tr_MaxApprovals (pallet_treasury_config G pm fast)) \<longrightarrow>
      list_all (fits_normal E) [pallet_treasury_approve_proposal E p, pallet_treasury_on_initialize_proposals E p,
        pallet_bounties_spend_funds E p]) \<and>
    (\<forall>d. unat d \<le> unat (bo_MaximumReasonLength (pallet_bounties_config pm fast)) \<longrightarrow>
      list_all (fits_normal E) [pallet_bounties_propose_bounty E d, pallet_child_bounties_add_child_bounty E d]) \<and>
    (\<forall>b m n p. unat m \<le> unat (co_MaxMembers C) \<longrightarrow> unat p \<le> unat (co_MaxProposals C) \<longrightarrow> unat b \<le> 1024 \<longrightarrow>
      list_all (fits_normal E) [pallet_collective_set_members E m n p, pallet_collective_execute E b m,
        pallet_collective_propose_execute E b m, pallet_collective_propose_proposed E b m p, pallet_collective_vote E m,
        pallet_collective_close_early_disapproved E m p, pallet_collective_close_early_approved E b m p,
        pallet_collective_close_disapproved E m p, pallet_collective_close_approved E b m p,
        pallet_collective_disapprove_proposal E p]) \<and>
    (\<forall>r. unat r \<le> unat (dm_MaxVotes (pallet_democracy_config G fast)) \<longrightarrow>
      list_all (fits_normal E) [pallet_democracy_delegate E r, pallet_democracy_undelegate E r,
        pallet_democracy_unlock_remove E r, pallet_democracy_unlock_set E r, pallet_democracy_remove_vote E r,
        pallet_democracy_remove_other_vote E r])"
proof -
  have C: "unat (co_MaxMembers C) = 100" "unat (co_MaxProposals C) = 100"
    using assms(2) configured_limits by auto
  show ?thesis
    unfolding configured_limits C by (intro conjI allI impI calls_at_limits_fit [OF assms(1)])
qed

theorem configured_calls_fit_witness:
  "fits_normal pair_env (pallet_proxy_announce pair_env 32 32)"
  using configured_calls_fit [OF limits_known_pair_env disjI1 [OF refl], THEN conjunct2, THEN conjunct1, rule_format, of 32 32]
  by (simp add: configured_limits)

section \<open>Motions of the collectives\<close>

lemma MaxProposalWeight_parts:
  assumes "limits_known E"
  shows "unat (ref_time E (MaxProposalWeight E (MAXIMUM_BLOCK_WEIGHT E))) = 250000000000"
    and "unat (proof_size E (MaxProposalWeight E (MAXIMUM_BLOCK_WEIGHT E))) = 2621440"
proof -
  note E = limits_knownD [OF assms]
  note max = MAXIMUM_BLOCK_WEIGHT_parts [OF E(1,4)]
  show "unat (ref_time E (MaxProposalWeight E (MAXIMUM_BLOCK_WEIGHT E))) = 250000000000"
    unfolding MaxProposalWeight_def by (rule perbill_mul_exact(1) [OF E(2)]) (simp_all add: max)
  show "unat (proof_size E (MaxProposalWeight E (MAXIMUM_BLOCK_WEIGHT E))) = 2621440"
    unfolding MaxProposalWeight_def by (rule perbill_mul_exact(2) [OF E(2)]) (simp_all add: max)
qed

lemma close_approved_within:
  assumes "limits_known E" "unat b \<le> 1000000" "unat m \<le> 100" "unat p \<le> 100"
  shows "within E (pallet_collective_close_approved E b m p) 10000000000 1200000"
    and "within E (pallet_collective_close_early_approved E b m p) 10000000000 1200000"
  unfolding pallet_collective_close_approved_def pallet_collective_close_early_approved_def
  by (rule within_mono, (rule within_rules limits_knownD [OF assms(1)] assms)+, simp, simp)+

text \<open>
  C36. A motion that a collective accepts for voting can be executed when it is approved: the heaviest
  proposal the collectives admit, half a block, together with counting the votes of a full collective
  with all motions open, still fits the share of normal extrinsics, for proposals of up to a million
  bytes. This holds for both collectives, whose membership the same majority of the council (or root)
  decides.
\<close>

theorem motions_executable:
  assumes "limits_known E" "ensure_laws G"
    and "C \<in> {council_config E G (MAXIMUM_BLOCK_WEIGHT E) fast, technical_committee_config E G (MAXIMUM_BLOCK_WEIGHT E) fast}"
    and "no_heavier E w (co_MaxProposalWeight C)" "unat b \<le> 1000000"
    and "unat m \<le> unat (co_MaxMembers C)" "unat p \<le> unat (co_MaxProposals C)"
  shows "fits_normal E (saturating_add E (pallet_collective_close_approved E b m p) w) \<and>
    fits_normal E (saturating_add E (pallet_collective_close_early_approved E b m p) w) \<and>
    (SetMembersOrigin C q \<longleftrightarrow> q = Root \<or> (\<exists>y k. q = Members Instance1 y k \<and> unat k < 2 * unat y))"
proof (intro conjI)
  have C: "unat m \<le> 100" "unat p \<le> 100" "no_heavier E w (MaxProposalWeight E (MAXIMUM_BLOCK_WEIGHT E))"
    "SetMembersOrigin C = EnsureRootOrMoreThanHalfCouncil G"
    using assms(3,4,6,7) by (auto simp: council_config_def technical_committee_config_def CouncilMaxMembers_def
        CouncilMaxProposals_def TechnicalMaxMembers_def TechnicalMaxProposals_def)
  have "within E w 250000000000 2621440"
    by (rule no_heavier_within [OF C(3)]) (simp add: within_def MaxProposalWeight_parts [OF assms(1)])
  note sum = within_add [OF limits_knownD(1) [OF assms(1)] _ this]
  note closes = close_approved_within [OF assms(1,5) C(1,2)]
  show "fits_normal E (saturating_add E (pallet_collective_close_approved E b m p) w)"
    "fits_normal E (saturating_add E (pallet_collective_close_early_approved E b m p) w)"
    by (rule fits_normalI [OF assms(1) sum [OF closes(1)]] fits_normalI [OF assms(1) sum [OF closes(2)]]; simp)+
  show "SetMembersOrigin C q \<longleftrightarrow> q = Root \<or> (\<exists>y k. q = Members Instance1 y k \<and> unat k < 2 * unat y)"
    by (simp add: C(4) privileged_origin_iff [OF assms(2)])
qed

theorem motions_executable_witness:
  "fits_normal pair_env (saturating_add pair_env (pallet_collective_close_approved pair_env 1024 100 100)
     (MaxProposalWeight pair_env (MAXIMUM_BLOCK_WEIGHT pair_env)))"
  using motions_executable [OF limits_known_pair_env example_ensure_laws, of
      "council_config pair_env example_ensure (MAXIMUM_BLOCK_WEIGHT pair_env) False" False
      "MaxProposalWeight pair_env (MAXIMUM_BLOCK_WEIGHT pair_env)" 1024 100 100 Root]
  by (simp add: configured_limits no_heavier_refl) (simp add: council_config_def no_heavier_refl)

section \<open>Scheduled calls\<close>

text \<open>
  What the scheduler has accrued when it has fetched the call of the first task of a block: the base weight of its agendas,
  that of an agenda of \<open>n\<close> tasks, and that of a task whose call is a preimage of \<open>s\<close> bytes.
\<close>

lemma first_task_fetched_parts:
  assumes "limits_known E"
    and w: "w = saturating_chain E (pallet_scheduler_service_agendas_base E)
      [pallet_scheduler_service_agenda_base E n, pallet_scheduler_service_task_fetched E s]"
  shows "unat (ref_time E (w)) = 553221120 + 1311090 * unat n + 908 * unat s"
    and "unat (proof_size E (w)) = 47595 + unat s"
proof -
  note E = limits_knownD [OF assms(1)]
  have s: "unat s < 2 ^ 32" "unat n < 2 ^ 32"
    using unsigned_less [of s, where 'a = nat] unsigned_less [of n, where 'a = nat] by simp_all
  then show "unat (ref_time E (w)) = 553221120 + 1311090 * unat n + 908 * unat s"
    "unat (proof_size E (w)) = 47595 + unat s"
    unfolding w pallet_scheduler_weights
    by (simp_all add: saturating_chain_ref_time [OF E(1)] saturating_chain_proof_size [OF E(1)]
        weight_parts [OF E(1)] weight_mul [OF E(1)] weight_db [OF E(5)] min_def)
qed

text \<open>Normal extrinsics may fill three quarters of the five mebibytes of a block.\<close>

lemma normal_block_length:
  assumes "block_length_law E F"
  shows "unat (RuntimeBlockLength E F Normal) = 3932160"
proof -
  have "unat (75 :: u32) \<le> 100" by simp
  with assms have "100 * unat (RuntimeBlockLength E F Normal) < unat (75 :: u32) * unat (5 * 1024 * 1024 :: u32) + 100 \<and>
      unat (75 :: u32) * unat (5 * 1024 * 1024 :: u32) < 100 * unat (RuntimeBlockLength E F Normal) + 100"
    unfolding block_length_law_def RuntimeBlockLength_def NORMAL_DISPATCH_RATIO_def by (metis (full_types))
  then show ?thesis by simp
qed

text \<open>
  C37. A scheduled call stored as a preimage of \<open>s\<close> bytes can be fetched, as the first task of an agenda with at most as
  many tasks as configured, within the weight the scheduler may use per block exactly up to 4146709 bytes; what the agendas
  and the fetch themselves need is accrued before. The benchmarked range, and the size a preimage may have, goes on to
  4194304, so the last 47595 bytes of it are never served. Every preimage that was noted by an extrinsic of the normal class
  is below that: the block's length limit for this class is lower.
\<close>

theorem scheduler_fetch_capacity:
  assumes "limits_known E" "block_length_law E F" "unat s \<le> 4194304"
    and "S = pallet_scheduler_config E G (MAXIMUM_BLOCK_WEIGHT E)" "n \<le> sch_MaxScheduledPerBlock S"
    and w: "w = saturating_chain E (pallet_scheduler_service_agendas_base E)
      [pallet_scheduler_service_agenda_base E n, pallet_scheduler_service_task_fetched E s]"
  shows "(no_heavier E (w) (sch_MaximumWeight S) \<longleftrightarrow> unat s \<le> 4146709) \<and>
    (s \<le> sys_BlockLength (frame_system_config E B F everything api) Normal \<longrightarrow>
      no_heavier E (w) (sch_MaximumWeight S))"
proof -
  note E = limits_knownD [OF assms(1)]
  note max = MAXIMUM_BLOCK_WEIGHT_parts [OF E(1,4)]
  have "unat (ref_time E (MaximumSchedulerWeight E (MAXIMUM_BLOCK_WEIGHT E))) = 400000000000"
    unfolding MaximumSchedulerWeight_def by (rule perbill_mul_exact(1) [OF E(2)]) (simp_all add: max)
  moreover have "unat (proof_size E (MaximumSchedulerWeight E (MAXIMUM_BLOCK_WEIGHT E))) = 4194304"
    unfolding MaximumSchedulerWeight_def by (rule perbill_mul_exact(2) [OF E(2)]) (simp_all add: max)
  moreover have "unat n \<le> 50"
    using assms(5) by (simp add: assms(4) word_le_nat_alt pallet_scheduler_config_def MaxScheduledPerBlock_def)
  ultimately show ?thesis
    using assms(3) normal_block_length [OF assms(2)]
    by (auto simp: assms(4) pallet_scheduler_config_def frame_system_config_def no_heavier_def word_le_nat_alt
        first_task_fetched_parts [OF assms(1) w])
qed

definition example_length :: "nat block_length_lib" where
  "example_length m x c = (if c = Normal then of_nat (unat m * x div 10 ^ 9) else m)"

lemma example_length_law: "block_length_law pair_env example_length"
proof -
  have part: "unat (of_nat (unat m * unat x div 100) :: u32) = unat m * unat x div 100"
    if "unat x \<le> 100" for m x :: u32
  proof -
    have "unat m * unat x div 100 \<le> unat m"
      using div_le_mono [OF mult_le_mono2 [OF that, of "unat m"], of 100] by simp
    then show ?thesis
      using unsigned_less [of m, where 'a = nat] by (simp add: unat_of_nat)
  qed
  have "100 * (unat m * unat x div 100) < unat x * unat m + 100 \<and>
      unat x * unat m < 100 * (unat m * unat x div 100) + 100" for m x :: u32
    by (simp add: mult.commute) linarith
  then show ?thesis
    by (auto simp: block_length_law_def example_length_def pair_env_def min_absorb2 part)
qed

theorem scheduler_fetch_capacity_witness:
  "\<not> no_heavier pair_env (saturating_chain pair_env (pallet_scheduler_service_agendas_base pair_env)
      [pallet_scheduler_service_agenda_base pair_env 1, pallet_scheduler_service_task_fetched pair_env 4194304])
     (sch_MaximumWeight (pallet_scheduler_config pair_env example_ensure (MAXIMUM_BLOCK_WEIGHT pair_env)))"
  using scheduler_fetch_capacity [OF limits_known_pair_env example_length_law _ refl _ refl, of 4194304 1 example_ensure list_builder
      "\<lambda>_. True" "()", THEN conjunct1] by (simp add: pallet_scheduler_config_def MaxScheduledPerBlock_def)

end
