(* ===== verification/Integritee_Benchmarks.thy ===== *)
theory Integritee_Benchmarks
  imports Integritee_Config Integritee_Executor
begin

text \<open>
  The parts of \<open>integritee-runtime/src/lib.rs\<close> that are compiled in under the features \<open>runtime-benchmarks\<close> and
  \<open>try-runtime\<close>: the list of benchmarks, the two benchmark APIs and the two \<open>try-runtime\<close> APIs; and the wiring
  of the configurations, that is which weight files and which pallets they name.
\<close>

section \<open>Benchmarks\<close>

text \<open>\<open>weights/mod.rs\<close>: the weight files.\<close>

definition weight_modules :: "string list" where
  "weight_modules =
     [''frame_system'', ''pallet_balances'', ''pallet_bounties'', ''pallet_child_bounties'', ''pallet_claims'',
      ''pallet_collective'', ''pallet_democracy'', ''pallet_enclave_bridge'', ''pallet_multisig'', ''pallet_preimage'',
      ''pallet_proxy'', ''pallet_scheduler'', ''pallet_sidechain'', ''pallet_teeracle'', ''pallet_teerex'',
      ''pallet_timestamp'', ''pallet_treasury'', ''pallet_utility'', ''pallet_vesting'', ''pallet_xcm'']"

text \<open>\<open>define_benchmarks!\<close>: names of benchmarks, each with the type that runs it.\<close>

definition benchmarks :: "(string \<times> string) list" where
  "benchmarks =
     [(''frame_system'', ''SystemBench''), (''pallet_balances'', ''Balances''), (''pallet_bounties'', ''Bounties''),
      (''pallet_child_bounties'', ''ChildBounties''), (''pallet_claims'', ''Claims''), (''pallet_collective'', ''Council''),
      (''pallet_democracy'', ''Democracy''), (''pallet_multisig'', ''Multisig''), (''pallet_preimage'', ''Preimage''),
      (''pallet_proxy'', ''Proxy''), (''pallet_scheduler'', ''Scheduler''), (''pallet_sidechain'', ''Sidechain''),
      (''pallet_teeracle'', ''Teeracle''), (''pallet_teerex'', ''Teerex''), (''pallet_enclave_bridge'', ''EnclaveBridge''),
      (''pallet_timestamp'', ''Timestamp''), (''pallet_treasury'', ''Treasury''), (''pallet_vesting'', ''Vesting''),
      (''pallet_xcm'', ''PolkadotXcm''), (''pallet_utility'', ''Utility'')]"

text \<open>
  The macros \<open>list_benchmarks!\<close> and \<open>add_benchmarks!\<close> go through that list; what they do with one entry is a
  parameter, as is \<open>hex_literal::hex!\<close>. \<open>'cfg\<close> is \<open>BenchmarkConfig\<close>, \<open>'b\<close> \<open>BenchmarkBatch\<close>.
\<close>

record ('cfg, 'b, 'l, 'i) benchmark_lib =
  list_benchmark :: "string \<Rightarrow> string \<Rightarrow> bool \<Rightarrow> 'l list \<Rightarrow> 'l list"
  storage_info :: "'i list"
  hex :: "string \<Rightarrow> u8 list"
  add_benchmark :: "string \<Rightarrow> string \<Rightarrow> 'cfg \<times> u8 list list \<Rightarrow> 'b list \<Rightarrow> string + 'b list"
  cfg_pallet :: "'cfg \<Rightarrow> string"

definition benchmark_metadata :: "('cfg, 'b, 'l, 'i, 'z) benchmark_lib_scheme \<Rightarrow> bool \<Rightarrow> 'l list \<times> 'i list" where
  "benchmark_metadata L extra =
     (fold (\<lambda>(name, location). list_benchmark L name location extra) benchmarks [], storage_info L)"

text \<open>Block number, total issuance, execution phase, event count and system events.\<close>

definition benchmark_whitelist :: "('cfg, 'b, 'l, 'i, 'z) benchmark_lib_scheme \<Rightarrow> u8 list list" where
  "benchmark_whitelist L = map (hex L)
     [''26aa394eea5630e07c48ae0c9558cef702a5c1b19ab7a04f536c519aca4983ac'',
      ''c2261276cc9d1f8598ea4b6a74b15c2f57c875e4cff74148e4628f264b974c80'',
      ''26aa394eea5630e07c48ae0c9558cef7ff553b5a9862a516939d82b3d3d8661a'',
      ''26aa394eea5630e07c48ae0c9558cef70a98fdbe9ce6c55837576c60c7af3850'',
      ''26aa394eea5630e07c48ae0c9558cef780d41e5e16056765bc8461851072c9d7'']"

primrec add_benchmarks ::
  "('cfg, 'b, 'l, 'i, 'z) benchmark_lib_scheme \<Rightarrow> 'cfg \<times> u8 list list \<Rightarrow> (string \<times> string) list \<Rightarrow> 'b list \<Rightarrow>
   string + 'b list" where
  "add_benchmarks L params [] batches = Inr batches"
| "add_benchmarks L params (x # xs) batches =
     bind_result (add_benchmark L (fst x) (snd x) params batches) (add_benchmarks L params xs)"

definition dispatch_benchmark ::
  "('cfg, 'b, 'l, 'i, 'z) benchmark_lib_scheme \<Rightarrow> 'cfg \<Rightarrow> string + 'b list" where
  "dispatch_benchmark L config =
     bind_result (add_benchmarks L (config, benchmark_whitelist L) benchmarks [])
       (\<lambda>batches. if batches = [] then Inl ''Benchmark not found for this pallet.'' else Inr batches)"

text \<open>An entry is run for the pallet it is named after, and passed over otherwise.\<close>

definition benchmark_law :: "('cfg, 'b, 'l, 'i, 'z) benchmark_lib_scheme \<Rightarrow> bool" where
  "benchmark_law L \<longleftrightarrow>
     (\<forall>n loc c w bs. cfg_pallet L c \<noteq> n \<longrightarrow> add_benchmark L n loc (c, w) bs = Inr bs)"

lemma add_benchmarks_other:
  assumes "benchmark_law L" "cfg_pallet L c \<notin> fst ` set xs"
  shows "add_benchmarks L (c, w) xs bs = Inr bs"
  using assms(2) by (induction xs) (use assms(1) in \<open>auto simp: benchmark_law_def\<close>)

lemma add_benchmarks_once:
  assumes "benchmark_law L" "distinct (map fst xs)" "(cfg_pallet L c, loc) \<in> set xs"
  shows "add_benchmarks L (c, w) xs bs = add_benchmark L (cfg_pallet L c) loc (c, w) bs"
  using assms(2,3)
proof (induction xs arbitrary: bs)
  case (Cons x xs)
  show ?case
  proof (cases "x = (cfg_pallet L c, loc)")
    case True
    with Cons.prems have "cfg_pallet L c \<notin> fst ` set xs" by simp
    with True show ?thesis
      by (cases "add_benchmark L (cfg_pallet L c) loc (c, w) bs")
         (simp_all add: add_benchmarks_other [OF assms(1)])
  next
    case False
    with Cons.prems have "(cfg_pallet L c, loc) \<in> set xs" "cfg_pallet L c \<noteq> fst x"
      by (auto simp: image_iff)
    with Cons assms(1) show ?thesis by (simp add: benchmark_law_def)
  qed
qed simp

lemma benchmarks_distinct: "distinct (map fst benchmarks)"
  by code_simp

section \<open>\<open>try-runtime\<close>\<close>

text \<open>
  Both APIs unwrap the result of the executive, so an error ends in a panic and not in a weight.
  \<open>max_block\<close> is the value of \<open>RuntimeBlockWeights::get().max_block\<close>.
\<close>

record ('s, 'o, 'w, 'e) try_runtime_lib =
  Executive_try_runtime_upgrade :: "'o \<Rightarrow> 's \<Rightarrow> 'e + 'w \<times> 's"
  Executive_try_execute_block :: "'o \<Rightarrow> bool \<Rightarrow> bool \<Rightarrow> 'o \<Rightarrow> 's \<Rightarrow> 'e + 'w \<times> 's"

definition unwrap_message :: string where
  "unwrap_message = ''called `Result::unwrap()` on an `Err` value''"

definition try_on_runtime_upgrade ::
  "('s, 'o, 'w, 'e, 'z) try_runtime_lib_scheme \<Rightarrow> 'w \<Rightarrow> 'o \<Rightarrow> 's \<Rightarrow> (('w \<times> 'w) \<times> 's) outcome" where
  "try_on_runtime_upgrade T max_block checks s =
     bind_outcome (expect_result unwrap_message (Executive_try_runtime_upgrade T checks s))
       (\<lambda>(weight, s'). Ret ((weight, max_block), s'))"

definition try_execute_block ::
  "('s, 'o, 'w, 'e, 'z) try_runtime_lib_scheme \<Rightarrow> 'o \<Rightarrow> bool \<Rightarrow> bool \<Rightarrow> 'o \<Rightarrow> 's \<Rightarrow> ('w \<times> 's) outcome" where
  "try_execute_block T block state_root_check signature_check select s =
     expect_result unwrap_message (Executive_try_execute_block T block state_root_check signature_check select s)"

lemma try_runtime_panics:
  "try_on_runtime_upgrade T mb checks s = Ret r \<longleftrightarrow>
     (\<exists>w s'. Executive_try_runtime_upgrade T checks s = Inr (w, s') \<and> r = ((w, mb), s'))"
  "try_execute_block T block b1 b2 sel s = Ret r' \<longleftrightarrow> Executive_try_execute_block T block b1 b2 sel s = Inr r'"
  by (auto simp: try_on_runtime_upgrade_def try_execute_block_def bind_outcome_eq_Ret expect_result_def split: sum.splits)

section \<open>Properties\<close>

text \<open>
  The benchmark API runs the benchmark of the pallet that was asked for and of no other: its result is
  that benchmark's, errors included, and for a pallet without a benchmark, or one whose benchmark
  produced no batch, it is the error that none was found.
\<close>

lemma benchmark_dispatch:
  assumes "benchmark_law L"
  shows "dispatch_benchmark L c =
    (case map_of benchmarks (cfg_pallet L c) of
       None \<Rightarrow> Inl ''Benchmark not found for this pallet.''
     | Some loc \<Rightarrow>
         (case add_benchmark L (cfg_pallet L c) loc (c, benchmark_whitelist L) [] of
            Inl e \<Rightarrow> Inl e
          | Inr batches \<Rightarrow> if batches = [] then Inl ''Benchmark not found for this pallet.'' else Inr batches))"
proof (cases "map_of benchmarks (cfg_pallet L c)")
  case None
  then have "cfg_pallet L c \<notin> fst ` set benchmarks" by (simp add: map_of_eq_None_iff)
  with None show ?thesis
    by (simp add: dispatch_benchmark_def add_benchmarks_other [OF assms])
next
  case (Some loc)
  note once = add_benchmarks_once [OF assms benchmarks_distinct map_of_SomeD [OF Some]]
  show ?thesis
    by (simp add: dispatch_benchmark_def once Some split: sum.split)
qed

definition example_benchmarks :: "(string, string, unit, unit) benchmark_lib" where
  "example_benchmarks = \<lparr>list_benchmark = (\<lambda>_ _ _ l. l), storage_info = [], hex = map of_char,
     add_benchmark = (\<lambda>n loc p bs. if fst p = n then Inr (bs @ [loc]) else Inr bs), cfg_pallet = (\<lambda>c. c)\<rparr>"

lemma benchmark_dispatch_witness:
  "dispatch_benchmark example_benchmarks ''pallet_collective'' = Inr [''Council''] \<and>
   dispatch_benchmark example_benchmarks ''pallet_sudo'' = Inl ''Benchmark not found for this pallet.''"
proof -
  have law: "benchmark_law example_benchmarks"
    by (simp add: benchmark_law_def example_benchmarks_def)
  have "map_of benchmarks ''pallet_collective'' = Some ''Council''" "map_of benchmarks ''pallet_sudo'' = None"
    by code_simp+
  then show ?thesis
    using benchmark_dispatch [OF law, of "''pallet_collective''"] benchmark_dispatch [OF law, of "''pallet_sudo''"]
    by (simp add: example_benchmarks_def)
qed

text \<open>
  Every weight the runtime charges can be measured again: the weight files are exactly the ones that
  some pallet's configuration uses, and each has exactly one benchmark, run by a pallet of this runtime.
  (One benchmark, of the council, serves both collectives.)
\<close>

lemma weights_regenerated:
  "set [SystemWeightInfo (frame_system_config E B F everything api), ts_WeightInfo pallet_timestamp_config,
     bal_WeightInfo pallet_balances_config, ms_WeightInfo pallet_multisig_config,
     pr_WeightInfo (pallet_proxy_config :: (ProxyType, unit RuntimeCall) proxy_config),
     ve_WeightInfo (pallet_vesting_config W), sch_WeightInfo (pallet_scheduler_config E G mb),
     ut_WeightInfo pallet_utility_config, pi_WeightInfo (pallet_preimage_config G), te_WeightInfo pallet_teerex_config,
     eb_WeightInfo pallet_enclave_bridge_config, sc_WeightInfo pallet_sidechain_config,
     cl_WeightInfo (pallet_claims_config G), to_WeightInfo pallet_teeracle_config,
     tr_WeightInfo (pallet_treasury_config G pm fast), bo_WeightInfo (pallet_bounties_config pm fast),
     cb_WeightInfo pallet_child_bounties_config, co_WeightInfo (council_config E G mb fast),
     co_WeightInfo (technical_committee_config E G mb fast), dm_WeightInfo (pallet_democracy_config G fast),
     px_WeightInfo (pallet_xcm_config X E Q L U D G' para rel)] = Benchmarked ` set weight_modules \<and>
   set (map fst benchmarks) = set weight_modules \<and> distinct (map fst benchmarks) \<and>
   set (map snd benchmarks) - {''SystemBench''} \<subseteq> set (map fst runtime_pallets)"
proof (intro conjI)
  show "set (map fst benchmarks) = set weight_modules" "distinct (map fst benchmarks)"
    "set (map snd benchmarks) - {''SystemBench''} \<subseteq> set (map fst runtime_pallets)"
    by code_simp+
qed (auto simp: integritee_config_defs pallet_xcm_config_def weight_modules_def)

text \<open>
  The pallets are wired together consistently: every pallet that is given to another one as its currency,
  account store, scheduler, preimage store, message handler, manager or beneficiary is a pallet of this
  runtime; in particular slashed deposits of democracy go to the treasury, which also receives the fees.
\<close>

lemma handlers_exist:
  "set [OnSetCode (frame_system_config E B F everything api), AccountStore pallet_balances_config,
     tp_Currency (pallet_transaction_payment_config E I), ms_Currency pallet_multisig_config,
     pr_Currency (pallet_proxy_config :: (ProxyType, unit RuntimeCall) proxy_config), ve_Currency (pallet_vesting_config W),
     sch_Preimages (pallet_scheduler_config E G mb), pi_Currency (pallet_preimage_config G),
     SelfParaId (cumulus_pallet_parachain_system_config E), DmpMessageHandler (cumulus_pallet_parachain_system_config E),
     OutboundXcmpMessageSource (cumulus_pallet_parachain_system_config E),
     XcmpMessageHandler (cumulus_pallet_parachain_system_config E), eb_Currency pallet_enclave_bridge_config,
     VestingSchedule (pallet_claims_config G), tr_Currency (pallet_treasury_config G pm fast),
     SpendFunds (pallet_treasury_config G pm fast), ChildBountyManager (pallet_bounties_config pm fast),
     dm_Currency (pallet_democracy_config G fast), dm_Slash (pallet_democracy_config G fast),
     dm_Scheduler (pallet_democracy_config G fast), dm_Preimages (pallet_democracy_config G fast),
     px_Currency (pallet_xcm_config X E Q L U D G' para rel), ChannelInfo (cumulus_pallet_xcmp_queue_config Q' G),
     ex_ResponseHandler (XcmExecutorConfig X E Q L U para rel), ex_AssetTrap (XcmExecutorConfig X E Q L U para rel)]
   \<subseteq> set (map fst runtime_pallets) \<and>
   dm_Slash (pallet_democracy_config G fast) = ''Treasury''"
  by (simp add: integritee_config_defs pallet_xcm_config_def XcmExecutorConfig_def cumulus_pallet_xcmp_queue_config_def
      runtime_pallets_def)

end
