(* ===== verification/Shell_Runtime.thy ===== *)
theory Shell_Runtime
  imports Integritee_Runtime
begin

text \<open>
  \<open>polkadot-parachains/shell-runtime/src/lib.rs\<close>: the minimal runtime a parachain starts with. It has
  a superuser and no governance, and its call filter keeps tokens from moving until the full
  runtime is installed. Its definitions carry the prefix \<open>shell_\<close> where the full runtime has one of
  the same name.
\<close>

section \<open>Version, currency and block limits\<close>

definition shell_VERSION :: "'api \<Rightarrow> 'api RuntimeVersion" where
  "shell_VERSION RUNTIME_API_VERSIONS =
     \<lparr>spec_name = ''integritee-parachain'', impl_name = ''integritee-shell'',
      authoring_version = 0, spec_version = 12, impl_version = 0, apis = RUNTIME_API_VERSIONS,
      transaction_version = 1, state_version = 0\<rparr>"

definition shell_native_version :: "'api \<Rightarrow> 'd \<Rightarrow> ('api, 'd) NativeVersion" where
  "shell_native_version api dflt = \<lparr>runtime_version = shell_VERSION api, can_author_with = dflt\<rparr>"

definition shell_ONE_TEER :: Balance where
  "shell_ONE_TEER = 1000000000000"

definition shell_MILLITEER :: Balance where
  "shell_MILLITEER = 1000000000"

definition shell_MICROTEER :: Balance where
  "shell_MICROTEER = 1000000"

definition shell_BlockHashCount :: BlockNumber where
  "shell_BlockHashCount = 250"

definition shell_SS58Prefix :: u8 where
  "shell_SS58Prefix = 13"

definition shell_weights_for_all :: "('w, 'p, 'z) block_env_scheme \<Rightarrow> 'w WeightsPerClass \<Rightarrow> 'w WeightsPerClass" where
  "shell_weights_for_all E weights = weights\<lparr>base_extrinsic := ExtrinsicBaseWeight E\<rparr>"

definition shell_weights_for_normal :: "('w, 'p, 'z) block_env_scheme \<Rightarrow> 'w WeightsPerClass \<Rightarrow> 'w WeightsPerClass" where
  "shell_weights_for_normal E weights =
     weights\<lparr>max_total := Some (perbill_mul E (NORMAL_DISPATCH_RATIO E) (MAXIMUM_BLOCK_WEIGHT E))\<rparr>"

definition shell_weights_for_operational :: "('w, 'p, 'z) block_env_scheme \<Rightarrow> 'w WeightsPerClass \<Rightarrow> 'w WeightsPerClass" where
  "shell_weights_for_operational E weights =
     weights\<lparr>max_total := Some (MAXIMUM_BLOCK_WEIGHT E),
       reserved := Some (weight_sub E (MAXIMUM_BLOCK_WEIGHT E)
         (perbill_mul E (NORMAL_DISPATCH_RATIO E) (MAXIMUM_BLOCK_WEIGHT E)))\<rparr>"

definition shell_RuntimeBlockWeights ::
  "('w, 'p, 'z) block_env_scheme \<Rightarrow> ('w, 'p, 'b, 'r, 'y) block_weights_lib_scheme \<Rightarrow> 'r outcome" where
  "shell_RuntimeBlockWeights E B = build_or_panic B
     (avg_block_initialization B (AVERAGE_ON_INITIALIZE_RATIO E)
       (for_class B [Operational] (shell_weights_for_operational E)
         (for_class B [Normal] (shell_weights_for_normal E)
           (for_class B (all_classes B) (shell_weights_for_all E)
             (base_block B (BlockExecutionWeight E) (builder B))))))"

definition shell_ReservedXcmpWeight :: "('w, 'p, 'z) block_env_scheme \<Rightarrow> 'w" where
  "shell_ReservedXcmpWeight E = weight_saturating_div E (MAXIMUM_BLOCK_WEIGHT E) 4"

definition shell_ReservedDmpWeight :: "('w, 'p, 'z) block_env_scheme \<Rightarrow> 'w" where
  "shell_ReservedDmpWeight E = weight_saturating_div E (MAXIMUM_BLOCK_WEIGHT E) 4"

lemmas shell_limit_defs = shell_weights_for_all_def shell_weights_for_normal_def
  shell_weights_for_operational_def shell_RuntimeBlockWeights_def shell_ReservedXcmpWeight_def
  shell_ReservedDmpWeight_def

section \<open>Calls and the call filter\<close>

text \<open>
  The calls \<open>construct_runtime!\<close> generates. Calls of the vesting pallet other than
  \<open>vested_transfer\<close>, and the calls of the other pallets, are opaque.
\<close>

datatype 'c vesting_call = vested_transfer 'c | other_vesting_call 'c

datatype 'c ShellCall =
    ShellSystem 'c | ShellParachainSystem 'c | ShellTimestamp 'c | ShellSudo 'c
  | ShellBalances 'c | ShellVesting "'c vesting_call"
  | ShellXcmpQueue 'c | ShellPolkadotXcm 'c | ShellCumulusXcm 'c | ShellDmpQueue 'c
  | ShellXcmTransactor 'c

definition DisableTokenTxFilter_contains :: "'c ShellCall \<Rightarrow> bool" where
  "DisableTokenTxFilter_contains call =
     (\<not> (case call of
            ShellBalances _ \<Rightarrow> True
          | ShellVesting (vested_transfer _) \<Rightarrow> True
          | _ \<Rightarrow> False))"

definition shell_runtime_pallets :: "(string \<times> u8) list" where
  "shell_runtime_pallets =
     [(''System'', 0), (''ParachainSystem'', 1), (''Timestamp'', 3), (''ParachainInfo'', 4),
      (''Sudo'', 5),
      (''Balances'', 10), (''TransactionPayment'', 11), (''Vesting'', 12),
      (''Aura'', 23), (''AuraExt'', 24),
      (''XcmpQueue'', 30), (''PolkadotXcm'', 31), (''CumulusXcm'', 32), (''DmpQueue'', 33),
      (''XcmTransactor'', 34)]"

definition shell_RuntimeCall_pallets :: "(string \<times> u8) list" where
  "shell_RuntimeCall_pallets =
     filter (\<lambda>(n, _). n \<notin> {''ParachainInfo'', ''TransactionPayment'', ''Aura'', ''AuraExt''}) shell_runtime_pallets"

section \<open>Parameters\<close>

definition shell_MinimumPeriod :: u64 where
  "shell_MinimumPeriod = SLOT_DURATION div 2"

definition shell_ExistentialDeposit :: Balance where
  "shell_ExistentialDeposit = shell_MILLITEER"

definition shell_TransactionByteFee :: Balance where
  "shell_TransactionByteFee = shell_MICROTEER"

definition shell_MaxLocks :: u32 where
  "shell_MaxLocks = 50"

definition shell_MaxReserves :: u32 where
  "shell_MaxReserves = 50"

definition shell_MinVestedTransfer :: Balance where
  "shell_MinVestedTransfer = 100 * shell_ONE_TEER"

definition shell_MaxInstructions :: u32 where
  "shell_MaxInstructions = 100"

definition shell_MAX_VESTING_SCHEDULES :: u32 where
  "shell_MAX_VESTING_SCHEDULES = 28"

lemmas shell_parameter_defs = shell_MinimumPeriod_def shell_ExistentialDeposit_def
  shell_TransactionByteFee_def shell_MaxLocks_def shell_MaxReserves_def shell_MinVestedTransfer_def
  shell_MAX_VESTING_SCHEDULES_def shell_ONE_TEER_def shell_MILLITEER_def shell_MICROTEER_def
  shell_BlockHashCount_def shell_SS58Prefix_def

section \<open>Inherents\<close>

definition shell_CheckInherents_check_inherents ::
  "('proof, 'slot, 'prov, 'data, 'block, 'res, 'e, 'z) inherent_lib_scheme \<Rightarrow> 'block \<Rightarrow> 'proof \<Rightarrow>
   'res outcome" where
  "shell_CheckInherents_check_inherents L block relay_state_proof =
     bind_outcome
       (expect_result ''Could not read the relay chain slot from the proof''
          (read_slot L relay_state_proof))
       (\<lambda>relay_chain_slot. bind_outcome
          (expect_result ''Could not create the timestamp inherent data''
             (create_inherent_data L (from_relay_chain_slot_and_duration L relay_chain_slot 6)))
          (\<lambda>inherent_data. Ret (check_extrinsics L inherent_data block)))"

section \<open>Properties\<close>

text \<open>
  The shell runtime refuses a call as a transaction exactly when it is a call
  of the balances pallet or a vested transfer, so that tokens cannot be moved by a transfer; the
  superuser's calls and the other vesting calls pass.
\<close>

lemma shell_filter_exact:
  "(\<not> DisableTokenTxFilter_contains call \<longleftrightarrow>
     (\<exists>x. call = ShellBalances x) \<or> (\<exists>x. call = ShellVesting (vested_transfer x))) \<and>
   DisableTokenTxFilter_contains (ShellSudo x) \<and>
   DisableTokenTxFilter_contains (ShellVesting (other_vesting_call x))"
  by (auto simp: DisableTokenTxFilter_contains_def split: ShellCall.splits vesting_call.splits)

lemma shell_block_weights_agree: "shell_RuntimeBlockWeights E B = RuntimeBlockWeights E B"
proof -
  have "shell_weights_for_all E = weights_for_all E" "shell_weights_for_normal E = weights_for_normal E"
    "shell_weights_for_operational E = weights_for_operational E"
    by (simp_all add: fun_eq_iff shell_limit_defs block_weights_defs)
  then show ?thesis
    by (simp add: shell_RuntimeBlockWeights_def RuntimeBlockWeights_def RuntimeBlockWeights_builder_def)
qed

text \<open>
  Replacing the shell by the full runtime is an upgrade of one chain: the
  names of the specification agree, the specification and transaction versions grow, so old nodes
  and signatures are told apart, the address prefix, the existential deposit, the fee per byte,
  the limits on locks, reserves and vesting schedules and the block limits stay the same, and the
  minimum of a vested transfer only falls.
\<close>

lemma shell_upgrade_compatible:
  "spec_name (shell_VERSION api) = spec_name (VERSION api') \<and>
   spec_version (shell_VERSION api) < spec_version (VERSION api') \<and>
   transaction_version (shell_VERSION api) < transaction_version (VERSION api') \<and>
   authoring_version (shell_VERSION api) < authoring_version (VERSION api') \<and>
   impl_name (shell_VERSION api) \<noteq> impl_name (VERSION api') \<and>
   state_version (shell_VERSION api) = state_version (VERSION api') \<and>
   shell_SS58Prefix = SS58Prefix \<and> shell_ExistentialDeposit = ExistentialDeposit \<and>
   shell_TransactionByteFee = TransactionByteFee \<and> shell_MaxLocks = MaxLocks \<and>
   shell_MaxReserves = MaxReserves \<and> shell_MAX_VESTING_SCHEDULES = MAX_VESTING_SCHEDULES \<and>
   shell_MinimumPeriod = MinimumPeriod \<and> shell_BlockHashCount = BlockHashCount \<and>
   MinVestedTransfer \<le> shell_MinVestedTransfer \<and>
   shell_RuntimeBlockWeights E B = RuntimeBlockWeights E B \<and>
   shell_ReservedXcmpWeight E = ReservedXcmpWeight E \<and> shell_ReservedDmpWeight E = ReservedDmpWeight E"
  by (simp add: shell_VERSION_def VERSION_def shell_parameter_defs shell_block_weights_agree
      shell_ReservedXcmpWeight_def ReservedXcmpWeight_def shell_ReservedDmpWeight_def ReservedDmpWeight_def
      SS58Prefix_def ExistentialDeposit_def TransactionByteFee_def MaxLocks_def MaxReserves_def
      MAX_VESTING_SCHEDULES_def MinimumPeriod_def BlockHashCount_def MinVestedTransfer_def currency_unit_defs)

text \<open>
  In both runtimes every pallet has an index of its own and a name of its own, so
  calls, events and errors decode unambiguously. Of the pallets both have, all keep their index
  across the upgrade except \<open>XcmTransactor\<close>, whose old index 34 then belongs to \<open>XTokens\<close>; and the
  index of the superuser pallet, which does not survive, goes to \<open>Preimage\<close>.
\<close>

lemma pallet_indices:
  "distinct (map snd runtime_pallets) \<and> distinct (map fst runtime_pallets) \<and>
   distinct (map snd shell_runtime_pallets) \<and> distinct (map fst shell_runtime_pallets) \<and>
   filter (\<lambda>(n, i). map_of runtime_pallets n \<noteq> Some i) shell_runtime_pallets =
     [(''Sudo'', 5), (''XcmTransactor'', 34)] \<and>
   map_of runtime_pallets ''XcmTransactor'' = Some 36 \<and> map_of runtime_pallets ''Sudo'' = None \<and>
   map_of runtime_pallets ''XTokens'' = Some 34 \<and> map_of runtime_pallets ''Preimage'' = Some 5"
  by (intro conjI; code_simp)

text \<open>
  Both runtimes check a block's inherents against timestamp data derived
  from the relay chain slot at six seconds per slot; the check answers exactly when the slot can be
  read from the proof and the data created, and panics otherwise, so a block is never accepted
  without the comparison.
\<close>

lemma inherents_checked_alike:
  "shell_CheckInherents_check_inherents L block prf = CheckInherents_check_inherents L block prf \<and>
   (CheckInherents_check_inherents L block prf = Ret r \<longleftrightarrow>
     (\<exists>slot data. read_slot L prf = Inr slot \<and>
        create_inherent_data L (from_relay_chain_slot_and_duration L slot 6) = Inr data \<and>
        r = check_extrinsics L data block))"
  by (auto simp: shell_CheckInherents_check_inherents_def CheckInherents_check_inherents_def
      bind_outcome_eq_Ret expect_result_def split: sum.splits)

end
