(* ===== verification/Block_Limits.thy ===== *)
theory Block_Limits
  imports Shell_Runtime
begin

text \<open>
  \<open>RuntimeBlockWeights\<close> is computed when the runtime is first used, by a builder that panics on inconsistent
  limits, so a mistake in it would stop the chain. This theory states the documented checks of
  \<open>BlockWeights::build\<close> and shows that the limits of both runtimes pass them.
\<close>

section \<open>What the builder checks\<close>

text \<open>
  The builder also keeps the weight of an empty block and the share of the block set aside for
  initialisation; the result has the weight of a full block.
\<close>

record ('w, 'p, 'b, 'r) block_weights_obs = "('w, 'p, 'b, 'r) block_weights_lib" +
  base_block_of :: "'b \<Rightarrow> 'w"
  init_rate_of :: "'b \<Rightarrow> 'p option"
  max_block_of :: "'r \<Rightarrow> 'w"

text \<open>Strictly above the sum of two weights, in both components (\<open>Weight::all_gt\<close>), and the weight zero.\<close>

definition above :: "('w, 'z) weight_env_scheme \<Rightarrow> 'w \<Rightarrow> 'w \<Rightarrow> 'w \<Rightarrow> bool" where
  "above E w a b \<longleftrightarrow>
     unat (ref_time E a) + unat (ref_time E b) < unat (ref_time E w) \<and>
     unat (proof_size E a) + unat (proof_size E b) < unat (proof_size E w)"

definition zero_weight :: "('w, 'z) weight_env_scheme \<Rightarrow> 'w \<Rightarrow> bool" where
  "zero_weight E w \<longleftrightarrow> ref_time E w = 0 \<and> proof_size E w = 0"

text \<open>
  The checks on the limits of one class, given the weights of an empty block and of a full one and the
  share for initialisation: the limit exceeds an empty block, and what is set aside with an empty extrinsic;
  what is reserved is nothing or exceeds an empty extrinsic; no limit exceeds the full block; and an
  extrinsic fits an empty block. An absent limit is no limit. (Exceeding is asked for with as much again
  to spare, which is more than the builder asks.)
\<close>

definition class_valid ::
  "('w, 'p, 'z) block_env_scheme \<Rightarrow> 'w \<Rightarrow> 'w \<Rightarrow> 'p \<Rightarrow> 'w WeightsPerClass \<Rightarrow> bool" where
  "class_valid E base full rate c \<longleftrightarrow>
     (case max_total c of None \<Rightarrow> True
      | Some m \<Rightarrow> above E m base base \<and> above E m (perbill_mul E rate full) (base_extrinsic c) \<and> no_heavier E m full) \<and>
     (case reserved c of None \<Rightarrow> True | Some r \<Rightarrow> zero_weight E r \<or> above E r (base_extrinsic c) (base_extrinsic c)) \<and>
     above E full base (base_extrinsic c)"

text \<open>The weight of a full block is the largest limit of a class.\<close>

definition largest_limit ::
  "('w, 'z) weight_env_scheme \<Rightarrow> (DispatchClass \<Rightarrow> 'w WeightsPerClass) \<Rightarrow> 'w \<Rightarrow> bool" where
  "largest_limit E limits w \<longleftrightarrow>
     (\<exists>c. max_total (limits c) = Some w) \<and> (\<forall>c m. max_total (limits c) = Some m \<longrightarrow> no_heavier E m w)"

text \<open>
  Documented of the builder: it starts with no limit for the mandatory class and with nothing for the
  others, its methods set what they are named after, and \<open>build_or_panic\<close> succeeds where the limits pass the
  checks, with the largest limit as the weight of a full block.
\<close>

definition build_laws :: "('w, 'p, 'z) block_env_scheme \<Rightarrow> ('w, 'p, 'b, 'r, 'y) block_weights_obs_scheme \<Rightarrow> bool" where
  "build_laws E B \<longleftrightarrow> builder_laws B \<and>
     (\<forall>c. max_total (per_class B (builder B) c) = reserved (per_class B (builder B) c)) \<and>
     reserved (per_class B (builder B) Mandatory) = None \<and>
     (\<forall>c. c \<noteq> Mandatory \<longrightarrow> (\<exists>z. reserved (per_class B (builder B) c) = Some z \<and> zero_weight E z)) \<and>
     (\<forall>w b. base_block_of B (base_block B w b) = w) \<and>
     (\<forall>cs f b. base_block_of B (for_class B cs f b) = base_block_of B b) \<and>
     (\<forall>p b. base_block_of B (avg_block_initialization B p b) = base_block_of B b) \<and>
     (\<forall>p b. init_rate_of B (avg_block_initialization B p b) = Some p) \<and>
     (\<forall>b full rate. largest_limit E (per_class B b) full \<longrightarrow> init_rate_of B b = Some rate \<longrightarrow>
        (\<forall>c. class_valid E (base_block_of B b) full rate (per_class B b c)) \<longrightarrow>
        (\<exists>r. build_or_panic B b = Ret r \<and> max_block_of B r = full))"

text \<open>
  The benchmarked weights of an empty block and an empty extrinsic are of other crates; all that matters
  is that each takes less than a sixteenth of a block.
\<close>

definition base_weights_small :: "('w, 'p, 'z) block_env_scheme \<Rightarrow> bool" where
  "base_weights_small E \<longleftrightarrow>
     (\<forall>w \<in> {BlockExecutionWeight E, ExtrinsicBaseWeight E}.
        16 * unat (ref_time E w) < unat (ref_time E (MAXIMUM_BLOCK_WEIGHT E)) \<and>
        16 * unat (proof_size E w) < unat (proof_size E (MAXIMUM_BLOCK_WEIGHT E)))"

section \<open>The limits pass\<close>

lemma reserved_operational_parts:
  assumes "limits_known E"
  shows "unat (ref_time E (weight_sub E (MAXIMUM_BLOCK_WEIGHT E) (normal_max_total E))) = 125000000000"
    and "unat (proof_size E (weight_sub E (MAXIMUM_BLOCK_WEIGHT E) (normal_max_total E))) = 1310720"
proof -
  note max = MAXIMUM_BLOCK_WEIGHT_parts [OF limits_knownD(1,4) [OF assms]]
  note parts = normal_max_total_parts [OF assms]
  have le: "ref_time E (normal_max_total E) \<le> ref_time E (MAXIMUM_BLOCK_WEIGHT E)"
    "proof_size E (normal_max_total E) \<le> proof_size E (MAXIMUM_BLOCK_WEIGHT E)"
    by (simp_all add: word_le_nat_alt parts max)
  then have "ref_time E (weight_sub E (MAXIMUM_BLOCK_WEIGHT E) (normal_max_total E)) =
      ref_time E (MAXIMUM_BLOCK_WEIGHT E) - ref_time E (normal_max_total E)"
    "proof_size E (weight_sub E (MAXIMUM_BLOCK_WEIGHT E) (normal_max_total E)) =
      proof_size E (MAXIMUM_BLOCK_WEIGHT E) - proof_size E (normal_max_total E)"
    using limits_knownD(3) [OF assms] by (simp_all add: weight_arith_laws_def)
  with le show "unat (ref_time E (weight_sub E (MAXIMUM_BLOCK_WEIGHT E) (normal_max_total E))) = 125000000000"
    "unat (proof_size E (weight_sub E (MAXIMUM_BLOCK_WEIGHT E) (normal_max_total E))) = 1310720"
    by (simp_all add: unat_sub word_le_nat_alt parts max)
qed

lemma initialisation_parts:
  assumes "limits_known E"
  shows "unat (ref_time E (perbill_mul E (AVERAGE_ON_INITIALIZE_RATIO E) (MAXIMUM_BLOCK_WEIGHT E))) = 25000000000"
    and "unat (proof_size E (perbill_mul E (AVERAGE_ON_INITIALIZE_RATIO E) (MAXIMUM_BLOCK_WEIGHT E))) = 262144"
proof -
  note E = limits_knownD [OF assms]
  note max = MAXIMUM_BLOCK_WEIGHT_parts [OF E(1,4)]
  show "unat (ref_time E (perbill_mul E (AVERAGE_ON_INITIALIZE_RATIO E) (MAXIMUM_BLOCK_WEIGHT E))) = 25000000000"
    unfolding AVERAGE_ON_INITIALIZE_RATIO_def by (rule perbill_mul_exact(1) [OF E(2)]) (simp_all add: max)
  show "unat (proof_size E (perbill_mul E (AVERAGE_ON_INITIALIZE_RATIO E) (MAXIMUM_BLOCK_WEIGHT E))) = 262144"
    unfolding AVERAGE_ON_INITIALIZE_RATIO_def by (rule perbill_mul_exact(2) [OF E(2)]) (simp_all add: max)
qed

lemma build_lawsD:
  assumes "build_laws E B"
  shows "builder_laws B"
    and "max_total (per_class B (builder B) Mandatory) = None" "reserved (per_class B (builder B) Mandatory) = None"
    and "\<exists>z. reserved (per_class B (builder B) Normal) = Some z \<and> zero_weight E z"
    and "base_block_of B (base_block B w b) = w" "base_block_of B (for_class B cs f b) = base_block_of B b"
    and "base_block_of B (avg_block_initialization B p b) = base_block_of B b"
    and "init_rate_of B (avg_block_initialization B p b) = Some p"
  using assms by (simp_all add: build_laws_def)

lemma build_succeeds:
  assumes "build_laws E B" "largest_limit E (per_class B b) full" "init_rate_of B b = Some rate"
    and "\<And>c. class_valid E (base_block_of B b) full rate (per_class B b c)"
  shows "\<exists>r. build_or_panic B b = Ret r \<and> max_block_of B r = full"
  using assms unfolding build_laws_def by blast

text \<open>
  C11. Neither runtime panics when it computes its block limits: the limits it sets pass every check of the
  builder, and a full block then weighs exactly \<open>MAXIMUM_BLOCK_WEIGHT\<close>, the value that the scheduler's and
  the collectives' shares are taken of. Only that empty blocks and extrinsics are light is assumed of the
  benchmarked base weights.
\<close>

theorem block_limits_valid:
  assumes "limits_known E" "build_laws E B" "base_weights_small E"
  shows "\<exists>r. RuntimeBlockWeights E B = Ret r \<and> shell_RuntimeBlockWeights E B = Ret r \<and>
    max_block_of B r = MAXIMUM_BLOCK_WEIGHT E"
proof -
  let ?b = "RuntimeBlockWeights_builder E B" and ?full = "MAXIMUM_BLOCK_WEIGHT E"
  note D = build_lawsD [OF assms(2)]
  note max = MAXIMUM_BLOCK_WEIGHT_parts [OF limits_knownD(1,4) [OF assms(1)]]
  note classes = per_class_builder [OF D(1)] block_weights_defs normal_max_total_def [symmetric]
  note parts = max normal_max_total_parts [OF assms(1)] reserved_operational_parts [OF assms(1)]
    initialisation_parts [OF assms(1)]
  have small: "unat (ref_time E w) < 31250000000" "unat (proof_size E w) < 327680"
    if "w = BlockExecutionWeight E \<or> w = ExtrinsicBaseWeight E" for w
    using assms(3) that by (auto simp: base_weights_small_def max)
  have limits: "per_class B ?b Normal = (per_class B (builder B) Normal)
      \<lparr>base_extrinsic := ExtrinsicBaseWeight E, max_total := Some (normal_max_total E)\<rparr>"
    "per_class B ?b Operational = (per_class B (builder B) Operational)\<lparr>base_extrinsic := ExtrinsicBaseWeight E,
       max_total := Some ?full, reserved := Some (weight_sub E ?full (normal_max_total E))\<rparr>"
    "per_class B ?b Mandatory = (per_class B (builder B) Mandatory)\<lparr>base_extrinsic := ExtrinsicBaseWeight E\<rparr>"
    by (simp_all add: classes)
  have base: "base_block_of B ?b = BlockExecutionWeight E" "init_rate_of B ?b = Some (AVERAGE_ON_INITIALIZE_RATIO E)"
    by (simp_all add: RuntimeBlockWeights_builder_def D(5-8))
  have "largest_limit E (per_class B ?b) ?full"
    unfolding largest_limit_def
  proof (intro conjI allI impI)
    show "\<exists>c. max_total (per_class B ?b c) = Some ?full"
      by (rule exI [of _ Operational]) (simp add: limits(2))
    show "no_heavier E m ?full" if "max_total (per_class B ?b c) = Some m" for c m
      using that D(2) by (cases c) (auto simp: limits no_heavier_def word_le_nat_alt parts)
  qed
  moreover have "class_valid E (BlockExecutionWeight E) ?full (AVERAGE_ON_INITIALIZE_RATIO E) (per_class B ?b c)" for c
    using D(2-4) small [of "BlockExecutionWeight E"] small [of "ExtrinsicBaseWeight E"]
    by (cases c) (auto simp: limits class_valid_def above_def no_heavier_def word_le_nat_alt parts)
  ultimately obtain r where "build_or_panic B ?b = Ret r" "max_block_of B r = ?full"
    using build_succeeds [OF assms(2) _ base(2)] by (auto simp: base(1))
  then show ?thesis
    by (simp add: RuntimeBlockWeights_def shell_block_weights_agree)
qed

subsection \<open>A builder\<close>

type_synonym checked = "(u64 \<times> u64) \<times> nat option \<times> (DispatchClass \<Rightarrow> (u64 \<times> u64) WeightsPerClass)"

definition class_limits :: "checked \<Rightarrow> (u64 \<times> u64) list" where
  "class_limits b = concat (map (\<lambda>c. case max_total (snd (snd b) c) of None \<Rightarrow> [] | Some m \<Rightarrow> [m])
     [Normal, Operational, Mandatory])"

definition checked_builder :: "(u64 \<times> u64, nat, checked, u64 \<times> u64) block_weights_obs" where
  "checked_builder = \<lparr>
     builder = ((0, 0), None, \<lambda>c. let z = if c = Mandatory then None else Some (0, 0) in
       \<lparr>base_extrinsic = (0, 0), max_total = z, reserved = z\<rparr>),
     base_block = (\<lambda>w (_, p, f). (w, p, f)),
     for_class = (\<lambda>cs g (w, p, f). (w, p, \<lambda>c. if c \<in> set cs then g (f c) else f c)),
     avg_block_initialization = (\<lambda>p (w, _, f). (w, Some p, f)),
     build_or_panic = (\<lambda>b. case filter (\<lambda>x. list_all (\<lambda>m. no_heavier pair_env m x) (class_limits b)) (class_limits b) of
        [] \<Rightarrow> Panic ''no largest limit'' | x # _ \<Rightarrow> Ret x),
     all_classes = [Normal, Operational, Mandatory],
     per_class = (\<lambda>(_, _, f). f),
     base_block_of = fst, init_rate_of = (\<lambda>(_, p, _). p), max_block_of = (\<lambda>w. w)\<rparr>"

lemma class_limits_set: "m \<in> set (class_limits b) \<longleftrightarrow> (\<exists>c. max_total (snd (snd b) c) = Some m)"
proof -
  have "m \<in> set (class_limits b) \<longleftrightarrow> (\<exists>c \<in> {Normal, Operational, Mandatory}. max_total (snd (snd b) c) = Some m)"
    by (cases "max_total (snd (snd b) Normal)"; cases "max_total (snd (snd b) Operational)";
        cases "max_total (snd (snd b) Mandatory)") (auto simp: class_limits_def)
  also have "{Normal, Operational, Mandatory} = UNIV" using DispatchClass.exhaust by blast
  finally show ?thesis by simp
qed

lemma checked_build:
  assumes "largest_limit pair_env (snd (snd b)) full"
  shows "build_or_panic checked_builder b = Ret full"
proof -
  let ?ok = "\<lambda>x. list_all (\<lambda>m. no_heavier pair_env m x) (class_limits b)"
  have full: "full \<in> set (class_limits b)" "?ok full"
    using assms by (auto simp: largest_limit_def class_limits_set list_all_iff)
  then obtain x xs where xs: "filter ?ok (class_limits b) = x # xs"
    by (cases "filter ?ok (class_limits b)") (auto simp: filter_empty_conv)
  then have "x \<in> set (class_limits b)" "?ok x"
    by (auto simp: filter_eq_Cons_iff)
  with full have "no_heavier pair_env x full" "no_heavier pair_env full x"
    by (auto simp: list_all_iff)
  then have "x = full" by (auto simp: no_heavier_def pair_env_def prod_eq_iff intro: antisym)
  with xs show ?thesis by (simp add: checked_builder_def)
qed

lemma checked_builder_laws: "build_laws pair_env checked_builder"
  unfolding build_laws_def
proof (intro conjI allI impI)
  show "builder_laws checked_builder"
    using DispatchClass.exhaust by (auto simp: builder_laws_def checked_builder_def)
  fix b full
  assume "largest_limit pair_env (per_class checked_builder b) full"
  then have "largest_limit pair_env (snd (snd b)) full"
    by (simp add: checked_builder_def split: prod.splits)
  then show "\<exists>r. build_or_panic checked_builder b = Ret r \<and> max_block_of checked_builder r = full"
    by (simp add: checked_build) (simp add: checked_builder_def)
qed (auto simp: checked_builder_def zero_weight_def pair_env_def Let_def)

theorem block_limits_valid_witness:
  "\<exists>r. RuntimeBlockWeights pair_env checked_builder = Ret r \<and> max_block_of checked_builder r = (500000000000, 5242880)"
proof -
  have "MAXIMUM_BLOCK_WEIGHT pair_env = (500000000000, 5242880)"
    by (simp add: MAXIMUM_BLOCK_WEIGHT_def pair_env_def)
  moreover from this have "base_weights_small pair_env"
    by (simp add: base_weights_small_def) (simp add: pair_env_def)
  ultimately show ?thesis
    using block_limits_valid [OF limits_known_pair_env checked_builder_laws] by auto
qed

end
