(* ===== verification/Executive.thy ===== *)
theory Executive
  imports Shell_Runtime
begin

text \<open>
  \<open>Executive\<close> and \<open>register_validate_block!\<close> of the two runtimes' \<open>lib.rs\<close>: the migrations an upgrade runs, and what the
  relay chain's validators check a block with. The executive itself and the migrations are code of
  other crates; this repository chooses the migrations and their order.
\<close>

section \<open>Migrations\<close>

text \<open>
  The storage of the chain as far as the teerex pallet's migrations go: they are transformations of it, and
  \<open>teerex_version\<close> is the storage version it records for that pallet.
\<close>

record 's migration_lib =
  MigrateV0toV1 :: "'s \<Rightarrow> 's"
  MigrateV1toV2 :: "'s \<Rightarrow> 's"
  teerex_version :: "'s \<Rightarrow> nat"

text \<open>
  A migration from one version to the next does that, and leaves storage of a later version alone. What
  it does with storage older than it expects is not relied on.
\<close>

definition migration_laws :: "('s, 'z) migration_lib_scheme \<Rightarrow> bool" where
  "migration_laws T \<longleftrightarrow>
     (\<forall>s. teerex_version T s = 0 \<longrightarrow> teerex_version T (MigrateV0toV1 T s) = 1) \<and>
     (\<forall>s. 0 < teerex_version T s \<longrightarrow> MigrateV0toV1 T s = s) \<and>
     (\<forall>s. teerex_version T s = 1 \<longrightarrow> teerex_version T (MigrateV1toV2 T s) = 2) \<and>
     (\<forall>s. 1 < teerex_version T s \<longrightarrow> MigrateV1toV2 T s = s)"

text \<open>The tuple of migrations given to \<open>frame_executive::Executive\<close>, and that a tuple runs its members in order.\<close>

definition Executive_migrations :: "('s, 'z) migration_lib_scheme \<Rightarrow> ('s \<Rightarrow> 's) list" where
  "Executive_migrations T = [MigrateV0toV1 T, MigrateV1toV2 T]"

definition shell_Executive_migrations :: "('s \<Rightarrow> 's) list" where
  "shell_Executive_migrations = []"

primrec on_runtime_upgrade :: "('s \<Rightarrow> 's) list \<Rightarrow> 's \<Rightarrow> 's" where
  "on_runtime_upgrade [] s = s"
| "on_runtime_upgrade (m # ms) s = on_runtime_upgrade ms (m s)"

section \<open>Validation of blocks\<close>

text \<open>
  What \<open>register_validate_block!\<close> is given: the executor of blocks, which wraps the executive in the check of Aura
  seals, and the check of inherents.
\<close>

record ('block, 'proof, 'res) validate_block_registration =
  BlockExecutor :: string
  CheckInherents :: "'block \<Rightarrow> 'proof \<Rightarrow> 'res outcome"

definition register_validate_block ::
  "('proof, 'slot, 'prov, 'data, 'block, 'res, 'e, 'z) inherent_lib_scheme \<Rightarrow> ('block, 'proof, 'res) validate_block_registration" where
  "register_validate_block L =
     \<lparr>BlockExecutor = ''cumulus_pallet_aura_ext::BlockExecutor::<Runtime, Executive>'',
      CheckInherents = CheckInherents_check_inherents L\<rparr>"

definition shell_register_validate_block ::
  "('proof, 'slot, 'prov, 'data, 'block, 'res, 'e, 'z) inherent_lib_scheme \<Rightarrow> ('block, 'proof, 'res) validate_block_registration" where
  "shell_register_validate_block L =
     \<lparr>BlockExecutor = ''cumulus_pallet_aura_ext::BlockExecutor::<Runtime, Executive>'',
      CheckInherents = shell_CheckInherents_check_inherents L\<rparr>"

lemma validation_survives_upgrade: "shell_register_validate_block L = register_validate_block L"
  by (simp add: shell_register_validate_block_def register_validate_block_def fun_eq_iff inherents_checked_alike)

section \<open>Properties\<close>

text \<open>What the tuple of migrations does to storage that is up to date, and the version it leaves behind.\<close>

lemma migrations_late:
  assumes "migration_laws T" "2 \<le> teerex_version T s"
  shows "on_runtime_upgrade (Executive_migrations T) s = s"
  using assms by (simp add: Executive_migrations_def migration_laws_def)

lemma migrations_version:
  assumes "migration_laws T"
  shows "teerex_version T (on_runtime_upgrade (Executive_migrations T) s) = max 2 (teerex_version T s)"
proof (cases "2 \<le> teerex_version T s")
  case False
  then have "teerex_version T s = 0 \<or> teerex_version T s = 1" by auto
  with assms show ?thesis by (auto simp: Executive_migrations_def migration_laws_def)
qed (simp add: migrations_late [OF assms])

text \<open>
  C28. An upgrade to this version of the full runtime brings the storage of the teerex pallet up to date in one go, from
  whichever version the chain is at: the first migration hands over to the second, so version 0 ends at version 2
  just as version 1 does. Storage that is up to date or newer is not touched, so repeating the upgrade changes nothing.
  The shell runtime migrates nothing.
\<close>

theorem migrations_complete:
  assumes "migration_laws T"
  shows "teerex_version T (on_runtime_upgrade (Executive_migrations T) s) = max 2 (teerex_version T s) \<and>
    (2 \<le> teerex_version T s \<longrightarrow> on_runtime_upgrade (Executive_migrations T) s = s) \<and>
    on_runtime_upgrade (Executive_migrations T) (on_runtime_upgrade (Executive_migrations T) s) =
      on_runtime_upgrade (Executive_migrations T) s \<and>
    on_runtime_upgrade shell_Executive_migrations s = s"
  by (simp add: migrations_version [OF assms] migrations_late [OF assms] shell_Executive_migrations_def)

definition example_migrations :: "(nat \<times> nat) migration_lib" where
  "example_migrations = \<lparr>MigrateV0toV1 = (\<lambda>(v, x). if v = 0 then (1, 2 * x) else (v, x)),
     MigrateV1toV2 = (\<lambda>(v, x). if v = 1 then (2, x + 5) else (v, x)), teerex_version = fst\<rparr>"

lemma example_migrations_laws: "migration_laws example_migrations"
  by (simp add: migration_laws_def example_migrations_def)

theorem migrations_complete_witness:
  "teerex_version example_migrations (on_runtime_upgrade (Executive_migrations example_migrations) (0, 7)) = 2"
  using migrations_complete [OF example_migrations_laws, of "(0, 7)"] by (simp add: example_migrations_def)

end
