(* ===== verification/Runtime_Apis.thy ===== *)
theory Runtime_Apis
  imports Shell_Runtime
begin

text \<open>
  The transaction format and the runtime APIs of both runtimes (\<open>SignedExtra\<close> and \<open>impl_runtime_apis!\<close> of
  either \<open>lib.rs\<close>): what a signature covers and what the native node may ask the runtime. The
  pallets and the executive behind an API are fields of \<open>runtime_pallets_lib\<close>, functions on the chain
  state \<open>'s\<close>; foreign values are of one opaque type \<open>'o\<close>. The APIs for benchmarks and for \<open>try-runtime\<close>,
  compiled in under features only, are in \<open>Integritee_Benchmarks\<close>.
\<close>

section \<open>Signed extensions\<close>

text \<open>
  A signed extension contributes to the data a signature covers without sending it
  (\<open>additional_signed\<close>, computed from the version of the runtime and the hash of the genesis block),
  and checks a transaction (\<open>validate\<close>). A tuple of extensions takes its members in order.
\<close>

record ('t, 'h, 'b, 'e) signed_extension =
  additional_signed :: "u32 \<Rightarrow> u32 \<Rightarrow> 'h \<Rightarrow> 'b list"
  validate :: "'t \<Rightarrow> 'e + unit"





primrec validate_all :: "('t, 'h, 'b, 'e) signed_extension list \<Rightarrow> 't \<Rightarrow> 'e + unit" where
  "validate_all [] t = Inr ()"
| "validate_all (e # es) t = bind_result (validate e t) (\<lambda>_. validate_all es t)"


lemma validate_all_ok: "validate_all es t = Inr () \<longleftrightarrow> (\<forall>e \<in> set es. validate e t = Inr ())"
proof (induction es)
  case (Cons e es)
  then show ?case by (cases "validate e t") auto
qed simp


section \<open>The runtime APIs\<close>

record ('s, 'o, 'w) runtime_pallets_lib =
  Aura_slot_duration :: "u64 \<Rightarrow> u64"
  Aura_authorities :: "'s \<Rightarrow> 'o list"
  Executive_execute_block :: "'o \<Rightarrow> 's \<Rightarrow> 's outcome"
  Executive_initialize_block :: "'o \<Rightarrow> 's \<Rightarrow> 's"
  Runtime_metadata :: 'o
  Runtime_metadata_at_version :: "u32 \<Rightarrow> 'o option"
  Runtime_metadata_versions :: "u32 list"
  Executive_apply_extrinsic :: "'o \<Rightarrow> 's \<Rightarrow> 'o \<times> 's"
  Executive_finalize_block :: "'s \<Rightarrow> 'o \<times> 's"
  create_extrinsics :: "'o \<Rightarrow> 's \<Rightarrow> 'o list"
  data_check_extrinsics :: "'o \<Rightarrow> 'o \<Rightarrow> 's \<Rightarrow> 'o"
  Executive_validate_transaction :: "'o \<Rightarrow> 'o \<Rightarrow> 'o \<Rightarrow> 's \<Rightarrow> 'o"
  Executive_offchain_worker :: "'o \<Rightarrow> 's \<Rightarrow> 's"
  SessionKeys_generate :: "u8 list option \<Rightarrow> u8 list"
  SessionKeys_decode :: "u8 list \<Rightarrow> (u8 list \<times> 'o) list option"
  System_account_nonce :: "'o \<Rightarrow> 's \<Rightarrow> u32"
  TransactionPayment_query_info :: "'o \<Rightarrow> u32 \<Rightarrow> 's \<Rightarrow> 'o"
  TransactionPayment_query_fee_details :: "'o \<Rightarrow> u32 \<Rightarrow> 's \<Rightarrow> 'o"
  TransactionPayment_query_call_info :: "'o \<Rightarrow> u32 \<Rightarrow> 's \<Rightarrow> 'o"
  TransactionPayment_query_call_fee_details :: "'o \<Rightarrow> u32 \<Rightarrow> 's \<Rightarrow> 'o"
  TransactionPayment_weight_to_fee :: "'w \<Rightarrow> 's \<Rightarrow> u128"
  TransactionPayment_length_to_fee :: "u32 \<Rightarrow> 's \<Rightarrow> u128"
  ParachainSystem_collect_collation_info :: "'o \<Rightarrow> 's \<Rightarrow> 'o"

record ('s, 'o, 'w, 'api) runtime_apis =
  api_slot_duration :: u64
  api_authorities :: "'s \<Rightarrow> 'o list"
  api_version :: "'api RuntimeVersion"
  api_execute_block :: "'o \<Rightarrow> 's \<Rightarrow> 's outcome"
  api_initialize_block :: "'o \<Rightarrow> 's \<Rightarrow> 's"
  api_metadata :: 'o
  api_metadata_at_version :: "u32 \<Rightarrow> 'o option"
  api_metadata_versions :: "u32 list"
  api_apply_extrinsic :: "'o \<Rightarrow> 's \<Rightarrow> 'o \<times> 's"
  api_finalize_block :: "'s \<Rightarrow> 'o \<times> 's"
  api_inherent_extrinsics :: "'o \<Rightarrow> 's \<Rightarrow> 'o list"
  api_check_inherents :: "'o \<Rightarrow> 'o \<Rightarrow> 's \<Rightarrow> 'o"
  api_validate_transaction :: "'o \<Rightarrow> 'o \<Rightarrow> 'o \<Rightarrow> 's \<Rightarrow> 'o"
  api_offchain_worker :: "'o \<Rightarrow> 's \<Rightarrow> 's"
  api_generate_session_keys :: "u8 list option \<Rightarrow> u8 list"
  api_decode_session_keys :: "u8 list \<Rightarrow> (u8 list \<times> 'o) list option"
  api_account_nonce :: "'o \<Rightarrow> 's \<Rightarrow> u32"
  api_query_info :: "'o \<Rightarrow> u32 \<Rightarrow> 's \<Rightarrow> 'o"
  api_query_fee_details :: "'o \<Rightarrow> u32 \<Rightarrow> 's \<Rightarrow> 'o"
  api_query_weight_to_fee :: "'w \<Rightarrow> 's \<Rightarrow> u128"
  api_query_length_to_fee :: "u32 \<Rightarrow> 's \<Rightarrow> u128"
  api_query_call_info :: "'o \<Rightarrow> u32 \<Rightarrow> 's \<Rightarrow> 'o"
  api_query_call_fee_details :: "'o \<Rightarrow> u32 \<Rightarrow> 's \<Rightarrow> 'o"
  api_collect_collation_info :: "'o \<Rightarrow> 's \<Rightarrow> 'o"

definition integritee_runtime_apis ::
  "('s, 'o, 'w, 'z) runtime_pallets_lib_scheme \<Rightarrow> 'api \<Rightarrow> ('s, 'o, 'w, 'api) runtime_apis" where
  "integritee_runtime_apis P api_versions =
     \<lparr>api_slot_duration = Aura_slot_duration P MinimumPeriod,
      api_authorities = Aura_authorities P,
      api_version = VERSION api_versions,
      api_execute_block = (\<lambda>block. Executive_execute_block P block),
      api_initialize_block = (\<lambda>header. Executive_initialize_block P header),
      api_metadata = Runtime_metadata P,
      api_metadata_at_version = (\<lambda>version. Runtime_metadata_at_version P version),
      api_metadata_versions = Runtime_metadata_versions P,
      api_apply_extrinsic = (\<lambda>extrinsic. Executive_apply_extrinsic P extrinsic),
      api_finalize_block = Executive_finalize_block P,
      api_inherent_extrinsics = (\<lambda>data. create_extrinsics P data),
      api_check_inherents = (\<lambda>block data. data_check_extrinsics P data block),
      api_validate_transaction = (\<lambda>source tx block_hash. Executive_validate_transaction P source tx block_hash),
      api_offchain_worker = (\<lambda>header. Executive_offchain_worker P header),
      api_generate_session_keys = (\<lambda>seed. SessionKeys_generate P seed),
      api_decode_session_keys = (\<lambda>encoded. SessionKeys_decode P encoded),
      api_account_nonce = (\<lambda>account. System_account_nonce P account),
      api_query_info = (\<lambda>uxt len. TransactionPayment_query_info P uxt len),
      api_query_fee_details = (\<lambda>uxt len. TransactionPayment_query_fee_details P uxt len),
      api_query_weight_to_fee = (\<lambda>weight. TransactionPayment_weight_to_fee P weight),
      api_query_length_to_fee = (\<lambda>length. TransactionPayment_length_to_fee P length),
      api_query_call_info = (\<lambda>call len. TransactionPayment_query_call_info P call len),
      api_query_call_fee_details = (\<lambda>call len. TransactionPayment_query_call_fee_details P call len),
      api_collect_collation_info = (\<lambda>header. ParachainSystem_collect_collation_info P header)\<rparr>"

definition shell_runtime_apis ::
  "('s, 'o, 'w, 'z) runtime_pallets_lib_scheme \<Rightarrow> 'api \<Rightarrow> ('s, 'o, 'w, 'api) runtime_apis" where
  "shell_runtime_apis P api_versions =
     \<lparr>api_slot_duration = Aura_slot_duration P shell_MinimumPeriod,
      api_authorities = Aura_authorities P,
      api_version = shell_VERSION api_versions,
      api_execute_block = (\<lambda>block. Executive_execute_block P block),
      api_initialize_block = (\<lambda>header. Executive_initialize_block P header),
      api_metadata = Runtime_metadata P,
      api_metadata_at_version = (\<lambda>version. Runtime_metadata_at_version P version),
      api_metadata_versions = Runtime_metadata_versions P,
      api_apply_extrinsic = (\<lambda>extrinsic. Executive_apply_extrinsic P extrinsic),
      api_finalize_block = Executive_finalize_block P,
      api_inherent_extrinsics = (\<lambda>data. create_extrinsics P data),
      api_check_inherents = (\<lambda>block data. data_check_extrinsics P data block),
      api_validate_transaction = (\<lambda>source tx block_hash. Executive_validate_transaction P source tx block_hash),
      api_offchain_worker = (\<lambda>header. Executive_offchain_worker P header),
      api_generate_session_keys = (\<lambda>seed. SessionKeys_generate P seed),
      api_decode_session_keys = (\<lambda>encoded. SessionKeys_decode P encoded),
      api_account_nonce = (\<lambda>account. System_account_nonce P account),
      api_query_info = (\<lambda>uxt len. TransactionPayment_query_info P uxt len),
      api_query_fee_details = (\<lambda>uxt len. TransactionPayment_query_fee_details P uxt len),
      api_query_weight_to_fee = (\<lambda>weight. TransactionPayment_weight_to_fee P weight),
      api_query_length_to_fee = (\<lambda>length. TransactionPayment_length_to_fee P length),
      api_query_call_info = (\<lambda>call len. TransactionPayment_query_call_info P call len),
      api_query_call_fee_details = (\<lambda>call len. TransactionPayment_query_call_fee_details P call len),
      api_collect_collation_info = (\<lambda>header. ParachainSystem_collect_collation_info P header)\<rparr>"

text \<open>
  \<open>pallet_aura\<close> doubles the minimum period between two blocks, the constant of the timestamp pallet.
\<close>

definition aura_law :: "('s, 'o, 'w, 'z) runtime_pallets_lib_scheme \<Rightarrow> bool" where
  "aura_law P \<longleftrightarrow> (\<forall>period. 2 * unat period < 2 ^ 64 \<longrightarrow> Aura_slot_duration P period = 2 * period)"

lemma api_slot_duration:
  assumes "aura_law P"
  shows "api_slot_duration (integritee_runtime_apis P api_versions) = SLOT_DURATION"
    "api_slot_duration (shell_runtime_apis P api_versions) = SLOT_DURATION"
  using assms
  by (simp_all add: integritee_runtime_apis_def shell_runtime_apis_def aura_law_def MinimumPeriod_def
      shell_MinimumPeriod_def time_defs)

text \<open>
  Over the same pallets the two runtimes answer every API alike but for their version: a node built
  for one serves the other.
\<close>

lemma runtime_apis_agree:
  "shell_runtime_apis P api_versions =
     (integritee_runtime_apis P api_versions)\<lparr>api_version := shell_VERSION api_versions\<rparr>"
  by (simp add: integritee_runtime_apis_def shell_runtime_apis_def MinimumPeriod_def shell_MinimumPeriod_def)


subsection \<open>A concrete transaction format\<close>





end
