(* ===== verification/Shell_Config.thy ===== *)
theory Shell_Config
  imports Integritee_Config Shell_Runtime
begin

text \<open>
  The \<open>impl ... Config for Runtime\<close> blocks of \<open>shell-runtime/src/lib.rs\<close> and the parameters they need, in the
  order of the file, and how they compare with those of the full runtime.
\<close>

section \<open>Parameters\<close>

definition shell_RuntimeBlockLength :: "('w, 'p, 'z) block_env_scheme \<Rightarrow> 'p block_length_lib \<Rightarrow> DispatchClass \<Rightarrow> u32" where
  "shell_RuntimeBlockLength E max_with_normal_ratio =
     max_with_normal_ratio (5 * 1024 * 1024) (NORMAL_DISPATCH_RATIO E)"

definition shell_TransferFee :: u128 where
  "shell_TransferFee = shell_MILLITEER"

definition shell_CreationFee :: u128 where
  "shell_CreationFee = shell_MILLITEER"

definition shell_UnvestedFundsAllowedWithdrawReasons :: "('r, 'z) withdraw_lib_scheme \<Rightarrow> 'r" where
  "shell_UnvestedFundsAllowedWithdrawReasons W = wr_except W (wr_union W (wr_TRANSFER W) (wr_RESERVE W))"

definition shell_AssetDeposit :: Balance where
  "shell_AssetDeposit = shell_ONE_TEER"

definition shell_ApprovalDeposit :: Balance where
  "shell_ApprovalDeposit = 100 * shell_MILLITEER"

definition shell_StringLimit :: u32 where
  "shell_StringLimit = 50"

definition shell_MetadataDepositBase :: Balance where
  "shell_MetadataDepositBase = shell_ONE_TEER"

definition shell_MetadataDepositPerByte :: Balance where
  "shell_MetadataDepositPerByte = 10 * shell_MILLITEER"

definition shell_MaxAuthorities :: u32 where
  "shell_MaxAuthorities = 100000"

section \<open>The pallets\<close>

definition shell_frame_system_config ::
  "('w, 'p, 'z) block_env_scheme \<Rightarrow> ('w, 'p, 'b, 'r, 'y) block_weights_lib_scheme \<Rightarrow> 'p block_length_lib \<Rightarrow> 'api \<Rightarrow>
   ('c ShellCall, 'r, 'api) system_config" where
  "shell_frame_system_config E B F api =
     \<lparr>BaseCallFilter = DisableTokenTxFilter_contains,
      sys_BlockWeights = shell_RuntimeBlockWeights E B,
      sys_BlockLength = shell_RuntimeBlockLength E F,
      sys_BlockHashCount = shell_BlockHashCount,
      sys_Version = shell_VERSION api,
      SystemWeightInfo = DefaultWeights,
      sys_SS58Prefix = shell_SS58Prefix,
      OnSetCode = ''ParachainSystem'',
      MaxConsumers = 16\<rparr>"

definition shell_pallet_timestamp_config :: timestamp_config where
  "shell_pallet_timestamp_config =
     \<lparr>ts_MinimumPeriod = shell_MinimumPeriod,
      ts_WeightInfo = DefaultWeights\<rparr>"

definition shell_pallet_balances_config :: balances_config where
  "shell_pallet_balances_config =
     \<lparr>bal_MaxLocks = shell_MaxLocks,
      bal_ExistentialDeposit = shell_ExistentialDeposit,
      AccountStore = ''System'',
      bal_WeightInfo = DefaultWeights,
      bal_MaxReserves = shell_MaxReserves\<rparr>"

text \<open>\<open>CurrencyAdapter<Balances, ()>\<close> drops the fees it collects, all of them.\<close>

definition shell_pallet_transaction_payment_config :: "('i, 't, 'p) transaction_payment_config" where
  "shell_pallet_transaction_payment_config =
     \<lparr>tp_Currency = ''Balances'',
      tp_OnUnbalanced = (\<lambda>fees_then_tips t. (t, fees_then_tips)),
      tp_WeightToFee = IdentityFee_of_weight,
      tp_LengthToFee = shell_TransactionByteFee,
      tp_FeeMultiplierUpdate = None,
      tp_OperationalFeeMultiplier = None\<rparr>"

definition shell_pallet_vesting_config :: "('r, 'z) withdraw_lib_scheme \<Rightarrow> 'r vesting_config" where
  "shell_pallet_vesting_config W =
     \<lparr>ve_Currency = ''Balances'',
      ve_MinVestedTransfer = shell_MinVestedTransfer,
      ve_WeightInfo = Foreign ''pallet_vesting'',
      ve_UnvestedFundsAllowedWithdrawReasons = shell_UnvestedFundsAllowedWithdrawReasons W,
      ve_MAX_VESTING_SCHEDULES = shell_MAX_VESTING_SCHEDULES\<rparr>"

definition shell_cumulus_pallet_parachain_system_config ::
  "('w, 'p, 'z) block_env_scheme \<Rightarrow> 'w parachain_system_config" where
  "shell_cumulus_pallet_parachain_system_config E =
     \<lparr>SelfParaId = ''ParachainInfo'',
      DmpMessageHandler = ''DmpQueue'',
      ps_ReservedDmpWeight = shell_ReservedDmpWeight E,
      OutboundXcmpMessageSource = ''XcmpQueue'',
      XcmpMessageHandler = ''XcmpQueue'',
      ps_ReservedXcmpWeight = shell_ReservedXcmpWeight E,
      CheckAssociatedRelayNumber = ''RelayNumberStrictlyIncreases''\<rparr>"

definition shell_pallet_aura_config :: aura_config where
  "shell_pallet_aura_config = \<lparr>au_MaxAuthorities = shell_MaxAuthorities\<rparr>"

lemmas shell_config_defs = shell_frame_system_config_def shell_pallet_timestamp_config_def
  shell_pallet_balances_config_def shell_pallet_transaction_payment_config_def shell_pallet_vesting_config_def
  shell_cumulus_pallet_parachain_system_config_def shell_pallet_aura_config_def shell_RuntimeBlockLength_def
  shell_UnvestedFundsAllowedWithdrawReasons_def shell_MaxAuthorities_def

section \<open>The upgrade\<close>

text \<open>
  C32. Replacing the shell by the full runtime is an upgrade of one chain. The name of the specification stays and its
  version and that of transactions grow; block limits (weight and length), address prefix, hash count, message
  queues, the way new code is set, the number of collators and everything about balances stay, apart from the weights charged, and of
  vesting only the least transfer falls, from a hundred TEER to one. Unvested funds may in both pay fees and tips but never be transferred or
  reserved. What changes is the call filter and the price of a transaction. The shell refuses every call of the balances
  pallet and vested transfers and lets all others through, the full runtime refuses none; the price per byte stays, but
  the shell drops all fees and tips, asks one unit per picosecond instead of the polynomial, and neither adjusts
  its fees to the load nor favours operational calls.
\<close>

theorem upgrade_keeps_settings:
  fixes L :: "('i, 't, 'l) imbalance_lib_scheme" and E :: "('w, 'p, 'z) block_env_scheme"
  assumes "withdraw_laws W" "\<forall>d. everything d"
    and sh: "sh = shell_frame_system_config E B F api" and full: "full = frame_system_config E B F everything api'"
    and pay: "pay = (shell_pallet_transaction_payment_config :: ('i, 't, 'p) transaction_payment_config)"
  shows "spec_name (sys_Version sh) = spec_name (sys_Version full) \<and>
    spec_version (sys_Version sh) < spec_version (sys_Version full) \<and>
    transaction_version (sys_Version sh) < transaction_version (sys_Version full) \<and>
    state_version (sys_Version sh) = state_version (sys_Version full) \<and>
    sys_BlockWeights sh = sys_BlockWeights full \<and> sys_BlockLength sh = sys_BlockLength full \<and>
    sys_SS58Prefix sh = sys_SS58Prefix full \<and> sys_BlockHashCount sh = sys_BlockHashCount full \<and>
    OnSetCode sh = OnSetCode full \<and> MaxConsumers sh = MaxConsumers full \<and>
    shell_pallet_balances_config = pallet_balances_config\<lparr>bal_WeightInfo := DefaultWeights\<rparr> \<and>
    shell_pallet_timestamp_config = pallet_timestamp_config\<lparr>ts_WeightInfo := DefaultWeights\<rparr> \<and>
    shell_cumulus_pallet_parachain_system_config E = cumulus_pallet_parachain_system_config E \<and>
    shell_pallet_aura_config = pallet_aura_config \<and>
    shell_pallet_vesting_config W = (pallet_vesting_config W)
      \<lparr>ve_MinVestedTransfer := shell_MinVestedTransfer, ve_WeightInfo := Foreign ''pallet_vesting''\<rparr> \<and>
    ve_MinVestedTransfer (pallet_vesting_config W) = ONE_TEER \<and> shell_MinVestedTransfer = 100 * ONE_TEER \<and>
    (allows W (ve_UnvestedFundsAllowedWithdrawReasons (pallet_vesting_config W)) x \<longleftrightarrow> x \<noteq> Transfer \<and> x \<noteq> Reserve) \<and>
    (BaseCallFilter sh c \<longleftrightarrow> c \<notin> range ShellBalances \<union> range (\<lambda>v. ShellVesting (vested_transfer v))) \<and>
    BaseCallFilter full d \<and>
    tp_WeightToFee pay = IdentityFee_of_weight \<and> tp_FeeMultiplierUpdate pay = None \<and>
    tp_OperationalFeeMultiplier pay = None \<and> tp_LengthToFee pay = MICROTEER \<and>
    pallet_transaction_payment_config E L = pay\<lparr>tp_OnUnbalanced := DealWithFees_on_unbalanceds L,
      tp_WeightToFee := Polynomial (polynomial E), tp_FeeMultiplierUpdate := Some ''SlowAdjustingFeeUpdate'',
      tp_OperationalFeeMultiplier := Some 5\<rparr> \<and>
    tp_OnUnbalanced pay fts t = (t, fts)"
proof -
  note same = shell_upgrade_compatible [of api api' E B]
  have "shell_RuntimeBlockLength E F = RuntimeBlockLength E F"
    by (simp add: shell_RuntimeBlockLength_def RuntimeBlockLength_def)
  moreover have "shell_pallet_balances_config = pallet_balances_config\<lparr>bal_WeightInfo := DefaultWeights\<rparr>"
    "shell_pallet_timestamp_config = pallet_timestamp_config\<lparr>ts_WeightInfo := DefaultWeights\<rparr>"
    "shell_cumulus_pallet_parachain_system_config E = cumulus_pallet_parachain_system_config E"
    "shell_pallet_aura_config = pallet_aura_config"
    using same by (simp_all add: shell_config_defs integritee_config_defs MaxAuthorities_def)
  moreover have "shell_pallet_vesting_config W = (pallet_vesting_config W)
      \<lparr>ve_MinVestedTransfer := shell_MinVestedTransfer, ve_WeightInfo := Foreign ''pallet_vesting''\<rparr>"
    using same by (simp add: shell_config_defs integritee_config_defs UnvestedFundsAllowedWithdrawReasons_def)
  moreover have "allows W (ve_UnvestedFundsAllowedWithdrawReasons (pallet_vesting_config W)) x \<longleftrightarrow>
      x \<noteq> Transfer \<and> x \<noteq> Reserve"
    using assms(1) by (simp add: integritee_config_defs UnvestedFundsAllowedWithdrawReasons_def withdraw_laws_def)
  moreover have "BaseCallFilter sh c \<longleftrightarrow> c \<notin> range ShellBalances \<union> range (\<lambda>v. ShellVesting (vested_transfer v))"
    by (auto simp: sh shell_frame_system_config_def DisableTokenTxFilter_contains_def
        split: ShellCall.splits vesting_call.splits)
  moreover have "ve_MinVestedTransfer (pallet_vesting_config W) = ONE_TEER" "shell_MinVestedTransfer = 100 * ONE_TEER"
    "tp_LengthToFee pay = MICROTEER" "OperationalFeeMultiplier = 5"
    by (simp_all add: pay integritee_config_defs shell_config_defs MinVestedTransfer_def shell_MinVestedTransfer_def
        ONE_TEER_def shell_ONE_TEER_def shell_TransactionByteFee_def shell_MICROTEER_def MICROTEER_def
        OperationalFeeMultiplier_def)
  ultimately show ?thesis
    using same assms(2) by (simp add: sh full pay shell_frame_system_config_def frame_system_config_def
        shell_pallet_transaction_payment_config_def pallet_transaction_payment_config_def)
qed

theorem upgrade_keeps_settings_witness:
  "allows example_reasons (ve_UnvestedFundsAllowedWithdrawReasons (pallet_vesting_config example_reasons)) Tip \<and>
   tp_OnUnbalanced (shell_pallet_transaction_payment_config :: (u128, nat, nat) transaction_payment_config)
     [1234, 7] 1000 = (1000, [1234, 7])"
proof -
  have "\<forall>d :: unit RuntimeCall. (\<lambda>_. True) d" by simp
  note keeps = upgrade_keeps_settings [OF example_reasons_laws this refl refl refl, where E = pair_env and B = list_builder and
      F = "\<lambda>_ _ _. 0" and api = "()" and api' = "()" and x = Tip and L = example_imbalances and fts = "[1234, 7]" and t = 1000
      and c = "ShellSudo ()" and d = "Council ()"]
  show ?thesis
    by (intro conjI; insert keeps, elim conjE, simp)
qed

end
