(* ===== verification/Shell_Xcm.thy ===== *)
theory Shell_Xcm
  imports Integritee_Xcm
begin

text \<open>
  \<open>polkadot-parachains/shell-runtime/src/xcm_config.rs\<close>, translated on its own: the file is a copy
  of the full runtime's configuration, kept in step by hand, so the agreement of the two is a
  property and not an assumption.
\<close>

section \<open>Locations\<close>

definition shell_teer_general_key :: Junction where
  "shell_teer_general_key =
     GeneralKey 4 (map of_char ''TEER0000000000000000000000000000'')"

definition shell_TEER_GENERAL_KEY :: Junction where
  "shell_TEER_GENERAL_KEY = shell_teer_general_key"

definition shell_RelayChainLocation :: MultiLocation where
  "shell_RelayChainLocation = parent_location"

definition shell_RelayNetwork :: NetworkId where
  "shell_RelayNetwork = Kusama"

definition shell_RelayChainOrigin :: "'a origin" where
  "shell_RelayChainOrigin = RelayOrigin"

definition shell_UniversalLocation :: "u32 \<Rightarrow> Junctions" where
  "shell_UniversalLocation para = X2 (GlobalConsensus shell_RelayNetwork) (Parachain para)"

definition shell_SelfReserve :: MultiLocation where
  "shell_SelfReserve = \<lparr>parents = 0, interior = X1 shell_TEER_GENERAL_KEY\<rparr>"

definition shell_SelfLocation :: MultiLocation where
  "shell_SelfLocation = here_location"

definition shell_SelfLocationAbsolute :: "u32 \<Rightarrow> MultiLocation" where
  "shell_SelfLocationAbsolute para = \<lparr>parents = 1, interior = X1 (Parachain para)\<rparr>"

section \<open>Currencies\<close>

datatype ShellCurrencyId = ShellTEER

definition shell_CurrencyIdConvert_to_location :: "u32 \<Rightarrow> ShellCurrencyId \<Rightarrow> MultiLocation option" where
  "shell_CurrencyIdConvert_to_location para c =
     (case c of ShellTEER \<Rightarrow> Some \<lparr>parents = 1, interior = X2 (Parachain para) shell_TEER_GENERAL_KEY\<rparr>)"

definition shell_CurrencyIdConvert_from_location :: "u32 \<Rightarrow> MultiLocation \<Rightarrow> ShellCurrencyId option" where
  "shell_CurrencyIdConvert_from_location self_para_id location =
     (if parents location = 1 then
        (case interior location of
           X2 (Parachain para_id) junction \<Rightarrow>
             if junction = shell_TEER_GENERAL_KEY \<and> para_id = self_para_id then Some ShellTEER else None
         | _ \<Rightarrow> None)
      else if parents location = 0 then
        (case interior location of
           X1 junction \<Rightarrow> if junction = shell_TEER_GENERAL_KEY then Some ShellTEER else None
         | _ \<Rightarrow> None)
      else None)"

definition shell_CurrencyIdConvert_from_asset :: "u32 \<Rightarrow> 'f MultiAsset \<Rightarrow> ShellCurrencyId option" where
  "shell_CurrencyIdConvert_from_asset para asset =
     (case asset_id asset of
        Concrete location \<Rightarrow> shell_CurrencyIdConvert_from_location para location
      | _ \<Rightarrow> None)"

interpretation shell_currency: currency_convert
  "shell_CurrencyIdConvert_to_location para" "shell_CurrencyIdConvert_from_location para"
  by unfold_locales
     (auto simp: shell_CurrencyIdConvert_to_location_def shell_CurrencyIdConvert_from_location_def
       split: ShellCurrencyId.splits)

section \<open>Routing\<close>

definition shell_XcmRouter :: "('m, 't, 'z) router_lib_scheme \<Rightarrow> ('m, 't) router" where
  "shell_XcmRouter U = router_tuple U [ParentAsUmp U, XcmpQueue_router U]"

section \<open>Accounts, origins and reserves\<close>

definition shell_LocationToAccountId :: "('k, 'a, 'z) origin_lib_scheme \<Rightarrow> 'a account_converter" where
  "shell_LocationToAccountId L = account_tuple L
     [ParentIsPreset L, SiblingParachainConvertsVia L, AccountId32Aliases L shell_RelayNetwork]"

definition shell_LocalAssetTransactor ::
  "('f, ShellCurrencyId, 'a, 's, 'w, 'y) asset_lib_scheme \<Rightarrow> ('k, 'a, 'z) origin_lib_scheme \<Rightarrow> u32 \<Rightarrow>
   ('f, 's) asset_transactor" where
  "shell_LocalAssetTransactor X L para =
     CurrencyAdapter X (IsNativeConcrete X (shell_CurrencyIdConvert_from_location para)) (shell_LocationToAccountId L)"

definition shell_XcmOriginToTransactDispatchOrigin ::
  "('k, 'a, 'z) origin_lib_scheme \<Rightarrow> ('k, 'a) origin_converter" where
  "shell_XcmOriginToTransactDispatchOrigin L = origin_tuple L
     [SovereignSignedViaLocation L (shell_LocationToAccountId L),
      RelayChainAsNative L shell_RelayChainOrigin,
      SiblingParachainAsNative L,
      ParentAsSuperuser L,
      SignedAccountId32AsNative L shell_RelayNetwork,
      XcmPassthrough L]"

definition shell_LocalOriginToLocation :: "'z local_origin_lib_scheme \<Rightarrow> u8 list origin \<Rightarrow> MultiLocation option" where
  "shell_LocalOriginToLocation D = SignedToAccountId32 D shell_RelayNetwork"

definition shell_AccountIdToMultiLocation :: "u8 list \<Rightarrow> MultiLocation" where
  "shell_AccountIdToMultiLocation account = \<lparr>parents = 0, interior = X1 (AccountId32 None account)\<rparr>"

definition shell_AbsoluteAndRelativeReserve ::
  "MultiLocation \<Rightarrow> 'f reserve_provider \<Rightarrow> 'f reserve_provider" where
  "shell_AbsoluteAndRelativeReserve absolute relative asset =
     map_option (\<lambda>relative_reserve.
       if relative_reserve = absolute then here_location else relative_reserve) (relative asset)"

section \<open>Execution of incoming messages\<close>

definition shell_DEFAULT_PROOF_SIZE :: u64 where
  "shell_DEFAULT_PROOF_SIZE = 128 * 1024"

definition shell_UnitWeightCost :: "('w, 'z) weight_env_scheme \<Rightarrow> 'w" where
  "shell_UnitWeightCost E = from_parts E 200000000 shell_DEFAULT_PROOF_SIZE"

definition shell_Barrier :: "('x, 'w, 'c, 'z) barrier_lib_scheme \<Rightarrow> ('x, 'w) barrier" where
  "shell_Barrier L = DenyThenTry DenyReserveTransferToRelayChain
     (barrier_tuple L
        [TakeWeightCredit L,
         AllowTopLevelPaidExecutionFrom L (Everything L),
         AllowKnownQueryResponses L,
         AllowSubscriptionsFrom L (Everything L)])"

definition shell_SafeCallFilter_contains :: "'call \<Rightarrow> bool" where
  "shell_SafeCallFilter_contains call = True"

definition shell_WeightPrice :: "u128 \<Rightarrow> MultiLocation \<times> u128" where
  "shell_WeightPrice one_teer = (parent_location, one_teer)"

definition shell_BaseXcmWeight :: "('w, 'z) weight_env_scheme \<Rightarrow> 'w" where
  "shell_BaseXcmWeight E = from_parts E 200000000 shell_DEFAULT_PROOF_SIZE"

definition shell_MaxAssetsIntoHolding :: u32 where
  "shell_MaxAssetsIntoHolding = 64"

definition shell_MaxAssetsForTransfer :: u64 where
  "shell_MaxAssetsForTransfer = 2"

definition shell_ParachainMinFee :: "MultiLocation \<Rightarrow> u128 option" where
  "shell_ParachainMinFee location = None"

definition shell_IntegriteeKsmParaId :: u32 where
  "shell_IntegriteeKsmParaId = 2015"

definition shell_ShellRuntimeParaId :: u32 where
  "shell_ShellRuntimeParaId = 2267"

section \<open>Agreement with the full runtime\<close>

lemmas shell_location_defs = shell_TEER_GENERAL_KEY_def shell_teer_general_key_def
  shell_SelfReserve_def shell_RelayNetwork_def shell_RelayChainOrigin_def
  shell_SelfLocationAbsolute_def shell_UniversalLocation_def shell_RelayChainLocation_def shell_SelfLocation_def

lemmas location_defs = TEER_GENERAL_KEY_def teer_general_key_def SelfReserve_def RelayNetwork_def
  RelayChainOrigin_def SelfLocationAbsolute_def UniversalLocation_def RelayChainLocation_def SelfLocation_def

named_theorems shell_agrees "a definition of the shell runtime equals that of the full one"

lemma shell_locations_agree [shell_agrees]:
  "shell_TEER_GENERAL_KEY = TEER_GENERAL_KEY" "shell_RelayChainLocation = RelayChainLocation"
  "shell_RelayNetwork = RelayNetwork" "shell_RelayChainOrigin = RelayChainOrigin" "shell_SelfReserve = SelfReserve"
  "shell_UniversalLocation = UniversalLocation" "shell_SelfLocation = SelfLocation"
  "shell_SelfLocationAbsolute = SelfLocationAbsolute"
  by (simp_all add: fun_eq_iff shell_location_defs location_defs)

text \<open>The two runtimes recognise the native currency at the same locations and send it under the same one.\<close>

lemma shell_currency_agrees:
  "shell_CurrencyIdConvert_from_location para l = None \<longleftrightarrow> CurrencyIdConvert_from_location para l = None"
  "shell_CurrencyIdConvert_to_location para ShellTEER = CurrencyIdConvert_to_location para TEER"
  by (auto simp: shell_CurrencyIdConvert_from_location_def CurrencyIdConvert_from_location_def
      shell_CurrencyIdConvert_to_location_def CurrencyIdConvert_to_location_def shell_agrees
      split: Junctions.splits Junction.splits)

lemma shell_xcm_agrees [shell_agrees]:
  "shell_XcmRouter = XcmRouter" "shell_LocationToAccountId = LocationToAccountId"
  "shell_XcmOriginToTransactDispatchOrigin = XcmOriginToTransactDispatchOrigin"
  "shell_LocalOriginToLocation = LocalOriginToLocation" "shell_AccountIdToMultiLocation = AccountIdToMultiLocation"
  "shell_AbsoluteAndRelativeReserve = AbsoluteAndRelativeReserve" "shell_Barrier = Barrier"
  "shell_UnitWeightCost = UnitWeightCost" "shell_BaseXcmWeight = BaseXcmWeight" "shell_WeightPrice = WeightPrice"
  "shell_SafeCallFilter_contains = SafeCallFilter_contains" "shell_MaxAssetsIntoHolding = MaxAssetsIntoHolding"
  "shell_MaxAssetsForTransfer = MaxAssetsForTransfer" "shell_ParachainMinFee = ParachainMinFee"
  "shell_IntegriteeKsmParaId = IntegriteeKsmParaId" "shell_ShellRuntimeParaId = ShellRuntimeParaId"
proof -
  show "shell_LocationToAccountId = LocationToAccountId"
    by (simp add: fun_eq_iff shell_LocationToAccountId_def LocationToAccountId_def shell_agrees)
  show "shell_XcmOriginToTransactDispatchOrigin = XcmOriginToTransactDispatchOrigin"
    by (simp add: fun_eq_iff shell_XcmOriginToTransactDispatchOrigin_def XcmOriginToTransactDispatchOrigin_def
        shell_LocationToAccountId_def LocationToAccountId_def shell_agrees)
qed (simp_all add: fun_eq_iff shell_XcmRouter_def XcmRouter_def shell_LocalOriginToLocation_def
    LocalOriginToLocation_def shell_AccountIdToMultiLocation_def AccountIdToMultiLocation_def
    shell_AbsoluteAndRelativeReserve_def AbsoluteAndRelativeReserve_def shell_Barrier_def Barrier_def
    shell_UnitWeightCost_def UnitWeightCost_def shell_BaseXcmWeight_def BaseXcmWeight_def shell_WeightPrice_def
    WeightPrice_def shell_DEFAULT_PROOF_SIZE_def DEFAULT_PROOF_SIZE_def shell_SafeCallFilter_contains_def
    SafeCallFilter_contains_def shell_MaxAssetsIntoHolding_def MaxAssetsIntoHolding_def
    shell_MaxAssetsForTransfer_def MaxAssetsForTransfer_def shell_ParachainMinFee_def ParachainMinFee_def
    shell_IntegriteeKsmParaId_def IntegriteeKsmParaId_def shell_ShellRuntimeParaId_def ShellRuntimeParaId_def
    shell_agrees)

end
