(* ===== verification/Shell_Executor.thy ===== *)
theory Shell_Executor
  imports Shell_Xcm Shell_Runtime Integritee_Executor
begin

text \<open>
  The executor and the XCM pallets of the shell runtime (\<open>XcmExecutorConfig\<close> and the \<open>impl\<close> blocks of
  \<open>shell-runtime/src/xcm_config.rs\<close>), and what an upgrade to the full runtime changes of them: which calls a
  message can make and which pallets it finds, who may swap the two parachains, and which of the two is meant.
\<close>

section \<open>The executor\<close>

definition shell_XcmExecutorConfig ::
  "('f, ShellCurrencyId, 'a, 's, 'w, 'x, 'i) executor_lib_scheme \<Rightarrow> ('w, 'y) weight_env_scheme \<Rightarrow>
   ('k, 'a, 'v) origin_lib_scheme \<Rightarrow> ('x, 'w, 'c, 'z) barrier_lib_scheme \<Rightarrow> ('m, 't, 'u) router_lib_scheme \<Rightarrow>
   u32 \<Rightarrow> 'f reserve_provider \<Rightarrow> ('f, 's, 'w, 'x, 'k, 'a, 'm, 't) executor_config" where
  "shell_XcmExecutorConfig X E Q L U para rel =
     \<lparr>ex_RuntimeCall = shell_RuntimeCall_pallets,
      ex_XcmSender = shell_XcmRouter U,
      ex_AssetTransactor = shell_LocalAssetTransactor X Q para,
      ex_OriginConverter = shell_XcmOriginToTransactDispatchOrigin Q,
      ex_IsReserve = MultiNativeAsset X (shell_AbsoluteAndRelativeReserve (shell_SelfLocationAbsolute para) rel),
      ex_IsTeleporter = (\<lambda>_ _. False),
      ex_UniversalLocation = shell_UniversalLocation para,
      ex_Barrier = shell_Barrier L,
      ex_Weigher = FixedWeightBounds X (shell_UnitWeightCost E) shell_MaxInstructions,
      ex_Trader = UsingComponents X (IdentityFee X) shell_SelfReserve,
      ex_ResponseHandler = ''PolkadotXcm'',
      ex_SubscriptionService = ''PolkadotXcm'',
      ex_AssetTrap = ''PolkadotXcm'',
      ex_AssetClaims = ''PolkadotXcm'',
      ex_CallDispatcher = shell_RuntimeCall_pallets,
      ex_PalletInstancesInfo = shell_runtime_pallets,
      ex_MaxAssetsIntoHolding = shell_MaxAssetsIntoHolding,
      ex_AssetLocker = None,
      ex_AssetExchanger = None,
      ex_FeeManager = None,
      ex_MessageExporter = None,
      ex_UniversalAliases = (\<lambda>_ _. False),
      ex_SafeCallFilter = shell_SafeCallFilter_contains\<rparr>"

section \<open>The XCM pallets\<close>



definition shell_cumulus_pallet_xcm_config ::
  "('f, ShellCurrencyId, 'a, 's, 'w, 'x, 'i) executor_lib_scheme \<Rightarrow> ('w, 'y) weight_env_scheme \<Rightarrow>
   ('k, 'a, 'v) origin_lib_scheme \<Rightarrow> ('x, 'w, 'c, 'z) barrier_lib_scheme \<Rightarrow> ('m, 't, 'u) router_lib_scheme \<Rightarrow>
   u32 \<Rightarrow> 'f reserve_provider \<Rightarrow> ('f, 's, 'w, 'x, 'k, 'a, 'm, 't) cumulus_xcm_config" where
  "shell_cumulus_pallet_xcm_config X E Q L U para rel = \<lparr>cx_XcmExecutor = shell_XcmExecutorConfig X E Q L U para rel\<rparr>"

definition shell_pallet_xcm_transactor_config ::
  "('m, 't, 'u) router_lib_scheme \<Rightarrow> ('a, 'g) ensure_lib_scheme \<Rightarrow> ('m, 't, 'a) xcm_transactor_config" where
  "shell_pallet_xcm_transactor_config U G =
     \<lparr>RelayCallBuilder_para = shell_ShellRuntimeParaId,
      xtr_XcmSender = shell_XcmRouter U,
      SwapOrigin = EnsureRoot G,
      xtr_ShellRuntimeParaId = shell_ShellRuntimeParaId,
      xtr_IntegriteeKsmParaId = shell_IntegriteeKsmParaId,
      xtr_WeightInfo = DefaultWeights\<rparr>"



section \<open>The upgrade\<close>









text \<open>
  C26. The swap of the two parachains' slots: each runtime builds the relay chain call for its own side, the
  full runtime for parachain 2015 and the shell for 2267, and both name the same two parachains. On the
  full chain it takes root or more than half of the council, on the shell chain root; no signed account,
  sibling or the relay chain's own origin can ask for it on either.
\<close>

theorem swap_sides:
  assumes "ensure_laws G"
  shows "RelayCallBuilder_para (pallet_xcm_transactor_config U G) = 2015 \<and>
    RelayCallBuilder_para (shell_pallet_xcm_transactor_config U G) = 2267 \<and>
    xtr_IntegriteeKsmParaId (pallet_xcm_transactor_config U G) = RelayCallBuilder_para (pallet_xcm_transactor_config U G) \<and>
    xtr_ShellRuntimeParaId (pallet_xcm_transactor_config U G) = RelayCallBuilder_para (shell_pallet_xcm_transactor_config U G) \<and>
    xtr_IntegriteeKsmParaId (shell_pallet_xcm_transactor_config U G) = xtr_IntegriteeKsmParaId (pallet_xcm_transactor_config U G) \<and>
    xtr_ShellRuntimeParaId (shell_pallet_xcm_transactor_config U G) = xtr_ShellRuntimeParaId (pallet_xcm_transactor_config U G) \<and>
    xtr_XcmSender (shell_pallet_xcm_transactor_config U G) = xtr_XcmSender (pallet_xcm_transactor_config U G) \<and>
    (SwapOrigin (pallet_xcm_transactor_config U G) q \<longleftrightarrow>
      q = Root \<or> (\<exists>y m. q = Members Instance1 y m \<and> unat m < 2 * unat y)) \<and>
    (SwapOrigin (shell_pallet_xcm_transactor_config U G) q \<longleftrightarrow> q = Root)"
  using assms
  by (simp add: pallet_xcm_transactor_config_def shell_pallet_xcm_transactor_config_def privileged_origin_iff shell_agrees
      IntegriteeKsmParaId_def ShellRuntimeParaId_def) (simp add: ensure_laws_def)

theorem swap_sides_witness:
  "SwapOrigin (pallet_xcm_transactor_config example_routers example_ensure) (Members Instance1 3 5) \<and>
   \<not> SwapOrigin (shell_pallet_xcm_transactor_config example_routers example_ensure) (Members Instance1 3 5)"
  using swap_sides [OF example_ensure_laws, of example_routers "Members Instance1 3 5"] by simp

end
