(* ===== verification/Call_Codec.thy ===== *)
theory Call_Codec
  imports Shell_Runtime Shell_Xcm
begin

text \<open>
  The encodings that \<open>#[derive(Encode, Decode)]\<close>, \<open>construct_runtime!\<close> and \<open>impl_opaque_keys!\<close> generate for the types this
  repository declares: proxy types, currencies, session keys, and the calls of both runtimes. A variant is encoded as
  its index followed by its arguments, a structure as its fields; the index of a call is that of its pallet. This layout
  (\<open>encode_call\<close>, \<open>decode_call\<close>) is the documented one of SCALE; the repository contributes the tables of
  pallets and variants. How a pallet encodes its own calls is a parameter.
\<close>

section \<open>The contract of a codec\<close>

text \<open>
  An encoded value can be decoded from the front of a longer input, with the rest left over; \<open>ok\<close> is what a codec presumes
  of those it is made of.
\<close>

record 'a codec =
  encode :: "'a \<Rightarrow> u8 list"
  decode :: "u8 list \<Rightarrow> ('a \<times> u8 list) option"

definition codec_law :: "('a, 'z) codec_scheme \<Rightarrow> bool" where
  "codec_law C \<longleftrightarrow> (\<forall>x rest. decode C (encode C x @ rest) = Some (x, rest))"

lemma codec_lawD: "codec_law C \<Longrightarrow> decode C (encode C x @ rest) = Some (x, rest)"
  by (simp add: codec_law_def)

locale scale_codec =
  fixes ok :: bool
    and enc :: "'a \<Rightarrow> u8 list"
    and dec :: "u8 list \<Rightarrow> ('a \<times> u8 list) option"
  assumes dec_enc: "ok \<Longrightarrow> dec (enc x @ rest) = Some (x, rest)"
begin

lemma dec_enc_all: "ok \<Longrightarrow> dec (enc x) = Some (x, [])"
  using dec_enc [of x "[]"] by simp

lemma prefix_free: "ok \<Longrightarrow> enc x @ r = enc y @ s \<Longrightarrow> x = y \<and> r = s"
  by (metis dec_enc option.inject prod.inject)

lemma enc_inj: "ok \<Longrightarrow> enc x = enc y \<Longrightarrow> x = y"
  using prefix_free [of x "[]" y "[]"] by simp

end

section \<open>Proxy types, currencies and session keys\<close>

definition ProxyType_encode :: "ProxyType \<Rightarrow> u8 list" where
  "ProxyType_encode t = [of_nat (proxy_type_index t)]"

definition ProxyType_decode :: "u8 list \<Rightarrow> (ProxyType \<times> u8 list) option" where
  "ProxyType_decode bs =
     (case bs of
        [] \<Rightarrow> None
      | i # rest \<Rightarrow>
          if i = 0 then Some (Any, rest) else if i = 1 then Some (NonTransfer, rest)
          else if i = 2 then Some (Governance, rest) else if i = 3 then Some (CancelProxy, rest) else None)"

definition CurrencyId_encode :: "CurrencyId \<Rightarrow> u8 list" where
  "CurrencyId_encode c = (case c of TEER \<Rightarrow> [0])"

definition CurrencyId_decode :: "u8 list \<Rightarrow> (CurrencyId \<times> u8 list) option" where
  "CurrencyId_decode bs = (case bs of [] \<Rightarrow> None | i # rest \<Rightarrow> if i = 0 then Some (TEER, rest) else None)"

definition shell_CurrencyId_encode :: "ShellCurrencyId \<Rightarrow> u8 list" where
  "shell_CurrencyId_encode c = (case c of ShellTEER \<Rightarrow> [0])"

definition shell_CurrencyId_decode :: "u8 list \<Rightarrow> (ShellCurrencyId \<times> u8 list) option" where
  "shell_CurrencyId_decode bs = (case bs of [] \<Rightarrow> None | i # rest \<Rightarrow> if i = 0 then Some (ShellTEER, rest) else None)"

record 'k SessionKeys =
  aura :: 'k

definition SessionKeys_encode :: "('k, 'z) codec_scheme \<Rightarrow> 'k SessionKeys \<Rightarrow> u8 list" where
  "SessionKeys_encode A k = encode A (aura k)"

definition SessionKeys_decode :: "('k, 'z) codec_scheme \<Rightarrow> u8 list \<Rightarrow> ('k SessionKeys \<times> u8 list) option" where
  "SessionKeys_decode A bs = map_option (\<lambda>(k, rest). (\<lparr>aura = k\<rparr>, rest)) (decode A bs)"

interpretation proxy_type: scale_codec True ProxyType_encode ProxyType_decode
proof
  fix t rest
  show "ProxyType_decode (ProxyType_encode t @ rest) = Some (t, rest)"
    by (cases t) (simp_all add: ProxyType_encode_def ProxyType_decode_def)
qed

interpretation currency_id: scale_codec True CurrencyId_encode CurrencyId_decode
  by unfold_locales (simp add: CurrencyId_encode_def CurrencyId_decode_def split: CurrencyId.split)

interpretation shell_currency_id: scale_codec True shell_CurrencyId_encode shell_CurrencyId_decode
  by unfold_locales (simp add: shell_CurrencyId_encode_def shell_CurrencyId_decode_def split: ShellCurrencyId.split)

interpretation session_keys: scale_codec "codec_law A" "SessionKeys_encode A" "SessionKeys_decode A" for A
  by unfold_locales (simp add: SessionKeys_encode_def SessionKeys_decode_def codec_lawD)

text \<open>
  Of one byte, as \<open>MaxEncodedLen\<close> says; and the only inputs that decode to a proxy type begin with its index, so a stored
  type is never misread.
\<close>

lemma ProxyType_decode_iff: "ProxyType_decode bs = Some (t, rest) \<longleftrightarrow> bs = ProxyType_encode t @ rest"
  by (cases bs; cases t) (auto simp: ProxyType_decode_def ProxyType_encode_def)

lemma ProxyType_encoded_len: "length (ProxyType_encode t) = 1"
  by (simp add: ProxyType_encode_def)

section \<open>Calls of the full runtime\<close>

text \<open>
  The pallet a call belongs to, the encoding of the pallet's own call, and the decoders of the pallets that have calls.
  \<open>P\<close> gives the codec of a pallet's calls by the pallet's name, \<open>Q\<close> that of the proxy pallet.
\<close>

primrec call_pallet :: "'c RuntimeCall \<Rightarrow> string" where
  "call_pallet (System x) = ''System''"
| "call_pallet (ParachainSystem x) = ''ParachainSystem''"
| "call_pallet (Timestamp x) = ''Timestamp''"
| "call_pallet (Preimage x) = ''Preimage''"
| "call_pallet (Multisig x) = ''Multisig''"
| "call_pallet (Proxy x) = ''Proxy''"
| "call_pallet (Scheduler x) = ''Scheduler''"
| "call_pallet (Utility x) = ''Utility''"
| "call_pallet (Balances x) = ''Balances''"
| "call_pallet (Vesting x) = ''Vesting''"
| "call_pallet (Treasury x) = ''Treasury''"
| "call_pallet (Democracy x) = ''Democracy''"
| "call_pallet (Council x) = ''Council''"
| "call_pallet (TechnicalCommittee x) = ''TechnicalCommittee''"
| "call_pallet (Bounties x) = ''Bounties''"
| "call_pallet (ChildBounties x) = ''ChildBounties''"
| "call_pallet (XcmpQueue x) = ''XcmpQueue''"
| "call_pallet (PolkadotXcm x) = ''PolkadotXcm''"
| "call_pallet (CumulusXcm x) = ''CumulusXcm''"
| "call_pallet (DmpQueue x) = ''DmpQueue''"
| "call_pallet (XTokens x) = ''XTokens''"
| "call_pallet (OrmlXcm x) = ''OrmlXcm''"
| "call_pallet (XcmTransactor x) = ''XcmTransactor''"
| "call_pallet (Teerex x) = ''Teerex''"
| "call_pallet (Claims x) = ''Claims''"
| "call_pallet (Teeracle x) = ''Teeracle''"
| "call_pallet (Sidechain x) = ''Sidechain''"
| "call_pallet (EnclaveBridge x) = ''EnclaveBridge''"

primrec call_body :: "(string \<Rightarrow> 'c codec) \<Rightarrow> 'c proxy_call codec \<Rightarrow> 'c RuntimeCall \<Rightarrow> u8 list" where
  "call_body P Q (System x) = encode (P ''System'') x"
| "call_body P Q (ParachainSystem x) = encode (P ''ParachainSystem'') x"
| "call_body P Q (Timestamp x) = encode (P ''Timestamp'') x"
| "call_body P Q (Preimage x) = encode (P ''Preimage'') x"
| "call_body P Q (Multisig x) = encode (P ''Multisig'') x"
| "call_body P Q (Proxy x) = encode Q x"
| "call_body P Q (Scheduler x) = encode (P ''Scheduler'') x"
| "call_body P Q (Utility x) = encode (P ''Utility'') x"
| "call_body P Q (Balances x) = encode (P ''Balances'') x"
| "call_body P Q (Vesting x) = encode (P ''Vesting'') x"
| "call_body P Q (Treasury x) = encode (P ''Treasury'') x"
| "call_body P Q (Democracy x) = encode (P ''Democracy'') x"
| "call_body P Q (Council x) = encode (P ''Council'') x"
| "call_body P Q (TechnicalCommittee x) = encode (P ''TechnicalCommittee'') x"
| "call_body P Q (Bounties x) = encode (P ''Bounties'') x"
| "call_body P Q (ChildBounties x) = encode (P ''ChildBounties'') x"
| "call_body P Q (XcmpQueue x) = encode (P ''XcmpQueue'') x"
| "call_body P Q (PolkadotXcm x) = encode (P ''PolkadotXcm'') x"
| "call_body P Q (CumulusXcm x) = encode (P ''CumulusXcm'') x"
| "call_body P Q (DmpQueue x) = encode (P ''DmpQueue'') x"
| "call_body P Q (XTokens x) = encode (P ''XTokens'') x"
| "call_body P Q (OrmlXcm x) = encode (P ''OrmlXcm'') x"
| "call_body P Q (XcmTransactor x) = encode (P ''XcmTransactor'') x"
| "call_body P Q (Teerex x) = encode (P ''Teerex'') x"
| "call_body P Q (Claims x) = encode (P ''Claims'') x"
| "call_body P Q (Teeracle x) = encode (P ''Teeracle'') x"
| "call_body P Q (Sidechain x) = encode (P ''Sidechain'') x"
| "call_body P Q (EnclaveBridge x) = encode (P ''EnclaveBridge'') x"

definition decode_as :: "('a \<Rightarrow> 'b) \<Rightarrow> 'a codec \<Rightarrow> u8 list \<Rightarrow> ('b \<times> u8 list) option" where
  "decode_as f C bs = map_option (\<lambda>(x, rest). (f x, rest)) (decode C bs)"

definition call_variants ::
  "(string \<Rightarrow> 'c codec) \<Rightarrow> 'c proxy_call codec \<Rightarrow> (string \<times> (u8 list \<Rightarrow> ('c RuntimeCall \<times> u8 list) option)) list" where
  "call_variants P Q =
     [(''System'', decode_as System (P ''System'')),
      (''ParachainSystem'', decode_as ParachainSystem (P ''ParachainSystem'')),
      (''Timestamp'', decode_as Timestamp (P ''Timestamp'')),
      (''Preimage'', decode_as Preimage (P ''Preimage'')),
      (''Multisig'', decode_as Multisig (P ''Multisig'')),
      (''Proxy'', decode_as Proxy Q),
      (''Scheduler'', decode_as Scheduler (P ''Scheduler'')),
      (''Utility'', decode_as Utility (P ''Utility'')),
      (''Balances'', decode_as Balances (P ''Balances'')),
      (''Vesting'', decode_as Vesting (P ''Vesting'')),
      (''Treasury'', decode_as Treasury (P ''Treasury'')),
      (''Democracy'', decode_as Democracy (P ''Democracy'')),
      (''Council'', decode_as Council (P ''Council'')),
      (''TechnicalCommittee'', decode_as TechnicalCommittee (P ''TechnicalCommittee'')),
      (''Bounties'', decode_as Bounties (P ''Bounties'')),
      (''ChildBounties'', decode_as ChildBounties (P ''ChildBounties'')),
      (''XcmpQueue'', decode_as XcmpQueue (P ''XcmpQueue'')),
      (''PolkadotXcm'', decode_as PolkadotXcm (P ''PolkadotXcm'')),
      (''CumulusXcm'', decode_as CumulusXcm (P ''CumulusXcm'')),
      (''DmpQueue'', decode_as DmpQueue (P ''DmpQueue'')),
      (''XTokens'', decode_as XTokens (P ''XTokens'')),
      (''OrmlXcm'', decode_as OrmlXcm (P ''OrmlXcm'')),
      (''XcmTransactor'', decode_as XcmTransactor (P ''XcmTransactor'')),
      (''Teerex'', decode_as Teerex (P ''Teerex'')),
      (''Claims'', decode_as Claims (P ''Claims'')),
      (''Teeracle'', decode_as Teeracle (P ''Teeracle'')),
      (''Sidechain'', decode_as Sidechain (P ''Sidechain'')),
      (''EnclaveBridge'', decode_as EnclaveBridge (P ''EnclaveBridge''))]"

text \<open>The pallet at an index, and a call as the index of its pallet followed by the pallet's call.\<close>

definition pallet_at :: "(string \<times> u8) list \<Rightarrow> u8 \<Rightarrow> string option" where
  "pallet_at ps i = map_of (map (\<lambda>(n, j). (j, n)) ps) i"

definition encode_call :: "(string \<times> u8) list \<Rightarrow> string \<Rightarrow> u8 list \<Rightarrow> u8 list" where
  "encode_call ps n body = (case map_of ps n of None \<Rightarrow> [] | Some i \<Rightarrow> i # body)"

definition decode_call ::
  "(string \<times> u8) list \<Rightarrow> (string \<times> (u8 list \<Rightarrow> ('b \<times> u8 list) option)) list \<Rightarrow> u8 list \<Rightarrow> ('b \<times> u8 list) option" where
  "decode_call ps variants bs =
     (case bs of
        [] \<Rightarrow> None
      | i # body \<Rightarrow> Option.bind (pallet_at ps i) (\<lambda>n. Option.bind (map_of variants n) (\<lambda>d. d body)))"

definition RuntimeCall_encode :: "(string \<Rightarrow> 'c codec) \<Rightarrow> 'c proxy_call codec \<Rightarrow> 'c RuntimeCall \<Rightarrow> u8 list" where
  "RuntimeCall_encode P Q c = encode_call runtime_pallets (call_pallet c) (call_body P Q c)"

definition RuntimeCall_decode ::
  "(string \<Rightarrow> 'c codec) \<Rightarrow> 'c proxy_call codec \<Rightarrow> u8 list \<Rightarrow> ('c RuntimeCall \<times> u8 list) option" where
  "RuntimeCall_decode P Q bs = decode_call runtime_pallets (call_variants P Q) bs"

section \<open>Calls of the shell runtime\<close>

text \<open>\<open>V\<close> is the codec of the vesting pallet, whose calls the shell's filter looks into.\<close>

primrec shell_call_pallet :: "'c ShellCall \<Rightarrow> string" where
  "shell_call_pallet (ShellSystem x) = ''System''"
| "shell_call_pallet (ShellParachainSystem x) = ''ParachainSystem''"
| "shell_call_pallet (ShellTimestamp x) = ''Timestamp''"
| "shell_call_pallet (ShellSudo x) = ''Sudo''"
| "shell_call_pallet (ShellBalances x) = ''Balances''"
| "shell_call_pallet (ShellVesting x) = ''Vesting''"
| "shell_call_pallet (ShellXcmpQueue x) = ''XcmpQueue''"
| "shell_call_pallet (ShellPolkadotXcm x) = ''PolkadotXcm''"
| "shell_call_pallet (ShellCumulusXcm x) = ''CumulusXcm''"
| "shell_call_pallet (ShellDmpQueue x) = ''DmpQueue''"
| "shell_call_pallet (ShellXcmTransactor x) = ''XcmTransactor''"

primrec shell_call_body :: "(string \<Rightarrow> 'c codec) \<Rightarrow> 'c vesting_call codec \<Rightarrow> 'c ShellCall \<Rightarrow> u8 list" where
  "shell_call_body P V (ShellSystem x) = encode (P ''System'') x"
| "shell_call_body P V (ShellParachainSystem x) = encode (P ''ParachainSystem'') x"
| "shell_call_body P V (ShellTimestamp x) = encode (P ''Timestamp'') x"
| "shell_call_body P V (ShellSudo x) = encode (P ''Sudo'') x"
| "shell_call_body P V (ShellBalances x) = encode (P ''Balances'') x"
| "shell_call_body P V (ShellVesting x) = encode V x"
| "shell_call_body P V (ShellXcmpQueue x) = encode (P ''XcmpQueue'') x"
| "shell_call_body P V (ShellPolkadotXcm x) = encode (P ''PolkadotXcm'') x"
| "shell_call_body P V (ShellCumulusXcm x) = encode (P ''CumulusXcm'') x"
| "shell_call_body P V (ShellDmpQueue x) = encode (P ''DmpQueue'') x"
| "shell_call_body P V (ShellXcmTransactor x) = encode (P ''XcmTransactor'') x"

definition shell_call_variants ::
  "(string \<Rightarrow> 'c codec) \<Rightarrow> 'c vesting_call codec \<Rightarrow> (string \<times> (u8 list \<Rightarrow> ('c ShellCall \<times> u8 list) option)) list" where
  "shell_call_variants P V =
     [(''System'', decode_as ShellSystem (P ''System'')),
      (''ParachainSystem'', decode_as ShellParachainSystem (P ''ParachainSystem'')),
      (''Timestamp'', decode_as ShellTimestamp (P ''Timestamp'')),
      (''Sudo'', decode_as ShellSudo (P ''Sudo'')),
      (''Balances'', decode_as ShellBalances (P ''Balances'')),
      (''Vesting'', decode_as ShellVesting V),
      (''XcmpQueue'', decode_as ShellXcmpQueue (P ''XcmpQueue'')),
      (''PolkadotXcm'', decode_as ShellPolkadotXcm (P ''PolkadotXcm'')),
      (''CumulusXcm'', decode_as ShellCumulusXcm (P ''CumulusXcm'')),
      (''DmpQueue'', decode_as ShellDmpQueue (P ''DmpQueue'')),
      (''XcmTransactor'', decode_as ShellXcmTransactor (P ''XcmTransactor''))]"

definition shell_RuntimeCall_encode :: "(string \<Rightarrow> 'c codec) \<Rightarrow> 'c vesting_call codec \<Rightarrow> 'c ShellCall \<Rightarrow> u8 list" where
  "shell_RuntimeCall_encode P V c = encode_call shell_runtime_pallets (shell_call_pallet c) (shell_call_body P V c)"

definition shell_RuntimeCall_decode ::
  "(string \<Rightarrow> 'c codec) \<Rightarrow> 'c vesting_call codec \<Rightarrow> u8 list \<Rightarrow> ('c ShellCall \<times> u8 list) option" where
  "shell_RuntimeCall_decode P V bs = decode_call shell_runtime_pallets (shell_call_variants P V) bs"

section \<open>Round trips\<close>

lemma decode_as_encode: "codec_law C \<Longrightarrow> decode_as f C (encode C x @ rest) = Some (f x, rest)"
  by (simp add: decode_as_def codec_lawD)

lemma decode_encode_call:
  assumes "map_of ps n = Some i" "distinct (map snd ps)" "map_of variants n = Some d"
  shows "decode_call ps variants (encode_call ps n body @ rest) = d (body @ rest)"
proof -
  have "(n, i) \<in> set ps" using assms(1) by (rule map_of_SomeD)
  with assms(2) have "pallet_at ps i = Some n"
    unfolding pallet_at_def
    by (intro map_of_is_SomeI) (simp add: comp_def case_prod_beta, force)
  with assms(1,3) show ?thesis by (simp add: decode_call_def encode_call_def)
qed

lemma pallets_distinct: "distinct (map snd runtime_pallets)" "distinct (map snd shell_runtime_pallets)"
  by (simp_all add: runtime_pallets_def shell_runtime_pallets_def)

definition call_codecs :: "(string \<Rightarrow> 'c codec) \<Rightarrow> 'd codec \<Rightarrow> bool" where
  "call_codecs P Q \<longleftrightarrow> (\<forall>n. codec_law (P n)) \<and> codec_law Q"

lemma call_codecsD: "call_codecs P Q \<Longrightarrow> codec_law (P n)" "call_codecs P Q \<Longrightarrow> codec_law Q"
  by (simp_all add: call_codecs_def)

text \<open>Every call belongs to a pallet of \<open>construct_runtime!\<close>, and to a decoder of that pallet's calls.\<close>

lemma call_known:
  "\<exists>i. map_of runtime_pallets (call_pallet c) = Some i"
  "\<exists>d. map_of (call_variants P Q) (call_pallet c) = Some d \<and>
     (call_codecs P Q \<longrightarrow> (\<forall>rest. d (call_body P Q c @ rest) = Some (c, rest)))"
  by (cases c; simp add: runtime_pallets_def)
     (cases c; simp add: call_variants_def decode_as_encode call_codecsD)

lemma shell_call_known:
  "\<exists>i. map_of shell_runtime_pallets (shell_call_pallet c) = Some i"
  "\<exists>d. map_of (shell_call_variants P V) (shell_call_pallet c) = Some d \<and>
     (call_codecs P V \<longrightarrow> (\<forall>rest. d (shell_call_body P V c @ rest) = Some (c, rest)))"
  by (cases c; simp add: shell_runtime_pallets_def)
     (cases c; simp add: shell_call_variants_def decode_as_encode call_codecsD)

interpretation runtime_call: scale_codec "call_codecs P Q" "RuntimeCall_encode P Q" "RuntimeCall_decode P Q" for P Q
proof
  fix c rest
  assume "call_codecs P Q"
  with call_known(2) [of P Q c] obtain d where "map_of (call_variants P Q) (call_pallet c) = Some d"
    "d (call_body P Q c @ rest) = Some (c, rest)" by blast
  with call_known(1) [of c] show "RuntimeCall_decode P Q (RuntimeCall_encode P Q c @ rest) = Some (c, rest)"
    unfolding RuntimeCall_decode_def RuntimeCall_encode_def using decode_encode_call [OF _ pallets_distinct(1)] by fastforce
qed

interpretation shell_call: scale_codec "call_codecs P V" "shell_RuntimeCall_encode P V" "shell_RuntimeCall_decode P V" for P V
proof
  fix c rest
  assume "call_codecs P V"
  with shell_call_known(2) [of P V c] obtain d where "map_of (shell_call_variants P V) (shell_call_pallet c) = Some d"
    "d (shell_call_body P V c @ rest) = Some (c, rest)" by blast
  with shell_call_known(1) [of c] show "shell_RuntimeCall_decode P V (shell_RuntimeCall_encode P V c @ rest) = Some (c, rest)"
    unfolding shell_RuntimeCall_decode_def shell_RuntimeCall_encode_def
    using decode_encode_call [OF _ pallets_distinct(2)] by fastforce
qed

text \<open>
  The call of the full runtime that a call of the shell stands for, where there is one. \<open>vest\<close> forgets which call of the
  vesting pallet it is, which only the shell's filter asks.
\<close>

primrec full_call :: "('c vesting_call \<Rightarrow> 'c) \<Rightarrow> 'c ShellCall \<Rightarrow> 'c RuntimeCall option" where
  "full_call vest (ShellSystem x) = Some (System x)"
| "full_call vest (ShellParachainSystem x) = Some (ParachainSystem x)"
| "full_call vest (ShellTimestamp x) = Some (Timestamp x)"
| "full_call vest (ShellSudo x) = None"
| "full_call vest (ShellBalances x) = Some (Balances x)"
| "full_call vest (ShellVesting x) = Some (Vesting (vest x))"
| "full_call vest (ShellXcmpQueue x) = Some (XcmpQueue x)"
| "full_call vest (ShellPolkadotXcm x) = Some (PolkadotXcm x)"
| "full_call vest (ShellCumulusXcm x) = Some (CumulusXcm x)"
| "full_call vest (ShellDmpQueue x) = Some (DmpQueue x)"
| "full_call vest (ShellXcmTransactor x) = None"

section \<open>Properties\<close>

text \<open>
  Calls of either runtime are encoded unambiguously: decoding the encoding of a call gives back the call and leaves what follows it,
  so different calls never have the same bytes, nor one the beginning of another's. The first byte
  is the index of the pallet; the empty input, an index of no pallet, and that of a pallet without calls (such as Aura) are refused.
\<close>

lemma call_round_trip:
  assumes "call_codecs P Q" "call_codecs P V"
  shows "RuntimeCall_decode P Q (RuntimeCall_encode P Q c @ rest) = Some (c, rest) \<and>
    shell_RuntimeCall_decode P V (shell_RuntimeCall_encode P V s @ rest) = Some (s, rest) \<and>
    (RuntimeCall_encode P Q c @ rest = RuntimeCall_encode P Q c' @ rest' \<longrightarrow> c = c' \<and> rest = rest') \<and>
    RuntimeCall_decode P Q [] = None \<and>
    (RuntimeCall_decode P Q (i # bs) \<noteq> None \<longrightarrow>
      (\<exists>n. (n, i) \<in> set runtime_pallets \<and> n \<notin> {''ParachainInfo'', ''TransactionPayment'', ''Aura'', ''AuraExt''}))"
proof -
  have "\<exists>n. (n, i) \<in> set runtime_pallets \<and> n \<notin> {''ParachainInfo'', ''TransactionPayment'', ''Aura'', ''AuraExt''}"
    if "RuntimeCall_decode P Q (i # bs) \<noteq> None"
  proof -
    from that obtain n d where n: "pallet_at runtime_pallets i = Some n" "map_of (call_variants P Q) n = Some d"
      by (auto simp: RuntimeCall_decode_def decode_call_def split: option.splits Option.bind_splits)
    from n(1) have "(n, i) \<in> set runtime_pallets" unfolding pallet_at_def by (auto dest: map_of_SomeD)
    moreover have "n \<notin> {''ParachainInfo'', ''TransactionPayment'', ''Aura'', ''AuraExt''}"
      using n(2) by (auto simp: call_variants_def)
    ultimately show ?thesis by blast
  qed
  then show ?thesis
    using runtime_call.dec_enc [OF assms(1)] shell_call.dec_enc [OF assms(2)]
      runtime_call.prefix_free [OF assms(1), of c rest c' rest']
    by (simp add: RuntimeCall_decode_def [of P Q "[]"] decode_call_def)
qed

text \<open>
  C33. What becomes of encoded calls (those others have stored or send to the chain by XCM) when the shell is replaced by
  the full runtime: the bytes of a shell call mean the same call of the same pallet, whatever follows
  them, with two exceptions. Those of a call of the XCM transactor are then read as a call of XTokens, and those of
  a superuser call as one of the preimage pallet, if they can be read at all.
\<close>

theorem calls_across_upgrade:
  assumes "call_codecs P Q" "\<forall>v. encode V v = encode (P ''Vesting'') (vest v)"
  shows "(full_call vest s = Some c \<longrightarrow> RuntimeCall_decode P Q (shell_RuntimeCall_encode P V s @ rest) = Some (c, rest)) \<and>
    (full_call vest s = None \<longleftrightarrow> (\<exists>x. s = ShellXcmTransactor x \<or> s = ShellSudo x)) \<and>
    RuntimeCall_decode P Q (shell_RuntimeCall_encode P V (ShellXcmTransactor x) @ rest) =
      map_option (\<lambda>(y, rest). (XTokens y, rest)) (decode (P ''XTokens'') (encode (P ''XcmTransactor'') x @ rest)) \<and>
    RuntimeCall_decode P Q (shell_RuntimeCall_encode P V (ShellSudo x) @ rest) =
      map_option (\<lambda>(y, rest). (Preimage y, rest)) (decode (P ''Preimage'') (encode (P ''Sudo'') x @ rest))"
proof (intro conjI impI)
  note eval = RuntimeCall_decode_def decode_call_def shell_RuntimeCall_encode_def encode_call_def pallet_at_def
    shell_runtime_pallets_def runtime_pallets_def call_variants_def
  show "RuntimeCall_decode P Q (shell_RuntimeCall_encode P V s @ rest) = Some (c, rest)" if "full_call vest s = Some c"
    using that assms(2)
    by (cases s) (auto simp: eval decode_as_encode call_codecsD(1) [OF assms(1)])
  show "full_call vest s = None \<longleftrightarrow> (\<exists>x. s = ShellXcmTransactor x \<or> s = ShellSudo x)"
    by (cases s) auto
qed (simp_all add: RuntimeCall_decode_def decode_call_def shell_RuntimeCall_encode_def encode_call_def pallet_at_def
    shell_runtime_pallets_def runtime_pallets_def call_variants_def decode_as_def)

subsection \<open>Concrete codecs\<close>

definition byte_codec :: "u8 codec" where
  "byte_codec = \<lparr>encode = (\<lambda>x. [x]), decode = (\<lambda>bs. case bs of [] \<Rightarrow> None | b # rest \<Rightarrow> Some (b, rest))\<rparr>"

definition byte_proxy_codec :: "u8 proxy_call codec" where
  "byte_proxy_codec = \<lparr>encode = (\<lambda>x. case x of reject_announcement y \<Rightarrow> [5, y] | other_proxy_call y \<Rightarrow> [0, y]),
     decode = (\<lambda>bs. case bs of i # y # rest \<Rightarrow>
       if i = 5 then Some (reject_announcement y, rest) else if i = 0 then Some (other_proxy_call y, rest) else None | _ \<Rightarrow> None)\<rparr>"

definition byte_vesting_codec :: "u8 vesting_call codec" where
  "byte_vesting_codec = \<lparr>encode = (\<lambda>x. case x of vested_transfer y \<Rightarrow> [2, y] | other_vesting_call y \<Rightarrow> [0, y]),
     decode = (\<lambda>bs. case bs of i # y # rest \<Rightarrow>
       if i = 2 then Some (vested_transfer y, rest) else if i = 0 then Some (other_vesting_call y, rest) else None | _ \<Rightarrow> None)\<rparr>"

lemma byte_codecs:
  "call_codecs (\<lambda>_. byte_codec) byte_proxy_codec" "call_codecs (\<lambda>_. byte_codec) byte_vesting_codec"
  by (auto simp: call_codecs_def codec_law_def byte_codec_def byte_proxy_codec_def byte_vesting_codec_def
      split: proxy_call.split vesting_call.split)

lemma call_round_trip_witness:
  "RuntimeCall_encode (\<lambda>_. byte_codec) byte_proxy_codec (Proxy (reject_announcement 9)) = [7, 5, 9] \<and>
   RuntimeCall_decode (\<lambda>_. byte_codec) byte_proxy_codec [7, 5, 9, 1] = Some (Proxy (reject_announcement 9), [1])"
proof -
  have e: "RuntimeCall_encode (\<lambda>_. byte_codec) byte_proxy_codec (Proxy (reject_announcement 9)) = [7, 5, 9]"
    by (simp add: RuntimeCall_encode_def encode_call_def runtime_pallets_def byte_proxy_codec_def)
  with call_round_trip [OF byte_codecs, of "Proxy (reject_announcement 9)" "[1]"] show ?thesis by simp
qed

definition plain_vesting_codec :: "u8 vesting_call codec" where
  "plain_vesting_codec = byte_vesting_codec\<lparr>encode := case_vesting_call (encode byte_codec) (encode byte_codec)\<rparr>"

theorem calls_across_upgrade_witness:
  "RuntimeCall_decode (\<lambda>_. byte_codec) byte_proxy_codec
     (shell_RuntimeCall_encode (\<lambda>_. byte_codec) plain_vesting_codec (ShellBalances 4) @ [1]) = Some (Balances 4, [1]) \<and>
   RuntimeCall_decode (\<lambda>_. byte_codec) byte_proxy_codec
     (shell_RuntimeCall_encode (\<lambda>_. byte_codec) plain_vesting_codec (ShellXcmTransactor 0) @ [1]) = Some (XTokens 0, [1])"
proof -
  have v: "\<forall>v. encode plain_vesting_codec v = encode byte_codec (case_vesting_call id id v)"
    by (simp add: plain_vesting_codec_def split: vesting_call.split)
  show ?thesis
    using calls_across_upgrade [OF byte_codecs(1) v, of "ShellBalances 4" "Balances 4" "[1]" 0] by (simp add: byte_codec_def)
qed

end
