(* ===== verification/Consensus.thy ===== *)
theory Consensus
  imports Shell_Runtime
begin

text \<open>
  \<open>polkadot-parachains/src/service.rs\<close>, the part that switches a node from relay chain consensus to
  Aura: \<open>BuildOnAccess\<close>, \<open>WaitForAuraConsensus\<close> and \<open>Verifier\<close>. The consensus engines, the verifiers
  and the runtime API query are other crates: they are parameters. The two users of
  \<open>BuildOnAccess\<close> share the contract \<open>lazy_switch\<close>.
\<close>

section \<open>Building on first access\<close>

text \<open>
  A closure that may panic when it runs, or the value it built. Taking the closure out leaves
  \<open>Uninitialized None\<close> behind until the assignment, also when the closure panics.
\<close>

datatype 'r BuildOnAccess = Uninitialized "(unit \<Rightarrow> 'r outcome) option" | Initialized 'r

definition unwrap_none :: string where
  "unwrap_none = ''called `Option::unwrap()` on a `None` value''"

text \<open>\<open>get_mut\<close> as the loop it is: each turn either initializes the value or returns it.\<close>

function get_mut :: "'r BuildOnAccess \<Rightarrow> 'r outcome \<times> 'r BuildOnAccess" where
  "get_mut (Uninitialized None) = (Panic unwrap_none, Uninitialized None)"
| "get_mut (Uninitialized (Some f)) =
     (case f () of
        Panic m \<Rightarrow> (Panic m, Uninitialized None)
      | Ret r \<Rightarrow> get_mut (Initialized r))"
| "get_mut (Initialized r) = (Ret r, Initialized r)"
  by pat_completeness auto

termination get_mut
  by (relation "measure (\<lambda>b. case b of Uninitialized _ \<Rightarrow> 1 | Initialized _ \<Rightarrow> 0)") auto

text \<open>The three outcomes in closed form, and that a second access returns what the first one did.\<close>

lemma get_mut_eq:
  "get_mut b =
     (case b of
        Initialized r \<Rightarrow> (Ret r, b)
      | Uninitialized None \<Rightarrow> (Panic unwrap_none, Uninitialized None)
      | Uninitialized (Some f) \<Rightarrow>
          (case f () of Panic m \<Rightarrow> (Panic m, Uninitialized None) | Ret r \<Rightarrow> (Ret r, Initialized r)))"
  by (cases b rule: get_mut.cases) (auto split: outcome.split)

lemma get_mut_Ret: "get_mut b = (Ret r, b') \<Longrightarrow> b' = Initialized r"
  by (auto simp: get_mut_eq split: BuildOnAccess.splits option.splits outcome.splits)

lemma get_mut_Panic: "get_mut b = (Panic m, b') \<Longrightarrow> b' = Uninitialized None"
  by (auto simp: get_mut_eq split: BuildOnAccess.splits option.splits outcome.splits)

text \<open>
  The body of the loop by itself: \<open>Inl\<close> goes round again with the new value, \<open>Inr\<close> leaves the loop. \<open>get_mut_loop\<close>
  is at most \<open>n\<close> turns of it.
\<close>

definition get_mut_turn :: "'r BuildOnAccess \<Rightarrow> 'r BuildOnAccess + 'r outcome \<times> 'r BuildOnAccess" where
  "get_mut_turn b =
     (case b of
        Uninitialized None \<Rightarrow> Inr (Panic unwrap_none, Uninitialized None)
      | Uninitialized (Some f) \<Rightarrow>
          (case f () of Panic m \<Rightarrow> Inr (Panic m, Uninitialized None) | Ret r \<Rightarrow> Inl (Initialized r))
      | Initialized r \<Rightarrow> Inr (Ret r, Initialized r))"

primrec get_mut_loop :: "nat \<Rightarrow> 'r BuildOnAccess \<Rightarrow> ('r outcome \<times> 'r BuildOnAccess) option" where
  "get_mut_loop 0 b = None"
| "get_mut_loop (Suc n) b = (case get_mut_turn b of Inl b' \<Rightarrow> get_mut_loop n b' | Inr res \<Rightarrow> Some res)"

text \<open>
  C15. The access loop always ends, at the latest in its second turn, whatever the state of the value and
  whatever its builder does; two turns are needed exactly when the builder is run and returns. What it
  then returns is the value of \<^const>\<open>get_mut\<close>, and from then on a single turn is enough.
\<close>

theorem get_mut_returns:
  "get_mut_loop (Suc (Suc n)) b = Some (get_mut b) \<and>
   (get_mut_loop 1 b = None \<longleftrightarrow> (\<exists>f r. b = Uninitialized (Some f) \<and> f () = Ret r)) \<and>
   get_mut_loop 1 (snd (get_mut b)) = Some (get_mut (snd (get_mut b)))"
  by (cases b rule: get_mut.cases) (auto simp: get_mut_turn_def split: outcome.split)

section \<open>The contract of a switch\<close>

text \<open>
  A component with a lazily built part \<open>aura\<close> and an ordinary part \<open>relay\<close>: every call goes to exactly
  one of them, depending on the call alone, and \<open>use\<close> is what either part does with it.
\<close>

locale lazy_switch =
  fixes step :: "'s \<Rightarrow> 'a \<Rightarrow> 'res outcome \<times> 's"
    and aura :: "'s \<Rightarrow> 'c BuildOnAccess"
    and relay :: "'s \<Rightarrow> 'c"
    and enabled :: "'s \<Rightarrow> 'a \<Rightarrow> bool"
    and use_part :: "'c \<Rightarrow> 'a \<Rightarrow> 'res \<times> 'c"
  assumes relay_step: "\<not> enabled s a \<Longrightarrow>
      fst (step s a) = Ret (fst (use_part (relay s) a)) \<and>
      aura (snd (step s a)) = aura s \<and> relay (snd (step s a)) = snd (use_part (relay s) a)"
    and aura_step: "enabled s a \<Longrightarrow> get_mut (aura s) = (Ret c, b) \<Longrightarrow>
      fst (step s a) = Ret (fst (use_part c a)) \<and>
      aura (snd (step s a)) = Initialized (snd (use_part c a)) \<and> relay (snd (step s a)) = relay s"
    and panic_step: "enabled s a \<Longrightarrow> get_mut (aura s) = (Panic m, b) \<Longrightarrow>
      fst (step s a) = Panic m \<and> aura (snd (step s a)) = b \<and> relay (snd (step s a)) = relay s"
    and enabled_step: "enabled (snd (step s a)) = enabled s"
begin

text \<open>A sequence of calls, in the order in which they take the lock.\<close>

primrec after :: "'s \<Rightarrow> 'a list \<Rightarrow> 's" where
  "after s [] = s"
| "after s (a # as) = after (snd (step s a)) as"

primrec feed :: "'c \<Rightarrow> 'a list \<Rightarrow> 'c" where
  "feed c [] = c"
| "feed c (a # as) = feed (snd (use_part c a)) as"

lemma after_foldl: "after s as = foldl (\<lambda>s a. snd (step s a)) s as"
  by (induction as arbitrary: s) simp_all

lemma feed_foldl: "feed c as = foldl (\<lambda>c a. snd (use_part c a)) c as"
  by (induction as arbitrary: c) simp_all

lemma after_enabled: "enabled (after s as) = enabled s"
  by (induction as arbitrary: s) (simp_all add: enabled_step)

lemma after_relay: "relay (after s as) = feed (relay s) (filter (\<lambda>a. \<not> enabled s a) as)"
proof (induction as arbitrary: s)
  case (Cons a as)
  show ?case
  proof (cases "enabled s a")
    case True
    then have "relay (snd (step s a)) = relay s"
      using aura_step [OF True] panic_step [OF True]
      by (cases "get_mut (aura s)"; cases "fst (get_mut (aura s))") auto
    with True show ?thesis by (simp add: Cons.IH enabled_step)
  qed (simp add: Cons.IH relay_step enabled_step)
qed simp

lemma after_initialized:
  "aura s = Initialized c \<Longrightarrow> aura (after s as) = Initialized (feed c (filter (enabled s) as))"
proof (induction as arbitrary: s c)
  case (Cons a as)
  show ?case
  proof (cases "enabled s a")
    case True
    then have "aura (snd (step s a)) = Initialized (snd (use_part c a))"
      using aura_step [OF True, of c] Cons.prems by simp
    with True show ?thesis by (simp add: Cons.IH enabled_step)
  qed (use Cons in \<open>simp add: relay_step enabled_step\<close>)
qed simp

text \<open>The lazily built part is built once, at the first call that needs it, and sees just those calls.\<close>

lemma after_built_once:
  assumes "aura s = Uninitialized (Some f)" "f () = Ret c"
  shows "aura (after s as) =
    (if filter (enabled s) as = [] then Uninitialized (Some f) else Initialized (feed c (filter (enabled s) as)))"
  using assms(1)
proof (induction as arbitrary: s)
  case (Cons a as)
  show ?case
  proof (cases "enabled s a")
    case True
    then have "aura (snd (step s a)) = Initialized (snd (use_part c a))"
      using aura_step [OF True, of c] Cons.prems assms(2) by simp
    with True show ?thesis by (simp add: after_initialized enabled_step)
  qed (use Cons in \<open>simp add: relay_step enabled_step\<close>)
qed simp

text \<open>Every call is answered by the part it belongs to, in the state its earlier calls left it in.\<close>

lemma built_result:
  assumes "aura s = Uninitialized (Some f)" "f () = Ret c"
  shows "fst (step (after s as) a) =
    Ret (fst (use_part (if enabled s a then feed c (filter (enabled s) as)
      else feed (relay s) (filter (\<lambda>a. \<not> enabled s a) as)) a))"
proof (cases "enabled s a")
  case True
  have "get_mut (aura (after s as)) = (Ret (feed c (filter (enabled s) as)), Initialized (feed c (filter (enabled s) as)))"
    by (simp add: after_built_once [OF assms] assms(2))
  then show ?thesis
    using aura_step [of "after s as" a] True by (simp add: after_enabled)
qed (simp add: relay_step after_enabled after_relay)

text \<open>If building it panics, every call that needs it panics, and the others are not affected.\<close>

lemma after_poisoned:
  assumes "aura s = Uninitialized None"
  shows "aura (after s as) = Uninitialized None"
  using assms
proof (induction as arbitrary: s)
  case (Cons a as)
  have "aura (snd (step s a)) = Uninitialized None"
    using Cons.prems relay_step [of s a] panic_step [of s a unwrap_none] by (cases "enabled s a") simp_all
  then show ?case by (simp add: Cons.IH)
qed simp

lemma after_build_panics:
  assumes "aura s = Uninitialized (Some f)" "f () = Panic m"
  shows "aura (after s as) = (if filter (enabled s) as = [] then Uninitialized (Some f) else Uninitialized None)"
  using assms(1)
proof (induction as arbitrary: s)
  case (Cons a as)
  show ?case
  proof (cases "enabled s a")
    case True
    then have "aura (snd (step s a)) = Uninitialized None"
      using panic_step [OF True, of m] Cons.prems assms(2) by simp
    with True show ?thesis by (simp add: after_poisoned)
  qed (use Cons in \<open>simp add: relay_step enabled_step\<close>)
qed simp

lemma poisoned_panics: "aura s = Uninitialized None \<Longrightarrow> enabled s a \<Longrightarrow> fst (step s a) = Panic unwrap_none"
  using panic_step [of s a unwrap_none] by simp

lemma build_panics:
  assumes "aura s = Uninitialized (Some f)" "f () = Panic m" "enabled s a"
  shows "fst (step s a) = Panic m" "aura (snd (step s a)) = Uninitialized None"
  using panic_step [OF assms(3), of m] assms(1,2) by simp_all

end

section \<open>Waiting for Aura\<close>

text \<open>
  The parameters: \<open>has_api\<close> asks the runtime at a block whether it implements \<open>AuraApi\<close>, and \<open>produce\<close>
  is \<open>produce_candidate\<close> of a consensus engine, which may change the engine's state. The fields are
  shared by all clones of the structure, each behind a mutex, so the calls of all clones form one
  sequence.
\<close>

record ('hd, 'h, 'rp, 'vd, 'cand, 'c, 'e) consensus_lib =
  header_hash :: "'hd \<Rightarrow> 'h"
  has_api :: "'h \<Rightarrow> 'e + bool"
  produce :: "'c \<Rightarrow> 'hd \<Rightarrow> 'rp \<Rightarrow> 'vd \<Rightarrow> 'cand option \<times> 'c"

definition unwrap_or_false :: "'e + bool \<Rightarrow> bool" where
  "unwrap_or_false r = (case r of Inl _ \<Rightarrow> False | Inr b \<Rightarrow> b)"

record 'c WaitForAuraConsensus =
  aura_consensus :: "'c BuildOnAccess"
  relay_chain_consensus :: 'c

definition produce_candidate ::
  "('hd, 'h, 'rp, 'vd, 'cand, 'c, 'e, 'z) consensus_lib_scheme \<Rightarrow> 'c WaitForAuraConsensus \<Rightarrow>
   'hd \<times> 'rp \<times> 'vd \<Rightarrow> 'cand option outcome \<times> 'c WaitForAuraConsensus" where
  "produce_candidate L self = (\<lambda>(parent, relay_parent, validation_data).
     if unwrap_or_false (has_api L (header_hash L parent)) then
       (case get_mut (aura_consensus self) of
          (Panic m, b) \<Rightarrow> (Panic m, self\<lparr>aura_consensus := b\<rparr>)
        | (Ret c, b) \<Rightarrow>
            (case produce L c parent relay_parent validation_data of
               (r, c') \<Rightarrow> (Ret r, self\<lparr>aura_consensus := Initialized c'\<rparr>)))
     else
       (case produce L (relay_chain_consensus self) parent relay_parent validation_data of
          (r, c') \<Rightarrow> (Ret r, self\<lparr>relay_chain_consensus := c'\<rparr>)))"

definition parent_has_aura ::
  "('hd, 'h, 'rp, 'vd, 'cand, 'c, 'e, 'z) consensus_lib_scheme \<Rightarrow> 'hd \<times> 'rp \<times> 'vd \<Rightarrow> bool" where
  "parent_has_aura L a = unwrap_or_false (has_api L (header_hash L (fst a)))"

interpretation wait: lazy_switch "produce_candidate L" aura_consensus relay_chain_consensus
  "\<lambda>_. parent_has_aura L" "\<lambda>c (p, r, v). produce L c p r v"
  by unfold_locales
     (auto simp: produce_candidate_def parent_has_aura_def split: prod.split outcome.split)

section \<open>Verifying imported blocks\<close>

record ('bp, 'h, 'v, 'e) verifier_lib =
  parent_hash :: "'bp \<Rightarrow> 'h"
  v_has_api :: "'h \<Rightarrow> 'e + bool"
  verify_with :: "'v \<Rightarrow> 'bp \<Rightarrow> (string + 'bp) \<times> 'v"

record 'v Verifier =
  aura_verifier :: "'v BuildOnAccess"
  relay_chain_verifier :: 'v

definition verify ::
  "('bp, 'h, 'v, 'e, 'z) verifier_lib_scheme \<Rightarrow> 'v Verifier \<Rightarrow> 'bp \<Rightarrow> (string + 'bp) outcome \<times> 'v Verifier" where
  "verify L self block_import =
     (if unwrap_or_false (v_has_api L (parent_hash L block_import)) then
        (case get_mut (aura_verifier self) of
           (Panic m, b) \<Rightarrow> (Panic m, self\<lparr>aura_verifier := b\<rparr>)
         | (Ret v, b) \<Rightarrow>
             (case verify_with L v block_import of
                (r, v') \<Rightarrow> (Ret r, self\<lparr>aura_verifier := Initialized v'\<rparr>)))
      else
        (case verify_with L (relay_chain_verifier self) block_import of
           (r, v') \<Rightarrow> (Ret r, self\<lparr>relay_chain_verifier := v'\<rparr>)))"

definition block_has_aura :: "('bp, 'h, 'v, 'e, 'z) verifier_lib_scheme \<Rightarrow> 'bp \<Rightarrow> bool" where
  "block_has_aura L bp = unwrap_or_false (v_has_api L (parent_hash L bp))"

interpretation verifier: lazy_switch "verify L" aura_verifier relay_chain_verifier
  "\<lambda>_. block_has_aura L" "verify_with L"
  by unfold_locales (auto simp: verify_def block_has_aura_def split: prod.split outcome.split)

section \<open>Properties\<close>

text \<open>
  Over any sequence of calls from any clones, the Aura engine is built at
  most once, at the first call whose parent block's runtime implements Aura; from then on it is
  the same engine, which has seen exactly the calls for such parents and in their order, while the
  relay chain engine has seen exactly the others. A call is answered by the engine it belongs to,
  in the state its earlier calls left it in; none is lost, duplicated or sent to both.
\<close>

lemma aura_consensus_built_once:
  assumes "aura_consensus w = Uninitialized (Some f)" "f () = Ret c"
  shows "aura_consensus (foldl (\<lambda>w a. snd (produce_candidate L w a)) w calls) =
      (if filter (parent_has_aura L) calls = [] then Uninitialized (Some f)
       else Initialized (foldl (\<lambda>c (p, r, v). snd (produce L c p r v)) c (filter (parent_has_aura L) calls))) \<and>
    relay_chain_consensus (foldl (\<lambda>w a. snd (produce_candidate L w a)) w calls) =
      foldl (\<lambda>c (p, r, v). snd (produce L c p r v)) (relay_chain_consensus w)
        (filter (\<lambda>a. \<not> parent_has_aura L a) calls) \<and>
    fst (produce_candidate L (foldl (\<lambda>w a. snd (produce_candidate L w a)) w calls) (p, r, v)) =
      Ret (fst (produce L (if parent_has_aura L (p, r, v)
        then foldl (\<lambda>c (p, r, v). snd (produce L c p r v)) c (filter (parent_has_aura L) calls)
        else foldl (\<lambda>c (p, r, v). snd (produce L c p r v)) (relay_chain_consensus w)
          (filter (\<lambda>a. \<not> parent_has_aura L a) calls)) p r v))"
  using wait.after_built_once [where s = w and f = f and c = c and L = L and as = calls, OF assms]
    wait.after_relay [where s = w and L = L and as = calls]
    wait.built_result [where s = w and f = f and c = c and L = L and as = calls and a = "(p, r, v)", OF assms]
  unfolding wait.after_foldl wait.feed_foldl by (simp add: split_def)

text \<open>
  C14. Block import refines two independent verifiers fed with the blocks of either kind: the Aura verifier is built once, at the
  first block whose parent has the Aura API, and verifies exactly the blocks with such a parent, in
  their order; all others are verified by the relay chain verifier. Neither sees anything of the other's blocks.
\<close>

theorem verifier_built_once:
  assumes "aura_verifier w = Uninitialized (Some f)" "f () = Ret v"
  shows "aura_verifier (foldl (\<lambda>w a. snd (verify L w a)) w blocks) =
      (if filter (block_has_aura L) blocks = [] then Uninitialized (Some f)
       else Initialized (foldl (\<lambda>v b. snd (verify_with L v b)) v (filter (block_has_aura L) blocks))) \<and>
    relay_chain_verifier (foldl (\<lambda>w a. snd (verify L w a)) w blocks) =
      foldl (\<lambda>v b. snd (verify_with L v b)) (relay_chain_verifier w)
        (filter (\<lambda>b. \<not> block_has_aura L b) blocks) \<and>
    fst (verify L (foldl (\<lambda>w a. snd (verify L w a)) w blocks) b) =
      Ret (fst (verify_with L (if block_has_aura L b
        then foldl (\<lambda>v b. snd (verify_with L v b)) v (filter (block_has_aura L) blocks)
        else foldl (\<lambda>v b. snd (verify_with L v b)) (relay_chain_verifier w)
          (filter (\<lambda>b. \<not> block_has_aura L b) blocks)) b))"
  using verifier.after_built_once [where s = w and f = f and c = v and L = L and as = blocks, OF assms]
    verifier.after_relay [where s = w and L = L and as = blocks]
    verifier.built_result [where s = w and f = f and c = v and L = L and as = blocks and a = b, OF assms]
  by (simp add: verifier.after_foldl verifier.feed_foldl)

text \<open>
  If building the Aura verifier panics, the import of the first block that needs
  it panics with that message and the import of every later such block with the message of the
  empty slot, never silently accepting a block; blocks without the Aura API are still verified,
  as if nothing had happened.
\<close>

lemma verifier_poisoned:
  assumes "aura_verifier w = Uninitialized (Some f)" "f () = Panic m"
  shows "(block_has_aura L b \<longrightarrow>
      fst (verify L (foldl (\<lambda>w a. snd (verify L w a)) w blocks) b) =
        Panic (if filter (block_has_aura L) blocks = [] then m else unwrap_none)) \<and>
    (\<not> block_has_aura L b \<longrightarrow>
      fst (verify L (foldl (\<lambda>w a. snd (verify L w a)) w blocks) b) =
        Ret (fst (verify_with L (foldl (\<lambda>v b. snd (verify_with L v b)) (relay_chain_verifier w)
          (filter (\<lambda>b. \<not> block_has_aura L b) blocks)) b)))"
proof (intro conjI impI)
  let ?w = "foldl (\<lambda>w a. snd (verify L w a)) w blocks"
  note run = verifier.after_build_panics [where s = w and f = f and m = m and L = L and as = blocks, OF assms]
    verifier.after_relay [where s = w and L = L and as = blocks]
  show "fst (verify L ?w b) = Panic (if filter (block_has_aura L) blocks = [] then m else unwrap_none)"
    if "block_has_aura L b"
    using run verifier.build_panics [of ?w f m L b] verifier.poisoned_panics [of ?w L b] that assms(2)
    by (auto simp: verifier.after_foldl split: if_splits)
  show "fst (verify L ?w b) =
      Ret (fst (verify_with L (foldl (\<lambda>v b. snd (verify_with L v b)) (relay_chain_verifier w)
        (filter (\<lambda>b. \<not> block_has_aura L b) blocks)) b))"
    if "\<not> block_has_aura L b"
    using run verifier.relay_step [of L b ?w] that
    by (simp add: verifier.after_foldl verifier.feed_foldl)
qed

subsection \<open>Concrete switches\<close>

text \<open>
  Blocks are numbers, the runtime has the Aura API from block 10 on (and the query fails for block
  99), and engines count the calls they see.
\<close>

definition example_consensus :: "(nat, nat, unit, unit, nat, nat, unit) consensus_lib" where
  "example_consensus = \<lparr>header_hash = (\<lambda>h. h), has_api = (\<lambda>h. if h = 99 then Inl () else Inr (10 \<le> h)),
     produce = (\<lambda>c h _ _. (Some (h + c), c + 1))\<rparr>"

definition example_verifiers :: "(nat, nat, nat, unit) verifier_lib" where
  "example_verifiers = \<lparr>parent_hash = (\<lambda>h. h), v_has_api = (\<lambda>h. if h = 99 then Inl () else Inr (10 \<le> h)),
     verify_with = (\<lambda>v b. (Inr b, v + 1))\<rparr>"

lemma aura_consensus_built_once_witness:
  "aura_consensus (foldl (\<lambda>w a. snd (produce_candidate example_consensus w a))
      \<lparr>aura_consensus = Uninitialized (Some (\<lambda>_. Ret 100)), relay_chain_consensus = 0\<rparr>
      [(8, (), ()), (11, (), ()), (99, (), ()), (12, (), ())]) = Initialized 102"
  using aura_consensus_built_once [of
      "\<lparr>aura_consensus = Uninitialized (Some (\<lambda>_. Ret 100)), relay_chain_consensus = 0\<rparr>" "\<lambda>_. Ret 100" 100
      example_consensus "[(8, (), ()), (11, (), ()), (99, (), ()), (12, (), ())]"]
  by (simp add: parent_has_aura_def example_consensus_def unwrap_or_false_def)

theorem verifier_built_once_witness:
  "relay_chain_verifier (foldl (\<lambda>w a. snd (verify example_verifiers w a))
      \<lparr>aura_verifier = Uninitialized (Some (\<lambda>_. Ret 100)), relay_chain_verifier = 0\<rparr> [8, 11, 99, 12]) = 2"
  using verifier_built_once [of
      "\<lparr>aura_verifier = Uninitialized (Some (\<lambda>_. Ret 100)), relay_chain_verifier = 0\<rparr>" "\<lambda>_. Ret 100" 100
      example_verifiers "[8, 11, 99, 12]"]
  by (simp add: block_has_aura_def example_verifiers_def unwrap_or_false_def)

lemma verifier_poisoned_witness:
  "fst (verify example_verifiers (foldl (\<lambda>w a. snd (verify example_verifiers w a))
      \<lparr>aura_verifier = Uninitialized (Some (\<lambda>_. Panic ''no slot duration'')), relay_chain_verifier = 0\<rparr>
      [8, 11]) 12) = Panic unwrap_none"
  using verifier_poisoned [of
      "\<lparr>aura_verifier = Uninitialized (Some (\<lambda>_. Panic ''no slot duration'')), relay_chain_verifier = 0\<rparr>"
      "\<lambda>_. Panic ''no slot duration''" "''no slot duration''" example_verifiers 12 "[8, 11]"]
  by (simp add: block_has_aura_def example_verifiers_def unwrap_or_false_def)

end
