(* ===== verification/Consensus_Tasks.thy ===== *)
theory Consensus_Tasks
  imports Consensus
begin

text \<open>
  Concurrent use of \<open>WaitForAuraConsensus\<close> (\<open>service.rs\<close>). Its clones share the two engines, each behind an
  asynchronous mutex, and \<open>produce_candidate\<close> gives up control wherever it awaits: for the lock, and while the
  engine is producing. The theory interleaves any number of such calls step by step and shows that they
  nevertheless behave like the sequential function of \<open>Consensus\<close>.
\<close>

section \<open>Tasks and their steps\<close>

text \<open>
  Where a call stands. \<open>Called\<close>: not polled yet. \<open>Waiting\<close>: the runtime was asked for the Aura API, with the given
  answer, and the call awaits the lock of the engine this selects. \<open>Producing\<close>: it holds the lock and
  awaits the candidate. \<open>Done\<close>: it has returned or panicked; in either case the guard is dropped and the lock free (the
  mutex is one of \<open>futures\<close>, which is not poisoned).
\<close>

datatype ('a, 'r) task =
    Absent
  | Called 'a
  | Waiting bool 'a
  | Producing bool 'a
  | Done 'a "'r outcome"

text \<open>
  The shared structure, who holds which lock, the tasks, and the calls that were completed so far, in the
  order of their completion. The last is not part of the program: it records an order for the theorems.
\<close>

record ('c, 'a, 'r) consensus_sys =
  shared :: "'c WaitForAuraConsensus"
  aura_lock :: "nat option"
  relay_lock :: "nat option"
  tasks :: "nat \<Rightarrow> ('a, 'r) task"
  completed :: "(nat \<times> 'a) list"

definition set_task ::
  "nat \<Rightarrow> ('a, 'r) task \<Rightarrow> ('c, 'a, 'r, 'z) consensus_sys_scheme \<Rightarrow> ('c, 'a, 'r, 'z) consensus_sys_scheme" where
  "set_task i t s = s\<lparr>tasks := (tasks s)(i := t)\<rparr>"

definition finish ::
  "nat \<Rightarrow> 'a \<Rightarrow> 'r outcome \<Rightarrow> ('c, 'a, 'r, 'z) consensus_sys_scheme \<Rightarrow> ('c, 'a, 'r, 'z) consensus_sys_scheme" where
  "finish i a r s = (set_task i (Done a r) s)\<lparr>completed := completed s @ [(i, a)]\<rparr>"

text \<open>
  A step of some task: everything between two points at which it awaits. Accessing the Aura engine through
  \<open>get_mut\<close>, which may build it or panic, happens in one go with taking the lock.
\<close>

inductive task_step ::
  "('hd, 'h, 'rp, 'vd, 'cand, 'c, 'e, 'z) consensus_lib_scheme \<Rightarrow>
   ('c, 'hd \<times> 'rp \<times> 'vd, 'cand option) consensus_sys \<Rightarrow> ('c, 'hd \<times> 'rp \<times> 'vd, 'cand option) consensus_sys \<Rightarrow> bool"
  for L where
  ask: "tasks s i = Called a \<Longrightarrow> task_step L s (set_task i (Waiting (parent_has_aura L a) a) s)"
| lock_aura: "tasks s i = Waiting True a \<Longrightarrow> aura_lock s = None \<Longrightarrow>
    get_mut (aura_consensus (shared s)) = (Ret c, b) \<Longrightarrow>
    task_step L s (set_task i (Producing True a) (s\<lparr>aura_lock := Some i, shared := (shared s)\<lparr>aura_consensus := b\<rparr>\<rparr>))"
| build_panics: "tasks s i = Waiting True a \<Longrightarrow> aura_lock s = None \<Longrightarrow>
    get_mut (aura_consensus (shared s)) = (Panic m, b) \<Longrightarrow>
    task_step L s (finish i a (Panic m) (s\<lparr>shared := (shared s)\<lparr>aura_consensus := b\<rparr>\<rparr>))"
| produce_aura: "tasks s i = Producing True (p, r, v) \<Longrightarrow> aura_consensus (shared s) = Initialized c \<Longrightarrow>
    produce L c p r v = (x, c') \<Longrightarrow>
    task_step L s (finish i (p, r, v) (Ret x)
      (s\<lparr>aura_lock := None, shared := (shared s)\<lparr>aura_consensus := Initialized c'\<rparr>\<rparr>))"
| lock_relay: "tasks s i = Waiting False a \<Longrightarrow> relay_lock s = None \<Longrightarrow>
    task_step L s (set_task i (Producing False a) (s\<lparr>relay_lock := Some i\<rparr>))"
| produce_relay: "tasks s i = Producing False (p, r, v) \<Longrightarrow>
    produce L (relay_chain_consensus (shared s)) p r v = (x, c') \<Longrightarrow>
    task_step L s (finish i (p, r, v) (Ret x)
      (s\<lparr>relay_lock := None, shared := (shared s)\<lparr>relay_chain_consensus := c'\<rparr>\<rparr>))"

text \<open>A start: finitely many calls are pending, given by a list, the locks are free and nothing has completed.\<close>

definition start_sys :: "'c WaitForAuraConsensus \<Rightarrow> 'a list \<Rightarrow> ('c, 'a, 'r) consensus_sys" where
  "start_sys w calls = \<lparr>shared = w, aura_lock = None, relay_lock = None,
     tasks = (\<lambda>i. if i < length calls then Called (calls ! i) else Absent), completed = []\<rparr>"

text \<open>The sequential object: the state after a list of completed calls, one after the other.\<close>

definition sequential ::
  "('hd, 'h, 'rp, 'vd, 'cand, 'c, 'e, 'z) consensus_lib_scheme \<Rightarrow> 'c WaitForAuraConsensus \<Rightarrow>
   (nat \<times> 'hd \<times> 'rp \<times> 'vd) list \<Rightarrow> 'c WaitForAuraConsensus" where
  "sequential L w h = foldl (\<lambda>w (_, a). snd (produce_candidate L w a)) w h"

lemma sequential_simps [simp]:
  "sequential L w [] = w"
  "sequential L w (h @ [(i, a)]) = snd (produce_candidate L (sequential L w h) a)"
  by (simp_all add: sequential_def)

lemmas task_defs = set_task_def finish_def

section \<open>The invariant\<close>

text \<open>
  Locks and tasks agree; every waiting or producing task has taken the branch of its parent block; and the shared
  structure is the sequential one, but for an Aura engine that its current user has already built.
\<close>

primrec producing :: "bool \<Rightarrow> ('a, 'r) task \<Rightarrow> bool" where
  "producing b Absent \<longleftrightarrow> False"
| "producing b (Called a) \<longleftrightarrow> False"
| "producing b (Waiting b' a) \<longleftrightarrow> False"
| "producing b (Producing b' a) \<longleftrightarrow> b' = b"
| "producing b (Done a r) \<longleftrightarrow> False"

lemma producing_iff: "producing b t \<longleftrightarrow> (\<exists>a. t = Producing b a)"
  by (cases t) auto

definition locks_agree :: "('c, 'a, 'r) consensus_sys \<Rightarrow> bool" where
  "locks_agree s \<longleftrightarrow> (\<forall>i. producing True (tasks s i) \<longleftrightarrow> aura_lock s = Some i) \<and>
     (\<forall>i. producing False (tasks s i) \<longleftrightarrow> relay_lock s = Some i)"

lemma locks_agreeD:
  assumes "locks_agree s"
  shows "tasks s i = Producing True a \<Longrightarrow> aura_lock s = Some i"
    and "tasks s i = Producing False a \<Longrightarrow> relay_lock s = Some i"
    and "aura_lock s = Some i \<Longrightarrow> \<exists>a. tasks s i = Producing True a"
    and "relay_lock s = Some i \<Longrightarrow> \<exists>a. tasks s i = Producing False a"
  using assms unfolding locks_agree_def by (metis producing.simps(4) producing_iff)+

definition branches_right ::
  "('hd, 'h, 'rp, 'vd, 'cand, 'c, 'e, 'z) consensus_lib_scheme \<Rightarrow>
   ('c, 'hd \<times> 'rp \<times> 'vd, 'cand option) consensus_sys \<Rightarrow> bool" where
  "branches_right L s \<longleftrightarrow>
     (\<forall>i b a. tasks s i = Waiting b a \<or> tasks s i = Producing b a \<longrightarrow> b = parent_has_aura L a)"

definition simulates ::
  "'c WaitForAuraConsensus \<Rightarrow> ('c, 'a, 'r) consensus_sys \<Rightarrow> bool" where
  "simulates w s \<longleftrightarrow> relay_chain_consensus (shared s) = relay_chain_consensus w \<and>
     (if aura_lock s = None then aura_consensus (shared s) = aura_consensus w
      else \<exists>c. aura_consensus (shared s) = Initialized c \<and> fst (get_mut (aura_consensus w)) = Ret c)"

text \<open>
  The calls that are done are those that completed, each once, and the answer of each is the sequential one at its
  place in the order.
\<close>

definition answers_right ::
  "('hd, 'h, 'rp, 'vd, 'cand, 'c, 'e, 'z) consensus_lib_scheme \<Rightarrow> 'c WaitForAuraConsensus \<Rightarrow>
   ('c, 'hd \<times> 'rp \<times> 'vd, 'cand option) consensus_sys \<Rightarrow> bool" where
  "answers_right L w s \<longleftrightarrow> distinct (map fst (completed s)) \<and>
     (\<forall>i. i \<in> fst ` set (completed s) \<longleftrightarrow> (\<exists>a r. tasks s i = Done a r)) \<and>
     (\<forall>i a r. tasks s i = Done a r \<longrightarrow>
        (\<exists>before after. completed s = before @ (i, a) # after \<and> fst (produce_candidate L (sequential L w before) a) = r))"

definition task_inv where
  "task_inv L w s \<longleftrightarrow> locks_agree s \<and> branches_right L s \<and> simulates (sequential L w (completed s)) s \<and> answers_right L w s"

lemma start_task_inv: "task_inv L w (start_sys w calls)"
  by (auto simp: task_inv_def start_sys_def locks_agree_def branches_right_def simulates_def answers_right_def)

text \<open>What finishing a call means for the answers, whichever engine it used.\<close>

lemma answers_right_finish:
  assumes "answers_right L w s" "\<And>a r. tasks s i \<noteq> Done a r"
    and "fst (produce_candidate L (sequential L w (completed s)) a) = r"
    and "tasks t = tasks s" "completed t = completed s"
  shows "answers_right L w (finish i a r t)"
proof -
  have "i \<notin> fst ` set (completed s)" using assms(1,2) unfolding answers_right_def by blast
  moreover have "\<exists>before after. completed s @ [(i, a)] = before @ (j, a') # after \<and>
      fst (produce_candidate L (sequential L w before) a') = r'"
    if "((tasks s)(i := Done a r)) j = Done a' r'" for j a' r'
  proof (cases "j = i")
    case False
    with that assms(1) obtain before after where "completed s = before @ (j, a') # after"
      "fst (produce_candidate L (sequential L w before) a') = r'"
      unfolding answers_right_def by (metis fun_upd_other)
    then show ?thesis by (intro exI [of _ before] exI [of _ "after @ [(i, a)]"]) simp
  qed (use that assms(3) in auto)
  ultimately show ?thesis
    using assms(1,4,5) unfolding answers_right_def by (cases a) (auto simp: task_defs)
qed

lemma answers_right_move:
  assumes "answers_right L w s" "completed t = completed s" "tasks t = (tasks s)(i := x)"
    and "\<And>a r. tasks s i \<noteq> Done a r" "\<And>a r. x \<noteq> Done a r"
  shows "answers_right L w t"
proof -
  have "tasks t j = Done a r \<longleftrightarrow> tasks s j = Done a r" for j a r
    using assms(3-5) by simp
  with assms(1,2) show ?thesis by (simp add: answers_right_def)
qed

section \<open>Every step keeps the invariant\<close>

text \<open>The sequential function, by the branch it takes and what the access to the engine gives.\<close>

lemma produce_candidate_cases:
  "parent_has_aura L (p, r, v) \<Longrightarrow> fst (get_mut (aura_consensus w)) = Ret c \<Longrightarrow> produce L c p r v = (x, c') \<Longrightarrow>
     produce_candidate L w (p, r, v) = (Ret x, w\<lparr>aura_consensus := Initialized c'\<rparr>)"
  "parent_has_aura L a \<Longrightarrow> get_mut (aura_consensus w) = (Panic m, b) \<Longrightarrow>
     produce_candidate L w a = (Panic m, w\<lparr>aura_consensus := b\<rparr>)"
  "\<not> parent_has_aura L (p, r, v) \<Longrightarrow> produce L (relay_chain_consensus w) p r v = (x, c') \<Longrightarrow>
     produce_candidate L w (p, r, v) = (Ret x, w\<lparr>relay_chain_consensus := c'\<rparr>)"
  by (cases a; auto simp: produce_candidate_def parent_has_aura_def split: prod.split outcome.split)+

text \<open>A task moves on: each lock follows it, taken only while free and released by its holder.\<close>

lemma locks_agree_move:
  assumes "locks_agree s" "tasks t = (tasks s)(i := x)"
    and "producing True x \<longrightarrow> aura_lock s = None" "producing False x \<longrightarrow> relay_lock s = None"
    and "aura_lock t = (if producing True x then Some i else if producing True (tasks s i) then None else aura_lock s)"
    and "relay_lock t = (if producing False x then Some i else if producing False (tasks s i) then None else relay_lock s)"
  shows "locks_agree t"
proof -
  have old: "producing True (tasks s j) \<longleftrightarrow> aura_lock s = Some j" "producing False (tasks s j) \<longleftrightarrow> relay_lock s = Some j" for j
    using assms(1) by (simp_all add: locks_agree_def)
  then show ?thesis using assms(2-) by (auto simp: locks_agree_def)
qed

lemma task_step_locks:
  assumes "task_step L s t" "locks_agree s"
  shows "locks_agree t"
proof -
  note move = locks_agree_move [OF assms(2)]
  from assms(1) show ?thesis
  proof (cases rule: task_step.cases)
    case (ask i a)
    then show ?thesis by (intro move [of t i "Waiting (parent_has_aura L a) a"]) (simp_all add: task_defs)
  next
    case (lock_aura i a c b)
    then show ?thesis by (intro move [of t i "Producing True a"]) (simp_all add: task_defs)
  next
    case (build_panics i a m b)
    then show ?thesis by (intro move [of t i "Done a (Panic m)"]) (simp_all add: task_defs)
  next
    case (produce_aura i p r v c x c')
    then show ?thesis by (intro move [of t i "Done (p, r, v) (Ret x)"]) (simp_all add: task_defs)
  next
    case (lock_relay i a)
    then show ?thesis by (intro move [of t i "Producing False a"]) (simp_all add: task_defs)
  next
    case (produce_relay i p r v x c')
    then show ?thesis by (intro move [of t i "Done (p, r, v) (Ret x)"]) (simp_all add: task_defs)
  qed
qed

lemma task_step_branches: "task_step L s t \<Longrightarrow> branches_right L s \<Longrightarrow> branches_right L t"
  by (induction rule: task_step.induct) (auto simp: branches_right_def task_defs split: if_splits)

lemma task_step_simulates:
  assumes "task_step L s t" "locks_agree s" "branches_right L s" "simulates (sequential L w (completed s)) s"
  shows "simulates (sequential L w (completed t)) t"
  using assms
proof (cases rule: task_step.cases)
  case (lock_aura i a c b)
  then show ?thesis
    using assms(4) get_mut_Ret [of "aura_consensus (shared s)" c b] by (simp add: simulates_def task_defs)
next
  case (build_panics i a m b)
  then have "parent_has_aura L a" using assms(3) unfolding branches_right_def by metis
  with build_panics show ?thesis
    using assms(4) by (simp add: simulates_def task_defs produce_candidate_cases(2))
next
  case (produce_aura i p r v c x c')
  then have "parent_has_aura L (p, r, v)" "aura_lock s = Some i"
    using assms(3) locks_agreeD(1) [OF assms(2)] unfolding branches_right_def by metis+
  with produce_aura show ?thesis
    using assms(4) by (simp add: simulates_def task_defs produce_candidate_cases(1))
next
  case (produce_relay i p r v x c')
  then have "\<not> parent_has_aura L (p, r, v)" using assms(3) unfolding branches_right_def by metis
  with produce_relay show ?thesis
    using assms(4) by (simp add: simulates_def task_defs produce_candidate_cases(3))
qed (simp_all add: simulates_def task_defs)

lemma task_step_answers:
  assumes "task_step L s t" "locks_agree s" "branches_right L s" "simulates (sequential L w (completed s)) s"
    and "answers_right L w s"
  shows "answers_right L w t"
  using assms(1)
proof (cases rule: task_step.cases)
  case (build_panics i a m b)
  then have "parent_has_aura L a" using assms(3) unfolding branches_right_def by metis
  with build_panics assms(4) have "fst (produce_candidate L (sequential L w (completed s)) a) = Panic m"
    by (simp add: simulates_def produce_candidate_cases(2))
  with build_panics assms(5) show ?thesis by (auto intro!: answers_right_finish)
next
  case (produce_aura i p r v c x c')
  then have "parent_has_aura L (p, r, v)" "aura_lock s = Some i"
    using assms(3) locks_agreeD(1) [OF assms(2)] unfolding branches_right_def by metis+
  with produce_aura assms(4) have "fst (produce_candidate L (sequential L w (completed s)) (p, r, v)) = Ret x"
    by (simp add: simulates_def produce_candidate_cases(1))
  with produce_aura assms(5) show ?thesis by (auto intro!: answers_right_finish)
next
  case (produce_relay i p r v x c')
  then have "\<not> parent_has_aura L (p, r, v)" using assms(3) unfolding branches_right_def by metis
  with produce_relay assms(4) have "fst (produce_candidate L (sequential L w (completed s)) (p, r, v)) = Ret x"
    by (simp add: simulates_def produce_candidate_cases(3))
  with produce_relay assms(5) show ?thesis by (auto intro!: answers_right_finish)
next
  case (ask i a)
  then show ?thesis by (intro answers_right_move [OF assms(5), of t i]) (auto simp: task_defs)
next
  case (lock_aura i a c b)
  then show ?thesis by (intro answers_right_move [OF assms(5), of t i]) (auto simp: task_defs)
next
  case (lock_relay i a)
  then show ?thesis by (intro answers_right_move [OF assms(5), of t i]) (auto simp: task_defs)
qed

lemma task_step_inv: "task_step L s t \<Longrightarrow> task_inv L w s \<Longrightarrow> task_inv L w t"
  unfolding task_inv_def
  using task_step_locks task_step_branches task_step_simulates task_step_answers by blast

section \<open>Progress\<close>

text \<open>How many steps a task still has to make at most, and a whole system of tasks.\<close>

primrec task_fuel :: "('a, 'r) task \<Rightarrow> nat" where
  "task_fuel Absent = 0"
| "task_fuel (Called a) = 3"
| "task_fuel (Waiting b a) = 2"
| "task_fuel (Producing b a) = 1"
| "task_fuel (Done a r) = 0"

definition sys_fuel :: "nat \<Rightarrow> ('c, 'a, 'r) consensus_sys \<Rightarrow> nat" where
  "sys_fuel n s = (\<Sum>i < n. task_fuel (tasks s i))"

lemma start_fuel: "sys_fuel (length calls) (start_sys w calls) = 3 * length calls"
  by (simp add: sys_fuel_def start_sys_def)

lemma start_absent [simp]: "length calls \<le> i \<Longrightarrow> tasks (start_sys w calls) i = Absent"
  by (simp add: start_sys_def)

lemma sys_fuel_less:
  assumes "tasks t = (tasks s)(i := x)" "task_fuel x < task_fuel (tasks s i)" "i < n"
  shows "sys_fuel n t < sys_fuel n s"
  unfolding sys_fuel_def assms(1)
  by (rule sum_strict_mono_ex1) (use assms(2,3) in \<open>auto intro: bexI [of _ i] less_imp_le\<close>)

text \<open>A step moves one task that is there; the others, in particular absent ones, stay as they are.\<close>

lemma task_step_moves:
  assumes "task_step L s t"
  shows "\<exists>i x. tasks t = (tasks s)(i := x) \<and> task_fuel x < task_fuel (tasks s i) \<and> tasks s i \<noteq> Absent \<and> x \<noteq> Absent"
  using assms by (cases rule: task_step.cases) (force simp: task_defs)+

text \<open>As long as a call is pending, some task can make a step: the one that holds the lock it waits for, if any.\<close>

lemma task_step_enabled:
  assumes "task_inv L w s" "tasks s i \<noteq> Absent" "\<nexists>a r. tasks s i = Done a r"
  shows "\<exists>t. task_step L s t"
proof -
  have locks: "locks_agree s" using assms(1) by (simp add: task_inv_def)
  have with_aura: "\<exists>t. task_step L s t" if "tasks s j = Producing True a" for j a
  proof -
    have "aura_lock s = Some j" using locks_agreeD(1) [OF locks that] .
    then obtain c where "aura_consensus (shared s) = Initialized c"
      using assms(1) by (auto simp: task_inv_def simulates_def)
    with that show ?thesis by (cases a) (metis task_step.produce_aura surj_pair)
  qed
  have with_relay: "\<exists>t. task_step L s t" if "tasks s j = Producing False a" for j a
    using that by (cases a) (metis task_step.produce_relay surj_pair)
  consider (called) a where "tasks s i = Called a" | (aura) a where "tasks s i = Waiting True a"
    | (relay) a where "tasks s i = Waiting False a" | (producing) b a where "tasks s i = Producing b a"
    using assms(2,3) by (metis task.exhaust)
  then show ?thesis
  proof cases
    case (aura a)
    show ?thesis
    proof (cases "aura_lock s")
      case None
      show ?thesis
        by (cases "get_mut (aura_consensus (shared s))"; cases "fst (get_mut (aura_consensus (shared s)))")
           (auto intro: task_step.lock_aura task_step.build_panics None aura)
    next
      case (Some j)
      then show ?thesis using locks_agreeD(3) [OF locks] with_aura by blast
    qed
  next
    case (relay a)
    show ?thesis
    proof (cases "relay_lock s")
      case (Some j)
      then show ?thesis using locks_agreeD(4) [OF locks] with_relay by blast
    qed (use relay in \<open>auto intro: task_step.lock_relay\<close>)
  next
    case (producing b a)
    then show ?thesis using with_aura with_relay by (cases b) auto
  qed (auto intro: task_step.ask)
qed

section \<open>Properties\<close>

lemma task_steps_inv: "(task_step L)\<^sup>*\<^sup>* s t \<Longrightarrow> task_inv L w s \<Longrightarrow> task_inv L w t"
  by (induction rule: rtranclp_induct) (auto intro: task_step_inv)

lemma task_steps_present:
  "(task_step L)\<^sup>*\<^sup>* s t \<Longrightarrow> tasks t i = Absent \<longleftrightarrow> tasks s i = Absent"
  by (induction rule: rtranclp_induct) (auto dest!: task_step_moves split: if_splits)

lemma task_steps_fuel:
  assumes "(task_step L ^^ k) s t" "\<And>i. n \<le> i \<Longrightarrow> tasks s i = Absent"
  shows "sys_fuel n t + k \<le> sys_fuel n s"
  using assms
proof (induction k arbitrary: t)
  case (Suc k)
  then obtain u where u: "(task_step L ^^ k) s u" "task_step L u t" by auto
  obtain i x where i: "tasks t = (tasks u)(i := x)" "task_fuel x < task_fuel (tasks u i)" "tasks u i \<noteq> Absent"
    using task_step_moves [OF u(2)] by blast
  have "i < n"
  proof (rule ccontr)
    assume "\<not> i < n"
    with Suc.prems(2) have "tasks s i = Absent" by simp
    with i(3) task_steps_present [of L s u i] u(1) show False by (metis relpowp_imp_rtranclp)
  qed
  with i have "sys_fuel n t < sys_fuel n u" by (intro sys_fuel_less)
  with Suc.IH [OF u(1) Suc.prems(2)] show ?case by simp
qed simp

text \<open>
  C12. However the calls of all clones are interleaved, they behave like calls of one structure, one after the other,
  in the order in which they complete: each answer, panics included, is the sequential one at its place in that
  order, no call is answered twice, and whenever no call is using the Aura engine the shared engines are in the
  sequential state. No two calls ever use the same engine at once, and each uses the engine of its parent block.
\<close>

theorem clones_linearizable:
  assumes "(task_step L)\<^sup>*\<^sup>* (start_sys w calls) s"
  shows "distinct (map fst (completed s)) \<and>
    (tasks s i = Done a r \<longrightarrow> (\<exists>before after. completed s = before @ (i, a) # after \<and>
      fst (produce_candidate L (foldl (\<lambda>w (_, a). snd (produce_candidate L w a)) w before) a) = r)) \<and>
    (aura_lock s = None \<longrightarrow> shared s = foldl (\<lambda>w (_, a). snd (produce_candidate L w a)) w (completed s)) \<and>
    (tasks s i = Producing b a \<longrightarrow> tasks s j = Producing b a' \<longrightarrow> i = j) \<and>
    (tasks s i = Producing b a \<longrightarrow> b = parent_has_aura L a)"
proof -
  have inv: "task_inv L w s"
    using task_steps_inv [OF assms] start_task_inv by blast
  then have locks: "locks_agree s" and answers: "answers_right L w s" by (simp_all add: task_inv_def)
  have "i = j" if "tasks s i = Producing b a" "tasks s j = Producing b a'"
    using that locks_agreeD(1,2) [OF locks] by (cases b) (metis option.inject)+
  moreover have "b = parent_has_aura L a" if "tasks s i = Producing b a"
    using inv that unfolding task_inv_def branches_right_def by blast
  moreover have "shared s = sequential L w (completed s)" if "aura_lock s = None"
    using inv that by (simp add: task_inv_def simulates_def)
  moreover have "\<exists>before after. completed s = before @ (i, a) # after \<and>
      fst (produce_candidate L (sequential L w before) a) = r" if "tasks s i = Done a r"
    using answers that unfolding answers_right_def by blast
  moreover have "distinct (map fst (completed s))"
    using answers by (simp add: answers_right_def)
  ultimately show ?thesis by (simp only: sequential_def) meson
qed

text \<open>
  C13. Concurrent calls never block each other for good: however they are scheduled, a run of \<open>n\<close> calls makes at most \<open>3 * n\<close>
  steps, and where no task can make a step any more every call has been answered, by a candidate, by no
  candidate or by the panic of building the engine. (That an engine asked for a candidate answers at
  some time is presumed.)
\<close>

theorem clones_complete:
  "((task_step L ^^ k) (start_sys w calls) s \<longrightarrow> k \<le> 3 * length calls) \<and>
   ((task_step L)\<^sup>*\<^sup>* (start_sys w calls) s \<longrightarrow> (\<nexists>t. task_step L s t) \<longrightarrow> i < length calls \<longrightarrow>
      (\<exists>a r. tasks s i = Done a r))"
proof (intro conjI impI)
  show "k \<le> 3 * length calls" if "(task_step L ^^ k) (start_sys w calls) s"
    using task_steps_fuel [OF that, of "length calls"] by (simp add: start_fuel)
  show "\<exists>a r. tasks s i = Done a r"
    if run: "(task_step L)\<^sup>*\<^sup>* (start_sys w calls) s" and "\<nexists>t. task_step L s t" "i < length calls"
    using task_step_enabled [OF task_steps_inv [OF run start_task_inv], of i] task_steps_present [OF run, of i] that
    by (auto simp: start_sys_def)
qed

subsection \<open>Two concurrent calls\<close>

text \<open>
  Of two calls the second, for a parent with the Aura API, takes its lock first and is overtaken by the first, for a
  parent without it, while it is producing.
\<close>

definition example_start :: "(nat, nat \<times> unit \<times> unit, nat option) consensus_sys" where
  "example_start = start_sys \<lparr>aura_consensus = Uninitialized (Some (\<lambda>_. Ret 100)), relay_chain_consensus = 0\<rparr>
     [(8, (), ()), (11, (), ())]"

lemma example_run:
  "\<exists>s. (task_step example_consensus ^^ 6) example_start s \<and> completed s = [(0, 8, (), ()), (1, 11, (), ())] \<and>
     tasks s 1 = Done (11, (), ()) (Ret (Some 111)) \<and> aura_lock s = None"
proof -
  let ?L = "example_consensus" and ?a = "(8, (), ())" and ?b = "(11, (), ())"
  let ?s1 = "set_task 1 (Waiting True ?b) example_start"
  let ?s2 = "set_task 1 (Producing True ?b)
    (?s1\<lparr>aura_lock := Some 1, shared := (shared ?s1)\<lparr>aura_consensus := Initialized 100\<rparr>\<rparr>)"
  let ?s3 = "set_task 0 (Waiting False ?a) ?s2"
  let ?s4 = "set_task 0 (Producing False ?a) (?s3\<lparr>relay_lock := Some 0\<rparr>)"
  let ?s5 = "finish 0 ?a (Ret (Some 8)) (?s4\<lparr>relay_lock := None, shared := (shared ?s4)\<lparr>relay_chain_consensus := 1\<rparr>\<rparr>)"
  let ?s6 = "finish 1 ?b (Ret (Some 111)) (?s5\<lparr>aura_lock := None, shared := (shared ?s5)\<lparr>aura_consensus := Initialized 101\<rparr>\<rparr>)"
  have api: "parent_has_aura ?L ?b" "\<not> parent_has_aura ?L ?a"
    by (simp_all add: parent_has_aura_def example_consensus_def unwrap_or_false_def)
  note eval = example_start_def start_sys_def task_defs
  have "task_step ?L example_start ?s1"
    using task_step.ask [of example_start 1 ?b ?L] api by (simp add: eval)
  moreover have "task_step ?L ?s1 ?s2" by (rule task_step.lock_aura) (simp_all add: eval)
  moreover have "task_step ?L ?s2 ?s3"
    using task_step.ask [of ?s2 0 ?a ?L] api by (simp add: eval)
  moreover have "task_step ?L ?s3 ?s4" by (rule task_step.lock_relay) (simp_all add: eval)
  moreover have "task_step ?L ?s4 ?s5" by (rule task_step.produce_relay) (simp_all add: eval example_consensus_def)
  moreover have "task_step ?L ?s5 ?s6" by (rule task_step.produce_aura) (simp_all add: eval example_consensus_def)
  ultimately have "(task_step ?L ^^ Suc (Suc (Suc (Suc (Suc (Suc 0)))))) example_start ?s6"
    by (meson relpowp_Suc_I relpowp_0_I)
  then have "(task_step ?L ^^ 6) example_start ?s6" by (simp add: eval_nat_numeral)
  then show ?thesis by (intro exI [of _ ?s6]) (simp add: eval)
qed

theorem clones_linearizable_witness:
  "fst (produce_candidate example_consensus (foldl (\<lambda>w (_, a). snd (produce_candidate example_consensus w a))
     \<lparr>aura_consensus = Uninitialized (Some (\<lambda>_. Ret 100)), relay_chain_consensus = 0\<rparr> [(0 :: nat, 8, (), ())])
     (11, (), ())) = Ret (Some 111)"
proof -
  obtain s where s: "(task_step example_consensus ^^ 6) example_start s" "completed s = [(0, 8, (), ()), (1, 11, (), ())]"
    "tasks s 1 = Done (11, (), ()) (Ret (Some 111))"
    using example_run by blast
  from s(1) have "(task_step example_consensus)\<^sup>*\<^sup>* (start_sys
      \<lparr>aura_consensus = Uninitialized (Some (\<lambda>_. Ret 100)), relay_chain_consensus = 0\<rparr> [(8, (), ()), (11, (), ())]) s"
    unfolding example_start_def by (rule relpowp_imp_rtranclp)
  from clones_linearizable [OF this, of 1 "(11, (), ())" "Ret (Some 111)"] s(2,3) show ?thesis
    by (auto simp: Cons_eq_append_conv)
qed

theorem clones_complete_witness:
  "\<exists>s. (task_step example_consensus ^^ 6) example_start s \<and> (6 :: nat) \<le> 3 * length [(8, (), ()), (11 :: nat, (), ())]"
proof -
  obtain s where s: "(task_step example_consensus ^^ 6) example_start s"
    using example_run by blast
  then show ?thesis
    using clones_complete [of 6 example_consensus "\<lparr>aura_consensus = Uninitialized (Some (\<lambda>_. Ret 100)), relay_chain_consensus = 0\<rparr>"
        "[(8, (), ()), (11, (), ())]" s 0]
    unfolding example_start_def by blast
qed

end
