(* ===== verification/Chain_Spec.thy ===== *)
theory Chain_Spec
  imports Shell_Runtime
begin

text \<open>
  \<open>polkadot-parachains/src/chain_spec.rs\<close>: the chain specifications a node can be started with, the
  genesis state of both runtimes, and the relay chains. \<open>GenericChainSpec\<close>, the key formats, the
  test keyring, the JSON parser and the compiled runtimes are outside this repository: they are
  fields of \<open>spec_lib\<close> and \<open>key_lib\<close> and the parameters \<open>wasm\<close> and \<open>include_bytes\<close>.
\<close>

section \<open>Chain specifications\<close>

datatype ChainType = Development | Local | Live | Custom string

record Extensions =
  relay_chain :: string
  para_id :: u32

text \<open>
  \<open>GenericChainSpec\<close> over a genesis type \<open>'g\<close>: its constructors and the methods that read it back.
  The constructor of the genesis state is a closure that runs only when the state is built.
\<close>

record ('spec, 'g, 'props, 'e) spec_lib =
  from_genesis :: "string \<Rightarrow> string \<Rightarrow> ChainType \<Rightarrow> (unit \<Rightarrow> 'g outcome) \<Rightarrow> string list \<Rightarrow>
    string option \<Rightarrow> string option \<Rightarrow> string option \<Rightarrow> 'props option \<Rightarrow> Extensions \<Rightarrow> 'spec"
  from_json_bytes :: "u8 list \<Rightarrow> string + 'spec"
  from_json_file :: "string \<Rightarrow> string + 'spec"
  json_from_str :: "string \<Rightarrow> 'e + 'props"
  cs_name :: "'spec \<Rightarrow> string"
  cs_id :: "'spec \<Rightarrow> string"
  cs_chain_type :: "'spec \<Rightarrow> ChainType"
  cs_protocol_id :: "'spec \<Rightarrow> string option"
  get_extension :: "'spec \<Rightarrow> Extensions option"
  build_genesis :: "'spec \<Rightarrow> 'g outcome"

text \<open>What is passed to \<open>from_genesis\<close> is what the methods answer.\<close>

definition spec_laws :: "('spec, 'g, 'props, 'e, 'z) spec_lib_scheme \<Rightarrow> bool" where
  "spec_laws S \<longleftrightarrow>
     (\<forall>n i t c b te p f pr ex. let s = from_genesis S n i t c b te p f pr ex in
        cs_name S s = n \<and> cs_id S s = i \<and> cs_chain_type S s = t \<and> cs_protocol_id S s = p \<and>
        get_extension S s = Some ex \<and> build_genesis S s = c ())"

lemma from_genesis_laws:
  assumes "spec_laws S"
  shows "cs_name S (from_genesis S n i t c b te p f pr ex) = n"
    "cs_id S (from_genesis S n i t c b te p f pr ex) = i"
    "cs_chain_type S (from_genesis S n i t c b te p f pr ex) = t"
    "cs_protocol_id S (from_genesis S n i t c b te p f pr ex) = p"
    "get_extension S (from_genesis S n i t c b te p f pr ex) = Some ex"
    "build_genesis S (from_genesis S n i t c b te p f pr ex) = c ()"
  using assms by (simp_all add: spec_laws_def Let_def)

definition Extensions_try_get :: "('spec, 'g, 'props, 'e, 'z) spec_lib_scheme \<Rightarrow> 'spec \<Rightarrow> Extensions option" where
  "Extensions_try_get S chain_spec = get_extension S chain_spec"

section \<open>Keys\<close>

datatype keyring = Alice | Bob | Dave | Eve

record ('pub, 'acc, 'aura, 'e) key_lib =
  from_ss58check :: "string \<Rightarrow> 'e + 'pub"
  pub_into_account :: "'pub \<Rightarrow> 'acc"
  pub_into_aura :: "'pub \<Rightarrow> 'aura"
  keyring_public :: "keyring \<Rightarrow> 'pub"
  to_account_id :: "keyring \<Rightarrow> 'acc"

definition public_from_ss58 :: "('pub, 'acc, 'aura, 'e, 'z) key_lib_scheme \<Rightarrow> string \<Rightarrow> 'pub outcome" where
  "public_from_ss58 K ss58 = expect_result ''supply valid ss58!'' (from_ss58check K ss58)"

definition pub_sr25519 :: "('pub, 'acc, 'aura, 'e, 'z) key_lib_scheme \<Rightarrow> string \<Rightarrow> 'pub outcome" where
  "pub_sr25519 K ss58 = public_from_ss58 K ss58"

datatype GenesisKeys = Integritee | WellKnown | IntegriteeDev

definition WellKnownKeys_root :: "('pub, 'acc, 'aura, 'e, 'z) key_lib_scheme \<Rightarrow> 'acc" where
  "WellKnownKeys_root K = to_account_id K Alice"

definition WellKnownKeys_endowed :: "('pub, 'acc, 'aura, 'e, 'z) key_lib_scheme \<Rightarrow> 'acc list" where
  "WellKnownKeys_endowed K = [to_account_id K Alice, to_account_id K Bob]"

definition WellKnownKeys_authorities :: "('pub, 'acc, 'aura, 'e, 'z) key_lib_scheme \<Rightarrow> 'aura list" where
  "WellKnownKeys_authorities K = [pub_into_aura K (keyring_public K Dave), pub_into_aura K (keyring_public K Eve)]"

definition account_key :: "('pub, 'acc, 'aura, 'e, 'z) key_lib_scheme \<Rightarrow> string \<Rightarrow> 'acc outcome" where
  "account_key K ss58 = bind_outcome (pub_sr25519 K ss58) (\<lambda>p. Ret (pub_into_account K p))"

definition aura_key :: "('pub, 'acc, 'aura, 'e, 'z) key_lib_scheme \<Rightarrow> string \<Rightarrow> 'aura outcome" where
  "aura_key K ss58 = bind_outcome (pub_sr25519 K ss58) (\<lambda>p. Ret (pub_into_aura K p))"

definition IntegriteeKeys_root :: "('pub, 'acc, 'aura, 'e, 'z) key_lib_scheme \<Rightarrow> 'acc outcome" where
  "IntegriteeKeys_root K = account_key K ''2JcYbKMfEGidntYP1LpPWsCMxFvUbjaPyipRViat4Sn5nuqm''"

definition IntegriteeKeys_authorities :: "('pub, 'acc, 'aura, 'e, 'z) key_lib_scheme \<Rightarrow> 'aura list outcome" where
  "IntegriteeKeys_authorities K = mapM_outcome (aura_key K)
     [''5GZJjbPPD9u6NDgK1ApYmbyGs7EBX4HeEz2y2CD38YJxjvQH'',
      ''5CcSd1GZus6Jw7rP47LLqMMmtr2KeXCH6W11ZKk1LbCQ9dPY'',
      ''5FsECrDjBXrh5hXmN4PhQfNPbjYYwwW7edu2UQ8G5LR1JFuH'',
      ''5HBdSEnswkqm6eoHzzX5PCeKoC15CCy88vARrT8XMaRRuyaE'',
      ''5GGxVLYTXS7JZAwVzisdXbsugHSD6gtDb3AT3MVzih9jTLQT'']"

definition IntegriteeDevKeys_root :: "('pub, 'acc, 'aura, 'e, 'z) key_lib_scheme \<Rightarrow> 'acc outcome" where
  "IntegriteeDevKeys_root K = account_key K ''5DMCERPw2yC6LBWNKzswHKLCtuYdtmgKssLJAsPGPVp6fuMY''"

definition IntegriteeDevKeys_authorities :: "('pub, 'acc, 'aura, 'e, 'z) key_lib_scheme \<Rightarrow> 'aura list outcome" where
  "IntegriteeDevKeys_authorities K = mapM_outcome (aura_key K)
     [''5GZJjbPPD9u6NDgK1ApYmbyGs7EBX4HeEz2y2CD38YJxjvQH'',
      ''5CcSd1GZus6Jw7rP47LLqMMmtr2KeXCH6W11ZKk1LbCQ9dPY'',
      ''5FsECrDjBXrh5hXmN4PhQfNPbjYYwwW7edu2UQ8G5LR1JFuH'',
      ''5HBdSEnswkqm6eoHzzX5PCeKoC15CCy88vARrT8XMaRRuyaE'',
      ''5GGxVLYTXS7JZAwVzisdXbsugHSD6gtDb3AT3MVzih9jTLQT'']"

text \<open>
  The \<open>match genesis_keys\<close> at the head of both \<open>shell_chain_spec\<close> and \<open>integritee_chain_spec\<close>: root
  key, endowed accounts and authorities, evaluated in this order.
\<close>

definition genesis_keys_of ::
  "('pub, 'acc, 'aura, 'e, 'z) key_lib_scheme \<Rightarrow> GenesisKeys \<Rightarrow> ('acc \<times> 'acc list \<times> 'aura list) outcome" where
  "genesis_keys_of K genesis_keys =
     (case genesis_keys of
        Integritee \<Rightarrow>
          bind_outcome (IntegriteeKeys_root K) (\<lambda>root.
          bind_outcome (IntegriteeKeys_root K) (\<lambda>endowed.
          bind_outcome (IntegriteeKeys_authorities K) (\<lambda>auths. Ret (root, [endowed], auths))))
      | IntegriteeDev \<Rightarrow>
          bind_outcome (IntegriteeDevKeys_root K) (\<lambda>root.
          bind_outcome (IntegriteeDevKeys_root K) (\<lambda>endowed.
          bind_outcome (IntegriteeDevKeys_authorities K) (\<lambda>auths. Ret (root, [endowed], auths))))
      | WellKnown \<Rightarrow>
          Ret (WellKnownKeys_root K, WellKnownKeys_endowed K, WellKnownKeys_authorities K))"

section \<open>Relay chains\<close>

datatype RelayChain = RococoLocal | WestendLocal | KusamaLocal | PolkadotLocal
  | Rococo | Westend | Kusama | Polkadot | Moonbase

primrec RelayChain_to_string :: "RelayChain \<Rightarrow> string" where
  "RelayChain_to_string RococoLocal = ''rococo-local''"
| "RelayChain_to_string WestendLocal = ''westend-local''"
| "RelayChain_to_string KusamaLocal = ''kusama-local''"
| "RelayChain_to_string PolkadotLocal = ''polkadot-local''"
| "RelayChain_to_string Rococo = ''rococo''"
| "RelayChain_to_string Westend = ''westend''"
| "RelayChain_to_string Kusama = ''kusama''"
| "RelayChain_to_string Polkadot = ''polkadot''"
| "RelayChain_to_string Moonbase = ''westend_moonbase_relay_testnet''"

primrec RelayChain_chain_type :: "RelayChain \<Rightarrow> ChainType" where
  "RelayChain_chain_type RococoLocal = Local"
| "RelayChain_chain_type WestendLocal = Local"
| "RelayChain_chain_type KusamaLocal = Local"
| "RelayChain_chain_type PolkadotLocal = Local"
| "RelayChain_chain_type Rococo = Live"
| "RelayChain_chain_type Westend = Live"
| "RelayChain_chain_type Kusama = Live"
| "RelayChain_chain_type Polkadot = Live"
| "RelayChain_chain_type Moonbase = Live"

primrec RelayChain_protocol_id :: "RelayChain \<Rightarrow> string" where
  "RelayChain_protocol_id RococoLocal = ''teer-rl''"
| "RelayChain_protocol_id WestendLocal = ''teer-wl''"
| "RelayChain_protocol_id KusamaLocal = ''teer-kl''"
| "RelayChain_protocol_id PolkadotLocal = ''teer-pl''"
| "RelayChain_protocol_id Rococo = ''teer-r''"
| "RelayChain_protocol_id Westend = ''teer-w''"
| "RelayChain_protocol_id Kusama = ''teer-k''"
| "RelayChain_protocol_id Polkadot = ''teer-p''"
| "RelayChain_protocol_id Moonbase = ''teer-m''"

lemma RelayChain_to_string_inj: "RelayChain_to_string r = RelayChain_to_string s \<Longrightarrow> r = s"
  by (cases r; cases s) simp_all

lemma RelayChain_protocol_id_inj: "RelayChain_protocol_id r = RelayChain_protocol_id s \<Longrightarrow> r = s"
  by (cases r; cases s) simp_all

section \<open>Genesis states\<close>

text \<open>
  \<open>parachain_runtime::GenesisConfig\<close> and \<open>shell_runtime::GenesisConfig\<close>. The pallets the code
  configures with \<open>Default::default()\<close> are collected in one field.
\<close>

record ('acc, 'aura, 'd) integritee_genesis =
  ig_code :: "u8 list"
  ig_balances :: "('acc \<times> Balance) list"
  ig_council :: "'acc list"
  ig_technical_committee :: "'acc list"
  ig_parachain_id :: u32
  ig_authorities :: "'aura list"
  allow_sgx_debug_mode :: bool
  allow_skipping_attestation :: bool
  ig_defaults :: 'd

record ('acc, 'aura, 'd) shell_genesis =
  sg_code :: "u8 list"
  sg_balances :: "('acc \<times> Balance) list"
  sg_sudo :: "'acc option"
  sg_parachain_id :: u32
  sg_authorities :: "'aura list"
  sg_defaults :: 'd

definition integritee_genesis_config ::
  "u8 list option \<Rightarrow> 'd \<Rightarrow> 'acc \<Rightarrow> 'acc list \<Rightarrow> 'aura list \<Rightarrow> u32 \<Rightarrow>
   ('acc, 'aura, 'd) integritee_genesis outcome" where
  "integritee_genesis_config wasm dflt root_key endowed_accounts initial_authorities pid =
     bind_outcome (expect_opt ''WASM binary was not build, please build it!'' wasm) (\<lambda>code.
       Ret \<lparr>ig_code = code,
            ig_balances = map (\<lambda>k. (k, 10000000000000)) endowed_accounts,
            ig_council = [root_key], ig_technical_committee = [root_key],
            ig_parachain_id = pid, ig_authorities = initial_authorities,
            allow_sgx_debug_mode = True, allow_skipping_attestation = True, ig_defaults = dflt\<rparr>)"

definition shell_genesis_config ::
  "u8 list option \<Rightarrow> 'd \<Rightarrow> 'acc \<Rightarrow> 'acc list \<Rightarrow> 'aura list \<Rightarrow> u32 \<Rightarrow>
   ('acc, 'aura, 'd) shell_genesis outcome" where
  "shell_genesis_config wasm dflt root_key endowed_accounts initial_authorities parachain_id =
     bind_outcome (expect_opt ''WASM binary was not build, please build it!'' wasm) (\<lambda>code.
       Ret \<lparr>sg_code = code,
            sg_balances = map (\<lambda>k. (k, 10000000000000)) endowed_accounts,
            sg_sudo = Some root_key, sg_parachain_id = parachain_id,
            sg_authorities = initial_authorities, sg_defaults = dflt\<rparr>)"

section \<open>Building a specification\<close>

text \<open>The JSON text of the chain's properties, as the source has it: each line begins with four tabs.\<close>

definition quoted :: "string \<Rightarrow> string" where
  "quoted x = CHR 0x22 # x @ [CHR 0x22]"

definition chain_properties :: string where
  "chain_properties = ''{'' @ concat (map (\<lambda>l. CHR 0x0A # replicate 4 (CHR 0x09) @ l)
     [quoted ''ss58Format'' @ '': 13,'',
      quoted ''tokenDecimals'' @ '': 12,'',
      quoted ''tokenSymbol'' @ '': '' @ quoted ''TEER'',
      ''}''])"

definition chain_spec ::
  "('spec, 'g, 'props, 'e, 'z) spec_lib_scheme \<Rightarrow> string \<Rightarrow> (unit \<Rightarrow> 'g outcome) \<Rightarrow> u32 \<Rightarrow> RelayChain \<Rightarrow>
   'spec outcome" where
  "chain_spec S chain_name testnet_constructor p r =
     bind_outcome
       (expect_result ''called `Result::unwrap()` on an `Err` value''
          (json_from_str S chain_properties))
       (\<lambda>properties. Ret
          (from_genesis S chain_name (''integritee-'' @ RelayChain_to_string r) (RelayChain_chain_type r)
             testnet_constructor [] None (Some (RelayChain_protocol_id r)) None (Some properties)
             \<lparr>relay_chain = RelayChain_to_string r, para_id = p\<rparr>))"

definition shell_chain_spec ::
  "('spec, ('acc, 'aura, 'd) shell_genesis, 'props, 'e, 'z) spec_lib_scheme \<Rightarrow>
   ('pub, 'acc, 'aura, 'f, 'y) key_lib_scheme \<Rightarrow> u8 list option \<Rightarrow> 'd \<Rightarrow> u32 \<Rightarrow> GenesisKeys \<Rightarrow> RelayChain \<Rightarrow>
   'spec outcome" where
  "shell_chain_spec S K wasm dflt pid genesis_keys r =
     bind_outcome (genesis_keys_of K genesis_keys) (\<lambda>(root, endowed, authorities).
       chain_spec S ''Integritee Shell''
         (\<lambda>_. shell_genesis_config wasm dflt root endowed authorities pid) pid r)"

definition integritee_chain_spec ::
  "('spec, ('acc, 'aura, 'd) integritee_genesis, 'props, 'e, 'z) spec_lib_scheme \<Rightarrow>
   ('pub, 'acc, 'aura, 'f, 'y) key_lib_scheme \<Rightarrow> u8 list option \<Rightarrow> 'd \<Rightarrow> u32 \<Rightarrow> GenesisKeys \<Rightarrow> RelayChain \<Rightarrow>
   'spec outcome" where
  "integritee_chain_spec S K wasm dflt pid genesis_keys r =
     bind_outcome (genesis_keys_of K genesis_keys) (\<lambda>(root, endowed, authorities).
       chain_spec S ''Integritee Network''
         (\<lambda>_. integritee_genesis_config wasm dflt root endowed authorities pid) pid r)"

text \<open>The specifications compiled into the binary; \<open>include_bytes\<close> is the content of a file.\<close>

definition shell_rococo_config :: "('spec, 'g, 'props, 'e, 'z) spec_lib_scheme \<Rightarrow> (string \<Rightarrow> u8 list) \<Rightarrow> string + 'spec" where
  "shell_rococo_config S include_bytes = from_json_bytes S (include_bytes ''../chain-specs/integritee-rococo.json'')"

definition shell_westend_config :: "('spec, 'g, 'props, 'e, 'z) spec_lib_scheme \<Rightarrow> (string \<Rightarrow> u8 list) \<Rightarrow> string + 'spec" where
  "shell_westend_config S include_bytes = from_json_bytes S (include_bytes ''../chain-specs/integritee-westend.json'')"

definition shell_kusama_config :: "('spec, 'g, 'props, 'e, 'z) spec_lib_scheme \<Rightarrow> (string \<Rightarrow> u8 list) \<Rightarrow> string + 'spec" where
  "shell_kusama_config S include_bytes = from_json_bytes S (include_bytes ''../chain-specs/integritee-kusama.json'')"

definition shell_kusama_lease2_config :: "('spec, 'g, 'props, 'e, 'z) spec_lib_scheme \<Rightarrow> (string \<Rightarrow> u8 list) \<Rightarrow> string + 'spec" where
  "shell_kusama_lease2_config S include_bytes = from_json_bytes S (include_bytes ''../chain-specs/shell-kusama-lease2.json'')"

definition shell_kusama_lease3_config :: "('spec, 'g, 'props, 'e, 'z) spec_lib_scheme \<Rightarrow> (string \<Rightarrow> u8 list) \<Rightarrow> string + 'spec" where
  "shell_kusama_lease3_config S include_bytes = from_json_bytes S (include_bytes ''../chain-specs/shell-kusama-lease3.json'')"

definition shell_polkadot_config :: "('spec, 'g, 'props, 'e, 'z) spec_lib_scheme \<Rightarrow> (string \<Rightarrow> u8 list) \<Rightarrow> string + 'spec" where
  "shell_polkadot_config S include_bytes = from_json_bytes S (include_bytes ''../chain-specs/integritee-polkadot.json'')"

definition integritee_moonbase_config :: "('spec, 'g, 'props, 'e, 'z) spec_lib_scheme \<Rightarrow> (string \<Rightarrow> u8 list) \<Rightarrow> string + 'spec" where
  "integritee_moonbase_config S include_bytes = from_json_bytes S (include_bytes ''../chain-specs/integritee-moonbase.json'')"

lemmas embedded_config_defs = shell_rococo_config_def shell_westend_config_def shell_kusama_config_def
  shell_kusama_lease2_config_def shell_kusama_lease3_config_def shell_polkadot_config_def
  integritee_moonbase_config_def

section \<open>The contract of a specification builder\<close>

text \<open>
  What the node relies on when it is started with a specification it builds itself: for every
  parachain id and relay chain, the extension it later reads both from and the genesis state agree
  on the id, and what identifies the chain on the network is determined by the relay chain.
\<close>

locale spec_builder =
  fixes S :: "('spec, 'g, 'props, 'e, 'z) spec_lib_scheme"
    and build :: "u32 \<Rightarrow> RelayChain \<Rightarrow> 'spec outcome"
    and chain_name :: string
    and genesis_para :: "'g \<Rightarrow> u32"
  assumes spec_fields: "spec_laws S \<Longrightarrow> build p r = Ret s \<Longrightarrow>
      cs_name S s = chain_name \<and> cs_id S s = ''integritee-'' @ RelayChain_to_string r \<and>
      cs_chain_type S s = RelayChain_chain_type r \<and> cs_protocol_id S s = Some (RelayChain_protocol_id r) \<and>
      get_extension S s = Some \<lparr>relay_chain = RelayChain_to_string r, para_id = p\<rparr>"
    and genesis_field: "spec_laws S \<Longrightarrow> build p r = Ret s \<Longrightarrow> build_genesis S s = Ret g \<Longrightarrow> genesis_para g = p"
begin

lemma genesis_agrees:
  assumes "spec_laws S" "build p r = Ret s" "build_genesis S s = Ret g"
  shows "map_option para_id (Extensions_try_get S s) = Some (genesis_para g)"
  using spec_fields [OF assms(1,2)] genesis_field [OF assms] by (simp add: Extensions_try_get_def)

lemma relay_chains_apart:
  assumes "spec_laws S" "build p r = Ret s" "build q r' = Ret s'" "r \<noteq> r'"
  shows "cs_id S s \<noteq> cs_id S s' \<and> cs_protocol_id S s \<noteq> cs_protocol_id S s'"
  using spec_fields [OF assms(1,2)] spec_fields [OF assms(1,3)] assms(4)
  by (auto dest: RelayChain_to_string_inj RelayChain_protocol_id_inj)

end

lemma chain_spec_fields:
  assumes "spec_laws S" "chain_spec S n c p r = Ret s"
  shows "cs_name S s = n" "cs_id S s = ''integritee-'' @ RelayChain_to_string r"
    "cs_chain_type S s = RelayChain_chain_type r" "cs_protocol_id S s = Some (RelayChain_protocol_id r)"
    "get_extension S s = Some \<lparr>relay_chain = RelayChain_to_string r, para_id = p\<rparr>"
    "build_genesis S s = c ()"
  using assms(2) by (auto simp: chain_spec_def bind_outcome_eq_Ret from_genesis_laws [OF assms(1)])

lemma integritee_chain_specE:
  assumes "integritee_chain_spec S K wasm dflt p keys r = Ret s"
  obtains root endowed auths where "genesis_keys_of K keys = Ret (root, endowed, auths)"
    and "chain_spec S ''Integritee Network'' (\<lambda>_. integritee_genesis_config wasm dflt root endowed auths p) p r = Ret s"
  using assms by (auto simp: integritee_chain_spec_def bind_outcome_eq_Ret)

lemma shell_chain_specE:
  assumes "shell_chain_spec S K wasm dflt p keys r = Ret s"
  obtains root endowed auths where "genesis_keys_of K keys = Ret (root, endowed, auths)"
    and "chain_spec S ''Integritee Shell'' (\<lambda>_. shell_genesis_config wasm dflt root endowed auths p) p r = Ret s"
  using assms by (auto simp: shell_chain_spec_def bind_outcome_eq_Ret)

interpretation integritee_spec: spec_builder S "\<lambda>p. integritee_chain_spec S K wasm dflt p keys"
  "''Integritee Network''" ig_parachain_id
  by unfold_locales
     (erule integritee_chain_specE, simp add: chain_spec_fields,
      auto elim!: integritee_chain_specE simp: chain_spec_fields(6) integritee_genesis_config_def bind_outcome_eq_Ret)

interpretation shell_spec: spec_builder S "\<lambda>p. shell_chain_spec S K wasm dflt p keys"
  "''Integritee Shell''" sg_parachain_id
  by unfold_locales
     (erule shell_chain_specE, simp add: chain_spec_fields,
      auto elim!: shell_chain_specE simp: chain_spec_fields(6) shell_genesis_config_def bind_outcome_eq_Ret)

section \<open>Example implementations of the external parts\<close>

record 'g built_spec =
  bs_name :: string
  bs_id :: string
  bs_type :: ChainType
  bs_genesis :: "unit \<Rightarrow> 'g outcome"
  bs_protocol :: "string option"
  bs_extension :: Extensions

definition example_specs :: "('g built_spec, 'g, unit, unit) spec_lib" where
  "example_specs = \<lparr>
     from_genesis = (\<lambda>n i t c b te p f pr ex.
       \<lparr>bs_name = n, bs_id = i, bs_type = t, bs_genesis = c, bs_protocol = p, bs_extension = ex\<rparr>),
     from_json_bytes = (\<lambda>_. Inl ''not a specification''),
     from_json_file = (\<lambda>_. Inl ''no such file''),
     json_from_str = (\<lambda>_. Inr ()),
     cs_name = bs_name, cs_id = bs_id, cs_chain_type = bs_type, cs_protocol_id = bs_protocol,
     get_extension = (\<lambda>s. Some (bs_extension s)), build_genesis = (\<lambda>s. bs_genesis s ())\<rparr>"

lemma example_specs_laws: "spec_laws example_specs"
  by (simp add: spec_laws_def example_specs_def Let_def)

definition example_keys :: "(string, string, string, unit) key_lib" where
  "example_keys = \<lparr>from_ss58check = Inr, pub_into_account = (\<lambda>p. p), pub_into_aura = (\<lambda>p. p),
     keyring_public = (\<lambda>k. case k of Alice \<Rightarrow> ''A'' | Bob \<Rightarrow> ''B'' | Dave \<Rightarrow> ''D'' | Eve \<Rightarrow> ''E''),
     to_account_id = (\<lambda>k. case k of Alice \<Rightarrow> ''A'' | Bob \<Rightarrow> ''B'' | Dave \<Rightarrow> ''D'' | Eve \<Rightarrow> ''E'')\<rparr>"

section \<open>Properties\<close>

text \<open>
  Whichever runtime a specification is built for, the parachain id
  the node reads from its extension when it starts is the one the genesis state stores on chain,
  and the relay chain it connects to is the one the specification was built for.
\<close>

lemma genesis_agrees_with_extension:
  assumes "spec_laws S" "spec_laws S'"
  shows "(\<forall>s g. integritee_chain_spec S K wasm dflt p keys r = Ret s \<longrightarrow> build_genesis S s = Ret g \<longrightarrow>
      Extensions_try_get S s = Some \<lparr>relay_chain = RelayChain_to_string r, para_id = ig_parachain_id g\<rparr> \<and>
      ig_parachain_id g = p) \<and>
    (\<forall>s g. shell_chain_spec S' K wasm dflt' p keys r = Ret s \<longrightarrow> build_genesis S' s = Ret g \<longrightarrow>
      Extensions_try_get S' s = Some \<lparr>relay_chain = RelayChain_to_string r, para_id = sg_parachain_id g\<rparr> \<and>
      sg_parachain_id g = p)"
  by (intro conjI allI impI)
     (simp_all add: Extensions_try_get_def integritee_spec.spec_fields [OF assms(1)]
       integritee_spec.genesis_field [OF assms(1)] shell_spec.spec_fields [OF assms(2)]
       shell_spec.genesis_field [OF assms(2)])

definition genesis_addresses :: "string list" where
  "genesis_addresses =
     [''2JcYbKMfEGidntYP1LpPWsCMxFvUbjaPyipRViat4Sn5nuqm'',
      ''5DMCERPw2yC6LBWNKzswHKLCtuYdtmgKssLJAsPGPVp6fuMY'',
      ''5GZJjbPPD9u6NDgK1ApYmbyGs7EBX4HeEz2y2CD38YJxjvQH'',
      ''5CcSd1GZus6Jw7rP47LLqMMmtr2KeXCH6W11ZKk1LbCQ9dPY'',
      ''5FsECrDjBXrh5hXmN4PhQfNPbjYYwwW7edu2UQ8G5LR1JFuH'',
      ''5HBdSEnswkqm6eoHzzX5PCeKoC15CCy88vARrT8XMaRRuyaE'',
      ''5GGxVLYTXS7JZAwVzisdXbsugHSD6gtDb3AT3MVzih9jTLQT'']"

lemma valid_key:
  assumes "\<forall>a \<in> set genesis_addresses. \<exists>p. from_ss58check K a = Inr p" "a \<in> set genesis_addresses"
  shows "\<exists>x. account_key K a = Ret x" "\<exists>y. aura_key K a = Ret y"
  using assms by (auto simp: account_key_def aura_key_def pub_sr25519_def public_from_ss58_def)

lemma mapM_outcome_total: "(\<And>x. x \<in> set xs \<Longrightarrow> \<exists>y. f x = Ret y) \<Longrightarrow> \<exists>ys. mapM_outcome f xs = Ret ys \<and> length ys = length xs"
proof (induction xs)
  case (Cons x xs)
  then obtain y ys where "f x = Ret y" "mapM_outcome f xs = Ret ys" "length ys = length xs"
    by fastforce
  then show ?case by simp
qed simp

lemma genesis_keys_total:
  assumes "\<forall>a \<in> set genesis_addresses. \<exists>p. from_ss58check K a = Inr p"
  shows "\<exists>root endowed auths. genesis_keys_of K keys = Ret (root, endowed, auths) \<and>
    root \<in> set endowed \<and> 2 \<le> length auths"
proof -
  have len: "length (drop 2 genesis_addresses) = 5"
    by (simp add: genesis_addresses_def)
  have "\<exists>ys. mapM_outcome (aura_key K) (drop 2 genesis_addresses) = Ret ys \<and> length ys = 5"
    unfolding len [symmetric]
    by (rule mapM_outcome_total) (blast intro: valid_key(2) [OF assms] dest: in_set_dropD)
  moreover have "IntegriteeKeys_authorities K = mapM_outcome (aura_key K) (drop 2 genesis_addresses)"
    "IntegriteeDevKeys_authorities K = mapM_outcome (aura_key K) (drop 2 genesis_addresses)"
    by (simp_all add: IntegriteeKeys_authorities_def IntegriteeDevKeys_authorities_def genesis_addresses_def)
  ultimately have auths: "\<exists>ys. IntegriteeKeys_authorities K = Ret ys \<and> length ys = 5"
    "\<exists>ys. IntegriteeDevKeys_authorities K = Ret ys \<and> length ys = 5"
    by simp_all
  have roots: "\<exists>x. IntegriteeKeys_root K = Ret x" "\<exists>x. IntegriteeDevKeys_root K = Ret x"
    unfolding IntegriteeKeys_root_def IntegriteeDevKeys_root_def
    by (rule valid_key(1) [OF assms], simp add: genesis_addresses_def)+
  show ?thesis
    using auths roots
    by (cases keys) (auto simp: genesis_keys_of_def WellKnownKeys_root_def WellKnownKeys_endowed_def
        WellKnownKeys_authorities_def)
qed

text \<open>
  C23. With valid addresses, parsable properties and a compiled runtime, building
  a specification and its genesis state of the full runtime never panics, for any keys, relay
  chain and parachain id. In the result the council and the technical committee consist of the
  root key, which is endowed; every endowed account holds ten TEER, above the existential deposit;
  and there are at least two block authors. Without a compiled runtime the genesis state panics.
\<close>

theorem genesis_always_builds:
  assumes "spec_laws S" "\<forall>a \<in> set genesis_addresses. \<exists>p. from_ss58check K a = Inr p"
    "json_from_str S chain_properties = Inr props"
  shows "\<exists>s. integritee_chain_spec S K wasm dflt p keys r = Ret s \<and>
    (case wasm of
       None \<Rightarrow> build_genesis S s = Panic ''WASM binary was not build, please build it!''
     | Some code \<Rightarrow> \<exists>g root. build_genesis S s = Ret g \<and> ig_code g = code \<and>
         ig_council g = [root] \<and> ig_technical_committee g = [root] \<and> root \<in> fst ` set (ig_balances g) \<and>
         (\<forall>(k, b) \<in> set (ig_balances g). b = 10 * ONE_TEER \<and> ExistentialDeposit \<le> b) \<and>
         2 \<le> length (ig_authorities g))"
proof -
  obtain root endowed auths where k: "genesis_keys_of K keys = Ret (root, endowed, auths)"
    "root \<in> set endowed" "2 \<le> length auths"
    using genesis_keys_total [OF assms(2)] by blast
  define c where "c = (\<lambda>_ :: unit. integritee_genesis_config wasm dflt root endowed auths p)"
  obtain s where s: "chain_spec S ''Integritee Network'' c p r = Ret s"
    using assms(3) by (simp add: chain_spec_def)
  have "integritee_chain_spec S K wasm dflt p keys r = Ret s"
    using k(1) s by (simp add: integritee_chain_spec_def c_def)
  moreover have "build_genesis S s = integritee_genesis_config wasm dflt root endowed auths p"
    using chain_spec_fields(6) [OF assms(1) s] by (simp add: c_def)
  ultimately show ?thesis
    using k by (auto simp: integritee_genesis_config_def ONE_TEER_def ExistentialDeposit_def MILLITEER_def
        image_iff split: option.split)
qed

text \<open>
  C24. A specification of the full runtime and one of the shell runtime share their chain id, and
  their network protocol, exactly when they are for the same relay chain, as the upgrade from one to
  the other requires: specifications for different relay chains never share either. Their
  names always differ, and from them the node tells the two apart.
\<close>

theorem networks_apart:
  assumes "spec_laws S" "spec_laws S'"
    and "integritee_chain_spec S K wasm dflt p keys r = Ret s"
    and "shell_chain_spec S' K' wasm' dflt' q keys' r' = Ret s'"
  shows "(cs_id S s = cs_id S' s' \<longleftrightarrow> r = r') \<and> (cs_protocol_id S s = cs_protocol_id S' s' \<longleftrightarrow> r = r') \<and>
    cs_name S s = ''Integritee Network'' \<and> cs_name S' s' = ''Integritee Shell''"
  using integritee_spec.spec_fields [OF assms(1,3)] shell_spec.spec_fields [OF assms(2,4)]
  by (auto dest: RelayChain_to_string_inj RelayChain_protocol_id_inj)

subsection \<open>Concrete specifications\<close>

lemmas example_spec_eval = integritee_chain_spec_def shell_chain_spec_def chain_spec_def genesis_keys_of_def
  WellKnownKeys_root_def WellKnownKeys_endowed_def WellKnownKeys_authorities_def
  example_specs_def example_keys_def integritee_genesis_config_def shell_genesis_config_def

lemma genesis_agrees_with_extension_witness:
  "\<exists>s g. integritee_chain_spec example_specs example_keys (Some [1, 2]) () 2015 WellKnown KusamaLocal = Ret s \<and>
     build_genesis example_specs s = Ret g \<and>
     map_option para_id (Extensions_try_get example_specs s) = Some (ig_parachain_id g)"
proof -
  obtain s g where s: "integritee_chain_spec example_specs example_keys (Some [1, 2]) () 2015 WellKnown KusamaLocal = Ret s"
    and g: "build_genesis example_specs s = Ret g"
    by (simp add: example_spec_eval)
  then show ?thesis
    using genesis_agrees_with_extension [OF example_specs_laws example_specs_laws,
        of example_keys "Some [1, 2]" "()" 2015 WellKnown KusamaLocal] by fastforce
qed

theorem genesis_always_builds_witness:
  "\<exists>s. integritee_chain_spec example_specs example_keys (Some [7]) () 2015 Integritee Rococo = Ret s \<and>
     (\<exists>g. build_genesis example_specs s = Ret g \<and> 2 \<le> length (ig_authorities g))"
  using genesis_always_builds [OF example_specs_laws, of example_keys "()" "Some [7]" "()" 2015 Integritee Rococo]
  by (auto simp: example_keys_def example_specs_def)

theorem networks_apart_witness:
  "\<exists>s s'. integritee_chain_spec example_specs example_keys None () 2015 WellKnown Kusama = Ret s \<and>
     shell_chain_spec example_specs example_keys None () 2267 WellKnown Rococo = Ret s' \<and>
     bs_id s \<noteq> bs_id s'"
proof -
  obtain s where s: "integritee_chain_spec example_specs example_keys None () 2015 WellKnown Kusama = Ret s"
    by (simp add: example_spec_eval)
  obtain s' where s': "shell_chain_spec example_specs example_keys None () 2267 WellKnown Rococo = Ret s'"
    by (simp add: example_spec_eval)
  have "cs_id example_specs s \<noteq> cs_id example_specs s'"
    using networks_apart [OF example_specs_laws example_specs_laws s s'] by simp
  then show ?thesis using s s' by (auto simp: example_specs_def)
qed

end
