(* ===== verification/Relay_Cli.thy ===== *)
theory Relay_Cli
  imports Chain_Spec
begin

text \<open>
  The command line of the relay chain node that runs inside a collator: \<open>RelayChainCli\<close> of
  \<open>polkadot-parachains/src/cli.rs\<close> and its traits in \<open>command.rs\<close>. \<open>sc_cli::CliConfiguration\<close> is a record
  of its methods; the relay chain's own command (\<open>polkadot_cli::RunCmd\<close>, parsed from the arguments
  after \<open>--\<close>) is a parameter that implements it. Values of foreign types are of one opaque type \<open>'o\<close>.
\<close>

section \<open>The trait\<close>

record ('o, 'spec, 'e) cli_configuration =
  cc_shared_params :: 'o
  cc_import_params :: "'o option"
  cc_network_params :: "'o option"
  cc_keystore_params :: "'o option"
  cc_base_path :: "'e + string option"
  cc_rpc_http :: "u16 \<Rightarrow> 'e + 'o option"
  cc_rpc_ipc :: "'e + string option"
  cc_rpc_ws :: "u16 \<Rightarrow> 'e + 'o option"
  cc_prometheus_config :: "u16 \<Rightarrow> 'spec \<Rightarrow> 'e + 'o option"
  cc_init :: "('e + unit) outcome"
  cc_chain_id :: "bool \<Rightarrow> 'e + string"
  cc_role :: "bool \<Rightarrow> 'e + 'o"
  cc_transaction_pool :: "bool \<Rightarrow> 'e + 'o"
  cc_trie_cache_maximum_size :: "'e + u64 option"
  cc_rpc_methods :: "'e + 'o"
  cc_rpc_ws_max_connections :: "'e + u64 option"
  cc_rpc_cors :: "bool \<Rightarrow> 'e + string list option"
  cc_default_heap_pages :: "'e + u64 option"
  cc_force_authoring :: "'e + bool"
  cc_disable_grandpa :: "'e + bool"
  cc_max_runtime_instances :: "'e + u64 option"
  cc_announce_block :: "'e + bool"
  cc_telemetry_endpoints :: "'spec \<Rightarrow> 'e + 'o option"
  cc_node_name :: "'e + string"

text \<open>
  \<open>run_cmd\<close> is the implementation of the trait by \<open>base.base\<close>; \<open>shared_base_path\<close> is \<open>SharedParams::base_path\<close>,
  \<open>path_join\<close> appends a component to a path.
\<close>

record ('r, 'o, 'spec, 'e) relay_lib =
  parse_from :: "string list \<Rightarrow> 'r"
  parse_exit :: "string list \<Rightarrow> string option"
  run_cmd :: "'r \<Rightarrow> ('o, 'spec, 'e) cli_configuration"
  shared_base_path :: "'o \<Rightarrow> 'e + string option"
  path_join :: "string \<Rightarrow> string \<Rightarrow> string"

section \<open>The relay chain command line\<close>

record 'r RelayChainCli =
  base :: 'r
  rc_chain_id :: "string option"
  rc_base_path :: "string option"

definition RelayChainCli_new ::
  "('r, 'o, 'q, 'f, 'y) relay_lib_scheme \<Rightarrow> Extensions option \<Rightarrow> string option \<Rightarrow> string list \<Rightarrow> 'r RelayChainCli" where
  "RelayChainCli_new R ext para_base_path relay_chain_args =
     \<lparr>base = parse_from R relay_chain_args,
      rc_chain_id = map_option relay_chain ext,
      rc_base_path = map_option (\<lambda>x. path_join R x ''polkadot'') para_base_path\<rparr>"

definition RelayChainCli_base_path ::
  "('r, 'o, 'q, 'f, 'y) relay_lib_scheme \<Rightarrow> 'r RelayChainCli \<Rightarrow> 'f + string option" where
  "RelayChainCli_base_path R cli =
     bind_result (shared_base_path R (cc_shared_params (run_cmd R (base cli)))) (\<lambda>p.
       Inr (case p of Some x \<Rightarrow> Some x | None \<Rightarrow> rc_base_path cli))"

definition RelayChainCli_chain_id ::
  "('r, 'o, 'q, 'f, 'y) relay_lib_scheme \<Rightarrow> 'r RelayChainCli \<Rightarrow> bool \<Rightarrow> 'f + string" where
  "RelayChainCli_chain_id R cli is_dev =
     bind_result (cc_chain_id (run_cmd R (base cli)) is_dev) (\<lambda>chain_id.
       Inr (if chain_id = [] then (case rc_chain_id cli of None \<Rightarrow> [] | Some i \<Rightarrow> i) else chain_id))"

definition RelayChainCli_init :: "('f + unit) outcome" where
  "RelayChainCli_init = Panic ''internal error: entered unreachable code: PolkadotCli is never initialized; qed''"

text \<open>\<open>impl CliConfiguration<Self> for RelayChainCli\<close>, method by method.\<close>

definition RelayChainCli_configuration ::
  "('r, 'o, 'q, 'f, 'y) relay_lib_scheme \<Rightarrow> 'r RelayChainCli \<Rightarrow> ('o, 'q, 'f) cli_configuration" where
  "RelayChainCli_configuration R cli =
     \<lparr>cc_shared_params = cc_shared_params (run_cmd R (base cli)),
      cc_import_params = cc_import_params (run_cmd R (base cli)),
      cc_network_params = cc_network_params (run_cmd R (base cli)),
      cc_keystore_params = cc_keystore_params (run_cmd R (base cli)),
      cc_base_path = RelayChainCli_base_path R cli,
      cc_rpc_http = (\<lambda>default_listen_port. cc_rpc_http (run_cmd R (base cli)) default_listen_port),
      cc_rpc_ipc = cc_rpc_ipc (run_cmd R (base cli)),
      cc_rpc_ws = (\<lambda>default_listen_port. cc_rpc_ws (run_cmd R (base cli)) default_listen_port),
      cc_prometheus_config = (\<lambda>default_listen_port chain_spec.
        cc_prometheus_config (run_cmd R (base cli)) default_listen_port chain_spec),
      cc_init = RelayChainCli_init,
      cc_chain_id = RelayChainCli_chain_id R cli,
      cc_role = (\<lambda>is_dev. cc_role (run_cmd R (base cli)) is_dev),
      cc_transaction_pool = (\<lambda>is_dev. cc_transaction_pool (run_cmd R (base cli)) is_dev),
      cc_trie_cache_maximum_size = cc_trie_cache_maximum_size (run_cmd R (base cli)),
      cc_rpc_methods = cc_rpc_methods (run_cmd R (base cli)),
      cc_rpc_ws_max_connections = cc_rpc_ws_max_connections (run_cmd R (base cli)),
      cc_rpc_cors = (\<lambda>is_dev. cc_rpc_cors (run_cmd R (base cli)) is_dev),
      cc_default_heap_pages = cc_default_heap_pages (run_cmd R (base cli)),
      cc_force_authoring = cc_force_authoring (run_cmd R (base cli)),
      cc_disable_grandpa = cc_disable_grandpa (run_cmd R (base cli)),
      cc_max_runtime_instances = cc_max_runtime_instances (run_cmd R (base cli)),
      cc_announce_block = cc_announce_block (run_cmd R (base cli)),
      cc_telemetry_endpoints = (\<lambda>chain_spec. cc_telemetry_endpoints (run_cmd R (base cli)) chain_spec),
      cc_node_name = cc_node_name (run_cmd R (base cli))\<rparr>"

section \<open>Default ports\<close>

text \<open>\<open>DefaultConfigurationValues\<close>; the methods \<open>RelayChainCli\<close> overrides so that the two nodes of a collator do not meet.\<close>

record default_ports =
  p2p_listen_port :: u16
  rpc_ws_listen_port :: u16
  rpc_http_listen_port :: u16
  prometheus_listen_port :: u16

definition RelayChainCli_ports :: default_ports where
  "RelayChainCli_ports =
     \<lparr>p2p_listen_port = 30334, rpc_ws_listen_port = 9945, rpc_http_listen_port = 9934, prometheus_listen_port = 9616\<rparr>"

definition all_ports :: "default_ports \<Rightarrow> u16 list" where
  "all_ports d = [p2p_listen_port d, rpc_ws_listen_port d, rpc_http_listen_port d, prometheus_listen_port d]"

text \<open>
  Given that the parachain node uses the documented defaults of the trait, a collator that leaves all
  ports at their defaults opens eight different ones.
\<close>

lemma collator_ports_distinct:
  assumes "all_ports parachain = [30333, 9944, 9933, 9615]"
  shows "distinct (all_ports parachain @ all_ports RelayChainCli_ports)"
  unfolding assms by (simp add: all_ports_def RelayChainCli_ports_def)

section \<open>What the relay chain node is configured with\<close>

text \<open>
  The configuration is that of the parsed arguments in everything but the chain, the base path and the
  initialisation of the logger.
\<close>

lemma relay_configuration:
  "RelayChainCli_configuration R cli =
     (run_cmd R (base cli))\<lparr>cc_base_path := RelayChainCli_base_path R cli,
       cc_chain_id := RelayChainCli_chain_id R cli, cc_init := RelayChainCli_init\<rparr>"
  by (simp add: RelayChainCli_configuration_def)

lemma relay_chain_id_new:
  "RelayChainCli_chain_id R (RelayChainCli_new R (Some ext) bp args) is_dev =
     bind_result (cc_chain_id (run_cmd R (parse_from R args)) is_dev) (\<lambda>c.
       Inr (if c = [] then relay_chain ext else c))"
  by (simp add: RelayChainCli_chain_id_def RelayChainCli_new_def cong: if_cong)

lemma relay_base_path_new:
  "RelayChainCli_base_path R (RelayChainCli_new R ext bp args) =
     bind_result (shared_base_path R (cc_shared_params (run_cmd R (parse_from R args)))) (\<lambda>d.
       Inr (if d = None then map_option (\<lambda>x. path_join R x ''polkadot'') bp else d))"
  by (cases "shared_base_path R (cc_shared_params (run_cmd R (parse_from R args)))")
     (auto simp: RelayChainCli_base_path_def RelayChainCli_new_def split: option.split)

end
