(* ===== verification/Command.thy ===== *)
theory Command
  imports Relay_Cli
begin

text \<open>
  \<open>polkadot-parachains/src/command.rs\<close> and the relay chain arguments of \<open>cli.rs\<close>: how the node turns
  the argument of \<open>--chain\<close> into a specification, decides which of the two runtimes it runs, and
  configures the relay chain node it embeds.
\<close>

section \<open>Parachain ids\<close>

definition LOCAL_PARA_ID :: u32 where
  "LOCAL_PARA_ID = 2015"

definition ROCOCO_PARA_ID :: u32 where
  "ROCOCO_PARA_ID = 2015"

definition WESTEND_PARA_ID :: u32 where
  "WESTEND_PARA_ID = 2081"

definition KUSAMA_PARA_ID :: u32 where
  "KUSAMA_PARA_ID = 2015"

definition KUSAMA_SWAP_PARA_ID :: u32 where
  "KUSAMA_SWAP_PARA_ID = 2267"

definition POLKADOT_PARA_ID :: u32 where
  "POLKADOT_PARA_ID = 2039"

definition MOONBASE_PARA_ID :: u32 where
  "MOONBASE_PARA_ID = 2015"

lemmas para_id_defs = LOCAL_PARA_ID_def ROCOCO_PARA_ID_def WESTEND_PARA_ID_def KUSAMA_PARA_ID_def
  KUSAMA_SWAP_PARA_ID_def POLKADOT_PARA_ID_def MOONBASE_PARA_ID_def

section \<open>Boxed specifications\<close>

text \<open>
  \<open>Box<dyn ChainSpec>\<close> holds a specification over one of the two genesis types. \<open>cli_env\<close> collects
  what the node is linked with.
\<close>

datatype ('si, 'ss) dyn_spec = IntegriteeSpec 'si | ShellSpec 'ss

record ('si, 'ss, 'acc, 'aura, 'd, 'pub, 'props, 'e) cli_env =
  integritee_lib :: "('si, ('acc, 'aura, 'd) integritee_genesis, 'props, 'e) spec_lib"
  shell_lib :: "('ss, ('acc, 'aura, 'd) shell_genesis, 'props, 'e) spec_lib"
  keys :: "('pub, 'acc, 'aura, 'e) key_lib"
  integritee_wasm :: "u8 list option"
  shell_wasm :: "u8 list option"
  integritee_defaults :: 'd
  shell_defaults :: 'd
  include_bytes :: "string \<Rightarrow> u8 list"

definition dyn_name :: "('si, 'ss, 'acc, 'aura, 'd, 'pub, 'props, 'e, 'z) cli_env_scheme \<Rightarrow> ('si, 'ss) dyn_spec \<Rightarrow> string" where
  "dyn_name E spec = (case spec of IntegriteeSpec s \<Rightarrow> cs_name (integritee_lib E) s | ShellSpec s \<Rightarrow> cs_name (shell_lib E) s)"

definition dyn_extension ::
  "('si, 'ss, 'acc, 'aura, 'd, 'pub, 'props, 'e, 'z) cli_env_scheme \<Rightarrow> ('si, 'ss) dyn_spec \<Rightarrow> Extensions option" where
  "dyn_extension E spec =
     (case spec of
        IntegriteeSpec s \<Rightarrow> Extensions_try_get (integritee_lib E) s
      | ShellSpec s \<Rightarrow> Extensions_try_get (shell_lib E) s)"

definition is_shell :: "('si, 'ss, 'acc, 'aura, 'd, 'pub, 'props, 'e, 'z) cli_env_scheme \<Rightarrow> ('si, 'ss) dyn_spec \<Rightarrow> bool" where
  "is_shell E spec = starts_with (dyn_name E spec) ''Integritee Shell''"

section \<open>Loading a specification\<close>

text \<open>
  \<open>Box::new(f(..)?)\<close>, \<open>Box::new(shell_chain_spec(..))\<close> and \<open>Box::new(integritee_chain_spec(..))\<close>.
  Building a specification panics where a key or the properties do not parse.
\<close>

definition embedded :: "('s \<Rightarrow> ('si, 'ss) dyn_spec) \<Rightarrow> string + 's \<Rightarrow> (string + ('si, 'ss) dyn_spec) outcome" where
  "embedded box r = Ret (bind_result r (\<lambda>s. Inr (box s)))"

definition boxed_shell ::
  "('si, 'ss, 'acc, 'aura, 'd, 'pub, 'props, 'e, 'z) cli_env_scheme \<Rightarrow> u32 \<Rightarrow> GenesisKeys \<Rightarrow> RelayChain \<Rightarrow>
   (string + ('si, 'ss) dyn_spec) outcome" where
  "boxed_shell E p k r =
     bind_outcome (shell_chain_spec (shell_lib E) (keys E) (shell_wasm E) (shell_defaults E) p k r)
       (\<lambda>s. Ret (Inr (ShellSpec s)))"

definition boxed_integritee ::
  "('si, 'ss, 'acc, 'aura, 'd, 'pub, 'props, 'e, 'z) cli_env_scheme \<Rightarrow> u32 \<Rightarrow> GenesisKeys \<Rightarrow> RelayChain \<Rightarrow>
   (string + ('si, 'ss) dyn_spec) outcome" where
  "boxed_integritee E p k r =
     bind_outcome (integritee_chain_spec (integritee_lib E) (keys E) (integritee_wasm E) (integritee_defaults E) p k r)
       (\<lambda>s. Ret (Inr (IntegriteeSpec s)))"

text \<open>The last arm of the match: the file is read once more, as a shell specification, if its name says so.\<close>

definition load_path ::
  "('si, 'ss, 'acc, 'aura, 'd, 'pub, 'props, 'e, 'z) cli_env_scheme \<Rightarrow> string \<Rightarrow>
   (string + ('si, 'ss) dyn_spec) outcome" where
  "load_path E path = Ret
     (bind_result (from_json_file (integritee_lib E) path) (\<lambda>chain_spec.
        if is_shell E (IntegriteeSpec chain_spec)
        then bind_result (from_json_file (shell_lib E) path) (\<lambda>s. Inr (ShellSpec s))
        else Inr (IntegriteeSpec chain_spec)))"

definition load_spec ::
  "('si, 'ss, 'acc, 'aura, 'd, 'pub, 'props, 'e, 'z) cli_env_scheme \<Rightarrow> string \<Rightarrow>
   (string + ('si, 'ss) dyn_spec) outcome" where
  "load_spec E i =
     (if i = ''integritee-rococo'' then embedded ShellSpec (shell_rococo_config (shell_lib E) (include_bytes E))
      else if i = ''integritee-westend'' then embedded ShellSpec (shell_westend_config (shell_lib E) (include_bytes E))
      else if i = ''integritee-kusama'' then embedded ShellSpec (shell_kusama_config (shell_lib E) (include_bytes E))
      else if i = ''integritee-polkadot'' then embedded ShellSpec (shell_polkadot_config (shell_lib E) (include_bytes E))
      else if i = ''integritee-moonbase'' then embedded IntegriteeSpec (integritee_moonbase_config (integritee_lib E) (include_bytes E))
      else if i = ''shell-kusama-lease2'' then embedded ShellSpec (shell_kusama_lease2_config (shell_lib E) (include_bytes E))
      else if i = ''shell-kusama-lease3'' then embedded ShellSpec (shell_kusama_lease3_config (shell_lib E) (include_bytes E))
      else if i = ''integritee-rococo-fresh'' then boxed_shell E ROCOCO_PARA_ID Integritee Rococo
      else if i = ''integritee-westend-fresh'' then boxed_shell E WESTEND_PARA_ID Integritee Westend
      else if i = ''integritee-kusama-fresh'' then boxed_shell E KUSAMA_PARA_ID Integritee Kusama
      else if i = ''integritee-polkadot-fresh'' then boxed_shell E POLKADOT_PARA_ID Integritee Polkadot
      else if i = ''integritee-moonbase-fresh'' then boxed_integritee E MOONBASE_PARA_ID IntegriteeDev Moonbase
      else if i = ''shell-kusama-fresh'' then boxed_shell E KUSAMA_SWAP_PARA_ID Integritee Kusama
      else if i = ''integritee-rococo-local'' then boxed_integritee E LOCAL_PARA_ID Integritee RococoLocal
      else if i = ''integritee-rococo-local-dev'' then boxed_integritee E LOCAL_PARA_ID WellKnown RococoLocal
      else if i = ''integritee-westend-local'' then boxed_integritee E LOCAL_PARA_ID Integritee WestendLocal
      else if i = ''integritee-westend-local-dev'' then boxed_integritee E LOCAL_PARA_ID WellKnown WestendLocal
      else if i = ''integritee-kusama-local'' then boxed_integritee E LOCAL_PARA_ID Integritee KusamaLocal
      else if i = ''integritee-kusama-local-dev'' then boxed_integritee E LOCAL_PARA_ID WellKnown KusamaLocal
      else if i = ''integritee-polkadot-local'' then boxed_integritee E LOCAL_PARA_ID Integritee PolkadotLocal
      else if i = ''integritee-polkadot-local-dev'' then boxed_integritee E LOCAL_PARA_ID WellKnown PolkadotLocal
      else if i = ''shell-rococo-local'' then boxed_shell E KUSAMA_SWAP_PARA_ID Integritee RococoLocal
      else if i = ''shell-rococo-local-dev'' then boxed_shell E KUSAMA_SWAP_PARA_ID WellKnown RococoLocal
      else if i = ''shell-westend-local'' then boxed_shell E KUSAMA_SWAP_PARA_ID Integritee WestendLocal
      else if i = ''shell-westend-local-dev'' then boxed_shell E KUSAMA_SWAP_PARA_ID WellKnown WestendLocal
      else if i = ''shell-kusama-local'' then boxed_shell E KUSAMA_SWAP_PARA_ID Integritee KusamaLocal
      else if i = ''shell-kusama-local-dev'' then boxed_shell E KUSAMA_SWAP_PARA_ID WellKnown KusamaLocal
      else if i = ''shell-polkadot-local'' then boxed_shell E KUSAMA_SWAP_PARA_ID Integritee PolkadotLocal
      else if i = ''shell-polkadot-local-dev'' then boxed_shell E KUSAMA_SWAP_PARA_ID WellKnown PolkadotLocal
      else if i = '''' then Panic ''Please supply chain_spec to be loaded.''
      else load_path E i)"

definition native_runtime_version ::
  "('si, 'ss, 'acc, 'aura, 'd, 'pub, 'props, 'e, 'z) cli_env_scheme \<Rightarrow> 'api \<Rightarrow> 'api \<Rightarrow> ('si, 'ss) dyn_spec \<Rightarrow>
   'api RuntimeVersion" where
  "native_runtime_version E shell_apis parachain_apis spec =
     (if is_shell E spec then shell_VERSION shell_apis else VERSION parachain_apis)"

section \<open>Case analysis of load\_spec\<close>

definition embedded_ids :: "string list" where
  "embedded_ids =
     [''integritee-rococo'', ''integritee-westend'', ''integritee-kusama'',
      ''integritee-polkadot'', ''integritee-moonbase'', ''shell-kusama-lease2'',
      ''shell-kusama-lease3'']"

definition built_ids :: "string list" where
  "built_ids =
     [''integritee-rococo-fresh'', ''integritee-westend-fresh'', ''integritee-kusama-fresh'',
      ''integritee-polkadot-fresh'', ''integritee-moonbase-fresh'', ''shell-kusama-fresh'',
      ''integritee-rococo-local'', ''integritee-rococo-local-dev'', ''integritee-westend-local'',
      ''integritee-westend-local-dev'', ''integritee-kusama-local'',
      ''integritee-kusama-local-dev'', ''integritee-polkadot-local'',
      ''integritee-polkadot-local-dev'', ''shell-rococo-local'', ''shell-rococo-local-dev'',
      ''shell-westend-local'', ''shell-westend-local-dev'', ''shell-kusama-local'',
      ''shell-kusama-local-dev'', ''shell-polkadot-local'', ''shell-polkadot-local-dev'']"

lemma if_mem: "(c \<Longrightarrow> x \<in> A) \<Longrightarrow> y \<in> A \<Longrightarrow> (if c then x else y) \<in> A"
  by simp

section \<open>Properties\<close>

lemma boxed_shell_fields:
  assumes "spec_laws (shell_lib E)" "boxed_shell E p k r = Ret (Inr s)"
  shows "is_shell E s \<and> (\<exists>x. s = ShellSpec x) \<and>
    dyn_extension E s = Some \<lparr>relay_chain = RelayChain_to_string r, para_id = p\<rparr>"
  using assms(2)
  by (auto simp: boxed_shell_def bind_outcome_eq_Ret is_shell_def dyn_name_def dyn_extension_def
      Extensions_try_get_def shell_spec.spec_fields [OF assms(1)])

lemma boxed_integritee_fields:
  assumes "spec_laws (integritee_lib E)" "boxed_integritee E p k r = Ret (Inr s)"
  shows "\<not> is_shell E s \<and> (\<exists>x. s = IntegriteeSpec x) \<and>
    dyn_extension E s = Some \<lparr>relay_chain = RelayChain_to_string r, para_id = p\<rparr>"
  using assms(2)
  by (auto simp: boxed_integritee_def bind_outcome_eq_Ret is_shell_def dyn_name_def dyn_extension_def
      Extensions_try_get_def integritee_spec.spec_fields [OF assms(1)])

lemma built_runtime:
  assumes "spec_laws (integritee_lib E)" "spec_laws (shell_lib E)" "i \<in> set built_ids" "load_spec E i = Ret (Inr s)"
  shows "((\<exists>x. s = IntegriteeSpec x) \<longleftrightarrow> i \<in> {''integritee-moonbase'', ''integritee-moonbase-fresh''} \<or>
      i \<in> set [''integritee-'' @ r @ q. r \<leftarrow> [''rococo-local'', ''westend-local'', ''kusama-local'', ''polkadot-local''],
        q \<leftarrow> ['''', ''-dev'']]) \<and>
    (is_shell E s \<longleftrightarrow> (\<exists>x. s = ShellSpec x) \<and> i \<notin> {''integritee-kusama'', ''integritee-rococo''})"
proof -
  note fields = boxed_shell_fields [OF assms(2)] boxed_integritee_fields [OF assms(1)]
  show ?thesis
    using assms(3,4) unfolding built_ids_def list.set insert_iff empty_iff
    by (elim disjE) (auto simp: load_spec_def dest!: fields)
qed

text \<open>
  The names in the embedded files, \<open>polkadot-parachains/chain-specs\<close>, and the condition that reading
  such a file gives a specification of that name.
\<close>

definition embedded_names :: "(string \<times> string) list" where
  "embedded_names =
     [(''../chain-specs/integritee-rococo.json'', ''Integritee on Rococo''),
      (''../chain-specs/integritee-westend.json'', ''Integritee Shell''),
      (''../chain-specs/integritee-kusama.json'', ''Integritee Network (Kusama)''),
      (''../chain-specs/integritee-polkadot.json'', ''Integritee Shell''),
      (''../chain-specs/integritee-moonbase.json'', ''Integritee Network (Moonbase)''),
      (''../chain-specs/shell-kusama-lease2.json'', ''Integritee Shell''),
      (''../chain-specs/shell-kusama-lease3.json'', ''Integritee Shell for swap'')]"

definition embedded_laws :: "('si, 'ss, 'acc, 'aura, 'd, 'pub, 'props, 'e, 'z) cli_env_scheme \<Rightarrow> bool" where
  "embedded_laws E \<longleftrightarrow>
     (\<forall>f n. map_of embedded_names f = Some n \<longrightarrow>
        (\<forall>s. from_json_bytes (integritee_lib E) (include_bytes E f) = Inr s \<longrightarrow> cs_name (integritee_lib E) s = n) \<and>
        (\<forall>s. from_json_bytes (shell_lib E) (include_bytes E f) = Inr s \<longrightarrow> cs_name (shell_lib E) s = n))"

lemma live_network_runtime:
  assumes "embedded_laws E" "i \<in> set embedded_ids" "load_spec E i = Ret (Inr s)"
  shows "((\<exists>x. s = IntegriteeSpec x) \<longleftrightarrow> i \<in> {''integritee-moonbase'', ''integritee-moonbase-fresh''} \<or>
      i \<in> set [''integritee-'' @ r @ q. r \<leftarrow> [''rococo-local'', ''westend-local'', ''kusama-local'', ''polkadot-local''],
        q \<leftarrow> ['''', ''-dev'']]) \<and>
    (is_shell E s \<longleftrightarrow> (\<exists>x. s = ShellSpec x) \<and> i \<notin> {''integritee-kusama'', ''integritee-rococo''})"
proof -
  have names: "cs_name (integritee_lib E) t = n"
    if "from_json_bytes (integritee_lib E) (include_bytes E f) = Inr t" "map_of embedded_names f = Some n" for f t n
    using assms(1) that unfolding embedded_laws_def by blast
  have shell_names: "cs_name (shell_lib E) t = n"
    if "from_json_bytes (shell_lib E) (include_bytes E f) = Inr t" "map_of embedded_names f = Some n" for f t n
    using assms(1) that unfolding embedded_laws_def by blast
  show ?thesis
    using assms(2,3) unfolding embedded_ids_def list.set insert_iff empty_iff
    by (elim disjE)
       (auto simp: load_spec_def embedded_def bind_result_eq_Inr embedded_config_defs is_shell_def
         dyn_name_def embedded_names_def dest!: names shell_names)
qed

text \<open>
  C20. Loaded under a name the node knows, the genesis state is one of the full runtime for Moonbase and for the local
  \<open>integritee-\<close> networks, and one of the shell for every other name. The runtime that the node decides to run, by
  looking at the name in the specification only, is the one the genesis state was made for, except for the embedded
  specifications of Kusama and Rococo: these hold a genesis state of the shell under a name for which the node runs the
  full runtime. The native version that the node reports is that of the runtime it runs.
\<close>

theorem runtime_matches_genesis:
  assumes "spec_laws (integritee_lib E)" "spec_laws (shell_lib E)" "embedded_laws E"
    and "i \<in> set built_ids \<or> i \<in> set embedded_ids" "load_spec E i = Ret (Inr s)"
  shows "((\<exists>x. s = IntegriteeSpec x) \<longleftrightarrow> i \<in> {''integritee-moonbase'', ''integritee-moonbase-fresh''} \<or>
      i \<in> set [''integritee-'' @ r @ q. r \<leftarrow> [''rococo-local'', ''westend-local'', ''kusama-local'', ''polkadot-local''],
        q \<leftarrow> ['''', ''-dev'']]) \<and>
    (is_shell E s \<longleftrightarrow> (\<exists>x. s = ShellSpec x) \<and> i \<notin> {''integritee-kusama'', ''integritee-rococo''}) \<and>
    impl_name (native_runtime_version E a b s) =
      (if (\<exists>x. s = ShellSpec x) \<and> i \<notin> {''integritee-kusama'', ''integritee-rococo''} then ''integritee-shell''
       else ''integritee-full'')"
proof -
  have *: "((\<exists>x. s = IntegriteeSpec x) \<longleftrightarrow> i \<in> {''integritee-moonbase'', ''integritee-moonbase-fresh''} \<or>
      i \<in> set [''integritee-'' @ r @ q. r \<leftarrow> [''rococo-local'', ''westend-local'', ''kusama-local'', ''polkadot-local''],
        q \<leftarrow> ['''', ''-dev'']]) \<and>
    (is_shell E s \<longleftrightarrow> (\<exists>x. s = ShellSpec x) \<and> i \<notin> {''integritee-kusama'', ''integritee-rococo''})"
    using assms(4)
  proof
    assume "i \<in> set built_ids"
    then show ?thesis by (rule built_runtime [OF assms(1,2) _ assms(5)])
  next
    assume "i \<in> set embedded_ids"
    then show ?thesis by (rule live_network_runtime [OF assms(3) _ assms(5)])
  qed
  then show ?thesis
    by (simp add: native_runtime_version_def shell_VERSION_def VERSION_def)
qed

lemma boxed_total:
  assumes "\<forall>a \<in> set genesis_addresses. \<exists>p. from_ss58check (keys E) a = Inr p"
    and "json_from_str (shell_lib E) chain_properties = Inr pr"
    and "json_from_str (integritee_lib E) chain_properties = Inr qr"
  shows "\<exists>s. boxed_shell E p k r = Ret (Inr s)" "\<exists>s. boxed_integritee E p k r = Ret (Inr s)"
proof -
  obtain root endowed auths where "genesis_keys_of (keys E) k = Ret (root, endowed, auths)"
    using genesis_keys_total [OF assms(1)] by blast
  with assms(2,3) show "\<exists>s. boxed_shell E p k r = Ret (Inr s)" "\<exists>s. boxed_integritee E p k r = Ret (Inr s)"
    by (simp_all add: boxed_shell_def boxed_integritee_def shell_chain_spec_def integritee_chain_spec_def chain_spec_def)
qed

text \<open>The specifications that the node builds under a fixed name are those of the two builders.\<close>

lemma built_id_cases:
  assumes "i \<in> set built_ids"
  shows "(\<exists>p k r. load_spec E i = boxed_shell E p k r) \<or> (\<exists>p k r. load_spec E i = boxed_integritee E p k r)"
  using assms unfolding built_ids_def list.set insert_iff empty_iff
  by (elim disjE) (simp_all add: load_spec_def, blast+)

lemma load_spec_path:
  assumes "i \<notin> set built_ids" "i \<notin> set embedded_ids" "i \<noteq> ''''"
  shows "load_spec E i = load_path E i"
  using assms unfolding built_ids_def embedded_ids_def list.set insert_iff de_Morgan_disj
  by (elim conjE) (simp only: load_spec_def if_False simp_thms)

lemma load_path_error:
  "(\<exists>m. load_path E i = Ret (Inl m)) \<longleftrightarrow> (\<exists>m. from_json_file (integritee_lib E) i = Inl m) \<or>
     (\<exists>s m. from_json_file (integritee_lib E) i = Inr s \<and> is_shell E (IntegriteeSpec s) \<and>
        from_json_file (shell_lib E) i = Inl m)"
  by (cases "from_json_file (integritee_lib E) i"; cases "from_json_file (shell_lib E) i") (auto simp: load_path_def)

text \<open>
  C22. Given valid keys and properties, loading a specification panics for the empty
  argument and for no other; every name of a specification the node builds itself gives one; and for an argument that
  is no known name, the result is an error exactly where the file of that name cannot be read, or cannot be read as a
  specification of the shell although its name says that it is one.
\<close>

theorem load_spec_total:
  assumes "\<forall>a \<in> set genesis_addresses. \<exists>p. from_ss58check (keys E) a = Inr p"
    and "json_from_str (shell_lib E) chain_properties = Inr pr"
    and "json_from_str (integritee_lib E) chain_properties = Inr qr"
  shows "((\<exists>m. load_spec E i = Panic m) \<longleftrightarrow> i = '''') \<and>
    (i \<in> set built_ids \<longrightarrow> (\<exists>s. load_spec E i = Ret (Inr s))) \<and>
    (i \<notin> set built_ids \<and> i \<notin> set embedded_ids \<and> i \<noteq> '''' \<longrightarrow>
      ((\<exists>m. load_spec E i = Ret (Inl m)) \<longleftrightarrow> (\<exists>m. from_json_file (integritee_lib E) i = Inl m) \<or>
        (\<exists>s m. from_json_file (integritee_lib E) i = Inr s \<and> is_shell E (IntegriteeSpec s) \<and>
          from_json_file (shell_lib E) i = Inl m)))"
proof -
  have boxed: "boxed_shell E p k r \<in> range Ret" "boxed_integritee E p k r \<in> range Ret" for p k r
    using boxed_total [OF assms, of p k r] by auto
  have leaf: "embedded box r \<in> range Ret" "load_path E i \<in> range Ret" for box r
    by (simp_all add: embedded_def load_path_def)
  have "load_spec E i \<in> range Ret" if "i \<noteq> ''''"
    unfolding load_spec_def by (rule if_mem boxed leaf | use that in simp)+
  moreover have "load_spec E '''' = Panic ''Please supply chain_spec to be loaded.''"
    by (simp add: load_spec_def)
  ultimately have "(\<exists>m. load_spec E i = Panic m) \<longleftrightarrow> i = ''''"
    by (cases "i = []") (simp_all, metis outcome.distinct(1) rangeE)
  moreover have "\<exists>s. load_spec E i = Ret (Inr s)" if "i \<in> set built_ids"
    using built_id_cases [OF that, of E] boxed_total [OF assms] by metis
  ultimately show ?thesis
    using load_spec_path [of i E] load_path_error [of E i] by auto
qed

text \<open>
  Every specification the node builds under a fixed name carries a parachain
  extension; a name beginning with \<open>shell-\<close> gives the shell runtime under the id of the swap
  parachain, and (Moonbase apart) the name says which relay chain the node will connect to.
\<close>

lemma built_spec_identity:
  assumes "spec_laws (integritee_lib E)" "spec_laws (shell_lib E)"
    and "i \<in> set built_ids" "load_spec E i = Ret (Inr s)"
  shows "\<exists>ext. dyn_extension E s = Some ext \<and>
    (starts_with i ''shell-'' \<longrightarrow> is_shell E s \<and> para_id ext = KUSAMA_SWAP_PARA_ID) \<and>
    (\<not> is_shell E s \<longrightarrow> para_id ext = 2015) \<and>
    (i \<noteq> ''integritee-moonbase-fresh'' \<longrightarrow>
       i \<in> set [p @ relay_chain ext @ q. p \<leftarrow> [''shell-'', ''integritee-''], q \<leftarrow> [''-fresh'', '''', ''-dev'']])"
proof -
  note fields = boxed_shell_fields [OF assms(2)] boxed_integritee_fields [OF assms(1)]
  show ?thesis
    using assms(3,4) unfolding built_ids_def list.set insert_iff empty_iff
    by (elim disjE) (auto simp: load_spec_def para_id_defs dest!: fields)
qed

text \<open>
  A collator started with a specification built here and no relay chain
  argument runs its embedded relay chain node on the relay chain the specification was built for,
  and keeps its data in the directory \<open>polkadot\<close> below its own; arguments given for the relay chain
  take precedence over both. Everything else is configured by these arguments alone, except that
  the relay chain node never initialises the logger.
\<close>

lemma relay_node_follows_spec:
  assumes "spec_laws (integritee_lib E)" "spec_laws (shell_lib E)"
    and "boxed_shell E p k r = Ret (Inr s) \<or> boxed_integritee E p k r = Ret (Inr s)"
  shows "RelayChainCli_configuration R (RelayChainCli_new R (dyn_extension E s) bp args) =
    (run_cmd R (parse_from R args))
      \<lparr>cc_chain_id := (\<lambda>is_dev. bind_result (cc_chain_id (run_cmd R (parse_from R args)) is_dev) (\<lambda>c.
         Inr (if c = '''' then RelayChain_to_string r else c))),
       cc_base_path := bind_result (shared_base_path R (cc_shared_params (run_cmd R (parse_from R args)))) (\<lambda>d.
         Inr (if d = None then map_option (\<lambda>x. path_join R x ''polkadot'') bp else d)),
       cc_init := RelayChainCli_init\<rparr>"
proof -
  have "dyn_extension E s = Some \<lparr>relay_chain = RelayChain_to_string r, para_id = p\<rparr>"
    using assms(3) boxed_shell_fields [OF assms(2)] boxed_integritee_fields [OF assms(1)] by blast
  moreover have "base (RelayChainCli_new R (dyn_extension E s) bp args) = parse_from R args"
    by (simp add: RelayChainCli_new_def)
  ultimately show ?thesis
    by (simp add: relay_configuration relay_base_path_new relay_chain_id_new [abs_def] cong: if_cong)
qed

subsection \<open>A concrete node\<close>

text \<open>Files whose content is their own path, decoded again by the reader.\<close>

definition to_bytes :: "string \<Rightarrow> u8 list" where
  "to_bytes f = map (\<lambda>c. of_nat (of_char c)) f"

definition of_bytes :: "u8 list \<Rightarrow> string" where
  "of_bytes b = map (\<lambda>w. char_of (unat w)) b"

lemma of_to_bytes [simp]: "of_bytes (to_bytes f) = f"
  by (simp add: of_bytes_def to_bytes_def comp_def unat_of_nat)

definition example_json :: "u8 list \<Rightarrow> string + 'g built_spec" where
  "example_json b =
     (case map_of embedded_names (of_bytes b) of
        None \<Rightarrow> Inl ''not a specification''
      | Some n \<Rightarrow> Inr \<lparr>bs_name = n, bs_id = [], bs_type = Live, bs_genesis = (\<lambda>_. Panic []),
          bs_protocol = None, bs_extension = \<lparr>relay_chain = [], para_id = 0\<rparr>\<rparr>)"

definition example_cli ::
  "((string, string, unit) integritee_genesis built_spec, (string, string, unit) shell_genesis built_spec,
    string, string, unit, string, unit, unit) cli_env" where
  "example_cli = \<lparr>integritee_lib = example_specs\<lparr>from_json_bytes := example_json\<rparr>,
     shell_lib = example_specs\<lparr>from_json_bytes := example_json\<rparr>,
     keys = example_keys, integritee_wasm = Some [1], shell_wasm = Some [2],
     integritee_defaults = (), shell_defaults = (),
     include_bytes = to_bytes\<rparr>"

lemma example_cli_laws:
  "spec_laws (integritee_lib example_cli)" "spec_laws (shell_lib example_cli)" "embedded_laws example_cli"
proof -
  show "spec_laws (integritee_lib example_cli)" "spec_laws (shell_lib example_cli)"
    by (simp_all add: example_cli_def spec_laws_def example_specs_def Let_def)
  show "embedded_laws example_cli"
    by (simp add: embedded_laws_def example_cli_def example_specs_def example_json_def split: option.split)
qed

lemmas example_cli_eval = example_cli_def load_spec_def boxed_shell_def boxed_integritee_def example_spec_eval

theorem runtime_matches_genesis_witness:
  "\<exists>s t. load_spec example_cli ''shell-kusama-local-dev'' = Ret (Inr s) \<and> is_shell example_cli s \<and>
     load_spec example_cli ''integritee-kusama'' = Ret (Inr t) \<and> \<not> is_shell example_cli t"
proof -
  obtain x where x: "load_spec example_cli ''shell-kusama-local-dev'' = Ret (Inr (ShellSpec x))"
    by (simp add: example_cli_eval)
  obtain t where t: "load_spec example_cli ''integritee-kusama'' = Ret (Inr t)"
    by (simp add: load_spec_def embedded_def shell_kusama_config_def example_cli_def example_json_def
        embedded_names_def)
  have "is_shell example_cli (ShellSpec x)" "\<not> is_shell example_cli t"
    using runtime_matches_genesis [OF example_cli_laws _ x, where a = "()" and b = "()"]
      runtime_matches_genesis [OF example_cli_laws _ t, where a = "()" and b = "()"]
    by (simp_all add: built_ids_def embedded_ids_def)
  with x t show ?thesis by blast
qed

theorem load_spec_total_witness:
  "\<exists>s. load_spec example_cli ''integritee-kusama-local'' = Ret (Inr s)"
proof -
  have "\<forall>a \<in> set genesis_addresses. \<exists>p. from_ss58check (keys example_cli) a = Inr p"
    "json_from_str (shell_lib example_cli) chain_properties = Inr ()"
    "json_from_str (integritee_lib example_cli) chain_properties = Inr ()"
    by (simp_all add: example_cli_def example_keys_def example_specs_def)
  from load_spec_total [OF this, of "''integritee-kusama-local''"] show ?thesis by (simp add: built_ids_def)
qed

lemma built_spec_identity_witness:
  "\<exists>s. load_spec example_cli ''shell-rococo-local-dev'' = Ret (Inr s) \<and>
     map_option para_id (dyn_extension example_cli s) = Some 2267"
proof -
  obtain s where s: "load_spec example_cli ''shell-rococo-local-dev'' = Ret (Inr s)"
    by (simp add: example_cli_eval)
  then have "map_option para_id (dyn_extension example_cli s) = Some 2267"
    using built_spec_identity [OF example_cli_laws(1,2) _ s]
    by (auto simp: built_ids_def KUSAMA_SWAP_PARA_ID_def)
  with s show ?thesis by blast
qed

definition example_run_cmd :: "string list \<Rightarrow> (unit, unit, unit) cli_configuration" where
  "example_run_cmd args = \<lparr>cc_shared_params = (), cc_import_params = None, cc_network_params = None,
     cc_keystore_params = None, cc_base_path = Inr None, cc_rpc_http = (\<lambda>_. Inr None), cc_rpc_ipc = Inr None,
     cc_rpc_ws = (\<lambda>_. Inr None), cc_prometheus_config = (\<lambda>_ _. Inr None), cc_init = Ret (Inr ()),
     cc_chain_id = (\<lambda>_. Inr []), cc_role = (\<lambda>_. Inr ()), cc_transaction_pool = (\<lambda>_. Inr ()),
     cc_trie_cache_maximum_size = Inr None, cc_rpc_methods = Inr (), cc_rpc_ws_max_connections = Inr None,
     cc_rpc_cors = (\<lambda>_. Inr None), cc_default_heap_pages = Inr None, cc_force_authoring = Inr False,
     cc_disable_grandpa = Inr False, cc_max_runtime_instances = Inr None, cc_announce_block = Inr True,
     cc_telemetry_endpoints = (\<lambda>_. Inr None), cc_node_name = Inr ''relay''\<rparr>"

definition example_relay :: "(string list, unit, unit, unit) relay_lib" where
  "example_relay = \<lparr>parse_from = (\<lambda>args. args), parse_exit = (\<lambda>_. None), run_cmd = example_run_cmd,
     shared_base_path = (\<lambda>_. Inr None), path_join = (\<lambda>p q. p @ ''/'' @ q)\<rparr>"

lemma relay_node_follows_spec_witness:
  "\<exists>s. boxed_integritee example_cli 2015 WellKnown Westend = Ret (Inr s) \<and>
     cc_chain_id (RelayChainCli_configuration example_relay
       (RelayChainCli_new example_relay (dyn_extension example_cli s) (Some ''/data'') [])) False = Inr ''westend''"
proof -
  obtain s where s: "boxed_integritee example_cli 2015 WellKnown Westend = Ret (Inr s)"
    by (simp add: example_cli_eval)
  moreover have "cc_chain_id (RelayChainCli_configuration example_relay
      (RelayChainCli_new example_relay (dyn_extension example_cli s) (Some ''/data'') [])) False = Inr ''westend''"
    using relay_node_follows_spec [OF example_cli_laws(1,2), of 2015 WellKnown Westend s example_relay "Some ''/data''" "[]"] s
    by (simp add: example_relay_def example_run_cmd_def)
  ultimately show ?thesis by blast
qed

end
