(* ===== verification/Service.thy ===== *)
theory Service
  imports Consensus
begin

text \<open>
  \<open>polkadot-parachains/src/service.rs\<close>, the part that assembles and starts a node, and \<open>rpc.rs\<close>. The
  building blocks (client, network, relay chain interface, telemetry, task manager) belong to other
  crates; each is a field of \<open>service_lib\<close>, and every value of theirs that the code only passes on is
  of one opaque type \<open>'x\<close>. What the code itself decides is kept: what is called, in which order,
  with which arguments, and what happens when a call fails. An action therefore carries the list
  of effects it has had so far besides its result.
\<close>

section \<open>Actions\<close>

datatype event =
    SpawnTask string
  | BuildRelayChainInterface
  | BuildNetwork u32
  | SpawnServiceTasks
  | CreateDatabaseDir
  | GatherHwbench
  | PrintHwbench
  | WarnSlowHardware
  | BuildConsensus
  | StartCollator u32
  | StartFullNode u32
  | StartNetwork
  | RunUntilExit

type_synonym 'a action = "event list \<Rightarrow> (string + 'a) outcome \<times> event list"

definition bind_action :: "'a action \<Rightarrow> ('a \<Rightarrow> 'b action) \<Rightarrow> 'b action" where
  "bind_action m f tr =
     (case m tr of
        (Ret (Inr x), tr') \<Rightarrow> f x tr'
      | (Ret (Inl e), tr') \<Rightarrow> (Ret (Inl e), tr')
      | (Panic p, tr') \<Rightarrow> (Panic p, tr'))"

definition pure_action :: "'a \<Rightarrow> 'a action" where
  "pure_action x tr = (Ret (Inr x), tr)"

definition attempt :: "(string + 'a) outcome \<Rightarrow> 'a action" where
  "attempt r tr = (r, tr)"

definition emit :: "event \<Rightarrow> unit action" where
  "emit e tr = (Ret (Inr ()), tr @ [e])"

definition emit_if :: "bool \<Rightarrow> event \<Rightarrow> unit action" where
  "emit_if c e = (if c then emit e else pure_action ())"

section \<open>What a node is built from\<close>

text \<open>
  \<open>sc_service::Configuration\<close>, with the fields the code reads; \<open>cfg_rest\<close> stands for the others.
\<close>

record 'x config =
  telemetry_endpoints :: "string list option"
  default_heap_pages :: "u64 option"
  is_authority :: bool
  force_authoring :: bool
  cfg_rest :: 'x

record 'x PartialComponents =
  pc_backend :: 'x
  pc_client :: 'x
  pc_import_queue :: 'x
  pc_keystore_container :: 'x
  pc_task_manager :: 'x
  pc_transaction_pool :: 'x
  pc_block_import :: 'x
  pc_telemetry :: "'x option"
  pc_telemetry_worker_handle :: "'x option"

record 'x consensus_args =
  ca_client :: 'x
  ca_block_import :: 'x
  ca_prometheus_registry :: "'x option"
  ca_telemetry :: "'x option"
  ca_task_manager :: 'x
  ca_relay_chain_interface :: 'x
  ca_transaction_pool :: 'x
  ca_sync_oracle :: 'x
  ca_keystore :: 'x
  ca_force_authoring :: bool

datatype relay_chain_error = Application string | OtherRelayChainError string

text \<open>\<open>BuildAuraConsensusParams\<close>; the two slot portions are what is given to \<open>SlotProportion::new\<close>.\<close>

record 'x aura_params =
  ap_proposer_factory :: 'x
  ap_create_inherent_data_providers :: "u64 \<Rightarrow> 'x \<Rightarrow> 'x \<Rightarrow> string + u64 \<times> u64 \<times> 'x"
  ap_args :: "'x consensus_args"
  ap_slot_duration :: u64
  ap_block_proposal_slot_portion :: f32
  ap_max_block_proposal_slot_portion :: "f32 option"

text \<open>\<open>SpawnTasksParams\<close>, \<open>StartCollatorParams\<close> and \<open>StartFullNodeParams\<close>.\<close>

record ('x, 'm) spawn_params =
  st_rpc_builder :: "bool \<Rightarrow> string + 'm"
  st_client :: 'x
  st_transaction_pool :: 'x
  st_task_manager :: 'x
  st_config :: "'x config"
  st_keystore :: 'x
  st_backend :: 'x
  st_network :: 'x
  st_sync_service :: 'x
  st_system_rpc_tx :: 'x
  st_tx_handler_controller :: 'x
  st_telemetry :: "'x option"

record 'x collator_params =
  co_para_id :: u32
  co_client :: 'x
  co_announce_block :: 'x
  co_task_manager :: 'x
  co_relay_chain_interface :: 'x
  co_parachain_consensus :: 'x
  co_import_queue :: 'x
  co_collator_key :: 'x
  co_sync_service :: 'x
  co_relay_chain_slot_duration :: nat
  co_recovery_handle :: 'x

record 'x full_node_params =
  fn_para_id :: u32
  fn_client :: 'x
  fn_announce_block :: 'x
  fn_task_manager :: 'x
  fn_relay_chain_interface :: 'x
  fn_import_queue :: 'x
  fn_sync_service :: 'x
  fn_relay_chain_slot_duration :: nat
  fn_recovery_handle :: 'x

record ('x, 'm) service_lib =
  TelemetryWorker_new :: "nat \<Rightarrow> string + 'x"
  worker_handle :: "'x \<Rightarrow> 'x"
  new_telemetry :: "'x \<Rightarrow> string list \<Rightarrow> 'x"
  telemetry_handle :: "'x \<Rightarrow> 'x"
  DEFAULT_HEAP_ALLOC_STRATEGY :: 'x
  HeapAllocStrategy_Static :: "u32 \<Rightarrow> 'x"
  build_executor :: "'x config \<Rightarrow> 'x \<Rightarrow> 'x \<Rightarrow> 'x"
  new_full_parts :: "'x config \<Rightarrow> 'x option \<Rightarrow> 'x \<Rightarrow> string + 'x \<times> 'x \<times> 'x \<times> 'x"
  new_full_pool :: "'x config \<Rightarrow> bool \<Rightarrow> 'x \<Rightarrow> 'x \<Rightarrow> 'x"
  ParachainBlockImport_new :: "'x \<Rightarrow> 'x \<Rightarrow> 'x"
  slot_duration :: "'x \<Rightarrow> string + u64"
  from_timestamp_and_slot_duration :: "u64 \<Rightarrow> u64 \<Rightarrow> u64"
  build_verifier :: "'x \<Rightarrow> (u64 \<Rightarrow> string + u64 \<times> u64) \<Rightarrow> 'x option \<Rightarrow> 'x"
  RelayChainVerifier_new :: "'x \<Rightarrow> 'x"
  BasicQueue_new :: "'x Verifier \<Rightarrow> 'x \<Rightarrow> 'x \<Rightarrow> 'x option \<Rightarrow> 'x"
  ProposerFactory_with_proof_recording :: "'x \<Rightarrow> 'x \<Rightarrow> 'x \<Rightarrow> 'x option \<Rightarrow> 'x option \<Rightarrow> 'x"
  ParachainInherentData_create_at :: "'x \<Rightarrow> 'x \<Rightarrow> 'x \<Rightarrow> u32 \<Rightarrow> 'x option"
  prometheus_registry :: "'x config \<Rightarrow> 'x option"
  keystore :: "'x \<Rightarrow> 'x"
  announce_block :: "'x \<Rightarrow> 'x"
  AuraConsensus_build :: "'x aura_params \<Rightarrow> 'x"
  prepare_node_config :: "'x config \<Rightarrow> 'x config"
  build_relay_chain_interface ::
    "'x config \<Rightarrow> 'x config \<Rightarrow> 'x option \<Rightarrow> 'x \<Rightarrow> 'x \<Rightarrow> 'x option \<Rightarrow> relay_chain_error + 'x \<times> 'x option"
  import_queue_service :: "'x \<Rightarrow> 'x"
  build_network :: "'x config \<Rightarrow> 'x \<Rightarrow> 'x \<Rightarrow> u32 \<Rightarrow> 'x \<Rightarrow> 'x \<Rightarrow> 'x \<Rightarrow> string + 'x \<times> 'x \<times> 'x \<times> 'x \<times> 'x"
  spawn_tasks :: "('x, 'm) spawn_params \<Rightarrow> string + unit"
  check_hardware :: "'x \<Rightarrow> bool"
  overseer_handle :: "'x \<Rightarrow> string + 'x"
  start_collator :: "'x collator_params \<Rightarrow> string + unit"
  start_full_node :: "'x full_node_params \<Rightarrow> string + unit"
  rpc_empty :: 'm
  System_rpc :: "'x \<Rightarrow> 'x \<Rightarrow> bool \<Rightarrow> 'm"
  TransactionPayment_rpc :: "'x \<Rightarrow> 'm"
  StateMigration_rpc :: "'x \<Rightarrow> 'x \<Rightarrow> bool \<Rightarrow> 'm"
  rpc_merge :: "'m \<Rightarrow> 'm \<Rightarrow> string + 'm"
  native_executor_of :: 'x

section \<open>RPC\<close>

definition create_full :: "('x, 'm, 'z) service_lib_scheme \<Rightarrow> 'x \<Rightarrow> 'x \<Rightarrow> bool \<Rightarrow> 'x \<Rightarrow> string + 'm" where
  "create_full L client pool deny_unsafe backend =
     bind_result (rpc_merge L (rpc_empty L) (System_rpc L client pool deny_unsafe)) (\<lambda>m1.
     bind_result (rpc_merge L m1 (TransactionPayment_rpc L client)) (\<lambda>m2.
     rpc_merge L m2 (StateMigration_rpc L client backend deny_unsafe)))"

section \<open>Partial components\<close>

text \<open>
  \<open>h as _\<close> converts the configured \<open>u64\<close> number of heap pages to the \<open>u32\<close> of the allocation strategy,
  dropping the upper bits.
\<close>

definition heap_strategy :: "('x, 'm, 'z) service_lib_scheme \<Rightarrow> 'x config \<Rightarrow> 'x" where
  "heap_strategy L cfg =
     (case default_heap_pages cfg of
        None \<Rightarrow> DEFAULT_HEAP_ALLOC_STRATEGY L
      | Some h \<Rightarrow> HeapAllocStrategy_Static L (ucast h))"

definition make_telemetry :: "('x, 'm, 'z) service_lib_scheme \<Rightarrow> 'x config \<Rightarrow> string + ('x \<times> 'x) option" where
  "make_telemetry L cfg =
     (case telemetry_endpoints cfg of
        None \<Rightarrow> Inr None
      | Some endpoints \<Rightarrow>
          if endpoints = [] then Inr None
          else bind_result (TelemetryWorker_new L 16) (\<lambda>worker.
            Inr (Some (worker, new_telemetry L (worker_handle L worker) endpoints))))"

definition new_partial ::
  "('x, 'm, 'z) service_lib_scheme \<Rightarrow> 'x config \<Rightarrow>
   ('x \<Rightarrow> 'x \<Rightarrow> 'x config \<Rightarrow> 'x option \<Rightarrow> 'x \<Rightarrow> string + 'x) \<Rightarrow> 'x PartialComponents action" where
  "new_partial L cfg build_import_queue =
     bind_action (attempt (Ret (make_telemetry L cfg))) (\<lambda>telemetry.
     bind_action (attempt (Ret (new_full_parts L cfg
         (map_option (\<lambda>(_, t). telemetry_handle L t) telemetry)
         (build_executor L cfg (heap_strategy L cfg) (heap_strategy L cfg)))))
       (\<lambda>(client, backend, keystore_container, task_manager).
     bind_action (emit_if (telemetry \<noteq> None) (SpawnTask ''telemetry'')) (\<lambda>_.
     let pool = new_full_pool L cfg (is_authority cfg) task_manager client;
         block_import = ParachainBlockImport_new L client backend;
         tel = map_option snd telemetry in
     bind_action (attempt (Ret (build_import_queue client block_import cfg
         (map_option (telemetry_handle L) tel) task_manager))) (\<lambda>import_queue.
     pure_action
       \<lparr>pc_backend = backend, pc_client = client, pc_import_queue = import_queue,
        pc_keystore_container = keystore_container, pc_task_manager = task_manager,
        pc_transaction_pool = pool, pc_block_import = block_import, pc_telemetry = tel,
        pc_telemetry_worker_handle = map_option (\<lambda>(w, _). worker_handle L w) telemetry\<rparr>))))"

section \<open>The import queue\<close>

definition verifier_inherent_providers :: "('x, 'm, 'z) service_lib_scheme \<Rightarrow> u64 \<Rightarrow> u64 \<Rightarrow> string + u64 \<times> u64" where
  "verifier_inherent_providers L sd timestamp =
     Inr (from_timestamp_and_slot_duration L timestamp sd, timestamp)"

definition build_aura_verifier :: "('x, 'm, 'z) service_lib_scheme \<Rightarrow> 'x \<Rightarrow> 'x option \<Rightarrow> unit \<Rightarrow> 'x outcome" where
  "build_aura_verifier L client telemetry = (\<lambda>_.
     bind_outcome (expect_result ''called `Result::unwrap()` on an `Err` value'' (slot_duration L client)) (\<lambda>sd.
       Ret (build_verifier L client (verifier_inherent_providers L sd) telemetry)))"

definition import_verifier :: "('x, 'm, 'z) service_lib_scheme \<Rightarrow> 'x \<Rightarrow> 'x option \<Rightarrow> 'x Verifier" where
  "import_verifier L client telemetry =
     \<lparr>aura_verifier = Uninitialized (Some (build_aura_verifier L client telemetry)),
      relay_chain_verifier = RelayChainVerifier_new L client\<rparr>"

definition aura_build_import_queue ::
  "('x, 'm, 'z) service_lib_scheme \<Rightarrow> 'x \<Rightarrow> 'x \<Rightarrow> 'x config \<Rightarrow> 'x option \<Rightarrow> 'x \<Rightarrow> string + 'x" where
  "aura_build_import_queue L client block_import cfg telemetry task_manager =
     Inr (BasicQueue_new L (import_verifier L client telemetry) block_import task_manager (prometheus_registry L cfg))"

section \<open>Starting a node\<close>

definition warn_if_slow_hardware :: "('x, 'm, 'z) service_lib_scheme \<Rightarrow> 'x \<Rightarrow> unit action" where
  "warn_if_slow_hardware L hwbench = emit_if (\<not> check_hardware L hwbench) WarnSlowHardware"

definition report_hardware :: "('x, 'm, 'z) service_lib_scheme \<Rightarrow> 'x option \<Rightarrow> bool \<Rightarrow> 'x option \<Rightarrow> unit action" where
  "report_hardware L hwbench validator telemetry =
     (case hwbench of
        None \<Rightarrow> pure_action ()
      | Some hw \<Rightarrow>
          bind_action (emit PrintHwbench) (\<lambda>_.
          bind_action (if validator then warn_if_slow_hardware L hw else pure_action ()) (\<lambda>_.
          emit_if (telemetry \<noteq> None) (SpawnTask ''telemetry_hwbench''))))"

definition relay_error_message :: "relay_chain_error \<Rightarrow> string" where
  "relay_error_message e = (case e of Application x \<Rightarrow> x | OtherRelayChainError s \<Rightarrow> s)"

definition map_err :: "('e \<Rightarrow> 'f) \<Rightarrow> 'e + 'a \<Rightarrow> 'f + 'a" where
  "map_err f r = (case r of Inl e \<Rightarrow> Inl (f e) | Inr x \<Rightarrow> Inr x)"

text \<open>The last part of \<open>start_node_impl\<close>: collator or full node, then the network.\<close>

definition start_role ::
  "('x, 'm, 'z) service_lib_scheme \<Rightarrow> 'x config \<Rightarrow> u32 \<Rightarrow> 'x PartialComponents \<Rightarrow> 'x \<Rightarrow> 'x option \<Rightarrow> 'x \<Rightarrow> 'x \<Rightarrow>
   ('x consensus_args \<Rightarrow> (string + 'x) outcome) \<Rightarrow> unit action" where
  "start_role L parachain_config para params relay_chain_interface collator_key sync_service overseer
     build_consensus =
     (if is_authority parachain_config then
        bind_action (emit BuildConsensus) (\<lambda>_.
        bind_action (attempt (build_consensus
          \<lparr>ca_client = pc_client params, ca_block_import = pc_block_import params,
           ca_prometheus_registry = prometheus_registry L parachain_config,
           ca_telemetry = map_option (telemetry_handle L) (pc_telemetry params),
           ca_task_manager = pc_task_manager params, ca_relay_chain_interface = relay_chain_interface,
           ca_transaction_pool = pc_transaction_pool params, ca_sync_oracle = sync_service,
           ca_keystore = keystore L (pc_keystore_container params),
           ca_force_authoring = force_authoring parachain_config\<rparr>)) (\<lambda>parachain_consensus.
        bind_action (attempt (case collator_key of
            None \<Rightarrow> Panic ''Command line arguments do not allow this. qed'' | Some k \<Rightarrow> Ret (Inr k))) (\<lambda>key.
        bind_action (emit (StartCollator para)) (\<lambda>_.
        attempt (Ret (start_collator L
          \<lparr>co_para_id = para, co_client = pc_client params, co_announce_block = announce_block L sync_service,
           co_task_manager = pc_task_manager params, co_relay_chain_interface = relay_chain_interface,
           co_parachain_consensus = parachain_consensus,
           co_import_queue = import_queue_service L (pc_import_queue params), co_collator_key = key,
           co_sync_service = sync_service, co_relay_chain_slot_duration = 6,
           co_recovery_handle = overseer\<rparr>))))))
      else
        bind_action (emit (StartFullNode para)) (\<lambda>_.
        attempt (Ret (start_full_node L
          \<lparr>fn_para_id = para, fn_client = pc_client params, fn_announce_block = announce_block L sync_service,
           fn_task_manager = pc_task_manager params, fn_relay_chain_interface = relay_chain_interface,
           fn_import_queue = import_queue_service L (pc_import_queue params),
           fn_sync_service = sync_service, fn_relay_chain_slot_duration = 6,
           fn_recovery_handle = overseer\<rparr>))))"

definition start_node_impl ::
  "('x, 'm, 'z) service_lib_scheme \<Rightarrow> 'x config \<Rightarrow> 'x config \<Rightarrow> 'x \<Rightarrow> u32 \<Rightarrow>
   ('x \<Rightarrow> 'x \<Rightarrow> 'x config \<Rightarrow> 'x option \<Rightarrow> 'x \<Rightarrow> string + 'x) \<Rightarrow>
   ('x consensus_args \<Rightarrow> (string + 'x) outcome) \<Rightarrow> 'x option \<Rightarrow> ('x \<times> 'x) action" where
  "start_node_impl L parachain_config0 polkadot_config collator_options para build_import_queue build_consensus hwbench =
     (let parachain_config = prepare_node_config L parachain_config0 in
      bind_action (new_partial L parachain_config build_import_queue) (\<lambda>params.
      bind_action (emit BuildRelayChainInterface) (\<lambda>_.
      bind_action (attempt (Ret (map_err relay_error_message (build_relay_chain_interface L polkadot_config
          parachain_config (pc_telemetry_worker_handle params) (pc_task_manager params) collator_options hwbench))))
        (\<lambda>(relay_chain_interface, collator_key).
      bind_action (emit (BuildNetwork para)) (\<lambda>_.
      bind_action (attempt (Ret (build_network L parachain_config (pc_client params) (pc_transaction_pool params) para
          (pc_task_manager params) relay_chain_interface (pc_import_queue params))))
        (\<lambda>(network, system_rpc_tx, tx_handler_controller, start_network, sync_service).
      bind_action (emit SpawnServiceTasks) (\<lambda>_.
      bind_action (attempt (Ret (spawn_tasks L
          \<lparr>st_rpc_builder = (\<lambda>deny_unsafe.
             create_full L (pc_client params) (pc_transaction_pool params) deny_unsafe (pc_backend params)),
           st_client = pc_client params, st_transaction_pool = pc_transaction_pool params,
           st_task_manager = pc_task_manager params, st_config = parachain_config,
           st_keystore = keystore L (pc_keystore_container params), st_backend = pc_backend params,
           st_network = network, st_sync_service = sync_service, st_system_rpc_tx = system_rpc_tx,
           st_tx_handler_controller = tx_handler_controller, st_telemetry = pc_telemetry params\<rparr>))) (\<lambda>_.
      bind_action (report_hardware L hwbench (is_authority parachain_config) (pc_telemetry params)) (\<lambda>_.
      bind_action (attempt (Ret (overseer_handle L relay_chain_interface))) (\<lambda>overseer.
      bind_action (start_role L parachain_config para params relay_chain_interface collator_key sync_service
          overseer build_consensus) (\<lambda>_.
      bind_action (emit StartNetwork) (\<lambda>_.
      pure_action (pc_task_manager params, pc_client params)))))))))))))"

section \<open>An Aura node\<close>

text \<open>
  What a collator puts into a block before any transaction; the argument \<open>timestamp\<close> is the system time
  at which the closure runs.
\<close>

definition collator_inherent_providers ::
  "('x, 'm, 'z) service_lib_scheme \<Rightarrow> u64 \<Rightarrow> 'x \<Rightarrow> u32 \<Rightarrow> u64 \<Rightarrow> 'x \<Rightarrow> 'x \<Rightarrow> string + u64 \<times> u64 \<times> 'x" where
  "collator_inherent_providers L sd relay_chain_interface para timestamp relay_parent validation_data =
     (case ParachainInherentData_create_at L relay_parent relay_chain_interface validation_data para of
        None \<Rightarrow> Inl ''Failed to create parachain inherent''
      | Some p \<Rightarrow> Inr (from_timestamp_and_slot_duration L timestamp sd, timestamp, p))"

definition build_aura_consensus ::
  "('x, 'm, 'z) service_lib_scheme \<Rightarrow> u32 \<Rightarrow> 'x consensus_args \<Rightarrow> (string + 'x) outcome" where
  "build_aura_consensus L para a =
     bind_outcome (expect_result ''called `Result::unwrap()` on an `Err` value'' (slot_duration L (ca_client a))) (\<lambda>sd.
       Ret (Inr (AuraConsensus_build L
         \<lparr>ap_proposer_factory = ProposerFactory_with_proof_recording L (ca_task_manager a) (ca_client a)
            (ca_transaction_pool a) (ca_prometheus_registry a) (ca_telemetry a),
          ap_create_inherent_data_providers = collator_inherent_providers L sd (ca_relay_chain_interface a) para,
          ap_args = a, ap_slot_duration = sd,
          ap_block_proposal_slot_portion = f32_quotient 1 24, ap_max_block_proposal_slot_portion = Some (f32_quotient 1 16)\<rparr>)))"

definition start_generic_aura_node ::
  "('x, 'm, 'z) service_lib_scheme \<Rightarrow> 'x config \<Rightarrow> 'x config \<Rightarrow> 'x \<Rightarrow> u32 \<Rightarrow> 'x option \<Rightarrow> ('x \<times> 'x) action" where
  "start_generic_aura_node L parachain_config polkadot_config collator_options para hwbench =
     start_node_impl L parachain_config polkadot_config collator_options para
       (aura_build_import_queue L) (build_aura_consensus L para) hwbench"

section \<open>Reasoning about actions\<close>

text \<open>An action only ever appends to the effects; \<open>appends P\<close> says that what it appends satisfies \<open>P\<close>.\<close>

definition appends :: "(event \<Rightarrow> bool) \<Rightarrow> 'a action \<Rightarrow> bool" where
  "appends P m \<longleftrightarrow> (\<forall>tr. \<exists>es. snd (m tr) = tr @ es \<and> list_all P es)"

definition no_panic :: "'a action \<Rightarrow> bool" where
  "no_panic m \<longleftrightarrow> (\<forall>tr. \<exists>r. fst (m tr) = Ret r)"

lemma bind_action_cases:
  obtains (ok) x tr' where "m tr = (Ret (Inr x), tr')" "bind_action m f tr = f x tr'"
  | (err) e tr' where "m tr = (Ret (Inl e), tr')" "bind_action m f tr = (Ret (Inl e), tr')"
  | (panic) p tr' where "m tr = (Panic p, tr')" "bind_action m f tr = (Panic p, tr')"
proof (cases "m tr")
  case (Pair r tr')
  show ?thesis
  proof (cases r)
    case (Ret s)
    with Pair show ?thesis by (cases s) (auto simp: bind_action_def intro: ok err)
  qed (use Pair in \<open>auto simp: bind_action_def intro: panic\<close>)
qed

lemma appends_bind: "appends P m \<Longrightarrow> (\<And>x. appends P (f x)) \<Longrightarrow> appends P (bind_action m f)"
  unfolding appends_def
proof (intro allI)
  fix tr
  assume m: "\<forall>tr. \<exists>es. snd (m tr) = tr @ es \<and> list_all P es"
    and f: "\<And>x. \<forall>tr. \<exists>es. snd (f x tr) = tr @ es \<and> list_all P es"
  obtain es where es: "snd (m tr) = tr @ es" "list_all P es" using m by blast
  show "\<exists>es. snd (bind_action m f tr) = tr @ es \<and> list_all P es"
  proof (cases rule: bind_action_cases [of m tr f])
    case (ok x tr')
    obtain es' where "snd (f x tr') = tr' @ es'" "list_all P es'" using f by blast
    with ok es show ?thesis by (intro exI [of _ "es @ es'"]) simp
  qed (use es in auto)
qed

lemma appends_basic:
  "appends P (attempt r)" "appends P (pure_action x)" "P e \<Longrightarrow> appends P (emit e)"
  "(c \<Longrightarrow> P e) \<Longrightarrow> appends P (emit_if c e)"
  by (simp_all add: appends_def attempt_def pure_action_def emit_def emit_if_def)

lemma appends_mono: "appends P m \<Longrightarrow> (\<And>v. P v \<Longrightarrow> Q v) \<Longrightarrow> appends Q m"
  unfolding appends_def by (blast intro: list.pred_mono_strong)

lemma appendsD:
  assumes "appends P m" "v \<in> set (snd (m []))"
  shows "P v"
proof -
  obtain es where "snd (m []) = [] @ es" "list_all P es"
    using assms(1) unfolding appends_def by blast
  with assms(2) show ?thesis by (auto simp: list_all_iff)
qed

lemma no_panic_bind: "no_panic m \<Longrightarrow> (\<And>x. no_panic (f x)) \<Longrightarrow> no_panic (bind_action m f)"
  unfolding no_panic_def
proof (intro allI)
  fix tr
  assume m: "\<forall>tr. \<exists>r. fst (m tr) = Ret r" and f: "\<And>x. \<forall>tr. \<exists>r. fst (f x tr) = Ret r"
  show "\<exists>r. fst (bind_action m f tr) = Ret r"
    by (cases rule: bind_action_cases [of m tr f]) (use m f in \<open>auto, metis fst_conv outcome.distinct(1)\<close>)
qed

lemma no_panic_basic:
  "no_panic (attempt (Ret r))" "no_panic (pure_action x)" "no_panic (emit e)" "no_panic (emit_if c e)"
  by (simp_all add: no_panic_def attempt_def pure_action_def emit_def emit_if_def)

text \<open>
  \<open>finishes e m\<close>: on success the last two effects of the action are \<open>e\<close> and the start of the network,
  and the network is not started before, nor at all on failure.
\<close>

definition finishes :: "event \<Rightarrow> 'a action \<Rightarrow> bool" where
  "finishes e m \<longleftrightarrow> (\<forall>tr. \<exists>es. StartNetwork \<notin> set es \<and>
     snd (m tr) = tr @ es @ (case fst (m tr) of Ret (Inr _) \<Rightarrow> [e, StartNetwork] | _ \<Rightarrow> []))"

lemma finishes_bind:
  assumes "appends (\<lambda>v. v \<noteq> StartNetwork) m" "\<And>x. finishes e (f x)"
  shows "finishes e (bind_action m f)"
  unfolding finishes_def
proof
  fix tr
  obtain es where es: "snd (m tr) = tr @ es" "StartNetwork \<notin> set es"
    using assms(1) by (auto simp: appends_def list_all_iff)
  show "\<exists>es. StartNetwork \<notin> set es \<and> snd (bind_action m f tr) =
      tr @ es @ (case fst (bind_action m f tr) of Ret (Inr _) \<Rightarrow> [e, StartNetwork] | _ \<Rightarrow> [])"
  proof (cases rule: bind_action_cases [of m tr f])
    case (ok x tr')
    obtain es' where "StartNetwork \<notin> set es'"
      "snd (f x tr') = tr' @ es' @ (case fst (f x tr') of Ret (Inr _) \<Rightarrow> [e, StartNetwork] | _ \<Rightarrow> [])"
      using assms(2) unfolding finishes_def by blast
    with ok es show ?thesis by (intro exI [of _ "es @ es'"]) simp
  qed (use es in auto)
qed

lemma action_pair:
  "(\<And>a b. appends P (f a b)) \<Longrightarrow> appends P (case z of (a, b) \<Rightarrow> f a b)"
  "(\<And>a b. no_panic (g a b)) \<Longrightarrow> no_panic (case z of (a, b) \<Rightarrow> g a b)"
  "(\<And>a b. finishes e (h a b)) \<Longrightarrow> finishes e (case z of (a, b) \<Rightarrow> h a b)"
  by (cases z; simp)+

text \<open>What an action does, and what it answers, does not depend on the effects before it.\<close>

definition uniform :: "'a action \<Rightarrow> bool" where
  "uniform m \<longleftrightarrow> (\<forall>tr. m tr = (fst (m []), tr @ snd (m [])))"

lemma uniformD: "uniform m \<Longrightarrow> m tr = (fst (m []), tr @ snd (m []))"
  unfolding uniform_def by blast

lemma uniform_bind:
  assumes "uniform m" "\<And>x. uniform (f x)"
  shows "uniform (bind_action m f)"
  unfolding uniform_def
proof
  fix tr
  have m: "m tr = (fst (m []), tr @ snd (m []))" by (rule uniformD [OF assms(1)])
  have f: "f x t = (fst (f x []), t @ snd (f x []))" for x t by (rule uniformD [OF assms(2)])
  show "bind_action m f tr = (fst (bind_action m f []), tr @ snd (bind_action m f []))"
  proof (cases rule: bind_action_cases [of m "[]" f])
    case (ok x tr')
    then have "bind_action m f tr = f x (tr @ tr')" using m by (simp add: bind_action_def)
    with ok(2) show ?thesis using f [of x tr'] f [of x "tr @ tr'"] by simp
  qed (use m in \<open>simp_all add: bind_action_def\<close>)
qed

lemma uniform_basic: "uniform (attempt r)" "uniform (pure_action x)" "uniform (emit e)" "uniform (emit_if c e)"
  by (simp_all add: uniform_def attempt_def pure_action_def emit_def emit_if_def)

lemma uniform_pair: "(\<And>a b. uniform (f a b)) \<Longrightarrow> uniform (case z of (a, b) \<Rightarrow> f a b)"
  by (cases z) simp

lemmas uniform_rules = uniform_bind uniform_basic uniform_pair

lemma start_node_uniform: "uniform (start_node_impl L cfg pcfg opts para biq bic hwbench)"
proof -
  have role: "uniform (start_role L c p a b k y v d)" for c p a b k y v d
    unfolding start_role_def Let_def by (cases "is_authority c"; simp) (rule uniform_rules)+
  have hw: "uniform (report_hardware L h v t)" for h v t
    unfolding report_hardware_def warn_if_slow_hardware_def
    by (cases h; cases v; simp) (rule uniform_rules)+
  have partial: "uniform (new_partial L c b)" for c b
    unfolding new_partial_def Let_def by (rule uniform_rules)+
  show ?thesis unfolding start_node_impl_def Let_def by (rule uniform_bind role hw partial uniform_basic uniform_pair)+
qed

lemmas appends_rules = appends_bind appends_basic action_pair(1)
lemmas no_panic_rules = no_panic_bind no_panic_basic action_pair(2)

lemma new_partial_appends: "P (SpawnTask ''telemetry'') \<Longrightarrow> appends P (new_partial L cfg biq)"
  unfolding new_partial_def Let_def by (rule appends_rules | assumption)+

lemma new_partial_no_panic: "no_panic (new_partial L cfg biq)"
  unfolding new_partial_def Let_def by (rule no_panic_rules)+

lemma report_hardware_appends:
  assumes "P PrintHwbench" "validator \<Longrightarrow> P WarnSlowHardware" "P (SpawnTask ''telemetry_hwbench'')"
  shows "appends P (report_hardware L hwbench validator telemetry)"
  using assms unfolding report_hardware_def warn_if_slow_hardware_def
  by (cases hwbench; cases validator; simp) (rule appends_rules | simp)+

lemma report_hardware_no_panic: "no_panic (report_hardware L hwbench validator telemetry)"
  unfolding report_hardware_def warn_if_slow_hardware_def
  by (cases hwbench; cases validator; simp) (rule no_panic_rules)+

lemma start_role_appends:
  assumes "is_authority cfg \<Longrightarrow> P BuildConsensus \<and> P (StartCollator para)"
    and "\<not> is_authority cfg \<Longrightarrow> P (StartFullNode para)"
  shows "appends P (start_role L cfg para params rci key sync overseer bic)"
  using assms unfolding start_role_def
  by (cases "is_authority cfg"; simp) (rule appends_rules | simp)+

lemma start_role_full_node_no_panic:
  "\<not> is_authority cfg \<Longrightarrow> no_panic (start_role L cfg para params rci key sync overseer bic)"
  unfolding start_role_def by simp (rule no_panic_rules)+

lemma start_role_last:
  assumes "start_role L cfg para params rci key sync overseer bic tr = (Ret (Inr u), tr')"
  shows "\<exists>es. StartNetwork \<notin> set es \<and>
    tr' = tr @ es @ [if is_authority cfg then StartCollator para else StartFullNode para]"
  using assms unfolding start_role_def bind_action_def emit_def attempt_def
  by (auto split: if_splits outcome.splits sum.splits option.splits)

lemma finishes_start_role:
  "finishes (if is_authority cfg then StartCollator para else StartFullNode para)
     (bind_action (start_role L cfg para params rci key sync overseer bic)
        (\<lambda>_. bind_action (emit StartNetwork) (\<lambda>_. pure_action r)))" (is "finishes ?e (bind_action ?m ?f)")
  unfolding finishes_def
proof
  fix tr
  have "appends (\<lambda>v. v \<noteq> StartNetwork) ?m"
    by (rule start_role_appends) simp_all
  then obtain es where es: "snd (?m tr) = tr @ es" "StartNetwork \<notin> set es"
    by (auto simp: appends_def list_all_iff)
  show "\<exists>es. StartNetwork \<notin> set es \<and> snd (bind_action ?m ?f tr) =
      tr @ es @ (case fst (bind_action ?m ?f tr) of Ret (Inr _) \<Rightarrow> [?e, StartNetwork] | _ \<Rightarrow> [])"
  proof (cases rule: bind_action_cases [of ?m tr ?f])
    case (ok u tr')
    with start_role_last [OF ok(1)] show ?thesis
      by (auto simp: bind_action_def emit_def pure_action_def)
  qed (use es in auto)
qed

text \<open>The effects a start may have: those of its role, for its parachain.\<close>

definition role_event :: "bool \<Rightarrow> u32 \<Rightarrow> event \<Rightarrow> bool" where
  "role_event authority para v \<longleftrightarrow>
     (\<not> authority \<longrightarrow> v \<notin> {BuildConsensus, WarnSlowHardware} \<and> (\<forall>p. v \<noteq> StartCollator p)) \<and>
     (authority \<longrightarrow> (\<forall>p. v \<noteq> StartFullNode p)) \<and>
     (\<forall>p. v \<in> {StartCollator p, StartFullNode p, BuildNetwork p} \<longrightarrow> p = para)"

lemma start_node_role_events:
  "appends (role_event (is_authority (prepare_node_config L cfg)) para)
     (start_node_impl L cfg pcfg opts para biq bic hw)"
  unfolding start_node_impl_def Let_def
  by (rule appends_bind start_role_appends new_partial_appends report_hardware_appends appends_basic
      action_pair(1) | simp add: role_event_def)+

section \<open>Properties\<close>

text \<open>
  C16. The node joins the network last: a start succeeds if and only if the network
  was started, this is then the last thing that happened, just after the collator (for an
  authority) or the full node (otherwise) was started for the given parachain; when anything fails
  or panics before, the network is never started.
\<close>

theorem network_started_last:
  "\<exists>es. StartNetwork \<notin> set es \<and>
     snd (start_node_impl L cfg pcfg opts para biq bic hw tr) = tr @ es @
       (case fst (start_node_impl L cfg pcfg opts para biq bic hw tr) of
          Ret (Inr _) \<Rightarrow> [if is_authority (prepare_node_config L cfg) then StartCollator para
                        else StartFullNode para, StartNetwork]
        | _ \<Rightarrow> [])"
proof -
  have "finishes (if is_authority (prepare_node_config L cfg) then StartCollator para else StartFullNode para)
      (start_node_impl L cfg pcfg opts para biq bic hw)"
    unfolding start_node_impl_def Let_def
    by (rule finishes_start_role finishes_bind new_partial_appends report_hardware_appends appends_basic
        action_pair(3) | simp)+
  then show ?thesis unfolding finishes_def by blast
qed

text \<open>
  A node that is not an authority never builds a consensus engine, starts a
  collator or is warned about slow hardware; an authority never starts as a plain full node; and
  whatever is started is started for the parachain id of the call.
\<close>

lemma role_separation:
  assumes "v \<in> set (snd (start_node_impl L cfg pcfg opts para biq bic hw []))"
  shows "(\<not> is_authority (prepare_node_config L cfg) \<longrightarrow>
      v \<notin> {BuildConsensus, WarnSlowHardware} \<and> (\<forall>p. v \<noteq> StartCollator p)) \<and>
    (is_authority (prepare_node_config L cfg) \<longrightarrow> (\<forall>p. v \<noteq> StartFullNode p)) \<and>
    (\<forall>p. v \<in> {StartCollator p, StartFullNode p, BuildNetwork p} \<longrightarrow> p = para)"
  using appendsD [OF start_node_role_events assms] unfolding role_event_def .

text \<open>
  Starting a node that is not an authority never panics, whatever the client
  answers: the Aura slot duration, whose absence panics, is asked for only when a block that needs
  it arrives.
\<close>

lemma full_node_never_panics:
  assumes "\<not> is_authority (prepare_node_config L cfg)"
  shows "\<exists>r. fst (start_generic_aura_node L cfg pcfg opts para hw tr) = Ret r"
proof -
  have "no_panic (start_generic_aura_node L cfg pcfg opts para hw)"
    unfolding start_generic_aura_node_def start_node_impl_def Let_def
    by (rule no_panic_bind start_role_full_node_no_panic [OF assms] new_partial_no_panic report_hardware_no_panic
        no_panic_basic action_pair(2))+
  then show ?thesis unfolding no_panic_def by blast
qed

text \<open>
  The number of heap pages the executor gets is the configured one modulo
  \<open>2 ^ 32\<close>: it is the configured one exactly below that bound, and a larger number is silently cut.
\<close>

lemma heap_pages_truncated:
  assumes "default_heap_pages cfg = Some h"
  shows "\<exists>p. heap_strategy L cfg = HeapAllocStrategy_Static L p \<and> unat p = unat h mod 2 ^ 32 \<and>
    (unat p = unat h \<longleftrightarrow> unat h < 2 ^ 32)"
proof -
  have "unat (ucast h :: u32) = unat h mod 2 ^ 32"
    by (simp add: unsigned_ucast_eq take_bit_eq_mod)
  then show ?thesis
    using assms by (intro exI [of _ "ucast h"]) (auto simp: heap_strategy_def)
qed

text \<open>
  Merging of RPC modules fails on a name clash and joins the methods otherwise; \<open>methods\<close> is the set
  of names a module answers.
\<close>

definition rpc_laws :: "('x, 'm, 'z) service_lib_scheme \<Rightarrow> ('m \<Rightarrow> string set) \<Rightarrow> bool" where
  "rpc_laws L methods \<longleftrightarrow>
     methods (rpc_empty L) = {} \<and>
     (\<forall>a b. if methods a \<inter> methods b = {} then \<exists>m. rpc_merge L a b = Inr m \<and> methods m = methods a \<union> methods b
            else \<exists>e. rpc_merge L a b = Inl e)"

lemma rpc_merge_cases:
  assumes "rpc_laws L methods"
  shows "methods a \<inter> methods b = {} \<Longrightarrow> \<exists>m. rpc_merge L a b = Inr m \<and> methods m = methods a \<union> methods b"
    and "methods a \<inter> methods b \<noteq> {} \<Longrightarrow> \<exists>e. rpc_merge L a b = Inl e"
  using assms unfolding rpc_laws_def by metis+

text \<open>
  The node's RPC module is created exactly when the system, payment and state
  migration interfaces have no method name in common, and then answers the methods of all three.
\<close>

lemma rpc_methods_complete:
  assumes "rpc_laws L methods"
  shows "let sys = methods (System_rpc L client pool deny); pay = methods (TransactionPayment_rpc L client);
      mig = methods (StateMigration_rpc L client backend deny) in
    if sys \<inter> pay = {} \<and> (sys \<union> pay) \<inter> mig = {}
    then \<exists>m. create_full L client pool deny backend = Inr m \<and> methods m = sys \<union> pay \<union> mig
    else \<exists>e. create_full L client pool deny backend = Inl e"
proof -
  define sys pay mig where "sys = methods (System_rpc L client pool deny)"
    and "pay = methods (TransactionPayment_rpc L client)"
    and "mig = methods (StateMigration_rpc L client backend deny)"
  have "methods (rpc_empty L) = {}"
    using assms(1) by (simp add: rpc_laws_def)
  then obtain m1 where m1: "rpc_merge L (rpc_empty L) (System_rpc L client pool deny) = Inr m1" "methods m1 = sys"
    using rpc_merge_cases(1) [OF assms(1), of "rpc_empty L" "System_rpc L client pool deny"]
    by (auto simp: sys_def)
  have "if sys \<inter> pay = {} \<and> (sys \<union> pay) \<inter> mig = {}
    then \<exists>m. create_full L client pool deny backend = Inr m \<and> methods m = sys \<union> pay \<union> mig
    else \<exists>e. create_full L client pool deny backend = Inl e"
  proof (cases "sys \<inter> pay = {}")
    case True
    then obtain m2 where m2: "rpc_merge L m1 (TransactionPayment_rpc L client) = Inr m2" "methods m2 = sys \<union> pay"
      using rpc_merge_cases(1) [OF assms(1), of m1 "TransactionPayment_rpc L client"] m1 by (auto simp: pay_def)
    show ?thesis
      using rpc_merge_cases [OF assms(1), of m2 "StateMigration_rpc L client backend deny"] True m1 m2
      by (auto simp: create_full_def mig_def)
  next
    case False
    then show ?thesis
      using rpc_merge_cases(2) [OF assms(1), of m1 "TransactionPayment_rpc L client"] m1
      by (auto simp: create_full_def pay_def)
  qed
  then show ?thesis by (simp only: Let_def sys_def pay_def mig_def)
qed

text \<open>
  At the runtime's slot duration an Aura collator proposes for a twenty-fourth of the slot, as a \<open>f32\<close>: half
  a second, the computation time the block limits allow, and not fifteen nanoseconds more; when slots
  were skipped, for at most three quarters of a second.
\<close>

lemma proposal_time_fits_block:
  assumes "slot_duration L (ca_client a) = Inr SLOT_DURATION" "weight_laws E" "relay_consts E"
  shows "\<exists>p. build_aura_consensus L para a = Ret (Inr (AuraConsensus_build L p)) \<and> ap_slot_duration p = SLOT_DURATION \<and>
    (case ap_block_proposal_slot_portion p of (m, k) \<Rightarrow>
      2 ^ k * unat (ref_time E (MAXIMUM_BLOCK_WEIGHT E)) \<le> m * unat (ap_slot_duration p) * 10 ^ 9 \<and>
      m * unat (ap_slot_duration p) * 10 ^ 9 \<le> 2 ^ k * (unat (ref_time E (MAXIMUM_BLOCK_WEIGHT E)) + 15000)) \<and>
    (case ap_max_block_proposal_slot_portion p of None \<Rightarrow> False
     | Some (m, k) \<Rightarrow> m * unat (ap_slot_duration p) = 2 ^ k * 750)"
proof -
  let ?p = "\<lparr>ap_proposer_factory = ProposerFactory_with_proof_recording L (ca_task_manager a) (ca_client a)
      (ca_transaction_pool a) (ca_prometheus_registry a) (ca_telemetry a),
    ap_create_inherent_data_providers = collator_inherent_providers L SLOT_DURATION (ca_relay_chain_interface a) para,
    ap_args = a, ap_slot_duration = SLOT_DURATION,
    ap_block_proposal_slot_portion = f32_quotient 1 24, ap_max_block_proposal_slot_portion = Some (f32_quotient 1 16)\<rparr>"
  have "build_aura_consensus L para a = Ret (Inr (AuraConsensus_build L ?p))"
    using assms(1) by (simp add: build_aura_consensus_def)
  then show ?thesis
    using MAXIMUM_BLOCK_WEIGHT_parts(1) [OF assms(2,3)]
    by (intro exI [of _ ?p]) (simp add: time_defs f32_slot_portions [unfolded One_nat_def])
qed

text \<open>
  The import queue is created whatever the runtime answers, and a block whose parent
  lacks the Aura API is verified by the relay chain verifier even if the slot duration cannot be
  read; only a block that needs Aura then panics.
\<close>

lemma import_lazy:
  assumes "slot_duration L client = Inl e"
  shows "(\<exists>q. aura_build_import_queue L client bi cfg tel tm = Inr q) \<and>
    fst (verify V (import_verifier L client tel) b) =
      (if block_has_aura V b then Panic ''called `Result::unwrap()` on an `Err` value''
       else Ret (fst (verify_with V (RelayChainVerifier_new L client) b)))"
  using assms
  by (auto simp: aura_build_import_queue_def import_verifier_def build_aura_verifier_def verify_def
      block_has_aura_def split: prod.split)

subsection \<open>A concrete node\<close>

definition example_service :: "(nat, string list) service_lib" where
  "example_service = \<lparr>TelemetryWorker_new = (\<lambda>_. Inr 1), worker_handle = (\<lambda>w. w), new_telemetry = (\<lambda>_ _. 2),
     telemetry_handle = (\<lambda>t. t), DEFAULT_HEAP_ALLOC_STRATEGY = 0, HeapAllocStrategy_Static = unat,
     build_executor = (\<lambda>_ _ _. 3), new_full_parts = (\<lambda>_ _ _. Inr (4, 5, 6, 7)),
     new_full_pool = (\<lambda>_ _ _ _. 8), ParachainBlockImport_new = (\<lambda>_ _. 9),
     slot_duration = (\<lambda>_. Inr 12000), from_timestamp_and_slot_duration = (\<lambda>t d. t div d),
     build_verifier = (\<lambda>_ _ _. 10), RelayChainVerifier_new = (\<lambda>_. 11), BasicQueue_new = (\<lambda>_ _ _ _. 12),
     ProposerFactory_with_proof_recording = (\<lambda>_ _ _ _ _. 13),
     ParachainInherentData_create_at = (\<lambda>_ _ _ p. Some (unat p)),
     prometheus_registry = (\<lambda>_. None), keystore = (\<lambda>k. k), announce_block = (\<lambda>s. s),
     AuraConsensus_build = (\<lambda>_. 14), prepare_node_config = (\<lambda>c. c),
     build_relay_chain_interface = (\<lambda>_ _ _ _ _ _. Inr (15, Some 16)), import_queue_service = (\<lambda>q. q),
     build_network = (\<lambda>_ _ _ _ _ _ _. Inr (17, 18, 19, 20, 21)), spawn_tasks = (\<lambda>_. Inr ()),
     check_hardware = (\<lambda>_. False), overseer_handle = (\<lambda>_. Inr 22), start_collator = (\<lambda>_. Inr ()),
     start_full_node = (\<lambda>_. Inr ()), rpc_empty = [], System_rpc = (\<lambda>_ _ _. [''system_accountNextIndex'']),
     TransactionPayment_rpc = (\<lambda>_. [''payment_queryInfo'']), StateMigration_rpc = (\<lambda>_ _ _. [''state_trieMigrationStatus'']),
     rpc_merge = (\<lambda>a b. if set a \<inter> set b = {} then Inr (a @ b) else Inl ''method already registered''), native_executor_of = 30\<rparr>"

definition example_config :: "bool \<Rightarrow> nat config" where
  "example_config authority = \<lparr>telemetry_endpoints = Some [''wss://telemetry''], default_heap_pages = Some 4294967297,
     is_authority = authority, force_authoring = False, cfg_rest = 0\<rparr>"

lemmas example_node_eval = start_generic_aura_node_def start_node_impl_def new_partial_def make_telemetry_def
  heap_strategy_def report_hardware_def warn_if_slow_hardware_def start_role_def aura_build_import_queue_def
  build_aura_consensus_def bind_action_def emit_def emit_if_def attempt_def pure_action_def map_err_def
  example_service_def example_config_def

lemma example_collator_events:
  "snd (start_generic_aura_node example_service (example_config True) (example_config True) 0 2015 (Some 1) []) =
   [SpawnTask ''telemetry'', BuildRelayChainInterface, BuildNetwork 2015, SpawnServiceTasks, PrintHwbench,
    WarnSlowHardware, SpawnTask ''telemetry_hwbench'', BuildConsensus, StartCollator 2015, StartNetwork]"
  by (simp add: example_node_eval)

lemma role_separation_witness:
  "StartCollator 2015 \<in> set (snd (start_node_impl example_service (example_config True) (example_config True) 0 2015
     (aura_build_import_queue example_service) (build_aura_consensus example_service 2015) (Some 1) [])) \<and>
   is_authority (prepare_node_config example_service (example_config True))"
proof -
  have "StartCollator 2015 \<in> set (snd (start_node_impl example_service (example_config True) (example_config True) 0
      2015 (aura_build_import_queue example_service) (build_aura_consensus example_service 2015) (Some 1) []))"
    using example_collator_events unfolding start_generic_aura_node_def by simp
  then show ?thesis
    using role_separation [of "StartCollator 2015" example_service "example_config True" "example_config True" 0 2015]
    by blast
qed

lemma full_node_never_panics_witness:
  "\<exists>r. fst (start_generic_aura_node example_service (example_config False) (example_config False) 0 2015 None []) = Ret r"
  by (rule full_node_never_panics) (simp add: example_service_def example_config_def)

lemma heap_pages_truncated_witness:
  "heap_strategy example_service (example_config True) = 1"
  using heap_pages_truncated [of "example_config True" 4294967297 example_service]
  by (auto simp: example_config_def example_service_def)

lemma rpc_methods_complete_witness:
  "\<exists>m. create_full example_service 4 8 True 5 = Inr m \<and>
     set m = {''system_accountNextIndex'', ''payment_queryInfo'', ''state_trieMigrationStatus''}"
proof -
  have "rpc_laws example_service set"
    by (auto simp: rpc_laws_def example_service_def)
  from rpc_methods_complete [OF this, of 4 8 True 5] show ?thesis
    by (auto simp: example_service_def Let_def)
qed

lemma proposal_time_fits_block_witness:
  "\<exists>p. build_aura_consensus example_service 2015
     \<lparr>ca_client = 4, ca_block_import = 9, ca_prometheus_registry = None, ca_telemetry = None, ca_task_manager = 7,
      ca_relay_chain_interface = 15, ca_transaction_pool = 8, ca_sync_oracle = 21, ca_keystore = 6,
      ca_force_authoring = False\<rparr> = Ret (Inr (AuraConsensus_build example_service p)) \<and>
     ap_max_block_proposal_slot_portion p \<noteq> None"
  using proposal_time_fits_block [of example_service
     "\<lparr>ca_client = 4, ca_block_import = 9, ca_prometheus_registry = None, ca_telemetry = None, ca_task_manager = 7,
      ca_relay_chain_interface = 15, ca_transaction_pool = 8, ca_sync_oracle = 21, ca_keystore = 6,
      ca_force_authoring = False\<rparr>", OF _ limits_knownD(1,4) [OF limits_known_pair_env]]
  by (fastforce simp: example_service_def time_defs split: option.splits)

lemma import_lazy_witness:
  "fst (verify example_verifiers
     (import_verifier (example_service\<lparr>slot_duration := (\<lambda>_. Inl ''no runtime'')\<rparr>) 4 None) 8) = Ret (Inr 8)"
  using import_lazy [of "example_service\<lparr>slot_duration := (\<lambda>_. Inl ''no runtime'')\<rparr>" 4 "''no runtime''" 9
      "example_config True" None 7 example_verifiers 8]
  by (simp add: block_has_aura_def example_verifiers_def unwrap_or_false_def)

end
