(* ===== verification/Node.thy ===== *)
theory Node
  imports Command Service
begin

text \<open>
  \<open>polkadot-parachains/src/command.rs\<close>, function \<open>run\<close> with its two macros, and the command line of
  \<open>cli.rs\<close>: which subcommand does what, and with which of the two runtimes. The subcommands
  themselves are implemented in other crates; \<open>command_call\<close> is the call the code makes to one, with
  the arguments it passes, and \<open>run_call\<close> its answer. \<open>S\<close> is the service library instantiated with the
  API of either runtime, as the generic functions of \<open>service.rs\<close> are, together with the native executor declared there
  for that runtime. \<open>until_exit\<close> is the second half of \<open>Runner::run_node_until_exit\<close>: after the closure has started the node, the
  runner waits for a signal or for an essential task to fail, and answers with the result of the task manager's future. Errors of
  other crates are represented by the text the code formats them to.
\<close>

section \<open>The command line\<close>

datatype benchmark_cmd = Pallet | BlockBenchmark | Storage | Machine | OtherBenchmark

text \<open>\<open>Subcommand\<close>; the two genesis exports carry the argument of \<open>--chain\<close>.\<close>

datatype Subcommand =
    Key | BuildSpec | CheckBlock | ExportBlocks | ExportState | ImportBlocks | Revert | PurgeChain
  | ExportGenesisState "string option" | ExportGenesisWasm "string option"
  | Benchmark benchmark_cmd | TryRuntime

record Cli =
  subcommand :: "Subcommand option"
  no_hardware_benchmarks :: bool
  relaychain_args :: "string list"

record features =
  runtime_benchmarks :: bool
  try_runtime :: bool

datatype runtime_api = ShellApi | IntegriteeApi

datatype ('x, 'spec) command_call =
    RunKey
  | RunBuildSpec 'spec
  | RunCheckBlock (client: 'x) (import_queue: 'x)
  | RunExportBlocks (client: 'x) "'x config"
  | RunExportState (client: 'x) 'spec
  | RunImportBlocks (client: 'x) (import_queue: 'x)
  | RunRevert (client: 'x) (backend: 'x)
  | RunPurgeChain "'x config" "'x config"
  | RunExportGenesisState 'spec u8
  | RunExportGenesisWasm 'spec
  | RunBenchmarkPallet (executor: 'x) "'x config"
  | RunBenchmarkBlock (client: 'x)
  | RunBenchmarkStorage "'x config" (client: 'x) (backend: 'x)
  | RunBenchmarkMachine "'x config"
  | RunTryRuntime u64

record ('x, 'spec, 'o, 'q, 'f) node_lib =
  create_runner :: "Subcommand option \<Rightarrow> string + 'x config"
  config_spec :: "'x config \<Rightarrow> 'spec"
  run_call :: "('x, 'spec) command_call \<Rightarrow> string + unit"
  executable_name :: string
  config_base_path :: "'x config \<Rightarrow> string option"
  create_configuration :: "default_ports \<Rightarrow> ('o, 'q, 'f) cli_configuration \<Rightarrow> string + 'x config"
  database_path :: "'x config \<Rightarrow> string option"
  gather_hwbench :: "string \<Rightarrow> 'x"
  generate_genesis_block :: "'spec \<Rightarrow> u8 \<Rightarrow> (string + 'x) outcome"
  collator_options :: 'x
  TaskManager_new :: "'x config \<Rightarrow> string + 'x"
  until_exit :: "'x \<Rightarrow> (string + unit) outcome"

section \<open>Choosing the runtime\<close>

definition api_of ::
  "('si, 'ss, 'acc, 'aura, 'd, 'pub, 'props, 'e, 'z) cli_env_scheme \<Rightarrow> ('si, 'ss) dyn_spec \<Rightarrow> runtime_api" where
  "api_of E spec = (if is_shell E spec then ShellApi else IntegriteeApi)"

text \<open>\<open>construct_benchmark_partials!\<close>.\<close>

definition construct_benchmark_partials ::
  "(runtime_api \<Rightarrow> ('x, 'm) service_lib) \<Rightarrow> bool \<Rightarrow> 'x config \<Rightarrow> ('x PartialComponents \<Rightarrow> unit action) \<Rightarrow> unit action" where
  "construct_benchmark_partials S shell cfg code =
     (if shell then
        bind_action (new_partial (S ShellApi) cfg (aura_build_import_queue (S ShellApi))) code
      else
        bind_action (new_partial (S IntegriteeApi) cfg (aura_build_import_queue (S IntegriteeApi))) code)"

text \<open>\<open>construct_async_run!\<close>.\<close>

definition construct_async_run ::
  "('si, 'ss, 'acc, 'aura, 'd, 'pub, 'props, 'e, 'z) cli_env_scheme \<Rightarrow> (runtime_api \<Rightarrow> ('x, 'm) service_lib) \<Rightarrow>
   ('x, ('si, 'ss) dyn_spec, 'o, 'q, 'f) node_lib \<Rightarrow> Subcommand \<Rightarrow>
   ('x PartialComponents \<Rightarrow> 'x config \<Rightarrow> ('x, ('si, 'ss) dyn_spec) command_call) \<Rightarrow> unit action" where
  "construct_async_run E S N cmd code =
     bind_action (attempt (Ret (create_runner N (Some cmd)))) (\<lambda>cfg.
       if is_shell E (config_spec N cfg) then
         bind_action (new_partial (S ShellApi) cfg (aura_build_import_queue (S ShellApi))) (\<lambda>components.
           attempt (Ret (run_call N (code components cfg))))
       else
         bind_action (new_partial (S IntegriteeApi) cfg (aura_build_import_queue (S IntegriteeApi))) (\<lambda>components.
           attempt (Ret (run_call N (code components cfg)))))"

section \<open>Starting the node\<close>

text \<open>
  \<open>then_some\<close> takes its argument by value: the hardware benchmarks run before the flag is looked at. The result of
  \<open>create_dir_all\<close> is ignored.
\<close>

definition hardware_benchmarks ::
  "('x, ('si, 'ss) dyn_spec, 'o, 'q, 'f) node_lib \<Rightarrow> Cli \<Rightarrow> 'x config \<Rightarrow> 'x option action" where
  "hardware_benchmarks N cli cfg =
     bind_action (case database_path N cfg of
         None \<Rightarrow> pure_action None
       | Some path \<Rightarrow>
           bind_action (emit CreateDatabaseDir) (\<lambda>_.
           bind_action (emit GatherHwbench) (\<lambda>_. pure_action (Some (gather_hwbench N path)))))
       (\<lambda>measured. pure_action (if \<not> no_hardware_benchmarks cli then measured else None))"

text \<open>
  \<open>RelayChainCli::new\<close> on the arguments of the relay chain; for arguments it does not accept, \<open>parse_from\<close> ends the process
  with a usage message (\<open>parse_exit\<close>), here a \<open>Panic\<close>. Then \<open>SubstrateCli::create_configuration\<close> on the result.
\<close>

definition relay_chain_cli ::
  "('si, 'ss, 'acc, 'aura, 'd, 'pub, 'props, 'e, 'z) cli_env_scheme \<Rightarrow> ('r, 'o, 'q, 'f, 'y) relay_lib_scheme \<Rightarrow>
   ('x, ('si, 'ss) dyn_spec, 'o, 'q, 'f) node_lib \<Rightarrow> Cli \<Rightarrow> 'x config \<Rightarrow> (string + 'r RelayChainCli) outcome" where
  "relay_chain_cli E R N cli cfg =
     (case parse_exit R (executable_name N # relaychain_args cli) of
        Some usage \<Rightarrow> Panic usage
      | None \<Rightarrow> Ret (Inr (RelayChainCli_new R (dyn_extension E (config_spec N cfg)) (config_base_path N cfg)
          (executable_name N # relaychain_args cli))))"

definition relay_chain_config ::
  "('r, 'o, 'q, 'f, 'y) relay_lib_scheme \<Rightarrow> ('x, 'spec, 'o, 'q, 'f) node_lib \<Rightarrow> 'r RelayChainCli \<Rightarrow> string + 'x config" where
  "relay_chain_config R N polkadot_cli =
     map_err (\<lambda>err. ''Relay chain argument error: '' @ err)
       (create_configuration N RelayChainCli_ports (RelayChainCli_configuration R polkadot_cli))"

text \<open>The closure that starts the node; its result is the task manager.\<close>

definition run_node ::
  "('si, 'ss, 'acc, 'aura, 'd, 'pub, 'props, 'e, 'z) cli_env_scheme \<Rightarrow> (runtime_api \<Rightarrow> ('x, 'm) service_lib) \<Rightarrow>
   ('r, 'o, 'q, 'f, 'y) relay_lib_scheme \<Rightarrow> ('x, ('si, 'ss) dyn_spec, 'o, 'q, 'f) node_lib \<Rightarrow> Cli \<Rightarrow> 'x config \<Rightarrow> 'x action" where
  "run_node E S R N cli cfg =
     bind_action (hardware_benchmarks N cli cfg) (\<lambda>hwbench.
     bind_action (attempt (Ret (case map_option para_id (dyn_extension E (config_spec N cfg)) of
         None \<Rightarrow> Inl ''Could not find parachain extension in chain-spec.'' | Some p \<Rightarrow> Inr p))) (\<lambda>p.
     bind_action (attempt (relay_chain_cli E R N cli cfg)) (\<lambda>polkadot_cli.
     bind_action (attempt (generate_genesis_block N (config_spec N cfg)
         (state_version (native_runtime_version E () () (config_spec N cfg))))) (\<lambda>block.
     bind_action (attempt (Ret (relay_chain_config R N polkadot_cli))) (\<lambda>polkadot_config.
     if is_shell E (config_spec N cfg) then
       bind_action (start_generic_aura_node (S ShellApi) cfg polkadot_config (collator_options N) p hwbench)
         (\<lambda>(task_manager, _). pure_action task_manager)
     else
       bind_action (start_generic_aura_node (S IntegriteeApi) cfg polkadot_config (collator_options N) p hwbench)
         (\<lambda>(task_manager, _). pure_action task_manager))))))"

section \<open>The subcommands\<close>

definition load_spec_arg ::
  "('si, 'ss, 'acc, 'aura, 'd, 'pub, 'props, 'e, 'z) cli_env_scheme \<Rightarrow> string option \<Rightarrow> ('si, 'ss) dyn_spec action" where
  "load_spec_arg E chain = attempt (load_spec E (case chain of None \<Rightarrow> [] | Some i \<Rightarrow> i))"

definition run_benchmark ::
  "features \<Rightarrow> ('si, 'ss, 'acc, 'aura, 'd, 'pub, 'props, 'e, 'z) cli_env_scheme \<Rightarrow>
   (runtime_api \<Rightarrow> ('x, 'm) service_lib) \<Rightarrow> ('x, ('si, 'ss) dyn_spec, 'o, 'q, 'f) node_lib \<Rightarrow> benchmark_cmd \<Rightarrow>
   'x config \<Rightarrow> unit action" where
  "run_benchmark F E S N cmd cfg =
     (case cmd of
        Pallet \<Rightarrow>
          if runtime_benchmarks F then
            (if is_shell E (config_spec N cfg) then attempt (Ret (run_call N (RunBenchmarkPallet (native_executor_of (S ShellApi)) cfg)))
             else attempt (Ret (run_call N (RunBenchmarkPallet (native_executor_of (S IntegriteeApi)) cfg))))
          else attempt (Ret (Inl (''Benchmarking wasn'' @ [CHR 0x27] @
            ''t enabled when building the node. You can enable it with `--features runtime-benchmarks`.'')))
      | BlockBenchmark \<Rightarrow>
          construct_benchmark_partials S (is_shell E (config_spec N cfg)) cfg
            (\<lambda>partials. attempt (Ret (run_call N (RunBenchmarkBlock (pc_client partials)))))
      | Storage \<Rightarrow>
          if runtime_benchmarks F then
            construct_benchmark_partials S (is_shell E (config_spec N cfg)) cfg
              (\<lambda>partials. attempt (Ret (run_call N
                 (RunBenchmarkStorage cfg (pc_client partials) (pc_backend partials)))))
          else attempt (Ret (Inl ''Compile with --features=runtime-benchmarks to enable storage benchmarks.''))
      | Machine \<Rightarrow> attempt (Ret (run_call N (RunBenchmarkMachine cfg)))
      | OtherBenchmark \<Rightarrow> attempt (Ret (Inl ''Benchmarking sub-command unsupported'')))"

definition run ::
  "features \<Rightarrow> ('si, 'ss, 'acc, 'aura, 'd, 'pub, 'props, 'e, 'z) cli_env_scheme \<Rightarrow>
   (runtime_api \<Rightarrow> ('x, 'm) service_lib) \<Rightarrow> ('r, 'o, 'q, 'f, 'y) relay_lib_scheme \<Rightarrow>
   ('x, ('si, 'ss) dyn_spec, 'o, 'q, 'f) node_lib \<Rightarrow> Cli \<Rightarrow> unit action" where
  "run F E S R N cli =
     (case subcommand cli of
        Some BuildSpec \<Rightarrow>
          bind_action (attempt (Ret (create_runner N (Some BuildSpec)))) (\<lambda>cfg.
            attempt (Ret (run_call N (RunBuildSpec (config_spec N cfg)))))
      | Some CheckBlock \<Rightarrow>
          construct_async_run E S N CheckBlock (\<lambda>c cfg. RunCheckBlock (pc_client c) (pc_import_queue c))
      | Some ExportBlocks \<Rightarrow>
          construct_async_run E S N ExportBlocks (\<lambda>c cfg. RunExportBlocks (pc_client c) cfg)
      | Some ExportState \<Rightarrow>
          construct_async_run E S N ExportState (\<lambda>c cfg. RunExportState (pc_client c) (config_spec N cfg))
      | Some ImportBlocks \<Rightarrow>
          construct_async_run E S N ImportBlocks (\<lambda>c cfg. RunImportBlocks (pc_client c) (pc_import_queue c))
      | Some Revert \<Rightarrow>
          construct_async_run E S N Revert (\<lambda>c cfg. RunRevert (pc_client c) (pc_backend c))
      | Some PurgeChain \<Rightarrow>
          bind_action (attempt (Ret (create_runner N (Some PurgeChain)))) (\<lambda>cfg.
          bind_action (attempt (relay_chain_cli E R N cli cfg)) (\<lambda>polkadot_cli.
          bind_action (attempt (Ret (relay_chain_config R N polkadot_cli))) (\<lambda>polkadot_config.
            attempt (Ret (run_call N (RunPurgeChain cfg polkadot_config))))))
      | Some (ExportGenesisState chain) \<Rightarrow>
          bind_action (attempt (Ret (create_runner N (Some (ExportGenesisState chain))))) (\<lambda>_.
          bind_action (load_spec_arg E chain) (\<lambda>spec.
            attempt (Ret (run_call N (RunExportGenesisState spec
              (state_version (native_runtime_version E () () spec)))))))
      | Some (ExportGenesisWasm chain) \<Rightarrow>
          bind_action (attempt (Ret (create_runner N (Some (ExportGenesisWasm chain))))) (\<lambda>_.
          bind_action (load_spec_arg E chain) (\<lambda>spec.
            attempt (Ret (run_call N (RunExportGenesisWasm spec)))))
      | Some (Benchmark cmd) \<Rightarrow>
          bind_action (attempt (Ret (create_runner N (Some (Benchmark cmd))))) (run_benchmark F E S N cmd)
      | Some TryRuntime \<Rightarrow>
          if try_runtime F then
            bind_action (attempt (Ret (create_runner N (Some TryRuntime)))) (\<lambda>cfg.
            bind_action (attempt (Ret (map_err (\<lambda>e. ''Error: '' @ e) (TaskManager_new N cfg)))) (\<lambda>_.
              attempt (Ret (run_call N (RunTryRuntime MILLISECS_PER_BLOCK)))))
          else attempt (Ret (Inl
            ''Try-runtime was not enabled when building the node. You can enable it with `--features try-runtime`.''))
      | Some Key \<Rightarrow> attempt (Ret (run_call N RunKey))
      | None \<Rightarrow>
          bind_action (attempt (Ret (create_runner N None))) (\<lambda>cfg.
          bind_action (run_node E S R N cli cfg) (\<lambda>task_manager.
          bind_action (emit RunUntilExit) (\<lambda>_. attempt (until_exit N task_manager)))))"

section \<open>Properties\<close>

lemma attempt_ok: "bind_action (attempt (Ret (Inr x))) f = f x"
  by (simp add: fun_eq_iff bind_action_def attempt_def)

lemma attempt_err: "bind_action (attempt (Ret (Inl e))) f tr = (Ret (Inl e), tr)"
  by (simp add: bind_action_def attempt_def)

lemma attempt_fails: "bind_action (attempt (Ret (Inl e))) f = attempt (Ret (Inl e))"
  by (simp add: fun_eq_iff bind_action_def attempt_def)

lemma bind_attempt_cong:
  "(\<And>x. r = Inr x \<Longrightarrow> f x tr = g x tr) \<Longrightarrow>
   bind_action (attempt (Ret r)) f tr = bind_action (attempt (Ret r)) g tr"
  by (cases r) (simp_all add: attempt_ok attempt_err)

lemma construct_async_run_api:
  assumes "\<And>cfg. create_runner N (Some cmd) = Inr cfg \<Longrightarrow>
    S (api_of E (config_spec N cfg)) = S' (api_of E (config_spec N cfg))"
  shows "construct_async_run E S N cmd code tr = construct_async_run E S' N cmd code tr"
  unfolding construct_async_run_def by (rule bind_attempt_cong) (use assms in \<open>auto simp: api_of_def\<close>)

lemma run_node_api:
  assumes "S (api_of E (config_spec N cfg)) = S' (api_of E (config_spec N cfg))"
  shows "run_node E S R N cli cfg = run_node E S' R N cli cfg"
  using assms by (simp add: run_node_def api_of_def split: if_splits)

lemma run_benchmark_api:
  assumes "S (api_of E (config_spec N cfg)) = S' (api_of E (config_spec N cfg))"
  shows "run_benchmark F E S N cmd cfg = run_benchmark F E S' N cmd cfg"
  using assms
  by (cases cmd) (simp_all add: run_benchmark_def construct_benchmark_partials_def api_of_def split: if_splits)

text \<open>
  C19. Whatever the command, the node only ever uses the runtime API and the native executor that the
  specification in its configuration selects, also to benchmark pallets: exchanging the code for the other runtime
  changes neither the result nor any effect of a run.
\<close>

theorem other_runtime_unused:
  assumes "\<And>cmd cfg. create_runner N cmd = Inr cfg \<Longrightarrow>
    S (api_of E (config_spec N cfg)) = S' (api_of E (config_spec N cfg))"
  shows "run F E S R N cli tr = run F E S' R N cli tr"
proof -
  note api = construct_async_run_api [of N _ S E S', OF assms] run_node_api [of S E N _ S', OF assms]
    run_benchmark_api [of S E N _ S', OF assms]
  show ?thesis
    unfolding run_def
    by (cases "subcommand cli"; simp add: api split: Subcommand.split)
       (auto intro!: bind_attempt_cong simp: api)
qed

lemma hardware_benchmarks_appends: "P CreateDatabaseDir \<Longrightarrow> P GatherHwbench \<Longrightarrow> appends P (hardware_benchmarks N cli cfg)"
  unfolding hardware_benchmarks_def
  by (cases "database_path N cfg") (auto intro!: appends_bind appends_basic)

text \<open>What \<open>run_node\<close> does once the benchmarks have answered.\<close>

definition node_start ::
  "('si, 'ss, 'acc, 'aura, 'd, 'pub, 'props, 'e, 'z) cli_env_scheme \<Rightarrow> (runtime_api \<Rightarrow> ('x, 'm) service_lib) \<Rightarrow>
   ('r, 'o, 'q, 'f, 'y) relay_lib_scheme \<Rightarrow> ('x, ('si, 'ss) dyn_spec, 'o, 'q, 'f) node_lib \<Rightarrow> Cli \<Rightarrow> 'x config \<Rightarrow> 'x option \<Rightarrow>
   'x action" where
  "node_start E S R N cli cfg hw =
     (case dyn_extension E (config_spec N cfg) of
        None \<Rightarrow> attempt (Ret (Inl ''Could not find parachain extension in chain-spec.''))
      | Some ext \<Rightarrow>
          bind_action (attempt (relay_chain_cli E R N cli cfg)) (\<lambda>polkadot_cli.
          bind_action (attempt (generate_genesis_block N (config_spec N cfg)
            (state_version (native_runtime_version E () () (config_spec N cfg))))) (\<lambda>_.
          bind_action (attempt (Ret (relay_chain_config R N polkadot_cli))) (\<lambda>pcfg.
          bind_action (start_generic_aura_node (S (api_of E (config_spec N cfg))) cfg pcfg (collator_options N)
            (para_id ext) hw) (\<lambda>(task_manager, _). pure_action task_manager)))))"

lemma run_node_split:
  "run_node E S R N cli cfg = bind_action (hardware_benchmarks N cli cfg) (node_start E S R N cli cfg)"
  unfolding run_node_def
  by (rule arg_cong [of _ _ "bind_action (hardware_benchmarks N cli cfg)"])
     (auto simp: fun_eq_iff node_start_def api_of_def attempt_fails attempt_ok split: option.split)

lemma node_start_appends:
  assumes "\<And>ext pcfg. dyn_extension E (config_spec N cfg) = Some ext \<Longrightarrow>
      appends P (start_node_impl (S (api_of E (config_spec N cfg))) cfg pcfg (collator_options N) (para_id ext)
        (aura_build_import_queue (S (api_of E (config_spec N cfg))))
        (build_aura_consensus (S (api_of E (config_spec N cfg))) (para_id ext)) hw)"
  shows "appends P (node_start E S R N cli cfg hw)"
  using assms unfolding node_start_def start_generic_aura_node_def
  by (cases "dyn_extension E (config_spec N cfg)") (auto intro!: appends_bind appends_basic action_pair(1))

lemma run_node_appends:
  assumes "P CreateDatabaseDir" "P GatherHwbench"
    and "\<And>ext pcfg hw. dyn_extension E (config_spec N cfg) = Some ext \<Longrightarrow>
      appends P (start_node_impl (S (api_of E (config_spec N cfg))) cfg pcfg (collator_options N) (para_id ext)
        (aura_build_import_queue (S (api_of E (config_spec N cfg))))
        (build_aura_consensus (S (api_of E (config_spec N cfg))) (para_id ext)) hw)"
  shows "appends P (run_node E S R N cli cfg)"
  unfolding run_node_split
  by (rule appends_bind [OF hardware_benchmarks_appends node_start_appends]) (simp_all add: assms)

text \<open>The parachain id in the genesis state of a specification, where that state can be built.\<close>

definition dyn_genesis_para ::
  "('si, 'ss, 'acc, 'aura, 'd, 'pub, 'props, 'e, 'z) cli_env_scheme \<Rightarrow> ('si, 'ss) dyn_spec \<Rightarrow> u32 option" where
  "dyn_genesis_para E spec =
     (case spec of
        IntegriteeSpec s \<Rightarrow>
          (case build_genesis (integritee_lib E) s of Ret g \<Rightarrow> Some (ig_parachain_id g) | Panic _ \<Rightarrow> None)
      | ShellSpec s \<Rightarrow>
          (case build_genesis (shell_lib E) s of Ret g \<Rightarrow> Some (sg_parachain_id g) | Panic _ \<Rightarrow> None))"

lemma boxed_genesis_para:
  assumes "spec_laws (integritee_lib E)" "spec_laws (shell_lib E)"
    and "boxed_shell E p k r = Ret (Inr s) \<or> boxed_integritee E p k r = Ret (Inr s)"
    and "dyn_genesis_para E s = Some g"
  shows "g = p"
  using assms(3,4) shell_spec.genesis_field [OF assms(2)] integritee_spec.genesis_field [OF assms(1)]
  by (auto simp: boxed_shell_def boxed_integritee_def bind_outcome_eq_Ret dyn_genesis_para_def split: outcome.splits)

text \<open>
  C18. A node started with a specification built here networks and collates
  for one parachain only, the one whose id its genesis state stores. With a specification that has
  no parachain extension it starts nothing and reports the missing extension.
\<close>

theorem node_joins_genesis_parachain:
  assumes "spec_laws (integritee_lib E)" "spec_laws (shell_lib E)"
    and "boxed_shell E p k r = Ret (Inr s) \<or> boxed_integritee E p k r = Ret (Inr s)"
    and "v \<in> {StartCollator q, StartFullNode q, BuildNetwork q}"
  shows "(config_spec N cfg = s \<and> v \<in> set (snd (run_node E S R N cli cfg [])) \<and> dyn_genesis_para E s = Some g \<longrightarrow>
      q = g) \<and>
    (dyn_extension E (config_spec N cfg') = None \<longrightarrow>
      fst (run_node E S R N cli cfg' []) = Ret (Inl ''Could not find parachain extension in chain-spec.'') \<and>
      v \<notin> set (snd (run_node E S R N cli cfg' [])))"
proof (intro conjI impI; (elim conjE)?)
  assume s: "config_spec N cfg = s" and v: "v \<in> set (snd (run_node E S R N cli cfg []))"
    and g: "dyn_genesis_para E s = Some g"
  let ?P = "\<lambda>v. \<forall>q. v \<in> {StartCollator q, StartFullNode q, BuildNetwork q} \<longrightarrow> q = p"
  have ext: "dyn_extension E s = Some \<lparr>relay_chain = RelayChain_to_string r, para_id = p\<rparr>"
    using assms(3) boxed_shell_fields [OF assms(2)] boxed_integritee_fields [OF assms(1)] by blast
  have "appends ?P (run_node E S R N cli cfg)"
  proof (rule run_node_appends)
    fix e pcfg hw
    assume "dyn_extension E (config_spec N cfg) = Some e"
    then have "para_id e = p" by (auto simp: s ext)
    then show "appends ?P (start_node_impl (S (api_of E (config_spec N cfg))) cfg pcfg (collator_options N) (para_id e)
        (aura_build_import_queue (S (api_of E (config_spec N cfg))))
        (build_aura_consensus (S (api_of E (config_spec N cfg))) (para_id e)) hw)"
      by (intro appends_mono [OF start_node_role_events]) (simp add: role_event_def)
  qed simp_all
  from appendsD [OF this v] assms(4) show "q = g"
    using boxed_genesis_para [OF assms(1-3) g] by blast
next
  assume none: "dyn_extension E (config_spec N cfg') = None"
  then show "fst (run_node E S R N cli cfg' []) = Ret (Inl ''Could not find parachain extension in chain-spec.'')"
    by (auto simp: run_node_split node_start_def hardware_benchmarks_def bind_action_def attempt_def
        pure_action_def emit_def split: option.split)
  have "appends (\<lambda>v. v = CreateDatabaseDir \<or> v = GatherHwbench) (run_node E S R N cli cfg')"
    by (rule run_node_appends) (simp_all add: none)
  then show "v \<notin> set (snd (run_node E S R N cli cfg' []))"
    using assms(4) by (auto dest: appendsD)
qed

lemma node_start_uniform: "uniform (node_start E S R N cli cfg hw)"
  unfolding node_start_def start_generic_aura_node_def
  by (cases "dyn_extension E (config_spec N cfg)"; simp)
     (rule uniform_bind start_node_uniform uniform_basic uniform_pair)+

lemma no_hwbench_events:
  "appends (\<lambda>v. v \<notin> {PrintHwbench, WarnSlowHardware, SpawnTask ''telemetry_hwbench''})
     (start_node_impl L cfg pcfg opts para biq bic None)"
  unfolding start_node_impl_def Let_def report_hardware_def option.case
  by (rule appends_bind start_role_appends new_partial_appends appends_basic action_pair(1) | simp)+

text \<open>The start of a node does not look at the database directory again.\<close>

lemma node_start_database: "node_start E S R (N\<lparr>database_path := d\<rparr>) cli cfg hw = node_start E S R N cli cfg hw"
  by (simp add: node_start_def relay_chain_cli_def relay_chain_config_def cong: option.case_cong)

text \<open>
  C39. The option \<open>--no-hardware-benchmarks\<close> does not keep the benchmarks from being run: whenever the node has a
  database directory they are run, with or without the option, before anything else. The option only keeps their result
  from being used: it is neither printed nor reported to telemetry, nobody is warned of slow hardware, and after the benchmarks
  the run is, in all its effects and its result, that of a node without a database directory.
\<close>

theorem benchmarks_run_despite_flag:
  assumes "database_path N cfg = Some path"
  shows "(\<exists>es. snd (run_node E S R N cli cfg []) = CreateDatabaseDir # GatherHwbench # es) \<and>
    (no_hardware_benchmarks cli \<longrightarrow>
      PrintHwbench \<notin> set (snd (run_node E S R N cli cfg [])) \<and>
      WarnSlowHardware \<notin> set (snd (run_node E S R N cli cfg [])) \<and>
      SpawnTask ''telemetry_hwbench'' \<notin> set (snd (run_node E S R N cli cfg [])) \<and>
      run_node E S R N cli cfg [] =
        (fst (run_node E S R (N\<lparr>database_path := (\<lambda>_. None)\<rparr>) cli cfg []),
         CreateDatabaseDir # GatherHwbench # snd (run_node E S R (N\<lparr>database_path := (\<lambda>_. None)\<rparr>) cli cfg [])))"
proof -
  let ?hw = "if \<not> no_hardware_benchmarks cli then Some (gather_hwbench N path) else None"
  let ?start = "\<lambda>hw. node_start E S R N cli cfg hw []"
  have "run_node E S R N cli cfg [] = node_start E S R N cli cfg ?hw [CreateDatabaseDir, GatherHwbench]"
    using assms
    by (simp add: run_node_split hardware_benchmarks_def bind_action_def emit_def pure_action_def)
  then have run: "run_node E S R N cli cfg [] = (fst (?start ?hw), CreateDatabaseDir # GatherHwbench # snd (?start ?hw))"
    by (simp add: uniformD [OF node_start_uniform, of E S R N cli cfg _ "[CreateDatabaseDir, GatherHwbench]"])
  have none: "run_node E S R (N\<lparr>database_path := (\<lambda>_. None)\<rparr>) cli cfg [] = ?start None"
    unfolding run_node_split by (simp add: hardware_benchmarks_def bind_action_def pure_action_def node_start_database)
  have "appends (\<lambda>v. v \<notin> {PrintHwbench, WarnSlowHardware, SpawnTask ''telemetry_hwbench''}) (node_start E S R N cli cfg None)"
    by (rule node_start_appends) (rule no_hwbench_events)
  from appendsD [OF this] have "v \<notin> {PrintHwbench, WarnSlowHardware, SpawnTask ''telemetry_hwbench''}"
    if "v \<in> set (snd (?start None))" for v
    using that by blast
  then show ?thesis using run none by auto
qed

subsection \<open>A concrete node\<close>

definition example_node :: "'spec \<Rightarrow> (nat, 'spec, unit, unit, unit) node_lib" where
  "example_node spec = \<lparr>create_runner = (\<lambda>_. Inr (example_config True)), config_spec = (\<lambda>_. spec),
     run_call = (\<lambda>_. Inr ()), executable_name = ''collator'', config_base_path = (\<lambda>_. Some ''/data''),
     create_configuration = (\<lambda>_ _. Inr (example_config False)), database_path = (\<lambda>_. Some ''/data/db''),
     gather_hwbench = (\<lambda>_. 1), generate_genesis_block = (\<lambda>_ _. Ret (Inr 2)), collator_options = 0,
     TaskManager_new = (\<lambda>_. Inr 3), until_exit = (\<lambda>_. Ret (Inr ()))\<rparr>"

definition example_cli_args :: Cli where
  "example_cli_args = \<lparr>subcommand = None, no_hardware_benchmarks = True, relaychain_args = []\<rparr>"

lemma example_shell_spec:
  obtains s where "boxed_shell example_cli 2267 WellKnown Kusama = Ret (Inr s)" "is_shell example_cli s"
    "dyn_genesis_para example_cli s = Some 2267"
    "dyn_extension example_cli s = Some \<lparr>relay_chain = ''kusama'', para_id = 2267\<rparr>"
  by (simp add: example_cli_eval is_shell_def dyn_name_def dyn_extension_def dyn_genesis_para_def Extensions_try_get_def)

theorem other_runtime_unused_witness:
  "\<exists>s. is_shell example_cli s \<and>
     run \<lparr>runtime_benchmarks = False, try_runtime = False\<rparr> example_cli (\<lambda>_. example_service) example_relay
       (example_node s) example_cli_args [] =
     run \<lparr>runtime_benchmarks = False, try_runtime = False\<rparr> example_cli
       (\<lambda>a. if a = ShellApi then example_service else example_service\<lparr>slot_duration := (\<lambda>_. Inl ''none'')\<rparr>)
       example_relay (example_node s) example_cli_args []"
proof -
  obtain s where s: "is_shell example_cli s"
    by (rule example_shell_spec)
  then show ?thesis
    using other_runtime_unused [of "example_node s" "\<lambda>_. example_service" example_cli
        "\<lambda>a. if a = ShellApi then example_service else example_service\<lparr>slot_duration := (\<lambda>_. Inl ''none'')\<rparr>"
        "\<lparr>runtime_benchmarks = False, try_runtime = False\<rparr>" example_relay example_cli_args "[]"]
    by (auto simp: api_of_def example_node_def)
qed

lemma example_node_network:
  assumes "dyn_extension example_cli s = Some \<lparr>relay_chain = ''kusama'', para_id = 2267\<rparr>"
  shows "BuildNetwork 2267 \<in> set (snd (run_node example_cli (\<lambda>_. example_service) example_relay (example_node s)
    example_cli_args (example_config True) []))"
  using assms
  by (simp add: run_node_split node_start_def hardware_benchmarks_def relay_chain_config_def relay_chain_cli_def example_node_eval
      example_relay_def
      example_node_def example_cli_args_def)

theorem node_joins_genesis_parachain_witness:
  "\<exists>s. boxed_shell example_cli 2267 WellKnown Kusama = Ret (Inr s) \<and>
     BuildNetwork 2267 \<in> set (snd (run_node example_cli (\<lambda>_. example_service) example_relay (example_node s)
       example_cli_args (example_config True) [])) \<and> dyn_genesis_para example_cli s = Some 2267"
proof -
  obtain s where s: "boxed_shell example_cli 2267 WellKnown Kusama = Ret (Inr s)"
    "dyn_genesis_para example_cli s = Some 2267"
    "dyn_extension example_cli s = Some \<lparr>relay_chain = ''kusama'', para_id = 2267\<rparr>"
    by (rule example_shell_spec)
  have "config_spec (example_node s) (example_config True) = s"
    by (simp add: example_node_def)
  then have "(2267 :: u32) = 2267"
    using node_joins_genesis_parachain [OF example_cli_laws(1,2), of 2267 WellKnown Kusama s "BuildNetwork 2267" 2267
        "example_node s" "example_config True" "\<lambda>_. example_service" example_relay example_cli_args 2267
        "example_config True"] s example_node_network [OF s(3)]
    by simp
  then show ?thesis using s example_node_network [OF s(3)] by blast
qed

theorem benchmarks_run_despite_flag_witness:
  "no_hardware_benchmarks example_cli_args \<and>
   (\<exists>s. is_shell example_cli s \<and> (\<exists>es. snd (run_node example_cli (\<lambda>_. example_service) example_relay
     (example_node s) example_cli_args (example_config True) []) = CreateDatabaseDir # GatherHwbench # es))"
proof -
  obtain s where s: "is_shell example_cli s"
    by (rule example_shell_spec)
  have "database_path (example_node s) (example_config True) = Some ''/data/db''"
    by (simp add: example_node_def)
  with s show ?thesis
    using benchmarks_run_despite_flag [of "example_node s" "example_config True" "''/data/db''" example_cli
        "\<lambda>_. example_service" example_relay example_cli_args]
    by (auto simp: example_cli_args_def)
qed

end
