(* ===== verification/Startup.thy ===== *)
theory Startup
  imports Service
begin

text \<open>
  That a node comes up: when the services it asks for are available, starting it succeeds, and the effects
  it has on the way are known exactly. The rules for actions that succeed mirror those of \<open>Service\<close> for
  what an action appends.
\<close>

section \<open>Actions that succeed\<close>

text \<open>\<open>does es Q m\<close>: the action succeeds with the effects \<open>es\<close> and a result satisfying \<open>Q\<close>.\<close>

definition does :: "event list \<Rightarrow> ('a \<Rightarrow> bool) \<Rightarrow> 'a action \<Rightarrow> bool" where
  "does es Q m \<longleftrightarrow> (\<forall>tr. \<exists>x. m tr = (Ret (Inr x), tr @ es) \<and> Q x)"

lemma does_bind:
  assumes "does es Q m" "\<And>x. Q x \<Longrightarrow> does es' R (f x)"
  shows "does (es @ es') R (bind_action m f)"
  unfolding does_def
proof
  fix tr
  obtain x where "m tr = (Ret (Inr x), tr @ es)" "Q x" using assms(1) unfolding does_def by blast
  moreover from this assms(2) obtain y where "f x (tr @ es) = (Ret (Inr y), (tr @ es) @ es')" "R y"
    unfolding does_def by blast
  ultimately show "\<exists>x. bind_action m f tr = (Ret (Inr x), tr @ es @ es') \<and> R x"
    by (simp add: bind_action_def)
qed

lemma does_attempt: "r = Ret (Inr x) \<Longrightarrow> Q x \<Longrightarrow> does [] Q (attempt r)"
  by (simp add: does_def attempt_def)

lemma does_emit: "does [e] (\<lambda>_. True) (emit e)" "does (if c then [e] else []) (\<lambda>_. True) (emit_if c e)"
  by (simp_all add: does_def emit_def emit_if_def pure_action_def)

lemma does_pure: "Q x \<Longrightarrow> does [] Q (pure_action x)"
  by (simp add: does_def pure_action_def)

lemma does_pair: "(\<And>a b. z = (a, b) \<Longrightarrow> does es R (f a b)) \<Longrightarrow> does es R (case z of (a, b) \<Rightarrow> f a b)"
  by (cases z) simp

section \<open>Availability\<close>

text \<open>
  What has to work outside this repository: the database, the telemetry worker, the relay chain node, the
  network, the tasks and the overseer. An authority also needs a collator key, from the relay chain
  node, and a runtime that answers with its slot duration.
\<close>

definition services_up :: "('x, 'm, 'z) service_lib_scheme \<Rightarrow> bool" where
  "services_up L \<longleftrightarrow>
     (\<exists>w. TelemetryWorker_new L 16 = Inr w) \<and>
     (\<forall>c t e. \<exists>client backend ks tm. new_full_parts L c t e = Inr (client, backend, ks, tm)) \<and>
     (\<forall>pc c h tm co hw. \<exists>i k. build_relay_chain_interface L pc c h tm co hw = Inr (i, k)) \<and>
     (\<forall>c cl p para tm i q. \<exists>n s t st sy. build_network L c cl p para tm i q = Inr (n, s, t, st, sy)) \<and>
     (\<forall>p. spawn_tasks L p = Inr ()) \<and> (\<forall>i. \<exists>h. overseer_handle L i = Inr h) \<and>
     (\<forall>p. start_collator L p = Inr ()) \<and> (\<forall>p. start_full_node L p = Inr ())"

definition collator_ready :: "('x, 'm, 'z) service_lib_scheme \<Rightarrow> bool" where
  "collator_ready L \<longleftrightarrow>
     (\<forall>pc c h tm co hw i k. build_relay_chain_interface L pc c h tm co hw = Inr (i, k) \<longrightarrow> k \<noteq> None) \<and>
     (\<forall>c. \<exists>sd. slot_duration L c = Inr sd)"

definition telemetry_on :: "'x config \<Rightarrow> bool" where
  "telemetry_on cfg \<longleftrightarrow> telemetry_endpoints cfg \<noteq> None \<and> telemetry_endpoints cfg \<noteq> Some []"

definition hardware_events :: "('x, 'm, 'z) service_lib_scheme \<Rightarrow> 'x option \<Rightarrow> bool \<Rightarrow> bool \<Rightarrow> event list" where
  "hardware_events L hwbench validator telemetry =
     (case hwbench of
        None \<Rightarrow> []
      | Some hw \<Rightarrow> PrintHwbench # (if validator \<and> \<not> check_hardware L hw then [WarnSlowHardware] else []) @
          (if telemetry then [SpawnTask ''telemetry_hwbench''] else []))"

definition start_events :: "('x, 'm, 'z) service_lib_scheme \<Rightarrow> 'x config \<Rightarrow> u32 \<Rightarrow> 'x option \<Rightarrow> event list" where
  "start_events L cfg para hwbench =
     (if telemetry_on cfg then [SpawnTask ''telemetry''] else []) @
     [BuildRelayChainInterface, BuildNetwork para, SpawnServiceTasks] @
     hardware_events L hwbench (is_authority cfg) (telemetry_on cfg) @
     (if is_authority cfg then [BuildConsensus, StartCollator para] else [StartFullNode para]) @ [StartNetwork]"

section \<open>A node comes up\<close>

lemma make_telemetry_up:
  assumes "services_up L"
  shows "\<exists>t. make_telemetry L cfg = Inr t \<and> (t \<noteq> None \<longleftrightarrow> telemetry_on cfg)"
  using assms by (auto simp: services_up_def make_telemetry_def telemetry_on_def split: option.split)

lemma new_partial_up:
  assumes "services_up L"
  shows "does (if telemetry_on cfg then [SpawnTask ''telemetry''] else [])
    (\<lambda>p. pc_telemetry p \<noteq> None \<longleftrightarrow> telemetry_on cfg) (new_partial L cfg (aura_build_import_queue L))"
proof -
  obtain t where t: "make_telemetry L cfg = Inr t" "t \<noteq> None \<longleftrightarrow> telemetry_on cfg"
    using make_telemetry_up [OF assms] by blast
  obtain client backend ks tm where parts: "new_full_parts L cfg (map_option (\<lambda>(_, t). telemetry_handle L t) t)
      (build_executor L cfg (heap_strategy L cfg) (heap_strategy L cfg)) = Inr (client, backend, ks, tm)"
    using assms unfolding services_up_def by metis
  show ?thesis
    using t(2)
    by (auto simp: does_def new_partial_def bind_action_def attempt_def t(1) parts emit_if_def emit_def pure_action_def
        aura_build_import_queue_def Let_def) (metis not_None_eq surj_pair)
qed

lemma report_hardware_up:
  "does (hardware_events L hwbench validator (telemetry \<noteq> None)) (\<lambda>_. True) (report_hardware L hwbench validator telemetry)"
  by (auto simp: does_def report_hardware_def hardware_events_def warn_if_slow_hardware_def bind_action_def emit_def
      emit_if_def pure_action_def split: option.split)

lemma start_role_up:
  assumes "services_up L" "is_authority cfg \<Longrightarrow> collator_ready L \<and> key \<noteq> None"
  shows "does (if is_authority cfg then [BuildConsensus, StartCollator para] else [StartFullNode para]) (\<lambda>_. True)
    (start_role L cfg para params rci key sync overseer (build_aura_consensus L para))"
proof (cases "is_authority cfg")
  case True
  then obtain k sd where "key = Some k" "slot_duration L (pc_client params) = Inr sd"
    using assms(2) unfolding collator_ready_def by blast
  with True assms(1) show ?thesis
    by (simp add: does_def start_role_def bind_action_def emit_def attempt_def build_aura_consensus_def services_up_def)
next
  case False
  with assms(1) show ?thesis
    by (simp add: does_def start_role_def bind_action_def emit_def attempt_def services_up_def)
qed

lemma services_does:
  assumes "services_up L"
  shows "authority \<longrightarrow> collator_ready L \<Longrightarrow> does [] (\<lambda>(i, k). authority \<longrightarrow> k \<noteq> None)
      (attempt (Ret (map_err relay_error_message (build_relay_chain_interface L pc c h tm co hw))))"
    and "does [] (\<lambda>_. True) (attempt (Ret (build_network L c cl p para tm i q)))"
    and "does [] (\<lambda>_. True) (attempt (Ret (spawn_tasks L sp)))"
    and "does [] (\<lambda>_. True) (attempt (Ret (overseer_handle L i)))"
proof -
  obtain i' k where "build_relay_chain_interface L pc c h tm co hw = Inr (i', k)"
    using assms unfolding services_up_def by metis
  then show "does [] (\<lambda>(i, k). authority \<longrightarrow> k \<noteq> None)
      (attempt (Ret (map_err relay_error_message (build_relay_chain_interface L pc c h tm co hw))))"
    if "authority \<longrightarrow> collator_ready L"
    using that by (auto simp: does_def attempt_def map_err_def collator_ready_def)
  obtain n s t st sy where "build_network L c cl p para tm i q = Inr (n, s, t, st, sy)"
    using assms unfolding services_up_def by metis
  then show "does [] (\<lambda>_. True) (attempt (Ret (build_network L c cl p para tm i q)))"
    by (simp add: does_def attempt_def)
qed (use assms in \<open>auto simp: services_up_def does_def attempt_def\<close>)

text \<open>
  A node comes up: when the services it is assembled from are available, and for an authority also a collator key
  and the runtime's slot duration, starting it succeeds, for every configuration, parachain and result of
  the hardware benchmark. Its effects are then exactly, in this order: the telemetry task if any endpoint is
  configured, the relay chain node, the network for this parachain, the service tasks, the report on the
  hardware, the role, and at last the start of the network. A full node needs neither key nor slot duration.
\<close>

lemma node_comes_up:
  assumes "services_up L" "is_authority (prepare_node_config L cfg) \<Longrightarrow> collator_ready L"
  shows "\<exists>task_manager client. start_generic_aura_node L cfg pcfg opts para hwbench tr =
    (Ret (Inr (task_manager, client)), tr @ start_events L (prepare_node_config L cfg) para hwbench)"
proof -
  let ?cfg = "prepare_node_config L cfg"
  have ready: "is_authority ?cfg \<longrightarrow> collator_ready L" using assms(2) by blast
  have hw: "does (hardware_events L hwbench (is_authority ?cfg) (telemetry_on ?cfg)) (\<lambda>_. True)
      (report_hardware L hwbench (is_authority ?cfg) (pc_telemetry params))"
    if "pc_telemetry params \<noteq> None \<longleftrightarrow> telemetry_on ?cfg" for params
    using report_hardware_up [of L hwbench _ "pc_telemetry params"] that by simp
  have "\<exists>es. es = start_events L ?cfg para hwbench \<and>
      does es (\<lambda>_. True) (start_generic_aura_node L cfg pcfg opts para hwbench)"
    unfolding start_generic_aura_node_def start_node_impl_def Let_def
    apply (rule exI, rule conjI [rotated])
     apply (rule does_bind [OF new_partial_up [OF assms(1)]])
     apply (rule does_bind [OF does_emit(1)])
     apply (rule does_bind [OF services_does(1) [OF assms(1) ready]], rule does_pair)
     apply (rule does_bind [OF does_emit(1)])
     apply (rule does_bind [OF services_does(2) [OF assms(1)]])
     apply (rule does_pair)+
     apply (rule does_bind [OF does_emit(1)])
     apply (rule does_bind [OF services_does(3) [OF assms(1)]])
     apply (rule does_bind [OF hw], assumption)
     apply (rule does_bind [OF services_does(4) [OF assms(1)]])
     apply (rule does_bind [OF start_role_up [OF assms(1)]])
      apply (use ready in simp)
     apply (rule does_bind [OF does_emit(1)])
     apply (rule does_pure, rule TrueI)
    apply (simp add: start_events_def)
    done
  then show ?thesis unfolding does_def by fastforce
qed

lemma node_comes_up_witness:
  "snd (start_generic_aura_node example_service (example_config True) (example_config True) 0 2015 (Some 1) []) =
   [SpawnTask ''telemetry'', BuildRelayChainInterface, BuildNetwork 2015, SpawnServiceTasks, PrintHwbench,
    WarnSlowHardware, SpawnTask ''telemetry_hwbench'', BuildConsensus, StartCollator 2015, StartNetwork]"
proof -
  have "services_up example_service" "collator_ready example_service"
    by (simp_all add: services_up_def collator_ready_def example_service_def)
  then have "\<exists>task_manager client. start_generic_aura_node example_service (example_config True) (example_config True) 0 2015
      (Some 1) [] = (Ret (Inr (task_manager, client)),
        [] @ start_events example_service (prepare_node_config example_service (example_config True)) 2015 (Some 1))"
    by (rule node_comes_up)
  then show ?thesis
    by (auto simp: start_events_def hardware_events_def telemetry_on_def example_service_def example_config_def)
qed

end
