(* ===== verification/Binary.thy ===== *)
theory Binary
  imports Node Startup
begin

text \<open>
  The binary as a whole: \<open>main.rs\<close>, the trait \<open>SubstrateCli\<close> of the two command lines (\<open>command.rs\<close>) and the native
  executors (\<open>service.rs\<close>) that benchmarks of pallets are run with.
\<close>

section \<open>Native executors\<close>

text \<open>
  \<open>NativeExecutionDispatch\<close>. \<open>dispatch\<close> is the entry point \<open>impl_runtime_apis!\<close> generates for a runtime, a parameter for
  each of the two.
\<close>

record ('api, 'd) native_executor =
  ExtendHostFunctions :: string
  ne_dispatch :: "string \<Rightarrow> u8 list \<Rightarrow> u8 list option"
  ne_native_version :: "('api, 'd) NativeVersion"

definition IntegriteeParachainRuntimeExecutor ::
  "(string \<Rightarrow> u8 list \<Rightarrow> u8 list option) \<Rightarrow> 'api \<Rightarrow> 'd \<Rightarrow> ('api, 'd) native_executor" where
  "IntegriteeParachainRuntimeExecutor api_dispatch api dflt =
     \<lparr>ExtendHostFunctions = ''frame_benchmarking::benchmarking::HostFunctions'',
      ne_dispatch = api_dispatch,
      ne_native_version = native_version api dflt\<rparr>"

definition ShellParachainRuntimeExecutor ::
  "(string \<Rightarrow> u8 list \<Rightarrow> u8 list option) \<Rightarrow> 'api \<Rightarrow> 'd \<Rightarrow> ('api, 'd) native_executor" where
  "ShellParachainRuntimeExecutor api_dispatch api dflt =
     \<lparr>ExtendHostFunctions = ''frame_benchmarking::benchmarking::HostFunctions'',
      ne_dispatch = api_dispatch,
      ne_native_version = shell_native_version api dflt\<rparr>"

text \<open>The executor that a benchmark of pallets is given for a runtime, see \<^const>\<open>run_benchmark\<close>.\<close>

definition executor_of ::
  "(runtime_api \<Rightarrow> string \<Rightarrow> u8 list \<Rightarrow> u8 list option) \<Rightarrow> (runtime_api \<Rightarrow> 'api) \<Rightarrow> 'd \<Rightarrow> runtime_api \<Rightarrow>
   ('api, 'd) native_executor" where
  "executor_of api_dispatch apis_of dflt a =
     (case a of
        ShellApi \<Rightarrow> ShellParachainRuntimeExecutor (api_dispatch ShellApi) (apis_of ShellApi) dflt
      | IntegriteeApi \<Rightarrow> IntegriteeParachainRuntimeExecutor (api_dispatch IntegriteeApi) (apis_of IntegriteeApi) dflt)"

section \<open>The command lines\<close>

text \<open>
  \<open>SubstrateCli\<close>, and what is known when the binary is built or started: the version, the authors and the name of
  the executable. \<open>polkadot_load_spec\<close> and \<open>polkadot_native_version\<close> belong to the command line of the relay chain,
  \<open>polkadot_cli::Cli\<close>, here parsed from the executable's name alone.
\<close>

record ('spec, 'ver) substrate_cli =
  sc_impl_name :: string
  sc_impl_version :: string
  sc_description :: string
  sc_author :: string
  sc_support_url :: string
  sc_copyright_start_year :: int
  sc_load_spec :: "string \<Rightarrow> (string + 'spec) outcome"
  sc_native_runtime_version :: "'spec \<Rightarrow> 'ver"

record ('pspec, 'pver) build_env =
  SUBSTRATE_CLI_IMPL_VERSION :: string
  CARGO_PKG_AUTHORS :: string
  be_executable_name :: string
  polkadot_load_spec :: "string list \<Rightarrow> string \<Rightarrow> (string + 'pspec) outcome"
  polkadot_native_version :: "'pspec \<Rightarrow> 'pver"

definition newline :: string where
  "newline = [CHR 0x0A]"

definition Cli_SubstrateCli ::
  "('ps, 'pv, 'y) build_env_scheme \<Rightarrow> ('si, 'ss, 'acc, 'aura, 'd, 'pub, 'props, 'e, 'z) cli_env_scheme \<Rightarrow> 'api \<Rightarrow> 'api \<Rightarrow>
   (('si, 'ss) dyn_spec, 'api RuntimeVersion) substrate_cli" where
  "Cli_SubstrateCli B E shell_apis parachain_apis =
     \<lparr>sc_impl_name = ''Integritee Collator'',
      sc_impl_version = SUBSTRATE_CLI_IMPL_VERSION B,
      sc_description = ''Integritee Collator'' @ newline @ newline @
        ''The command-line arguments provided first will be passed to the parachain node, while the arguments provided after -- will be passed to the relaychain node.''
        @ newline @ newline @ be_executable_name B @ '' [parachain-args] -- [relaychain-args]'',
      sc_author = CARGO_PKG_AUTHORS B,
      sc_support_url = ''https://github.com/integritee-network/parachain/issues/new'',
      sc_copyright_start_year = 2019,
      sc_load_spec = load_spec E,
      sc_native_runtime_version = native_runtime_version E shell_apis parachain_apis\<rparr>"

definition RelayChainCli_SubstrateCli :: "('ps, 'pv, 'y) build_env_scheme \<Rightarrow> ('ps, 'pv) substrate_cli" where
  "RelayChainCli_SubstrateCli B =
     \<lparr>sc_impl_name = ''Integritee Collator'',
      sc_impl_version = SUBSTRATE_CLI_IMPL_VERSION B,
      sc_description = ''Integritee Collator'' @ newline @ newline @
        ''The command-line arguments provided first will be passed to the parachain node, while the arguments provided after -- will be passed to the relaychain node.''
        @ newline @ newline @ be_executable_name B @ '' [parachain-args] -- [relaychain-args]'',
      sc_author = CARGO_PKG_AUTHORS B,
      sc_support_url = ''https://github.com/integritee-network/parachain/issues/new'',
      sc_copyright_start_year = 2019,
      sc_load_spec = polkadot_load_spec B [be_executable_name B],
      sc_native_runtime_version = polkadot_native_version B\<rparr>"

section \<open>The entry point\<close>

definition main ::
  "features \<Rightarrow> ('si, 'ss, 'acc, 'aura, 'd, 'pub, 'props, 'e, 'z) cli_env_scheme \<Rightarrow>
   (runtime_api \<Rightarrow> ('x, 'm) service_lib) \<Rightarrow> ('r, 'o, 'q, 'f, 'y) relay_lib_scheme \<Rightarrow>
   ('x, ('si, 'ss) dyn_spec, 'o, 'q, 'f) node_lib \<Rightarrow> Cli \<Rightarrow> unit action" where
  "main F E S R N cli = run F E S R N cli"

section \<open>Properties\<close>

text \<open>
  The executor chosen for a specification has the version that the command line reports for it, and the
  two executors differ in their version, so that they cannot be taken for each other.
\<close>

lemma executor_matches_cli:
  "runtime_version (ne_native_version (executor_of dsp apis_of dflt (api_of E spec))) =
     sc_native_runtime_version (Cli_SubstrateCli B E (apis_of ShellApi) (apis_of IntegriteeApi)) spec"
  "impl_name (runtime_version (ne_native_version (executor_of dsp apis_of dflt ShellApi))) \<noteq>
     impl_name (runtime_version (ne_native_version (executor_of dsp apis_of dflt IntegriteeApi)))"
  by (simp_all add: executor_of_def IntegriteeParachainRuntimeExecutor_def ShellParachainRuntimeExecutor_def
      native_version_def shell_native_version_def Cli_SubstrateCli_def native_runtime_version_def api_of_def
      VERSION_def shell_VERSION_def)

text \<open>Both command lines present the same program; they differ in the specifications they load.\<close>

lemma command_lines_agree:
  "sc_impl_name (RelayChainCli_SubstrateCli B) = sc_impl_name (Cli_SubstrateCli B E a b)"
  "sc_impl_version (RelayChainCli_SubstrateCli B) = sc_impl_version (Cli_SubstrateCli B E a b)"
  "sc_description (RelayChainCli_SubstrateCli B) = sc_description (Cli_SubstrateCli B E a b)"
  "sc_author (RelayChainCli_SubstrateCli B) = sc_author (Cli_SubstrateCli B E a b)"
  "sc_support_url (RelayChainCli_SubstrateCli B) = sc_support_url (Cli_SubstrateCli B E a b)"
  by (simp_all add: RelayChainCli_SubstrateCli_def Cli_SubstrateCli_def)

text \<open>The hardware benchmarks a run passes on, and what they leave in the list of effects.\<close>

definition hwbench_of :: "('x, 'spec, 'o, 'q, 'f) node_lib \<Rightarrow> Cli \<Rightarrow> 'x config \<Rightarrow> 'x option" where
  "hwbench_of N cli cfg =
     (if no_hardware_benchmarks cli then None else map_option (gather_hwbench N) (database_path N cfg))"

lemma hardware_benchmarks_does:
  "hardware_benchmarks N cli cfg tr = (Ret (Inr (hwbench_of N cli cfg)),
     tr @ (if database_path N cfg = None then [] else [CreateDatabaseDir, GatherHwbench]))"
  by (cases "database_path N cfg")
     (simp_all add: hardware_benchmarks_def hwbench_of_def bind_action_def pure_action_def emit_def)

text \<open>
  What \<open>main\<close> does without a subcommand, where everything it calls succeeds.
\<close>

lemma main_comes_up:
  fixes E :: "('si, 'ss, 'acc, 'aura, 'd, 'pub, 'props, 'e, 'z) cli_env_scheme"
  defines "L \<equiv> \<lambda>S N cfg. S (api_of E (config_spec N cfg))"
  assumes "subcommand cli = None" "create_runner N None = Inr cfg" "dyn_extension E (config_spec N cfg) = Some ext"
    and "relay_chain_cli E R N cli cfg = Ret (Inr pcli)" "relay_chain_config R N pcli = Inr pcfg"
    and "generate_genesis_block N (config_spec N cfg) 0 = Ret (Inr block)"
    and "services_up (L S N cfg)"
    and "is_authority (prepare_node_config (L S N cfg) cfg) \<Longrightarrow> collator_ready (L S N cfg)"
  shows "\<exists>task_manager client.
    fst (start_generic_aura_node (L S N cfg) cfg pcfg (collator_options N) (para_id ext) (hwbench_of N cli cfg) []) =
      Ret (Inr (task_manager, client)) \<and>
    main F E S R N cli [] = (until_exit N task_manager,
      (if database_path N cfg = None then [] else [CreateDatabaseDir, GatherHwbench]) @
      start_events (L S N cfg) (prepare_node_config (L S N cfg) cfg) (para_id ext) (hwbench_of N cli cfg) @ [RunUntilExit])"
proof -
  let ?hw = "if database_path N cfg = None then [] else [CreateDatabaseDir, GatherHwbench]"
  let ?wait = "\<lambda>tm. bind_action (emit RunUntilExit) (\<lambda>_. attempt (until_exit N tm))"
  have version: "state_version (native_runtime_version E () () (config_spec N cfg)) = 0"
    by (simp add: native_runtime_version_def VERSION_def shell_VERSION_def)
  let ?start = "start_generic_aura_node (L S N cfg) cfg pcfg (collator_options N) (para_id ext) (hwbench_of N cli cfg)"
  obtain tm client where start: "?start [] = (Ret (Inr (tm, client)),
      start_events (L S N cfg) (prepare_node_config (L S N cfg) cfg) (para_id ext) (hwbench_of N cli cfg))"
    using node_comes_up [of "L S N cfg" cfg pcfg "collator_options N" "para_id ext" "hwbench_of N cli cfg" "[]", OF assms(8,9)]
    by auto
  have "uniform ?start" unfolding start_generic_aura_node_def by (rule start_node_uniform)
  from uniformD [OF this, of ?hw] start
  have "bind_action ?start (\<lambda>(tm, _). pure_action tm) ?hw = (Ret (Inr tm), ?hw @
      start_events (L S N cfg) (prepare_node_config (L S N cfg) cfg) (para_id ext) (hwbench_of N cli cfg))"
    by (simp add: bind_action_def pure_action_def)
  moreover have "main F E S R N cli [] = bind_action (node_start E S R N cli cfg (hwbench_of N cli cfg)) ?wait ?hw"
    using assms(2,3)
    by (simp add: main_def run_def attempt_ok run_node_split bind_action_def [of "hardware_benchmarks N cli cfg"]
        bind_action_def [of "bind_action _ _"] bind_action_def [of "node_start _ _ _ _ _ _ _"] hardware_benchmarks_does)
  moreover have "node_start E S R N cli cfg (hwbench_of N cli cfg) = bind_action ?start (\<lambda>(tm, _). pure_action tm)"
    using assms(4-7) by (simp add: node_start_def L_def version attempt_ok)
  ultimately have "main F E S R N cli [] = (until_exit N tm, ?hw @
      start_events (L S N cfg) (prepare_node_config (L S N cfg) cfg) (para_id ext) (hwbench_of N cli cfg) @ [RunUntilExit])"
    by (simp add: bind_action_def [of "bind_action _ _"] bind_action_def [of "emit _"] emit_def attempt_def)
  with start show ?thesis by auto
qed

text \<open>
  C17. Called without a subcommand, the binary brings the node up: if its configuration parses, the specification names a
  parachain and yields a genesis block, the relay chain arguments parse and the services of the selected runtime's
  node are available, then \<open>main\<close> starts the node, with exactly the effects of one start, for the parachain of the
  specification, preceded by the hardware benchmarks where there is a database directory and ending with the
  start of the network; it then waits for the end on the task manager of that start, and its result is that of waiting. If
  the specification is one the node builds under the name given to \<open>--chain\<close>, the name tells which node this is: after
  \<open>shell-\<close> it is the shell runtime's, for parachain 2267; the full runtime's is always for parachain 2015; and, Moonbase
  apart, the name is \<open>shell-\<close> or \<open>integritee-\<close>, the relay chain the node connects to, and \<open>-fresh\<close>, \<open>-dev\<close> or nothing.
\<close>

theorem collator_comes_up:
  fixes E :: "('si, 'ss, 'acc, 'aura, 'd, 'pub, 'props, 'e, 'z) cli_env_scheme"
  defines "L \<equiv> \<lambda>S N cfg. S (api_of E (config_spec N cfg))"
  assumes "subcommand cli = None" "create_runner N None = Inr cfg" "dyn_extension E (config_spec N cfg) = Some ext"
    and "relay_chain_cli E R N cli cfg = Ret (Inr pcli)" "relay_chain_config R N pcli = Inr pcfg"
    and "generate_genesis_block N (config_spec N cfg) 0 = Ret (Inr block)"
    and "services_up (L S N cfg)"
    and "is_authority (prepare_node_config (L S N cfg) cfg) \<Longrightarrow> collator_ready (L S N cfg)"
  shows "(\<exists>task_manager client.
      fst (start_generic_aura_node (L S N cfg) cfg pcfg (collator_options N) (para_id ext) (hwbench_of N cli cfg) []) =
        Ret (Inr (task_manager, client)) \<and>
      main F E S R N cli [] = (until_exit N task_manager,
        (if database_path N cfg = None then [] else [CreateDatabaseDir, GatherHwbench]) @
        start_events (L S N cfg) (prepare_node_config (L S N cfg) cfg) (para_id ext) (hwbench_of N cli cfg) @ [RunUntilExit])) \<and>
    (spec_laws (integritee_lib E) \<and> spec_laws (shell_lib E) \<and> i \<in> set built_ids \<and>
       load_spec E i = Ret (Inr (config_spec N cfg)) \<longrightarrow>
     (starts_with i ''shell-'' \<longrightarrow> api_of E (config_spec N cfg) = ShellApi \<and> para_id ext = 2267) \<and>
     (api_of E (config_spec N cfg) = IntegriteeApi \<longrightarrow> para_id ext = 2015) \<and>
     (i \<noteq> ''integritee-moonbase-fresh'' \<longrightarrow>
        i \<in> set [p @ relay_chain ext @ q. p \<leftarrow> [''shell-'', ''integritee-''], q \<leftarrow> [''-fresh'', '''', ''-dev'']]))"
proof (rule conjI)
  show "\<exists>task_manager client.
      fst (start_generic_aura_node (L S N cfg) cfg pcfg (collator_options N) (para_id ext) (hwbench_of N cli cfg) []) =
        Ret (Inr (task_manager, client)) \<and>
      main F E S R N cli [] = (until_exit N task_manager,
        (if database_path N cfg = None then [] else [CreateDatabaseDir, GatherHwbench]) @
        start_events (L S N cfg) (prepare_node_config (L S N cfg) cfg) (para_id ext) (hwbench_of N cli cfg) @ [RunUntilExit])"
    unfolding L_def by (rule main_comes_up [OF assms(2-7)]) (use assms(8,9) in \<open>simp_all add: L_def\<close>)
qed (intro impI, elim conjE, drule (3) built_spec_identity, use assms(4) in \<open>auto simp: KUSAMA_SWAP_PARA_ID_def api_of_def split: if_splits\<close>)

lemma example_named_spec:
  obtains s where "load_spec example_cli ''shell-kusama-local-dev'' = Ret (Inr s)" "dyn_genesis_para example_cli s = Some 2267"
    "dyn_extension example_cli s = Some \<lparr>relay_chain = ''kusama-local'', para_id = 2267\<rparr>"
  by (simp add: example_cli_eval is_shell_def dyn_name_def dyn_extension_def dyn_genesis_para_def Extensions_try_get_def
      para_id_defs)

theorem collator_comes_up_witness:
  "\<exists>s. load_spec example_cli ''shell-kusama-local-dev'' = Ret (Inr s) \<and> dyn_genesis_para example_cli s = Some 2267 \<and>
     api_of example_cli s = ShellApi \<and>
     main \<lparr>runtime_benchmarks = False, try_runtime = False\<rparr> example_cli (\<lambda>_. example_service) example_relay
       (example_node s) example_cli_args [] =
     (Ret (Inr ()), [CreateDatabaseDir, GatherHwbench, SpawnTask ''telemetry'', BuildRelayChainInterface, BuildNetwork 2267,
        SpawnServiceTasks, BuildConsensus, StartCollator 2267, StartNetwork, RunUntilExit])"
proof -
  obtain s where s: "load_spec example_cli ''shell-kusama-local-dev'' = Ret (Inr s)" "dyn_genesis_para example_cli s = Some 2267"
    "dyn_extension example_cli s = Some \<lparr>relay_chain = ''kusama-local'', para_id = 2267\<rparr>"
    by (rule example_named_spec)
  have up: "services_up example_service" "collator_ready example_service"
    by (simp_all add: services_up_def collator_ready_def example_service_def)
  let ?N = "example_node s" and ?cfg = "example_config True"
  obtain pcli where n: "create_runner ?N None = Inr ?cfg" "config_spec ?N ?cfg = s" "generate_genesis_block ?N s 0 = Ret (Inr 2)"
    "database_path ?N ?cfg = Some ''/data/db''" "until_exit ?N = (\<lambda>_. Ret (Inr ()))"
    "relay_chain_cli example_cli example_relay ?N example_cli_args ?cfg = Ret (Inr pcli)"
    "relay_chain_config example_relay ?N pcli = Inr (example_config False)"
    by (simp add: example_node_def relay_chain_config_def relay_chain_cli_def map_err_def example_relay_def)
  show ?thesis
    using collator_comes_up [of example_cli_args ?N ?cfg example_cli "\<lparr>relay_chain = ''kusama-local'', para_id = 2267\<rparr>"
        example_relay pcli "example_config False" 2 "\<lambda>_. example_service" "\<lparr>runtime_benchmarks = False, try_runtime = False\<rparr>"
        "''shell-kusama-local-dev''"] s up n example_cli_laws(1,2)
    by (intro exI [of _ s]) (simp add: example_cli_args_def start_events_def hardware_events_def hwbench_of_def built_ids_def
        telemetry_on_def example_service_def [THEN arg_cong, of prepare_node_config] example_config_def)
qed

end
