(* ===== verification/Build.thy ===== *)
theory Build
  imports Binary
begin

text \<open>
  The build scripts: \<open>build.rs\<close> of the two runtimes compiles the runtime to WebAssembly, which its \<open>lib.rs\<close> includes as
  \<open>WASM_BINARY\<close> and \<open>chain_spec.rs\<close> puts into the genesis state; \<open>build.rs\<close> of the node sets the version the
  command line reports. The builder and the helpers belong to other crates.
\<close>

section \<open>The scripts\<close>

text \<open>
  \<open>substrate_wasm_builder\<close>: \<open>with_current_project\<close> takes the directory of the crate being built, which cargo passes in the
  environment; the result is the constant \<open>WASM_BINARY\<close> of the file it generates, \<open>None\<close> if the build is
  skipped. \<open>substrate_build_script_utils\<close>: both functions write instructions to cargo, one of which defines the variable
  \<open>SUBSTRATE_CLI_IMPL_VERSION\<close>.
\<close>

record ('w, 'o) build_lib =
  WasmBuilder_new :: 'w
  with_current_project :: "string \<Rightarrow> 'w \<Rightarrow> 'w"
  export_heap_base :: "'w \<Rightarrow> 'w"
  import_memory :: "'w \<Rightarrow> 'w"
  WasmBuilder_build :: "'w \<Rightarrow> u8 list option"
  generate_cargo_keys :: "'o \<Rightarrow> 'o"
  rerun_if_git_head_changed :: "'o \<Rightarrow> 'o"
  cargo_env :: "'o \<Rightarrow> string \<Rightarrow> string option"

definition integritee_runtime_build_main :: "('w, 'o, 'z) build_lib_scheme \<Rightarrow> string \<Rightarrow> u8 list option" where
  "integritee_runtime_build_main W dir =
     WasmBuilder_build W (import_memory W (export_heap_base W (with_current_project W dir (WasmBuilder_new W))))"

definition shell_runtime_build_main :: "('w, 'o, 'z) build_lib_scheme \<Rightarrow> string \<Rightarrow> u8 list option" where
  "shell_runtime_build_main W dir =
     WasmBuilder_build W (import_memory W (export_heap_base W (with_current_project W dir (WasmBuilder_new W))))"

definition node_build_main :: "('w, 'o, 'z) build_lib_scheme \<Rightarrow> 'o \<Rightarrow> 'o" where
  "node_build_main W out = rerun_if_git_head_changed W (generate_cargo_keys W out)"

text \<open>
  \<open>include!(concat!(env!("OUT_DIR"), "/wasm_binary.rs"))\<close> in either \<open>lib.rs\<close>: each crate includes what its own script
  generated.
\<close>

definition integritee_WASM_BINARY :: "('w, 'o, 'z) build_lib_scheme \<Rightarrow> u8 list option" where
  "integritee_WASM_BINARY W = integritee_runtime_build_main W ''polkadot-parachains/integritee-runtime''"

definition shell_WASM_BINARY :: "('w, 'o, 'z) build_lib_scheme \<Rightarrow> u8 list option" where
  "shell_WASM_BINARY W = shell_runtime_build_main W ''polkadot-parachains/shell-runtime''"

definition linked ::
  "('w, 'o, 'y) build_lib_scheme \<Rightarrow> ('si, 'ss, 'acc, 'aura, 'd, 'pub, 'props, 'e, 'z) cli_env_scheme \<Rightarrow>
   ('si, 'ss, 'acc, 'aura, 'd, 'pub, 'props, 'e, 'z) cli_env_scheme" where
  "linked W E = E\<lparr>integritee_wasm := integritee_WASM_BINARY W, shell_wasm := shell_WASM_BINARY W\<rparr>"

text \<open>
  \<open>env!("SUBSTRATE_CLI_IMPL_VERSION")\<close> in \<open>command.rs\<close>: the value the node's script defined; without one the crate does not
  compile.
\<close>

definition with_version :: "('w, 'o, 'z) build_lib_scheme \<Rightarrow> 'o \<Rightarrow> ('ps, 'pv) build_env \<Rightarrow> ('ps, 'pv) build_env option" where
  "with_version W out B =
     map_option (\<lambda>v. B\<lparr>SUBSTRATE_CLI_IMPL_VERSION := v\<rparr>) (cargo_env W (node_build_main W out) ''SUBSTRATE_CLI_IMPL_VERSION'')"

lemma reported_version:
  assumes "with_version W out B = Some B'"
  shows "cargo_env W (node_build_main W out) ''SUBSTRATE_CLI_IMPL_VERSION'' = Some (sc_impl_version (Cli_SubstrateCli B' E a b))"
    and "sc_impl_version (RelayChainCli_SubstrateCli B') = sc_impl_version (Cli_SubstrateCli B' E a b)"
  using assms by (auto simp: with_version_def Cli_SubstrateCli_def RelayChainCli_SubstrateCli_def)

lemma linked_fields [simp]:
  "integritee_lib (linked W E) = integritee_lib E" "shell_lib (linked W E) = shell_lib E"
  "integritee_wasm (linked W E) = integritee_WASM_BINARY W" "shell_wasm (linked W E) = shell_WASM_BINARY W"
  by (simp_all add: linked_def)

section \<open>The code of a genesis state\<close>

definition dyn_genesis_code ::
  "('si, 'ss, 'acc, 'aura, 'd, 'pub, 'props, 'e, 'z) cli_env_scheme \<Rightarrow> ('si, 'ss) dyn_spec \<Rightarrow> u8 list outcome" where
  "dyn_genesis_code E spec =
     (case spec of
        IntegriteeSpec s \<Rightarrow> bind_outcome (build_genesis (integritee_lib E) s) (\<lambda>g. Ret (ig_code g))
      | ShellSpec s \<Rightarrow> bind_outcome (build_genesis (shell_lib E) s) (\<lambda>g. Ret (sg_code g)))"

text \<open>Each of the two builders puts the code of its own runtime into the genesis state, or panics for want of it.\<close>

lemma chain_spec_code:
  "spec_laws S \<Longrightarrow> integritee_chain_spec S K wasm dflt p k r = Ret s \<Longrightarrow>
     bind_outcome (build_genesis S s) (\<lambda>g. Ret (ig_code g)) = expect_opt ''WASM binary was not build, please build it!'' wasm"
  "spec_laws S' \<Longrightarrow> shell_chain_spec S' K wasm dflt' p k r = Ret s' \<Longrightarrow>
     bind_outcome (build_genesis S' s') (\<lambda>g. Ret (sg_code g)) = expect_opt ''WASM binary was not build, please build it!'' wasm"
  by (auto simp: integritee_chain_spec_def shell_chain_spec_def bind_outcome_eq_Ret chain_spec_fields(6)
      integritee_genesis_config_def shell_genesis_config_def expect_opt_def split: option.splits)

lemma boxed_code:
  assumes "spec_laws (integritee_lib E)" "spec_laws (shell_lib E)"
  shows "boxed_shell E p k r = Ret (Inr s) \<Longrightarrow> is_shell E s \<and>
      dyn_genesis_code E s = expect_opt ''WASM binary was not build, please build it!'' (shell_wasm E)"
    and "boxed_integritee E p k r = Ret (Inr s) \<Longrightarrow> \<not> is_shell E s \<and>
      dyn_genesis_code E s = expect_opt ''WASM binary was not build, please build it!'' (integritee_wasm E)"
  using boxed_shell_fields [OF assms(2)] boxed_integritee_fields [OF assms(1)]
  by (auto simp: boxed_shell_def boxed_integritee_def bind_outcome_eq_Ret dyn_genesis_code_def
      chain_spec_code(1) [OF assms(1)] chain_spec_code(2) [OF assms(2)])

section \<open>Properties\<close>

text \<open>
  C21. The genesis state of every specification that the node builds under a name holds exactly the code that the
  build script of that runtime produced for which the node takes the chain, the shell's if the specification's name
  begins with \<open>Integritee Shell\<close> and the full runtime's otherwise; where that build was skipped, making the genesis state
  panics with the message that says so.
\<close>

theorem genesis_code_of_runtime:
  assumes "spec_laws (integritee_lib E)" "spec_laws (shell_lib E)"
    and "i \<in> set built_ids" "load_spec (linked W E) i = Ret (Inr s)"
  shows "dyn_genesis_code (linked W E) s =
      (case if is_shell (linked W E) s then shell_WASM_BINARY W else integritee_WASM_BINARY W of
         None \<Rightarrow> Panic ''WASM binary was not build, please build it!''
       | Some code \<Rightarrow> Ret code)"
proof -
  have laws: "spec_laws (integritee_lib (linked W E))" "spec_laws (shell_lib (linked W E))"
    using assms(1,2) by simp_all
  have "dyn_genesis_code (linked W E) s = expect_opt ''WASM binary was not build, please build it!''
      (if is_shell (linked W E) s then shell_WASM_BINARY W else integritee_WASM_BINARY W)"
    using built_id_cases [OF assms(3), of "linked W E"] assms(4) boxed_code [OF laws] by auto
  then show ?thesis by (simp add: expect_opt_def)
qed

text \<open>A builder that returns the bytes of the directory's name, unless it was not told to import its memory.\<close>

definition example_build :: "(string option \<times> bool, string list) build_lib" where
  "example_build = \<lparr>WasmBuilder_new = (None, False), with_current_project = (\<lambda>d (_, m). (Some d, m)),
     export_heap_base = (\<lambda>w. w), import_memory = (\<lambda>(d, _). (d, True)),
     WasmBuilder_build = (\<lambda>(d, m). if m then map_option to_bytes d else None),
     generate_cargo_keys = (\<lambda>out. out @ [''1.5.38'']), rerun_if_git_head_changed = (\<lambda>out. out),
     cargo_env = (\<lambda>out _. if out = [] then None else Some (last out))\<rparr>"

theorem genesis_code_of_runtime_witness:
  "\<exists>s. load_spec (linked example_build example_cli) ''shell-kusama-local-dev'' = Ret (Inr s) \<and>
     dyn_genesis_code (linked example_build example_cli) s = Ret (to_bytes ''polkadot-parachains/shell-runtime'')"
proof -
  obtain s where s: "load_spec (linked example_build example_cli) ''shell-kusama-local-dev'' = Ret (Inr s)"
    "is_shell (linked example_build example_cli) s"
    by (simp add: example_cli_eval linked_def is_shell_def dyn_name_def)
  then show ?thesis
    using genesis_code_of_runtime [OF example_cli_laws(1,2) _ s(1)]
    by (intro exI [of _ s]) (simp add: built_ids_def shell_WASM_BINARY_def shell_runtime_build_main_def example_build_def)
qed

end
