(* ===== verification/Spec2Isabelle.thy ===== *)
theory Spec2Isabelle
  imports Weights_Integritee Integritee_Limits Integritee_Benchmarks Block_Limits Executive Runtime_Apis Shell_Config
    Shell_Executor Call_Codec Consensus_Tasks Build
begin

text \<open>
  \<^bold>\<open>The Integritee parachain node.\<close> The program (\<open>src/polkadot-parachains\<close>) is the collator of the
  Integritee parachain. It has two runtimes that are compiled to WebAssembly and stored on the
  chain, the \<^emph>\<open>shell\<close> runtime a new parachain starts with and the full \<^emph>\<open>integritee\<close> runtime it is
  upgraded to, and a native binary that builds chain specifications, decides which runtime a
  specification is for and assembles a Substrate/Cumulus node for it. Most of what the runtimes do
  lives in pallets of other crates; this repository chooses the pieces, sets their parameters and
  adds the glue. The development models that: every function, constant, filter and configuration
  of this repository that the theorems need is a definition with the source's name, and what comes
  from other crates is an argument of the definitions (a record of functions such as \<open>weight_env\<close>,
  \<open>origin_lib\<close> or \<open>service_lib\<close>). What is relied on of such an argument is a named predicate
  (\<open>weight_laws\<close>, \<open>perbill_laws\<close>, \<open>imbalance_laws\<close>, \<open>origin_laws\<close>, \<open>relative_reserve_laws\<close>, \<open>spec_laws\<close>,
  ...) stating documented behaviour; for each there is a concrete instance (\<open>pair_env\<close>,
  \<open>example_imbalances\<close>, \<open>example_origins\<close>, \<open>example_specs\<close>, ...) proved to satisfy it, and the witness of
  a theorem applies the theorem to that instance.

  \<^bold>\<open>How the parts fit together.\<close> \<open>common\<close> gives both runtimes their constants, fee model and XCM
  barrier. A runtime (\<open>lib.rs\<close>, \<open>xcm_config.rs\<close>, \<open>weights/\<close>) is a set of pallet configurations over
  these. The binary (\<open>command.rs\<close>) parses a command line (\<open>cli.rs\<close>), loads a chain specification
  (\<open>chain_spec.rs\<close>), chooses the runtime by the specification's name and either runs a subcommand or
  starts a node (\<open>service.rs\<close>, \<open>rpc.rs\<close>), which verifies imported blocks and, as an authority, produces
  candidates.

  \<^bold>\<open>The theories.\<close>
  \<^item> \<open>Prelude\<close>: machine integers, saturating multiplication, \<open>outcome\<close> (a value or a panic with its
    message), results, prefix tests; the collections of rules the components share.
  \<^item> \<open>Weights_Base\<close>: the operations on weights as parameters, \<open>saturating_chain\<close> for the
    \<open>.saturating_add(...)\<close> chains of the generated files, and rules bounding (\<open>within\<close>) and comparing
    (\<open>no_heavier\<close>) such chains.
  \<^item> \<open>Parachains_Common\<close>: \<open>common/src/lib.rs\<close>, \<open>currency.rs\<close>, \<open>fee.rs\<close>. The coefficient of the fee
    polynomial is exact to a billionth and the block limits are numbers.
  \<^item> \<open>Weights_System\<close>, \<open>Weights_Funds\<close>, \<open>Weights_Governance\<close>, \<open>Weights_Integritee\<close>, \<open>Weights_Xcm\<close>: all 171
    functions of the twenty files in \<open>integritee-runtime/src/weights\<close>. Every benchmarked call fits a
    block on its documented input range, and weights grow with the input.
  \<^item> \<open>Common_Xcm\<close>: locations, assets and instructions, and \<open>common/src/xcm_config.rs\<close> (\<open>DenyThenTry\<close>,
    \<open>DenyReserveTransferToRelayChain\<close>). The locale \<open>deny_filter\<close> is the contract of a denying barrier.
  \<^item> \<open>Runtime_Origin\<close>: the origins of a call, and the guards (\<open>EnsureRoot\<close>, shares of a collective) FRAME has for them.
  \<^item> \<open>Xcm_Interface\<close>, \<open>Xcm_Handlers\<close>: what the XCM configuration takes from other crates, barriers and origin
    converters, then routers, account and local origin converters, asset transactor and trader, with
    their laws; the locale \<open>currency_convert\<close>.
  \<^item> \<open>Integritee_Xcm\<close>, \<open>Shell_Xcm\<close>: \<open>xcm_config.rs\<close> of the two runtimes up to the executor. The barrier admits
    exactly the messages it should and keeps reserves from the relay chain, only the relay chain becomes root, messages
    leave only for neighbours, and currency conversion is a round trip.
  \<^item> \<open>Runtime_Interface\<close>, \<open>Pallet_Configs\<close>: what both runtimes take from FRAME, and one record per pallet's trait
    \<open>Config\<close>; the locale \<open>instance_filter\<close> is the contract of \<open>InstanceFilter\<close>.
  \<^item> \<open>Integritee_Runtime\<close>, \<open>Shell_Runtime\<close>: \<open>lib.rs\<close> of the two runtimes. Proxy types and their order,
    fee split, deposits, block limits, governance origins and periods, call filter, versions and
    pallet indices.
  \<^item> \<open>Call_Codec\<close>: the encodings generated for the calls of both runtimes, proxy types, currencies and session keys. The locale
    \<open>scale_codec\<close> is the contract of a codec, interpreted for each of them: encoded values can be read back, with what follows
    them untouched. The layout is the documented one of SCALE, the tables are those of the source. What the bytes of a shell call mean to the full runtime.
  \<^item> \<open>Block_Limits\<close>: the documented checks of the builder of block weights; both runtimes' limits pass them.
  \<^item> \<open>Integritee_Config\<close>, \<open>Shell_Config\<close>: the remaining \<open>impl ... Config for Runtime\<close> blocks; what an upgrade from the
    shell to the full runtime keeps.
  \<^item> \<open>Executive\<close>: the migrations of an upgrade and the registration for block validation. Storage of any version ends up
    to date.
  \<^item> \<open>Runtime_Apis\<close>: the signed extensions and the runtime APIs of both. The full runtime's versions replace those of the shell, and
    signatures under the two never cover the same bytes.
  \<^item> \<open>Integritee_Executor\<close>, \<open>Shell_Executor\<close>: \<open>XcmExecutorConfig\<close> and the XCM pallets of the two runtimes: what users may
    do, what execution costs, which assets move, how much a block takes, and in which parts the two executors differ.
  \<^item> \<open>Integritee_Limits\<close>: the weights at the limits the configurations set, for collectives, scheduler and the rest.
  \<^item> \<open>Integritee_Benchmarks\<close>: the list of benchmarks, the APIs for benchmarks and \<open>try-runtime\<close>, and that weight files and
    handlers named by the configurations exist.
  \<^item> \<open>Chain_Spec\<close>: \<open>chain_spec.rs\<close>. The locale \<open>spec_builder\<close> holds what both kinds of specification
    share; it is interpreted for either.
  \<^item> \<open>Relay_Cli\<close>: \<open>RelayChainCli\<close> of \<open>cli.rs\<close> and its traits in \<open>command.rs\<close>, the configuration of the
    relay chain node inside a collator, method by method, and its default ports.
  \<^item> \<open>Command\<close>: \<open>load_spec\<close>, \<open>is_shell\<close> and the native version of \<open>command.rs\<close>. For which names the genesis state and
    the runtime chosen belong together.
  \<^item> \<open>Consensus\<close>: \<open>BuildOnAccess\<close>, \<open>WaitForAuraConsensus\<close> and \<open>Verifier\<close> of \<open>service.rs\<close>. The locale
    \<open>lazy_switch\<close> is the pattern both share: one engine from the start, a second built on first use.
    Its lemmas speak of arbitrary sequences of calls. The loop of \<open>get_mut\<close> always ends.
  \<^item> \<open>Consensus_Tasks\<close>: the clones of \<open>WaitForAuraConsensus\<close> used concurrently, as a step relation (\<open>task_step\<close>) over the
    points at which a call awaits, with the two locks. Every interleaving is a sequential execution in the order of
    completion, and none gets stuck.
  \<^item> \<open>Service\<close>: \<open>new_partial\<close>, \<open>start_node_impl\<close>, \<open>aura_build_import_queue\<close>, \<open>start_generic_aura_node\<close> and
    \<open>rpc.rs\<close> as actions that return a result, an error or a panic together with the list of their
    effects.
  \<^item> \<open>Startup\<close>: that starting a node succeeds when its services are available, and with which effects.
  \<^item> \<open>Node\<close>: \<open>run\<close> of \<open>command.rs\<close>, with every subcommand. Without one it starts the node and hands its task manager to
    \<open>run_node_until_exit\<close>, a parameter (\<open>until_exit\<close>) whose result is the result of the run.
  \<^item> \<open>Binary\<close>: \<open>main.rs\<close>, the native executors and \<open>SubstrateCli\<close> of the two command lines; the binary brings a node up, runs it
    until it exits and reports how it ended.
  \<^item> \<open>Build\<close>: the three \<open>build.rs\<close>, and that a genesis state holds the code compiled from the runtime the node takes the chain for.

  \<^bold>\<open>Conventions.\<close> A Rust integer of \<open>w\<close> bits is a \<open>w word\<close>; its arithmetic wraps and the theorems show
  where it does not. \<open>Result\<close> is a sum (\<open>Inl\<close> the error), \<open>Option\<close> an option, a panic the value \<open>Panic\<close> of
  \<open>outcome\<close>. An \<open>f32\<close> is a fraction \<open>m / 2 ^ k\<close>, and the one operation used, division, rounds to the nearest with ties to even
  (\<open>f32_quotient\<close>). A parachain id read from storage is the argument \<open>para\<close>, a cargo feature a boolean
  argument. Names of the shell runtime that both runtimes use carry the prefix \<open>shell_\<close>; the constant
  \<open>TEER\<close> is \<open>ONE_TEER\<close>, since \<open>TEER\<close> is also the currency. Asynchronous code is modelled by the order
  in which it awaits, and where several calls share state, in \<open>Consensus_Tasks\<close>, by interleaved steps. No definition needs fuel: all loops of the code are structural, and the one
  recursion that is not (\<open>get_mut\<close>) has a termination proof; the fuel of \<open>get_mut_loop\<close> only counts its turns, and two always suffice.

  \<^bold>\<open>Not modelled.\<close> The pallets, the executive and the XCM executor themselves, the network, database and WebAssembly
  execution (other crates); log output; type aliases that only rename foreign types; code generated by macros other than the encodings of \<open>Call_Codec\<close>; and
  the tests (those in \<open>command.rs\<close> do not compile against the crate). Of the
  configuration blocks, associated types that are the same in every runtime and handlers that are absent
  are left out (but for the XCM executor, whose configuration is complete), and of the hook-up of benchmarks the types that run them.

  \<^bold>\<open>What is left to do.\<close> Of the repository's own code only type aliases and configurations without parameters remain. The theorems on the XCM configuration speak of its parts;
  what a whole message does depends on the executor, which is not part of this repository. Concurrency is modelled for
  the consensus engines only: the tasks of a running node belong to the services of other crates.
\<close>

section \<open>The two parachains of the swap\<close>

text \<open>
  The binary and both runtimes agree on the two parachain ids between which the slots on Kusama are
  swapped: specifications are built under the ids the XCM transactor sends its calls for.
\<close>

lemma swap_parachains_agree:
  "KUSAMA_PARA_ID = IntegriteeKsmParaId \<and> KUSAMA_SWAP_PARA_ID = ShellRuntimeParaId \<and>
   shell_IntegriteeKsmParaId = KUSAMA_PARA_ID \<and> shell_ShellRuntimeParaId = KUSAMA_SWAP_PARA_ID"
  by (simp add: KUSAMA_PARA_ID_def IntegriteeKsmParaId_def KUSAMA_SWAP_PARA_ID_def ShellRuntimeParaId_def
      shell_IntegriteeKsmParaId_def shell_ShellRuntimeParaId_def)

section \<open>The collator and its runtime\<close>

text \<open>
  C40. A collator of the full runtime asks the runtime for its slot duration and gets
  twelve seconds, whatever the state of the chain; it then proposes for a twenty-fourth of the slot, computed in
  \<open>f32\<close>: at least the computation time the block limits of the same runtime allow, half a second, and at most fifteen
  nanoseconds (15000 picoseconds, the unit of weights) more; and for at most three quarters of a second after skipped slots.
\<close>

theorem collator_proposal_time:
  assumes "aura_law P" "slot_duration L (ca_client a) = Inr (api_slot_duration (integritee_runtime_apis P v))"
    and "weight_laws E" "relay_consts E"
  shows "\<exists>p. build_aura_consensus L para a = Ret (Inr (AuraConsensus_build L p)) \<and>
    unat (ap_slot_duration p) = 12000 \<and>
    (case ap_block_proposal_slot_portion p of (m, k) \<Rightarrow>
      2 ^ k * unat (ref_time E (MAXIMUM_BLOCK_WEIGHT E)) \<le> m * unat (ap_slot_duration p) * 10 ^ 9 \<and>
      m * unat (ap_slot_duration p) * 10 ^ 9 \<le> 2 ^ k * (unat (ref_time E (MAXIMUM_BLOCK_WEIGHT E)) + 15000)) \<and>
    (case ap_max_block_proposal_slot_portion p of None \<Rightarrow> False
     | Some (m, k) \<Rightarrow> m * unat (ap_slot_duration p) = 2 ^ k * 750)"
  using proposal_time_fits_block [OF assms(2) [unfolded api_slot_duration(1) [OF assms(1)]] assms(3,4), of para]
  unfolding time_defs by fastforce

definition example_pallets :: "(nat, nat, u64 \<times> u64) runtime_pallets_lib" where
  "example_pallets = \<lparr>Aura_slot_duration = (\<lambda>period. 2 * period), Aura_authorities = (\<lambda>_. [1, 2]),
     Executive_execute_block = (\<lambda>b s. Ret (s + b)), Executive_initialize_block = (\<lambda>_ s. s), Runtime_metadata = 0,
     Runtime_metadata_at_version = (\<lambda>_. None), Runtime_metadata_versions = [14],
     Executive_apply_extrinsic = (\<lambda>x s. (0, s + x)), Executive_finalize_block = (\<lambda>s. (s, s)),
     create_extrinsics = (\<lambda>d _. [d]), data_check_extrinsics = (\<lambda>_ _ _. 0),
     Executive_validate_transaction = (\<lambda>_ _ _ _. 0), Executive_offchain_worker = (\<lambda>_ s. s),
     SessionKeys_generate = (\<lambda>_. []), SessionKeys_decode = (\<lambda>_. None), System_account_nonce = (\<lambda>_ _. 0),
     TransactionPayment_query_info = (\<lambda>_ _ _. 0), TransactionPayment_query_fee_details = (\<lambda>_ _ _. 0),
     TransactionPayment_query_call_info = (\<lambda>_ _ _. 0), TransactionPayment_query_call_fee_details = (\<lambda>_ _ _. 0),
     TransactionPayment_weight_to_fee = (\<lambda>_ _. 0), TransactionPayment_length_to_fee = (\<lambda>_ _. 0),
     ParachainSystem_collect_collation_info = (\<lambda>_ _. 0)\<rparr>"

lemma example_pallets_law: "aura_law example_pallets"
  by (simp add: aura_law_def example_pallets_def)

theorem collator_proposal_time_witness:
  "\<exists>p. build_aura_consensus example_service 2015
     \<lparr>ca_client = 4, ca_block_import = 9, ca_prometheus_registry = None, ca_telemetry = None, ca_task_manager = 7,
      ca_relay_chain_interface = 15, ca_transaction_pool = 8, ca_sync_oracle = 21, ca_keystore = 6,
      ca_force_authoring = False\<rparr> = Ret (Inr (AuraConsensus_build example_service p)) \<and>
     unat (ap_slot_duration p) = 12000"
proof -
  have "slot_duration example_service 4 = Inr (api_slot_duration (integritee_runtime_apis example_pallets ()))"
    unfolding api_slot_duration(1) [OF example_pallets_law] by (simp add: example_service_def time_defs)
  then show ?thesis
    using collator_proposal_time [OF example_pallets_law, of example_service
     "\<lparr>ca_client = 4, ca_block_import = 9, ca_prometheus_registry = None, ca_telemetry = None, ca_task_manager = 7,
      ca_relay_chain_interface = 15, ca_transaction_pool = 8, ca_sync_oracle = 21, ca_keystore = 6,
      ca_force_authoring = False\<rparr>" "()" pair_env 2015] limits_knownD(1,4) [OF limits_known_pair_env]
    by auto
qed

end
